(* ===== verification/GoPrelude.thy ===== *)
theory GoPrelude
  imports Main "HOL-Library.Word"
begin

text \<open>
  Shared prelude of the NovaProxy development: what the component theories use of the Go
  language and of its standard library, with the lemmas they share.

  \<^item> \<open>go\<close> is the result of a Go call that may return an error or panic. A Go function that
    returns \<open>(v, err)\<close> is modelled by \<open>Ok v\<close> or \<open>Err msg\<close>; an out-of-range index or slice
    expression is \<open>Panic\<close>.
  \<^item> Byte slices are \<open>byte list\<close>. Reads go through \<open>with_byte\<close>, \<open>with_u16\<close> and \<open>with_slice\<close>,
    which are \<open>Panic\<close> exactly where Go's bounds check fails.
  \<^item> Strings are \<open>string\<close>. Go strings are byte sequences; the case mapping and the
    white space of package \<open>strings\<close> are modelled on the ASCII range, which is the range of
    host names, addresses, modes and header names (bytes above 127 are left alone).
  \<^item> \<open>SplitHostPort\<close>, \<open>JoinHostPort\<close> follow package \<open>net\<close>.
  \<^item> \<open>blk\<close> is the outcome of an operation that takes a mutex: it completes with \<open>Done\<close>, or waits
    for a mutex that is never released, \<open>Blocked\<close>.
\<close>

section \<open>Facts shared by the components\<close>

named_theorems go_str \<open>facts about the string functions of the standard library\<close>
named_theorems go_bytes \<open>facts about byte slices and their encodings\<close>

type_synonym byte = "8 word"
type_synonym bytes = "byte list"

section \<open>Results of Go calls\<close>

datatype 'a go = Ok 'a | Err string | Panic

primrec bind_go :: "'a go \<Rightarrow> ('a \<Rightarrow> 'b go) \<Rightarrow> 'b go" where
  "bind_go (Ok x) k = k x"
| "bind_go (Err m) k = Err m"
| "bind_go Panic k = Panic"

lemma bind_go_Ok_iff: "bind_go r k = Ok y \<longleftrightarrow> (\<exists>x. r = Ok x \<and> k x = Ok y)"
  by (cases r) auto

lemma bind_go_Panic_iff: "bind_go r k = Panic \<longleftrightarrow> r = Panic \<or> (\<exists>x. r = Ok x \<and> k x = Panic)"
  by (cases r) auto

text \<open>A sequence of operations, stopped by an error or a panic; and the interface of a component that implements
  an abstract one: every operation completes and keeps the states related.\<close>

fun go_run :: "('op \<Rightarrow> 's \<Rightarrow> 's go) \<Rightarrow> 'op list \<Rightarrow> 's \<Rightarrow> 's go" where
  "go_run step [] s = Ok s"
| "go_run step (op # ops) s = bind_go (step op s) (go_run step ops)"

locale simulation =
  fixes step :: "'op \<Rightarrow> 's \<Rightarrow> 's go" and spec :: "'op \<Rightarrow> 'a \<Rightarrow> 'a" and related :: "'s \<Rightarrow> 'a \<Rightarrow> bool"
  assumes step_related: "related s a \<Longrightarrow> \<exists>s'. step op s = Ok s' \<and> related s' (spec op a)"
begin

lemma run_related: "related s a \<Longrightarrow> \<exists>s'. go_run step ops s = Ok s' \<and> related s' (fold spec ops a)"
proof (induction ops arbitrary: s a)
  case (Cons op ops)
  then show ?case using step_related [OF Cons.prems, of op] by auto
qed simp

end

datatype 'a blk = Done 'a | Blocked

primrec bind_blk :: "'a blk \<Rightarrow> ('a \<Rightarrow> 'b blk) \<Rightarrow> 'b blk" where
  "bind_blk (Done x) k = k x"
| "bind_blk Blocked k = Blocked"

lemma bind_blk_Done_iff: "bind_blk r k = Done y \<longleftrightarrow> (\<exists>x. r = Done x \<and> k x = Done y)"
  by (cases r) auto

section \<open>Byte slices\<close>

definition with_byte :: "bytes \<Rightarrow> nat \<Rightarrow> (byte \<Rightarrow> 'a go) \<Rightarrow> 'a go" where
  "with_byte data i k = (if i < length data then k (data ! i) else Panic)"

text \<open>\<open>binary.BigEndian.Uint16\<close> and \<open>PutUint16\<close>.\<close>

definition be16 :: "byte \<Rightarrow> byte \<Rightarrow> nat" where
  "be16 h l = unat h * 256 + unat l"

definition put16 :: "nat \<Rightarrow> bytes" where
  "put16 n = [of_nat (n div 256), of_nat n]"

definition with_u16 :: "bytes \<Rightarrow> nat \<Rightarrow> (nat \<Rightarrow> 'a go) \<Rightarrow> 'a go" where
  "with_u16 data i k = with_byte data i (\<lambda>h. with_byte data (i + 1) (\<lambda>l. k (be16 h l)))"

text \<open>\<open>data[a:b]\<close>, on a slice whose capacity is its length.\<close>

definition with_slice :: "bytes \<Rightarrow> nat \<Rightarrow> nat \<Rightarrow> (bytes \<Rightarrow> 'a go) \<Rightarrow> 'a go" where
  "with_slice data a b k =
     (if a \<le> b \<and> b \<le> length data then k (take (b - a) (drop a data)) else Panic)"

lemma with_byte_in [go_bytes]: "i < length data \<Longrightarrow> with_byte data i k = k (data ! i)"
  by (simp add: with_byte_def)

lemma with_u16_in [go_bytes]:
  "i + 1 < length data \<Longrightarrow> with_u16 data i k = k (be16 (data ! i) (data ! (i + 1)))"
  by (simp add: with_u16_def with_byte_def)

lemma with_slice_in [go_bytes]:
  "a \<le> b \<Longrightarrow> b \<le> length data \<Longrightarrow> with_slice data a b k = k (take (b - a) (drop a data))"
  by (simp add: with_slice_def)

lemma unat_byte_lt [go_bytes]: "unat (w :: byte) < 256"
proof -
  have "unat w < 2 ^ LENGTH(8)" by (rule unsigned_less)
  then show ?thesis by simp
qed

lemma be16_bound [go_bytes]: "be16 h l < 65536"
  using unat_byte_lt [of h] unat_byte_lt [of l] by (simp add: be16_def)

lemma length_put16 [simp]: "length (put16 n) = 2"
  by (simp add: put16_def)

lemma unat_of_nat_byte: "unat (of_nat n :: byte) = n mod 256"
  by (simp add: unat_of_nat)

lemma be16_put16_mod [go_bytes]: "be16 (put16 n ! 0) (put16 n ! 1) = n mod 65536"
proof -
  have "n div 256 mod 256 * 256 + n mod 256 = n mod 65536"
    using mod_mult2_eq [of n 256 256] by simp
  then show ?thesis by (simp add: be16_def put16_def unat_of_nat_byte)
qed

lemma be16_put16 [go_bytes]: "n < 65536 \<Longrightarrow> be16 (of_nat (n div 256)) (of_nat n) = n"
  using be16_put16_mod [of n] by (simp add: put16_def)

section \<open>Package strings\<close>

type_synonym str = string

definition isSpace :: "char \<Rightarrow> bool" where
  "isSpace c = (c = CHR '' '' \<or> (9 \<le> (of_char c :: nat) \<and> (of_char c :: nat) \<le> 13))"

definition TrimLeftSpace :: "str \<Rightarrow> str" where
  "TrimLeftSpace s = dropWhile isSpace s"

definition TrimSpace :: "str \<Rightarrow> str" where
  "TrimSpace s = rev (dropWhile isSpace (rev (dropWhile isSpace s)))"

definition lowerChar :: "char \<Rightarrow> char" where
  "lowerChar c = (let n = (of_char c :: nat) in if 65 \<le> n \<and> n \<le> 90 then char_of (n + 32) else c)"

definition upperChar :: "char \<Rightarrow> char" where
  "upperChar c = (let n = (of_char c :: nat) in if 97 \<le> n \<and> n \<le> 122 then char_of (n - 32) else c)"

definition ToLower :: "str \<Rightarrow> str" where
  "ToLower s = map lowerChar s"

definition ToUpper :: "str \<Rightarrow> str" where
  "ToUpper s = map upperChar s"

definition EqualFold :: "str \<Rightarrow> str \<Rightarrow> bool" where
  "EqualFold s t = (ToLower s = ToLower t)"

definition HasPrefix :: "str \<Rightarrow> str \<Rightarrow> bool" where
  "HasPrefix s p = (take (length p) s = p)"

definition HasSuffix :: "str \<Rightarrow> str \<Rightarrow> bool" where
  "HasSuffix s p = (length p \<le> length s \<and> drop (length s - length p) s = p)"

definition TrimPrefix :: "str \<Rightarrow> str \<Rightarrow> str" where
  "TrimPrefix s p = (if HasPrefix s p then drop (length p) s else s)"

definition TrimSuffix :: "str \<Rightarrow> str \<Rightarrow> str" where
  "TrimSuffix s p = (if HasSuffix s p then take (length s - length p) s else s)"

text \<open>\<open>strings.Trim(s, cutset)\<close>.\<close>

definition TrimSet :: "str \<Rightarrow> char list \<Rightarrow> str" where
  "TrimSet s cutset = rev (dropWhile (\<lambda>c. c \<in> set cutset) (rev (dropWhile (\<lambda>c. c \<in> set cutset) s)))"

definition TrimRightSet :: "str \<Rightarrow> char list \<Rightarrow> str" where
  "TrimRightSet s cutset = rev (dropWhile (\<lambda>c. c \<in> set cutset) (rev s))"

fun Contains :: "str \<Rightarrow> str \<Rightarrow> bool" where
  "Contains [] p = (p = [])"
| "Contains (c # s) p = (HasPrefix (c # s) p \<or> Contains s p)"

text \<open>\<open>strings.Index\<close>: the position of the first occurrence, \<open>None\<close> for Go's \<open>-1\<close>.\<close>

fun Index :: "str \<Rightarrow> str \<Rightarrow> nat option" where
  "Index [] p = (if p = [] then Some 0 else None)"
| "Index (c # s) p = (if HasPrefix (c # s) p then Some 0 else map_option Suc (Index s p))"

fun IndexByte :: "str \<Rightarrow> char \<Rightarrow> nat option" where
  "IndexByte [] c = None"
| "IndexByte (x # s) c = (if x = c then Some 0 else map_option Suc (IndexByte s c))"

fun LastIndexByte :: "str \<Rightarrow> char \<Rightarrow> nat option" where
  "LastIndexByte [] c = None"
| "LastIndexByte (x # s) c =
     (case LastIndexByte s c of Some i \<Rightarrow> Some (Suc i) | None \<Rightarrow> if x = c then Some 0 else None)"

text \<open>\<open>strings.Split\<close> for a separator of one byte: always at least one part.\<close>

fun Split :: "str \<Rightarrow> char \<Rightarrow> str list" where
  "Split [] c = [[]]"
| "Split (x # s) c =
     (if x = c then [] # Split s c
      else (case Split s c of [] \<Rightarrow> [[x]] | p # ps \<Rightarrow> (x # p) # ps))"

text \<open>\<open>strings.SplitN(s, sep, 2)\<close> for a separator of one byte.\<close>

definition SplitN2 :: "str \<Rightarrow> char \<Rightarrow> str list" where
  "SplitN2 s c = (case IndexByte s c of None \<Rightarrow> [s] | Some i \<Rightarrow> [take i s, drop (Suc i) s])"

fun Join :: "str list \<Rightarrow> str \<Rightarrow> str" where
  "Join [] sep = []"
| "Join [s] sep = s"
| "Join (s # ss) sep = s @ sep @ Join ss sep"

text \<open>\<open>strings.ReplaceAll(s, old, new)\<close> for a non-empty \<open>old\<close>.\<close>

function ReplaceAll :: "str \<Rightarrow> str \<Rightarrow> str \<Rightarrow> str" where
  "ReplaceAll s old new =
     (if s = [] \<or> old = [] then s
      else if HasPrefix s old then new @ ReplaceAll (drop (length old) s) old new
      else hd s # ReplaceAll (tl s) old new)"
  by pat_completeness auto
termination
  by (relation "measure (\<lambda>(s, old, new). length s)") auto

declare ReplaceAll.simps [simp del]

text \<open>\<open>strconv.Itoa\<close> on a non-negative number.\<close>

fun itoa :: "nat \<Rightarrow> str" where
  "itoa n = (if n < 10 then [char_of (48 + n)] else itoa (n div 10) @ [char_of (48 + n mod 10)])"

declare itoa.simps [simp del]

definition itoaInt :: "int \<Rightarrow> str" where
  "itoaInt z = (if z < 0 then CHR ''-'' # itoa (nat (- z)) else itoa (nat z))"

text \<open>\<open>strconv.Atoi\<close> on a 64-bit platform.\<close>

definition digitVal :: "char \<Rightarrow> nat option" where
  "digitVal c = (let n = (of_char c :: nat) in if 48 \<le> n \<and> n \<le> 57 then Some (n - 48) else None)"

fun parseDigits :: "nat \<Rightarrow> str \<Rightarrow> nat option" where
  "parseDigits acc [] = Some acc"
| "parseDigits acc (c # cs) = (case digitVal c of None \<Rightarrow> None | Some d \<Rightarrow> parseDigits (acc * 10 + d) cs)"

definition parseNat :: "str \<Rightarrow> nat option" where
  "parseNat s = (if s = [] then None else parseDigits 0 s)"

definition Atoi :: "str \<Rightarrow> int go" where
  "Atoi s =
     (case s of
        [] \<Rightarrow> Err ''invalid syntax''
      | c # cs \<Rightarrow>
          let neg = (c = CHR ''-''); ds = (if neg \<or> c = CHR ''+'' then cs else s) in
          (case parseNat ds of
             None \<Rightarrow> Err ''invalid syntax''
           | Some n \<Rightarrow>
               if neg then (if n \<le> 2 ^ 63 then Ok (- int n) else Err ''value out of range'')
               else (if n < 2 ^ 63 then Ok (int n) else Err ''value out of range'')))"

definition CountByte :: "str \<Rightarrow> char \<Rightarrow> nat" where
  "CountByte s c = length (filter (\<lambda>x. x = c) s)"

subsection \<open>Case mapping and white space\<close>

lemma lowerChar_idem [simp]: "lowerChar (lowerChar c) = lowerChar c"
proof -
  have "(of_char (char_of (n + 32) :: char) :: nat) = n + 32" if "n \<le> 90" for n :: nat
    using that by simp
  then show ?thesis by (auto simp: lowerChar_def Let_def)
qed

lemma ToLower_idem [simp]: "ToLower (ToLower s) = ToLower s"
  by (simp add: ToLower_def)

lemma ToLower_Nil [simp]: "ToLower [] = []"
  by (simp add: ToLower_def)

lemma ToLower_eq_Nil [simp]: "ToLower s = [] \<longleftrightarrow> s = []"
  by (simp add: ToLower_def)

lemma length_ToLower [simp]: "length (ToLower s) = length s"
  by (simp add: ToLower_def)

lemma ToLower_append [simp]: "ToLower (s @ t) = ToLower s @ ToLower t"
  by (simp add: ToLower_def)

lemma isSpace_lowerChar [simp]: "isSpace (lowerChar c) = isSpace c"
proof -
  have "(of_char (char_of (n + 32) :: char) :: nat) = n + 32" if "n \<le> 90" for n :: nat
    using that by simp
  moreover have "(of_char CHR '' '' :: nat) = 32" by simp
  moreover have "c = CHR '' '' \<longleftrightarrow> (of_char c :: nat) = 32" for c
    by (metis \<open>(of_char CHR '' '' :: nat) = 32\<close> char_of_char)
  ultimately show ?thesis by (auto simp: lowerChar_def isSpace_def Let_def)
qed

text \<open>A character that is no letter comes only from itself, and no upper-case letter comes out.\<close>

lemma lowerChar_nonletter:
  assumes "(of_char x :: nat) < 97"
  shows "lowerChar c = x \<longleftrightarrow> c = x \<and> \<not> (65 \<le> (of_char x :: nat) \<and> (of_char x :: nat) \<le> 90)"
proof (cases "65 \<le> (of_char c :: nat) \<and> (of_char c :: nat) \<le> 90")
  case True
  then have "(of_char (lowerChar c) :: nat) = of_char c + 32" by (simp add: lowerChar_def Let_def)
  then show ?thesis using True assms by auto
next
  case False
  then show ?thesis by (auto simp: lowerChar_def Let_def)
qed

lemma dropWhile_map_eq: "(\<And>x. P (f x) = P x) \<Longrightarrow> dropWhile P (map f xs) = map f (dropWhile P xs)"
  by (induction xs) auto

lemma TrimSpace_ToLower [simp]: "TrimSpace (ToLower s) = ToLower (TrimSpace s)"
  by (simp add: TrimSpace_def ToLower_def rev_map dropWhile_map_eq)

lemma TrimSpace_Nil [simp]: "TrimSpace [] = []"
  by (simp add: TrimSpace_def)

lemma length_TrimSpace: "length (TrimSpace s) \<le> length s"
  unfolding TrimSpace_def using length_dropWhile_le [of isSpace] by (metis length_rev order_trans)

lemma dropWhile_snoc_neq:
  "\<not> P x \<Longrightarrow> dropWhile P (xs @ [x]) = dropWhile P xs @ [x]"
  by (induction xs) auto

text \<open>Trimming leaves a string with no white space at either end, so trimming twice is
  trimming once.\<close>

definition trimmed :: "str \<Rightarrow> bool" where
  "trimmed s = (s = [] \<or> (\<not> isSpace (hd s) \<and> \<not> isSpace (last s)))"

lemma hd_dropWhile_False: "dropWhile P xs \<noteq> [] \<Longrightarrow> \<not> P (hd (dropWhile P xs))"
  by (induction xs) auto

lemma hd_rev_dropWhile_rev:
  "dropWhile P (rev xs) \<noteq> [] \<Longrightarrow> hd (rev (dropWhile P (rev xs))) = hd xs"
proof (induction xs rule: rev_induct)
  case Nil
  then show ?case by simp
next
  case (snoc x xs)
  then show ?case by (cases xs) (auto split: if_splits simp: hd_append)
qed

lemma trimmed_TrimSpace [simp]: "trimmed (TrimSpace s)"
proof (cases "TrimSpace s = []")
  case True
  then show ?thesis by (simp add: trimmed_def)
next
  case False
  let ?u = "dropWhile isSpace s"
  let ?v = "dropWhile isSpace (rev ?u)"
  have v: "?v \<noteq> []" using False by (simp add: TrimSpace_def)
  then have "?u \<noteq> []" by fastforce
  then have "\<not> isSpace (hd ?u)" by (rule hd_dropWhile_False)
  then have "\<not> isSpace (hd (rev ?v))" using hd_rev_dropWhile_rev [OF v] by simp
  moreover have "\<not> isSpace (last (rev ?v))"
    using v hd_dropWhile_False [of isSpace "rev ?u"] by (simp add: last_rev)
  ultimately show ?thesis by (simp add: trimmed_def TrimSpace_def)
qed

lemma TrimSpace_trimmed: "trimmed s \<Longrightarrow> TrimSpace s = s"
proof (cases s rule: rev_cases)
  case Nil
  then show ?thesis by simp
next
  case (snoc xs x)
  assume t: "trimmed s"
  with snoc have "\<not> isSpace x" by (simp add: trimmed_def)
  moreover have "dropWhile isSpace s = s" using t by (cases s) (auto simp: trimmed_def)
  ultimately show ?thesis using snoc by (simp add: TrimSpace_def)
qed

lemma TrimSpace_idem [simp]: "TrimSpace (TrimSpace s) = TrimSpace s"
  by (rule TrimSpace_trimmed) simp

subsection \<open>Prefixes, suffixes, splitting\<close>

lemma HasPrefix_iff [go_str]: "HasPrefix s p \<longleftrightarrow> (\<exists>t. s = p @ t)"
  unfolding HasPrefix_def by (metis append_eq_conv_conj append_take_drop_id)

lemma HasSuffix_iff [go_str]: "HasSuffix s p \<longleftrightarrow> (\<exists>t. s = t @ p)"
proof
  assume "HasSuffix s p"
  then have "s = take (length s - length p) s @ p"
    unfolding HasSuffix_def by (metis append_take_drop_id)
  then show "\<exists>t. s = t @ p" by blast
next
  assume "\<exists>t. s = t @ p"
  then show "HasSuffix s p" by (auto simp: HasSuffix_def)
qed

lemma HasSuffix_refl [simp]: "HasSuffix s s"
  by (simp add: HasSuffix_def)

lemma HasPrefix_append [simp]: "HasPrefix (p @ s) p"
  by (simp add: HasPrefix_def)

lemma HasSuffix_append [simp]: "HasSuffix (s @ p) p"
  by (auto simp: HasSuffix_iff)

lemma TrimPrefix_append [simp]: "TrimPrefix (p @ s) p = s"
  by (simp add: TrimPrefix_def)

lemma TrimSuffix_append [simp]: "TrimSuffix (s @ p) p = s"
  by (simp add: TrimSuffix_def)

lemma Contains_iff [go_str]: "Contains s p \<longleftrightarrow> (\<exists>u v. s = u @ p @ v)"
proof (induction s)
  case Nil
  then show ?case by auto
next
  case (Cons c s)
  have "(\<exists>u v. c # s = u @ p @ v) \<longleftrightarrow> (\<exists>v. c # s = p @ v) \<or> (\<exists>u v. s = u @ p @ v)" (is "?L \<longleftrightarrow> ?R")
  proof
    assume ?L
    then obtain u v where uv: "c # s = u @ p @ v" by blast
    then show ?R by (cases u) auto
  next
    assume ?R
    then show ?L by (metis append_Cons append_Nil)
  qed
  with Cons.IH show ?case by (simp add: HasPrefix_iff)
qed

lemma Split_nonempty [simp]: "Split s c \<noteq> []"
  by (cases s) (auto split: list.splits)

lemma Join_Cons: "ss \<noteq> [] \<Longrightarrow> Join (s # ss) sep = s @ sep @ Join ss sep"
  by (cases ss) auto

lemma Join_append:
  "ss \<noteq> [] \<Longrightarrow> ts \<noteq> [] \<Longrightarrow> Join (ss @ ts) sep = Join ss sep @ sep @ Join ts sep"
  by (induction ss rule: induct_list012) (auto simp: Join_Cons)

lemma Join_Cons_char: "Join ((x # p) # ps) sep = x # Join (p # ps) sep"
  by (cases ps) auto

text \<open>Splitting loses nothing, and splits at every separator.\<close>

lemma Join_Split [go_str]: "Join (Split s c) [c] = s"
  by (induction s) (auto simp: Join_Cons Join_Cons_char split: list.splits)

lemma Split_no_sep [go_str]: "p \<in> set (Split s c) \<Longrightarrow> c \<notin> set p"
  by (induction s arbitrary: p) (auto split: if_splits list.splits)

lemma Split_append_sep: "Split (s @ c # t) c = Split s c @ Split t c"
  by (induction s) (auto split: list.splits)

lemma Split_no_occ: "c \<notin> set s \<Longrightarrow> Split s c = [s]"
  by (induction s) auto

lemma Split_Join [go_str]:
  "ps \<noteq> [] \<Longrightarrow> \<forall>p \<in> set ps. c \<notin> set p \<Longrightarrow> Split (Join ps [c]) c = ps"
proof (induction ps rule: induct_list012)
  case (3 p q ps)
  then show ?case using Split_append_sep [of p c "Join (q # ps) [c]"] by (simp add: Split_no_occ)
qed (auto simp: Split_no_occ)

lemma length_Split: "length (Split s c) = Suc (CountByte s c)"
  by (induction s) (auto simp: CountByte_def split: list.splits)

subsection \<open>Positions of bytes\<close>

lemma IndexByte_None [simp]: "IndexByte s c = None \<longleftrightarrow> c \<notin> set s"
  by (induction s) auto

lemma IndexByte_append: "c \<notin> set s \<Longrightarrow> IndexByte (s @ c # t) c = Some (length s)"
  by (induction s) auto

lemma IndexByte_SomeD:
  "IndexByte s c = Some i \<Longrightarrow> i < length s \<and> s ! i = c \<and> c \<notin> set (take i s)"
proof (induction s arbitrary: i)
  case (Cons x s)
  then show ?case by (cases i) (auto split: if_splits)
qed simp

lemma LastIndexByte_None [simp]: "LastIndexByte s c = None \<longleftrightarrow> c \<notin> set s"
  by (induction s) (auto split: option.splits)

lemma LastIndexByte_append: "c \<notin> set t \<Longrightarrow> LastIndexByte (s @ c # t) c = Some (length s)"
  by (induction s) (auto split: option.splits)

lemma LastIndexByte_SomeD:
  "LastIndexByte s c = Some i \<Longrightarrow> i < length s \<and> s ! i = c \<and> c \<notin> set (drop (Suc i) s)"
proof (induction s arbitrary: i)
  case (Cons x s)
  then show ?case by (cases i) (auto split: option.splits if_splits)
qed simp

section \<open>Reading from a connection\<close>

text \<open>\<open>io.ReadFull\<close> on the bytes a peer sends before it closes: the bytes read and those left.\<close>

definition ReadFull :: "nat \<Rightarrow> bytes \<Rightarrow> (bytes \<times> bytes) go" where
  "ReadFull n s =
     (if n \<le> length s then Ok (take n s, drop n s)
      else if s = [] then Err ''EOF'' else Err ''unexpected EOF'')"

lemma ReadFull_append [simp]: "length b = n \<Longrightarrow> ReadFull n (b @ s) = Ok (b, s)"
  by (auto simp: ReadFull_def)

lemma ReadFull_not_Panic [simp]: "ReadFull n s \<noteq> Panic"
  by (simp add: ReadFull_def)

lemma ReadFull_OkD: "ReadFull n s = Ok (b, r) \<Longrightarrow> s = b @ r \<and> length b = n"
  by (auto simp: ReadFull_def split: if_splits)

section \<open>Package net: host and port\<close>

text \<open>\<open>net.SplitHostPort\<close>, with the error texts of the standard library.\<close>

definition SplitHostPort :: "str \<Rightarrow> (str \<times> str) go" where
  "SplitHostPort hostport =
     (case LastIndexByte hostport CHR '':'' of
        None \<Rightarrow> Err ''missing port in address''
      | Some i \<Rightarrow>
          if hd hostport = CHR ''['' then
            (case IndexByte hostport CHR '']'' of
               None \<Rightarrow> Err ''missing ']' in address''
             | Some e \<Rightarrow>
                 if e + 1 = length hostport then Err ''missing port in address''
                 else if e + 1 \<noteq> i then
                   (if hostport ! (e + 1) = CHR '':'' then Err ''too many colons in address''
                    else Err ''missing port in address'')
                 else if CHR ''['' \<in> set (drop 1 hostport) then Err ''unexpected '[' in address''
                 else if CHR '']'' \<in> set (drop (e + 1) hostport) then Err ''unexpected ']' in address''
                 else Ok (take (e - 1) (drop 1 hostport), drop (i + 1) hostport))
          else if CHR '':'' \<in> set (take i hostport) then Err ''too many colons in address''
          else if CHR ''['' \<in> set hostport then Err ''unexpected '[' in address''
          else if CHR '']'' \<in> set hostport then Err ''unexpected ']' in address''
          else Ok (take i hostport, drop (i + 1) hostport))"

definition JoinHostPort :: "str \<Rightarrow> str \<Rightarrow> str" where
  "JoinHostPort host port =
     (if CHR '':'' \<in> set host then ''['' @ host @ '']:'' @ port else host @ '':'' @ port)"

lemma SplitHostPort_not_Panic [simp]: "SplitHostPort s \<noteq> Panic"
  by (simp add: SplitHostPort_def split: option.splits if_splits)

text \<open>A host with no brackets and a port with no bracket or colon survive the round trip, IPv6
  literals included.\<close>

definition plain_host :: "str \<Rightarrow> bool" where
  "plain_host h = (CHR ''['' \<notin> set h \<and> CHR '']'' \<notin> set h)"

definition plain_port :: "str \<Rightarrow> bool" where
  "plain_port p = (CHR '':'' \<notin> set p \<and> CHR ''['' \<notin> set p \<and> CHR '']'' \<notin> set p)"

lemma SplitHostPort_plain:
  assumes "plain_host h" "CHR '':'' \<notin> set h" "plain_port p"
  shows "SplitHostPort (h @ CHR '':'' # p) = Ok (h, p)"
proof -
  have "LastIndexByte (h @ CHR '':'' # p) CHR '':'' = Some (length h)"
    using assms by (simp add: LastIndexByte_append plain_port_def)
  moreover have "hd (h @ CHR '':'' # p) \<noteq> CHR ''[''"
    using assms by (cases h) (auto simp: plain_host_def)
  ultimately show ?thesis using assms by (simp add: SplitHostPort_def plain_host_def plain_port_def)
qed

lemma SplitHostPort_bracket:
  assumes "plain_host h" "plain_port p"
  shows "SplitHostPort (CHR ''['' # h @ CHR '']'' # CHR '':'' # p) = Ok (h, p)" (is "SplitHostPort ?s = _")
proof -
  have "LastIndexByte (CHR ''['' # (h @ [CHR '']'']) @ CHR '':'' # p) CHR '':'' = Some (Suc (length (h @ [CHR '']''])))"
    using assms by (simp del: append_assoc add: LastIndexByte_append plain_port_def)
  then have L: "LastIndexByte ?s CHR '':'' = Some (length h + 2)" by simp
  have I: "IndexByte ?s CHR '']'' = Some (Suc (length h))"
    using assms by (simp add: IndexByte_append plain_host_def)
  show ?thesis unfolding SplitHostPort_def L I option.case
    using assms by (simp add: plain_host_def plain_port_def)
qed

lemma SplitHostPort_JoinHostPort [go_str]:
  "plain_host h \<Longrightarrow> plain_port p \<Longrightarrow> SplitHostPort (JoinHostPort h p) = Ok (h, p)"
  by (simp add: JoinHostPort_def SplitHostPort_plain SplitHostPort_bracket)

lemma SplitHostPort_no_colon:
  assumes "CHR '':'' \<notin> set s"
  shows "SplitHostPort s = Err ''missing port in address''"
proof -
  have "LastIndexByte s CHR '':'' = None" using assms by simp
  then show ?thesis by (simp only: SplitHostPort_def option.case)
qed

section \<open>Ranging over a map\<close>

text \<open>A Go map is ranged over in any order: an operation that does takes the order as an argument,
  a function on the list of keys that gives a list of the same keys.\<close>

type_synonym key_order = "str list \<Rightarrow> str list"

definition order_ok :: "key_order \<Rightarrow> bool" where
  "order_ok ord = (\<forall>ks. distinct ks \<longrightarrow> distinct (ord ks) \<and> set (ord ks) = set ks)"

lemma order_ok_keys: "order_ok ord \<Longrightarrow> distinct ks \<Longrightarrow> distinct (ord ks) \<and> set (ord ks) = set ks"
  by (simp add: order_ok_def)

lemma order_ok_id: "order_ok (\<lambda>ks. ks)"
  by (simp add: order_ok_def)

end
