(* ===== verification/HostAddr.thy ===== *)
theory HostAddr
  imports GoPrelude
begin

text \<open>
  Host names, addresses and rule domains, as \<open>src/proxy/proxy.go\<close> treats them: the
  normalisation of a request's host (\<open>normalizeHost\<close>), the completion of an address with a
  default port (\<open>ensureAddrWithPort\<close>), the expansion of a rule's upstream
  (\<open>resolveUpstreamHost\<close>, \<open>splitUpstreamCandidates\<close>, \<open>firstUpstreamHost\<close>), the
  duplicate-free candidate list (\<open>dedupeDialCandidates\<close>), and the scoring of a host against
  the domain of a rule (\<open>hostMatchesDomain\<close>, \<open>domainMatchScore\<close>).

  \<open>regexp.Compile\<close> and \<open>MatchString\<close> are an argument \<open>re\<close>: \<open>re pattern host\<close> is \<open>None\<close> when the
  pattern does not compile, otherwise whether it matches.
\<close>

section \<open>Normalised hosts and addresses\<close>

definition normalizeHost :: "str \<Rightarrow> str" where
  "normalizeHost hostport0 =
     (let hostport = TrimSpace hostport0 in
      if hostport = [] then []
      else case SplitHostPort hostport of
        Ok (host, _) \<Rightarrow> ToLower (TrimSpace host)
      | _ \<Rightarrow>
          if HasPrefix hostport ''['' \<and> HasSuffix hostport '']''
          then ToLower (TrimSuffix (TrimPrefix hostport ''['') '']'')
          else ToLower hostport)"

definition ensureAddrWithPort :: "str \<Rightarrow> str \<Rightarrow> str" where
  "ensureAddrWithPort addr0 defaultPort =
     (let addr = TrimSpace addr0 in
      if addr = [] then []
      else case SplitHostPort addr of
        Ok (host, port) \<Rightarrow> JoinHostPort host (if port = [] then defaultPort else port)
      | _ \<Rightarrow>
          if HasPrefix addr ''['' \<and> HasSuffix addr '']''
          then JoinHostPort (TrimSuffix (TrimPrefix addr ''['') '']'') defaultPort
          else JoinHostPort addr defaultPort)"

definition cleanWebsiteToken :: "str \<Rightarrow> str" where
  "cleanWebsiteToken token0 =
     (let t1 = normalizeHost token0;
          t2 = TrimPrefix t1 ''*.'';
          t3 = TrimSuffix t2 ''$'';
          t4 = TrimSet t3 ''[]''
      in case IndexByte t4 CHR '':'' of Some i \<Rightarrow> take i t4 | None \<Rightarrow> t4)"

definition tokenMatchesDomain :: "str \<Rightarrow> str \<Rightarrow> bool" where
  "tokenMatchesDomain token0 domain0 =
     (let token = cleanWebsiteToken token0; domain = cleanWebsiteToken domain0 in
      if token = [] \<or> domain = [] then False
      else token = domain \<or> HasSuffix token (''.'' @ domain))"

section \<open>Duplicate-free lists\<close>

text \<open>The \<open>seen\<close> loop that \<open>splitUpstreamCandidates\<close>, \<open>dedupeDialCandidates\<close>, \<open>certNames\<close>,
  \<open>normalizeDomainsForKey\<close> and \<open>buildGASSNIPool\<close> share: skip empty items and items already
  seen, keep the others in order.\<close>

fun dedupSeen :: "str set \<Rightarrow> str list \<Rightarrow> str list" where
  "dedupSeen seen [] = []"
| "dedupSeen seen (x # xs) =
     (if x = [] then dedupSeen seen xs
      else if x \<in> seen then dedupSeen seen xs
      else x # dedupSeen (insert x seen) xs)"

definition dedupeDialCandidates :: "str list \<Rightarrow> str list" where
  "dedupeDialCandidates candidates = dedupSeen {} (map TrimSpace candidates)"

lemma set_dedupSeen: "set (dedupSeen seen xs) = set xs - {[]} - seen"
  by (induction xs arbitrary: seen) auto

lemma distinct_dedupSeen: "distinct (dedupSeen seen xs)"
  by (induction xs arbitrary: seen) (auto simp: set_dedupSeen)

lemma dedupSeen_id:
  "distinct xs \<Longrightarrow> [] \<notin> set xs \<Longrightarrow> set xs \<inter> seen = {} \<Longrightarrow> dedupSeen seen xs = xs"
  by (induction xs arbitrary: seen) auto

lemmas dedup_facts = set_dedupSeen distinct_dedupSeen

section \<open>Upstreams of a rule\<close>

definition firstLabel :: "str \<Rightarrow> str" where
  "firstLabel h = (case IndexByte h CHR ''.'' of
     Some i \<Rightarrow> if 0 < i then take i h else h
   | None \<Rightarrow> h)"

definition resolveUpstreamHost :: "str \<Rightarrow> str \<Rightarrow> str" where
  "resolveUpstreamHost targetHost upstream0 =
     (let upstream = TrimSpace upstream0 in
      if upstream = [] then []
      else if Contains upstream ''$1'' then ReplaceAll upstream ''$1'' (firstLabel targetHost)
      else upstream)"

definition splitUpstreamCandidates :: "str \<Rightarrow> str \<Rightarrow> str \<Rightarrow> str list" where
  "splitUpstreamCandidates targetHost upstream defaultPort =
     (let resolved = resolveUpstreamHost targetHost upstream in
      if resolved = [] then []
      else dedupSeen {} (map (\<lambda>p. ensureAddrWithPort (TrimSpace p) defaultPort)
                             (Split resolved CHR '','')))"

definition firstUpstreamHost :: "str \<Rightarrow> str \<Rightarrow> str" where
  "firstUpstreamHost targetHost upstream =
     (case splitUpstreamCandidates targetHost upstream ''443'' of
        [] \<Rightarrow> []
      | c # _ \<Rightarrow>
          (case SplitHostPort c of
             Ok (host, _) \<Rightarrow> normalizeHost host
           | _ \<Rightarrow> normalizeHost c))"

section \<open>Matching a host against the domain of a rule\<close>

text \<open>The loop over \<open>i\<close> with \<open>i+len(baseParts) < len(hostParts)\<close>: the labels of \<open>base\<close> occur in
  those of the host, followed by at least one more label.\<close>

fun labelsOccur :: "str list \<Rightarrow> str list \<Rightarrow> bool" where
  "labelsOccur [] base = False"
| "labelsOccur (h # hs) base =
     (if length base < length (h # hs) then
        (if take (length base) (h # hs) = base then True else labelsOccur hs base)
      else False)"

definition hostMatchesDomain :: "str \<Rightarrow> str \<Rightarrow> bool" where
  "hostMatchesDomain host0 domain0 =
     (let host = ToLower (TrimSpace host0); domain1 = ToLower (TrimSpace domain0) in
      if host = [] \<or> domain1 = [] then False
      else
        let domain = TrimSuffix (TrimPrefix domain1 ''*.'') ''$'' in
        if HasSuffix domain ''.*'' then
          let base = TrimSuffix domain ''.*'' in
          if base = [] then False
          else if length (Split host CHR ''.'') < length (Split base CHR ''.'') + 1 then False
          else labelsOccur (Split host CHR ''.'') (Split base CHR ''.'')
        else if host = domain then True
        else HasSuffix host (''.'' @ domain))"

definition domainMatchScore :: "(str \<Rightarrow> str \<Rightarrow> bool option) \<Rightarrow> str \<Rightarrow> str \<Rightarrow> int" where
  "domainMatchScore re host0 domain0 =
     (let host = ToLower (TrimSpace host0); domain1 = ToLower (TrimSpace domain0) in
      if host = [] \<or> domain1 = [] then - 1
      else if HasPrefix domain1 ''~'' then
        (let pattern = TrimSpace (TrimPrefix domain1 ''~'') in
         if pattern = [] then - 1
         else case re pattern host of
           None \<Rightarrow> - 1
         | Some m \<Rightarrow> if m then 900 + int (length pattern) else - 1)
      else
        let domain = TrimSuffix (TrimPrefix domain1 ''*.'') ''$'' in
        if HasSuffix domain ''.*'' then
          (let base = TrimSuffix domain ''.*'' in
           if base = [] then - 1
           else if length (Split host CHR ''.'') < length (Split base CHR ''.'') + 1 then - 1
           else if labelsOccur (Split host CHR ''.'') (Split base CHR ''.'') then int (length base)
           else - 1)
        else if domain = ''*'' then 1
        else if host = domain then int (length domain) + 1000
        else if HasSuffix host (''.'' @ domain) then int (length domain)
        else - 1)"

text \<open>\<open>labelsOccur\<close> finds the base anywhere but at the end.\<close>

lemma labelsOccur_iff:
  "labelsOccur hs base \<longleftrightarrow> (\<exists>u v. hs = u @ base @ v \<and> v \<noteq> [])"
proof (induction hs)
  case Nil
  then show ?case by auto
next
  case (Cons h hs)
  have split: "(\<exists>u v. h # hs = u @ base @ v \<and> v \<noteq> []) \<longleftrightarrow>
      (\<exists>v. h # hs = base @ v \<and> v \<noteq> []) \<or> (\<exists>u v. hs = u @ base @ v \<and> v \<noteq> [])" (is "?L \<longleftrightarrow> ?R")
  proof
    assume ?L
    then obtain u v where "h # hs = u @ base @ v" "v \<noteq> []" by blast
    then show ?R by (cases u) auto
  next
    assume ?R
    then show ?L by (metis append_Cons append_Nil)
  qed
  have here: "(\<exists>v. h # hs = base @ v \<and> v \<noteq> []) \<longleftrightarrow>
      length base < length (h # hs) \<and> take (length base) (h # hs) = base"
  proof
    assume "\<exists>v. h # hs = base @ v \<and> v \<noteq> []"
    then obtain v where v: "h # hs = base @ v" "v \<noteq> []" by blast
    then have "length (h # hs) = length base + length v" by simp
    with v show "length base < length (h # hs) \<and> take (length base) (h # hs) = base" by simp
  next
    assume a: "length base < length (h # hs) \<and> take (length base) (h # hs) = base"
    then have "h # hs = base @ drop (length base) (h # hs)" by (metis append_take_drop_id)
    then show "\<exists>v. h # hs = base @ v \<and> v \<noteq> []"
      using a by (metis drop_eq_Nil not_less)
  qed
  have short: "\<not> (\<exists>u v. hs = u @ base @ v \<and> v \<noteq> [])" if "\<not> length base < length (h # hs)"
    using that by auto
  show ?case using Cons.IH split here short by auto
qed

section \<open>Lemmas on addresses\<close>

lemma normalizeHost_of_split:
  "trimmed s \<Longrightarrow> s \<noteq> [] \<Longrightarrow> SplitHostPort s = Ok (h, p) \<Longrightarrow> normalizeHost s = ToLower (TrimSpace h)"
  by (simp add: normalizeHost_def TrimSpace_trimmed)

lemma JoinHostPort_nonempty [simp]: "JoinHostPort h p \<noteq> []"
  by (simp add: JoinHostPort_def)

lemma normalizeHost_no_colon:
  "CHR '':'' \<notin> set s \<Longrightarrow> plain_host s \<Longrightarrow> trimmed s \<Longrightarrow> normalizeHost s = ToLower s"
proof -
  assume a: "CHR '':'' \<notin> set s" "plain_host s" "trimmed s"
  have "\<not> HasPrefix s ''[''" using a(2) by (auto simp: HasPrefix_iff plain_host_def)
  with a show ?thesis by (simp add: normalizeHost_def TrimSpace_trimmed SplitHostPort_no_colon)
qed

lemma normalizeHost_bracketed:
  assumes "plain_host s" "trimmed s"
  shows "normalizeHost (''['' @ s @ '']'') = ToLower s"
proof -
  have notspace: "\<not> isSpace CHR ''[''" "\<not> isSpace CHR '']''" by (simp_all add: isSpace_def)
  have t: "trimmed (CHR ''['' # s @ [CHR '']''])" using notspace by (simp add: trimmed_def)
  have e: "IndexByte (CHR ''['' # s @ [CHR '']'']) CHR '']'' = Some (Suc (length s))"
    using assms by (simp add: IndexByte_append plain_host_def)
  have "\<exists>m. SplitHostPort (CHR ''['' # s @ [CHR '']'']) = Err m"
  proof (cases "LastIndexByte (CHR ''['' # s @ [CHR '']'']) CHR '':''")
    case None
    then show ?thesis unfolding SplitHostPort_def None option.case by blast
  next
    case (Some i)
    show ?thesis unfolding SplitHostPort_def Some e option.case by simp
  qed
  then obtain m where m: "SplitHostPort (CHR ''['' # s @ [CHR '']'']) = Err m" by blast
  have "HasPrefix (CHR ''['' # s @ [CHR '']'']) ''[''" by (simp add: HasPrefix_def)
  moreover have "HasSuffix (CHR ''['' # s @ [CHR '']'']) '']''"
    using HasSuffix_append [of "CHR ''['' # s" "'']''"] by simp
  moreover have "TrimPrefix (CHR ''['' # s @ [CHR '']'']) ''['' = s @ '']''"
    using TrimPrefix_append [of "''[''" "s @ '']''"] by simp
  ultimately show ?thesis using t m by (simp add: normalizeHost_def TrimSpace_trimmed)
qed

text \<open>Every completed address of a plain host splits again, with the port it was given or the
  default one.\<close>

lemma ensureAddrWithPort_Join:
  assumes "plain_host h" "plain_port p" "p \<noteq> []" "trimmed (JoinHostPort h p)"
  shows "ensureAddrWithPort (JoinHostPort h p) d = JoinHostPort h p"
  using assms by (simp add: ensureAddrWithPort_def TrimSpace_trimmed SplitHostPort_JoinHostPort)

lemma ensureAddrWithPort_bare:
  assumes "plain_host h" "CHR '':'' \<notin> set h" "h \<noteq> []" "trimmed h"
  shows "ensureAddrWithPort h d = JoinHostPort h d"
proof -
  have "\<not> HasPrefix h ''[''" using assms(1) by (auto simp: HasPrefix_iff plain_host_def)
  with assms show ?thesis
    by (simp add: ensureAddrWithPort_def TrimSpace_trimmed SplitHostPort_no_colon)
qed

lemma ensureAddrWithPort_not_Nil: "TrimSpace a \<noteq> [] \<Longrightarrow> ensureAddrWithPort a d \<noteq> []"
  by (simp add: ensureAddrWithPort_def Let_def split: go.splits prod.splits)

lemma domainMatchScore_ge: "- 1 \<le> domainMatchScore re host domain"
  by (simp add: domainMatchScore_def Let_def split: option.splits)

section \<open>Properties of host matching and addresses\<close>

text \<open>the score and the predicate agree. For a domain that is neither a regular expression nor the
  catch-all \<open>*\<close>, \<open>domainMatchScore\<close> is non-negative exactly for the hosts that \<open>hostMatchesDomain\<close>
  accepts.\<close>

theorem domainMatchScore_agrees:
  assumes "\<not> HasPrefix (ToLower (TrimSpace domain)) ''~''"
    and "TrimSuffix (TrimPrefix (ToLower (TrimSpace domain)) ''*.'') ''$'' \<noteq> ''*''"
  shows "0 \<le> domainMatchScore re host domain \<longleftrightarrow> hostMatchesDomain host domain"
  using assms unfolding domainMatchScore_def hostMatchesDomain_def Let_def
  by (auto split: if_splits)

theorem domainMatchScore_agrees_witness:
  "\<not> HasPrefix (ToLower (TrimSpace ''*.Google.com'')) ''~'' \<and>
   (0 \<le> domainMatchScore (\<lambda>_ _. None) ''www.google.com'' ''*.Google.com'' \<longleftrightarrow>
    hostMatchesDomain ''www.google.com'' ''*.Google.com'')"
proof -
  have t: "ToLower (TrimSpace ''*.Google.com'') = ''*.google.com''" by code_simp
  then have a: "\<not> HasPrefix (ToLower (TrimSpace ''*.Google.com'')) ''~''" by (simp add: HasPrefix_def)
  have b: "TrimSuffix (TrimPrefix (ToLower (TrimSpace ''*.Google.com'')) ''*.'') ''$'' \<noteq> ''*''"
    unfolding t by code_simp
  from a domainMatchScore_agrees [OF a b] show ?thesis by blast
qed

lemma exact_score:
  assumes "trimmed h" "ToLower h = h" "h \<noteq> []" "\<not> HasPrefix h ''~''" "\<not> HasPrefix h ''*.''"
    "\<not> HasSuffix h ''$''" "\<not> HasSuffix h ''.*''" "h \<noteq> ''*''"
  shows "domainMatchScore re h h = int (length h) + 1000"
  using assms unfolding domainMatchScore_def Let_def
  by (simp add: TrimSpace_trimmed TrimPrefix_def TrimSuffix_def)

lemma length_TrimPrefix: "length (TrimPrefix s p) \<le> length s"
  by (simp add: TrimPrefix_def)

lemma length_TrimSuffix: "length (TrimSuffix s p) \<le> length s"
  by (simp add: TrimSuffix_def)

lemma if_bound: "(P \<Longrightarrow> a \<le> M) \<Longrightarrow> (\<not> P \<Longrightarrow> b \<le> M) \<Longrightarrow> (if P then a else b) \<le> (M :: int)"
  by simp

lemma case_option_bound:
  "a \<le> M \<Longrightarrow> (\<And>x. b x \<le> M) \<Longrightarrow> (case r of None \<Rightarrow> a | Some x \<Rightarrow> b x) \<le> (M :: int)"
  by (cases r) simp_all

lemma score_bound:
  "domainMatchScore re h d \<le> max (900 + int (length d)) (int (length h) + 1000)" (is "_ \<le> ?M")
proof -
  let ?d = "ToLower (TrimSpace d)" and ?h = "ToLower (TrimSpace h)"
  let ?p = "TrimSpace (TrimPrefix ?d ''~'')" and ?s = "TrimSuffix (TrimPrefix ?d ''*.'') ''$''"
  have d: "length ?d \<le> length d" and h: "length ?h \<le> length h"
    using length_TrimSpace by simp_all
  have p: "length ?p \<le> length d"
    using length_TrimSpace [of "TrimPrefix ?d ''~''"] length_TrimPrefix [of ?d "''~''"] d by linarith
  have s: "length ?s \<le> length d"
    using length_TrimSuffix [of "TrimPrefix ?d ''*.''" "''$''"] length_TrimPrefix [of ?d "''*.''"] d by linarith
  have b: "length (TrimSuffix ?s ''.*'') \<le> length d"
    using length_TrimSuffix [of ?s "''.*''"] s by linarith
  have leaf: "- 1 \<le> ?M" "1 \<le> ?M" "900 + int (length ?p) \<le> ?M" "int (length ?s) \<le> ?M"
    "int (length (TrimSuffix ?s ''.*'')) \<le> ?M"
    using p s b by simp_all
  have exact: "?h = ?s \<Longrightarrow> int (length ?s) + 1000 \<le> ?M"
  proof -
    assume "?h = ?s"
    then have "length ?s = length ?h" by (rule arg_cong [OF sym])
    with h show ?thesis by linarith
  qed
  show ?thesis unfolding domainMatchScore_def Let_def
    by (intro if_bound case_option_bound leaf exact)
qed

text \<open>A rule for the host's own name outranks every suffix rule and every regular expression of at
  most 100 characters.\<close>

theorem exact_rule_outranks:
  assumes "trimmed h" "ToLower h = h" "h \<noteq> []" "\<not> HasPrefix h ''~''" "\<not> HasPrefix h ''*.''"
    "\<not> HasSuffix h ''$''" "\<not> HasSuffix h ''.*''" "h \<noteq> ''*''" "length d \<le> 100"
  shows "domainMatchScore re h d \<le> domainMatchScore re h h"
  using score_bound [of re h d] exact_score [OF assms(1-8), of re] assms(9) by simp

theorem exact_rule_outranks_witness:
  "domainMatchScore (\<lambda>_ _. Some True) ''a.b'' ''~.*'' \<le> domainMatchScore (\<lambda>_ _. Some True) ''a.b'' ''a.b''"
proof -
  have "trimmed ''a.b''" "ToLower ''a.b'' = ''a.b''" by code_simp+
  then show ?thesis
    by (rule exact_rule_outranks) (simp_all add: HasPrefix_def HasSuffix_def)
qed

text \<open>The ranking stated at the score, exact names before regular expressions, does not hold for
  long patterns: a matching regular expression of more than 100 characters beyond the length of the
  host's name outranks the exact rule.\<close>

theorem long_regex_outranks_exact:
  assumes "trimmed h" "ToLower h = h" "h \<noteq> []" "\<not> HasPrefix h ''~''" "\<not> HasPrefix h ''*.''"
    "\<not> HasSuffix h ''$''" "\<not> HasSuffix h ''.*''" "h \<noteq> ''*''"
    and "trimmed p" "ToLower p = p" "length h + 100 < length p" "re p h = Some True"
  shows "domainMatchScore re h h < domainMatchScore re h (CHR ''~'' # p)"
proof -
  have p: "p \<noteq> []" using assms(11) by auto
  have "trimmed (CHR ''~'' # p)" using assms(9) p by (simp add: trimmed_def isSpace_def)
  moreover have "ToLower (CHR ''~'' # p) = CHR ''~'' # p" using assms(10) by (simp add: ToLower_def lowerChar_def)
  moreover have "TrimPrefix (CHR ''~'' # p) ''~'' = p" "HasPrefix (CHR ''~'' # p) ''~''"
    by (simp_all add: TrimPrefix_def HasPrefix_def)
  ultimately have "domainMatchScore re h (CHR ''~'' # p) = 900 + int (length p)"
    using assms p unfolding domainMatchScore_def Let_def by (simp add: TrimSpace_trimmed)
  then show ?thesis using exact_score [OF assms(1-8), of re] assms(11) by simp
qed

theorem long_regex_outranks_exact_witness:
  "domainMatchScore (\<lambda>_ _. Some True) ''a.b'' ''a.b'' <
   domainMatchScore (\<lambda>_ _. Some True) ''a.b'' (CHR ''~'' # replicate 104 CHR ''a'')"
proof -
  have "trimmed ''a.b''" "ToLower ''a.b'' = ''a.b''" by code_simp+
  moreover have "trimmed (replicate 104 CHR ''a'')" by (simp add: trimmed_def isSpace_def)
  moreover have "ToLower (replicate 104 CHR ''a'') = replicate 104 CHR ''a''"
    by (simp add: ToLower_def lowerChar_def)
  ultimately show ?thesis
    by (intro long_regex_outranks_exact) (simp_all add: HasPrefix_def HasSuffix_def)
qed

text \<open>Rules match on the host alone. A request for \<open>host:port\<close> is normalised to the same key as one
  for the host, for names and for bracketed IPv6 literals.\<close>

theorem normalizeHost_ignores_port:
  assumes "plain_host h" "plain_port p" "trimmed h" "trimmed p" "h \<noteq> []"
  shows "normalizeHost (JoinHostPort h p) = ToLower h \<and>
    normalizeHost (if CHR '':'' \<in> set h then ''['' @ h @ '']'' else h) = ToLower h"
proof -
  have colon: "\<not> isSpace CHR '':''" "\<not> isSpace CHR ''[''" by (simp_all add: isSpace_def)
  have "trimmed (JoinHostPort h p)"
    using assms colon by (cases "p = []") (auto simp: trimmed_def JoinHostPort_def)
  then have "normalizeHost (JoinHostPort h p) = ToLower (TrimSpace h)"
    using assms by (intro normalizeHost_of_split) (auto simp: SplitHostPort_JoinHostPort)
  moreover have "normalizeHost (if CHR '':'' \<in> set h then ''['' @ h @ '']'' else h) = ToLower h"
    using assms normalizeHost_bracketed normalizeHost_no_colon by auto
  ultimately show ?thesis using assms(3) by (simp add: TrimSpace_trimmed)
qed

theorem normalizeHost_ignores_port_witness:
  "normalizeHost (JoinHostPort ''::1'' ''443'') = ToLower ''::1''"
  using normalizeHost_ignores_port [of "''::1''" "''443''"]
  by (simp add: plain_host_def plain_port_def trimmed_def isSpace_def)

text \<open>The candidate addresses of an upstream are distinct and non-empty, and each is a part of the
  upstream completed with a port.\<close>

theorem splitUpstreamCandidates_distinct:
  "distinct (splitUpstreamCandidates targetHost upstream port) \<and>
   [] \<notin> set (splitUpstreamCandidates targetHost upstream port) \<and>
   set (splitUpstreamCandidates targetHost upstream port) \<subseteq>
     (\<lambda>p. ensureAddrWithPort (TrimSpace p) port) ` set (Split (resolveUpstreamHost targetHost upstream) CHR '','')"
  by (auto simp: splitUpstreamCandidates_def Let_def dedup_facts)

end
