(* ===== verification/ProxyTypes.thy ===== *)
theory ProxyTypes
  imports HostAddr
begin

text \<open>
  The data of the rule base: the structs of \<open>src/proxy/proxy.go\<close> and \<open>src/proxy/cert_verify.go\<close>
  as records. Record fields share one name space, so each carries a prefix naming its struct
  (\<open>r\<close> for \<open>Rule\<close>, \<open>sg\<close> for \<open>SiteGroup\<close>, \<open>up\<close> for \<open>Upstream\<close>, \<open>ech\<close> for \<open>ECHProfile\<close>, \<open>dn\<close> for
  \<open>DNSNode\<close>, \<open>cv\<close> for \<open>CertVerifyConfig\<close>). The zero value of a Go struct is a definition
  \<open>zero\<dots>\<close>, which composite literals of the source start from.
\<close>

record CertVerifyConfig =
  cvMode :: str
  cvNames :: "str list"
  cvSuffixes :: "str list"
  cvSPKISHA256 :: "str list"
  cvAllowUnknownAuthority :: bool

definition zeroCertVerify :: CertVerifyConfig where
  "zeroCertVerify = \<lparr>cvMode = [], cvNames = [], cvSuffixes = [], cvSPKISHA256 = [],
     cvAllowUnknownAuthority = False\<rparr>"

definition IsZero :: "CertVerifyConfig \<Rightarrow> bool" where
  "IsZero c = (TrimSpace (cvMode c) = [] \<and> length (cvNames c) = 0 \<and> length (cvSuffixes c) = 0 \<and>
     length (cvSPKISHA256 c) = 0 \<and> \<not> cvAllowUnknownAuthority c)"

record SiteGroup =
  sgID :: str
  sgName :: str
  sgWebsite :: str
  sgDomains :: "str list"
  sgMode :: str
  sgUpstream :: str
  sgUpstreams :: "str list"
  sgDNSMode :: str
  sgSniFake :: str
  sgConnectPolicy :: str
  sgSniPolicy :: str
  sgEnabled :: bool
  sgECHEnabled :: bool
  sgECHProfileID :: str
  sgECHDomain :: str
  sgUseCFPool :: bool
  sgCertVerify :: CertVerifyConfig

definition zeroSiteGroup :: SiteGroup where
  "zeroSiteGroup = \<lparr>sgID = [], sgName = [], sgWebsite = [], sgDomains = [], sgMode = [],
     sgUpstream = [], sgUpstreams = [], sgDNSMode = [], sgSniFake = [], sgConnectPolicy = [],
     sgSniPolicy = [], sgEnabled = False, sgECHEnabled = False, sgECHProfileID = [],
     sgECHDomain = [], sgUseCFPool = False, sgCertVerify = zeroCertVerify\<rparr>"

record Upstream =
  upID :: str
  upName :: str
  upAddress :: str
  upEnabled :: bool

record ECHProfile =
  echID :: str
  echName :: str
  echConfig :: str
  echDiscoveryDomain :: str
  echDoHUpstream :: str
  echAutoUpdate :: bool

definition zeroECHProfile :: ECHProfile where
  "zeroECHProfile = \<lparr>echID = [], echName = [], echConfig = [], echDiscoveryDomain = [],
     echDoHUpstream = [], echAutoUpdate = False\<rparr>"

record DNSNode =
  dnID :: str
  dnName :: str
  dnURL :: str
  dnSNI :: str
  dnIPs :: "str list"
  dnECHEnabled :: bool
  dnECHProfileID :: str
  dnECHAutoUpdate :: bool
  dnQUIC :: bool
  dnCertVerify :: CertVerifyConfig
  dnEnabled :: bool

record Rule =
  rDomain :: str
  rUpstream :: str
  rUpstreams :: "str list"
  rDNSMode :: str
  rMode :: str
  rSniFake :: str
  rConnectPolicy :: str
  rSniPolicy :: str
  rEnabled :: bool
  rSiteID :: str
  rECHEnabled :: bool
  rECHProfileID :: str
  rUseCFPool :: bool
  rECHDiscoveryDomain :: str
  rECHDoHUpstream :: str
  rECHAutoUpdate :: bool
  rCertVerify :: CertVerifyConfig
  rAutoRouted :: bool
  rFallbackMode :: str

definition zeroRule :: Rule where
  "zeroRule = \<lparr>rDomain = [], rUpstream = [], rUpstreams = [], rDNSMode = [], rMode = [],
     rSniFake = [], rConnectPolicy = [], rSniPolicy = [], rEnabled = False, rSiteID = [],
     rECHEnabled = False, rECHProfileID = [], rUseCFPool = False, rECHDiscoveryDomain = [],
     rECHDoHUpstream = [], rECHAutoUpdate = False, rCertVerify = zeroCertVerify,
     rAutoRouted = False, rFallbackMode = []\<rparr>"

record TUNConfig =
  tunEnabled :: bool
  tunMTU :: int
  tunDNSHijack :: bool
  tunAutoRoute :: bool
  tunStrictRoute :: bool

record CloudflareConfig =
  cfPreferredIPs :: "str list"
  cfAutoUpdate :: bool
  cfAPIKey :: str

record AutoRoutingConfig =
  arMode :: str
  arGFWListURL :: str
  arLastUpdate :: str

section \<open>Merging a stage-2 rule and choosing an upstream\<close>

definition mergeRule :: "Rule \<Rightarrow> Rule \<Rightarrow> Rule" where
  "mergeRule base overlay =
     base\<lparr>
       rUpstream := (if TrimSpace (rUpstream overlay) \<noteq> [] then rUpstream overlay else rUpstream base),
       rUpstreams := (if length (rUpstreams overlay) > 0 then rUpstreams overlay else rUpstreams base),
       rDNSMode := (if TrimSpace (rDNSMode overlay) \<noteq> [] then rDNSMode overlay else rDNSMode base),
       rSniFake := (if TrimSpace (rSniFake overlay) \<noteq> [] then rSniFake overlay else rSniFake base),
       rConnectPolicy := (if TrimSpace (rConnectPolicy overlay) \<noteq> [] then rConnectPolicy overlay
                          else rConnectPolicy base),
       rSniPolicy := (if TrimSpace (rSniPolicy overlay) \<noteq> [] then rSniPolicy overlay else rSniPolicy base),
       rCertVerify := (if \<not> IsZero (rCertVerify overlay) then rCertVerify overlay else rCertVerify base)\<rparr>"

definition resolveRuleUpstream :: "str \<Rightarrow> Rule \<Rightarrow> str" where
  "resolveRuleUpstream targetHost rule =
     (let resolved = resolveUpstreamHost targetHost (rUpstream rule);
          trimmed = TrimSpace resolved
      in if trimmed = [] \<and> length (rUpstreams rule) > 0 then Join (rUpstreams rule) '',''
         else
           let low = ToLower trimmed in
           if HasPrefix low ''$backend_ip'' \<or> HasPrefix low ''$upstream_host'' \<or> HasPrefix trimmed ''$''
           then (if length (rUpstreams rule) > 0 then Join (rUpstreams rule) '',''
                 else JoinHostPort targetHost ''443'')
           else resolved)"

definition normalizeDNSMode :: "str \<Rightarrow> str" where
  "normalizeDNSMode mode =
     (let m = ToLower (TrimSpace mode) in
      if m = [] \<or> m = ''system'' then []
      else if m = ''prefer_ipv4'' \<or> m = ''prefer_ipv6'' \<or> m = ''ipv4_only'' \<or> m = ''ipv6_only'' then m
      else [])"

lemma normalizeDNSMode_idem: "normalizeDNSMode (normalizeDNSMode m) = normalizeDNSMode m"
proof -
  have "TrimSpace (ToLower (TrimSpace m)) = ToLower (TrimSpace m)" by simp
  then show ?thesis unfolding normalizeDNSMode_def Let_def by auto
qed

end
