(* ===== verification/GfwList.thy ===== *)
theory GfwList
  imports GoPrelude
begin

text \<open>
  The domain list of \<open>src/proxy/gfwlist.go\<close>.

  \<^item> \<open>GFWList\<close> is the struct; the map \<open>domains\<close>, whose values are all \<open>true\<close>, is the list of its keys.
    The lock is taken and released within each operation.
  \<^item> A reader is the text it gives and the error it ends with, if any. \<open>scanLines\<close> is
    \<open>bufio.Scanner\<close> with its default limit of 65536 bytes for a line. Files and HTTP responses are
    arguments.
  \<^item> \<open>IsBlocked\<close> is characterised on domain suffixes, and saving and loading a list is a round trip.
\<close>

record GFWList =
  gDomains :: "str list"
  gCount :: nat
  gLastLoad :: int

type_synonym reader = "str \<times> str option"

definition NewGFWList :: GFWList where
  "NewGFWList = \<lparr>gDomains = [], gCount = 0, gLastLoad = 0\<rparr>"

definition maxScanTokenSize :: nat where
  "maxScanTokenSize = 65536"

definition newline :: char where
  "newline = CHR 0x0A"

fun scanLines :: "str list \<Rightarrow> str list \<times> str option" where
  "scanLines [] = ([], None)"
| "scanLines (l # ls) =
     (if length l \<ge> maxScanTokenSize then ([], Some ''bufio.Scanner: token too long'')
      else let (r, e) = scanLines ls in (l # r, e))"

definition skipLine :: "str \<Rightarrow> bool" where
  "skipLine line = (line = [] \<or> HasPrefix line ''#'' \<or> HasPrefix line ''!'' \<or>
     HasPrefix line ''Source:'' \<or> HasPrefix line ''---'')"

fun collectDomains :: "str list \<Rightarrow> str list \<times> nat \<Rightarrow> str list \<times> nat" where
  "collectDomains [] acc = acc"
| "collectDomains (l # ls) (domains, count) =
     (let line = TrimSpace l in
      if skipLine line then collectDomains ls (domains, count)
      else collectDomains ls (List.insert (ToLower line) domains, count + 1))"

definition LoadFromReader :: "int \<Rightarrow> reader \<Rightarrow> GFWList \<Rightarrow> GFWList \<times> nat go" where
  "LoadFromReader now r g =
     (let (lines, tooLong) = scanLines (Split (fst r) newline);
          (domains, count) = collectDomains lines ([], 0)
      in case (tooLong, snd r) of
           (Some e, _) \<Rightarrow> (g, Err e)
         | (None, Some e) \<Rightarrow> (g, Err e)
         | (None, None) \<Rightarrow> (\<lparr>gDomains = domains, gCount = count, gLastLoad = now\<rparr>, Ok count))"

definition defaultGFWListURL :: str where
  "defaultGFWListURL = ''https://raw.githubusercontent.com/Loyalsoldier/v2ray-rules-dat/release/gfw.txt''"

text \<open>\<open>get\<close> gives the status code and the body.\<close>

definition LoadFromURL :: "(str \<Rightarrow> (int \<times> reader) go) \<Rightarrow> int \<Rightarrow> str \<Rightarrow> GFWList \<Rightarrow> GFWList \<times> nat go" where
  "LoadFromURL get now url g =
     (case get (if url = [] then defaultGFWListURL else url) of
        Panic \<Rightarrow> (g, Panic)
      | Err e \<Rightarrow> (g, Err (''fetch GFWList: '' @ e))
      | Ok (status, body) \<Rightarrow>
          if status \<noteq> 200 then (g, Err (''fetch GFWList: HTTP '' @ itoaInt status))
          else LoadFromReader now body g)"

definition LoadFromFile :: "(str \<Rightarrow> reader go) \<Rightarrow> int \<Rightarrow> str \<Rightarrow> GFWList \<Rightarrow> GFWList \<times> nat go" where
  "LoadFromFile open now path g =
     (case open path of
        Panic \<Rightarrow> (g, Panic)
      | Err e \<Rightarrow> (g, Err e)
      | Ok f \<Rightarrow> LoadFromReader now f g)"

text \<open>The text \<open>SaveToFile\<close> writes when the map is ranged over in the order \<open>ord\<close>; \<open>mkdir\<close> and
  \<open>write\<close> are the file system.\<close>

definition savedText :: "key_order \<Rightarrow> GFWList \<Rightarrow> str" where
  "savedText ord g = concat (map (\<lambda>d. d @ [newline]) (ord (gDomains g)))"

definition SaveToFile ::
  "(str \<Rightarrow> unit go) \<Rightarrow> (str \<Rightarrow> str \<Rightarrow> unit go) \<Rightarrow> key_order \<Rightarrow> str \<Rightarrow> GFWList \<Rightarrow> unit go" where
  "SaveToFile mkdir write ord path g = bind_go (mkdir path) (\<lambda>_. write path (savedText ord g))"

fun parentListed :: "str list \<Rightarrow> str list \<Rightarrow> bool" where
  "parentListed domains [] = False"
| "parentListed domains (p # parts) =
     (if parts = [] then False
      else if Join parts ''.'' \<in> set domains then True
      else parentListed domains parts)"

definition IsBlocked :: "GFWList \<Rightarrow> str \<Rightarrow> bool" where
  "IsBlocked g host0 =
     (let host = ToLower (TrimSpace host0) in
      if host = [] then False
      else if length (gDomains g) = 0 then False
      else if host \<in> set (gDomains g) then True
      else parentListed (gDomains g) (Split host CHR ''.''))"

text \<open>Lists that loading produces.\<close>

inductive gfw_reachable :: "GFWList \<Rightarrow> bool" where
  new: "gfw_reachable NewGFWList"
| load: "gfw_reachable g \<Longrightarrow> LoadFromReader now r g = (g', res) \<Longrightarrow> gfw_reachable g'"

definition domain_ok :: "str \<Rightarrow> bool" where
  "domain_ok d = (\<not> skipLine d \<and> trimmed d \<and> ToLower d = d \<and> newline \<notin> set d \<and> length d < maxScanTokenSize)"

definition gfw_inv :: "GFWList \<Rightarrow> bool" where
  "gfw_inv g = (distinct (gDomains g) \<and> (\<forall>d \<in> set (gDomains g). domain_ok d) \<and> length (gDomains g) \<le> gCount g)"

section \<open>Blocking is suffix matching on labels\<close>

lemma first_sep_split:
  assumes "c \<notin> set p"
  shows "p @ c # j = l @ c # d \<longleftrightarrow> (l = p \<and> d = j) \<or> (\<exists>l'. l = p @ c # l' \<and> j = l' @ c # d)"
  using assms by (induction p arbitrary: l) (auto simp: Cons_eq_append_conv)

lemma parentListed_Join:
  "ps \<noteq> [] \<Longrightarrow> \<forall>p \<in> set ps. CHR ''.'' \<notin> set p \<Longrightarrow>
   parentListed ds ps \<longleftrightarrow> (\<exists>l d. d \<in> set ds \<and> Join ps ''.'' = l @ CHR ''.'' # d)"
proof (induction ps)
  case (Cons p ps)
  show ?case
  proof (cases "ps = []")
    case True
    then show ?thesis using Cons.prems by auto
  next
    case False
    then show ?thesis using Cons first_sep_split [of "CHR ''.''" p] by (auto simp: Join_Cons)
  qed
qed simp

lemma parentListed_iff:
  "parentListed ds (Split h CHR ''.'') \<longleftrightarrow> (\<exists>l d. d \<in> set ds \<and> h = l @ ''.'' @ d)"
  using parentListed_Join [of "Split h CHR ''.''" ds] Split_no_sep [of _ h "CHR ''.''"]
  by (simp add: Join_Split)

text \<open>A host is blocked exactly when, lower-cased and trimmed, it is not empty and is a listed
  domain or ends in a dot followed by a listed domain.\<close>

theorem IsBlocked_iff:
  "IsBlocked g host \<longleftrightarrow> (let h = ToLower (TrimSpace host) in
     h \<noteq> [] \<and> (\<exists>d \<in> set (gDomains g). h = d \<or> (\<exists>l. h = l @ ''.'' @ d)))"
proof -
  have "IsBlocked g host \<longleftrightarrow> (let h = ToLower (TrimSpace host) in
     h \<noteq> [] \<and> gDomains g \<noteq> [] \<and> (h \<in> set (gDomains g) \<or> (\<exists>l d. d \<in> set (gDomains g) \<and> h = l @ ''.'' @ d)))"
    unfolding IsBlocked_def Let_def parentListed_iff by simp
  then show ?thesis unfolding Let_def by (metis (no_types, lifting) empty_iff empty_set)
qed

section \<open>Loading and saving\<close>

lemma scanLines_ok: "scanLines ls = (r, None) \<Longrightarrow> r = ls \<and> (\<forall>l \<in> set ls. length l < maxScanTokenSize)"
  by (induction ls arbitrary: r) (auto split: if_splits prod.splits)

lemma scanLines_short: "\<forall>l \<in> set ls. length l < maxScanTokenSize \<Longrightarrow> scanLines ls = (ls, None)"
  by (induction ls) auto

text \<open>What a line contributes.\<close>

definition lineDomain :: "str \<Rightarrow> str option" where
  "lineDomain l = (if skipLine (TrimSpace l) then None else Some (ToLower (TrimSpace l)))"

lemma collectDomains_props:
  "collectDomains ls (ds, n) = (ds', n') \<Longrightarrow>
     set ds' = set ds \<union> {d. \<exists>l \<in> set ls. lineDomain l = Some d} \<and>
     (distinct ds \<longrightarrow> distinct ds') \<and> n \<le> n' \<and> (length ds \<le> n \<longrightarrow> length ds' \<le> n')"
proof (induction ls "(ds, n)" arbitrary: ds n rule: collectDomains.induct)
  case (2 l ls domains count)
  show ?case
  proof (cases "skipLine (TrimSpace l)")
    case True
    then show ?thesis using 2 by (simp add: lineDomain_def)
  next
    case False
    have len: "length (List.insert x domains) \<le> Suc (length domains)" for x
      by (simp add: List.insert_def)
    have "collectDomains ls (List.insert (ToLower (TrimSpace l)) domains, count + 1) = (ds', n')"
      using 2(3) False by (simp add: Let_def)
    from 2(2) [OF refl False this] show ?thesis
      using False len [of "ToLower (TrimSpace l)"] by (auto simp: lineDomain_def)
  qed
qed simp

lemma set_TrimSpace: "set (TrimSpace s) \<subseteq> set s"
  unfolding TrimSpace_def by (auto dest!: set_dropWhileD)

lemma newline_ToLower: "newline \<in> set (ToLower s) \<longleftrightarrow> newline \<in> set s"
proof -
  have "lowerChar c = newline \<longleftrightarrow> c = newline" for c
    using lowerChar_nonletter [of newline c] by (simp add: newline_def)
  then show ?thesis unfolding ToLower_def set_map image_iff by metis
qed

lemma HasPrefix_ToLower:
  assumes "\<forall>c \<in> set p. \<forall>x. lowerChar x = c \<longleftrightarrow> x = c"
  shows "HasPrefix (ToLower s) p \<longleftrightarrow> HasPrefix s p"
proof -
  have "map lowerChar xs = p \<longleftrightarrow> xs = p" for xs
    using assms by (induction p arbitrary: xs) (auto simp: map_eq_Cons_conv)
  then show ?thesis by (simp add: HasPrefix_def ToLower_def take_map)
qed

lemma skipLine_ToLower: "\<not> skipLine s \<Longrightarrow> \<not> skipLine (ToLower s)"
proof -
  assume s: "\<not> skipLine s"
  have "lowerChar x = CHR ''#'' \<longleftrightarrow> x = CHR ''#''" "lowerChar x = CHR ''!'' \<longleftrightarrow> x = CHR ''!''"
    "lowerChar x = CHR ''-'' \<longleftrightarrow> x = CHR ''-''" "lowerChar x \<noteq> CHR ''S''" for x
    using lowerChar_nonletter [of "CHR ''#''" x] lowerChar_nonletter [of "CHR ''!''" x]
      lowerChar_nonletter [of "CHR ''-''" x] lowerChar_nonletter [of "CHR ''S''" x] by simp_all
  note c = this
  have "CHR ''S'' \<notin> set (ToLower s)" using c(4) unfolding ToLower_def set_map image_iff by metis
  then have "\<not> HasPrefix (ToLower s) ''Source:''" unfolding HasPrefix_iff by auto
  moreover have "HasPrefix (ToLower s) ''#'' = HasPrefix s ''#''" by (rule HasPrefix_ToLower) (simp add: c)
  moreover have "HasPrefix (ToLower s) ''!'' = HasPrefix s ''!''" by (rule HasPrefix_ToLower) (simp add: c)
  moreover have "HasPrefix (ToLower s) ''---'' = HasPrefix s ''---''" by (rule HasPrefix_ToLower) (simp add: c)
  ultimately show ?thesis using s by (simp add: skipLine_def)
qed

lemma trimmed_ToLower: "trimmed s \<Longrightarrow> trimmed (ToLower s)"
  by (cases "s = []") (auto simp: trimmed_def ToLower_def hd_map last_map)

lemma lineDomain_ok:
  assumes "lineDomain l = Some d" and "newline \<notin> set l" and "length l < maxScanTokenSize"
  shows "domain_ok d"
proof -
  have d: "d = ToLower (TrimSpace l)" and s: "\<not> skipLine (TrimSpace l)"
    using assms(1) by (auto simp: lineDomain_def split: if_splits)
  have "newline \<notin> set (TrimSpace l)" "length (TrimSpace l) < maxScanTokenSize"
    using set_TrimSpace [of l] assms(2) length_TrimSpace [of l] assms(3) by auto
  then show ?thesis using skipLine_ToLower [OF s]
    by (simp add: d domain_ok_def newline_ToLower trimmed_ToLower)
qed

lemma LoadFromReader_inv:
  assumes "gfw_inv g" and "LoadFromReader now r g = (g', res)"
  shows "gfw_inv g'"
proof -
  obtain ls e where ls: "scanLines (Split (fst r) newline) = (ls, e)" by force
  obtain ds n where ds: "collectDomains ls ([], 0) = (ds, n)" by force
  show ?thesis
  proof (cases "e = None \<and> snd r = None")
    case True
    then have g': "g' = \<lparr>gDomains = ds, gCount = n, gLastLoad = now\<rparr>"
      using assms(2) ls ds by (simp add: LoadFromReader_def)
    have "ls = Split (fst r) newline" "\<forall>l \<in> set ls. length l < maxScanTokenSize"
      using scanLines_ok ls True by blast+
    then have "domain_ok d" if "lineDomain l = Some d" "l \<in> set ls" for l d
      using lineDomain_ok [OF that(1)] Split_no_sep that(2) by blast
    then show ?thesis using collectDomains_props [OF ds] by (auto simp: gfw_inv_def g')
  next
    case False
    then have "g' = g" using assms(2) ls ds by (auto simp: LoadFromReader_def split: option.splits)
    then show ?thesis using assms(1) by simp
  qed
qed

lemma gfw_reachable_inv: "gfw_reachable g \<Longrightarrow> gfw_inv g"
proof (induction rule: gfw_reachable.induct)
  case (load g now r g' res)
  then show ?case using LoadFromReader_inv by blast
qed (simp add: gfw_inv_def NewGFWList_def)

lemma Split_saved: "\<forall>d \<in> set ds. newline \<notin> set d \<Longrightarrow> Split (concat (map (\<lambda>d. d @ [newline]) ds)) newline = ds @ [[]]"
proof (induction ds)
  case (Cons d ds)
  then show ?case using Split_append_sep [of d newline] by (simp add: Split_no_occ)
qed simp

lemma IsBlocked_cong: "set (gDomains g) = set (gDomains g') \<Longrightarrow> IsBlocked g h = IsBlocked g' h"
  unfolding IsBlocked_def Let_def parentListed_iff by (simp flip: set_empty add: length_0_conv)

lemma collectDomains_saved:
  "\<forall>d \<in> set ds. domain_ok d \<Longrightarrow> snd (collectDomains (ds @ [[]]) (acc, n)) = n + length ds"
proof (induction ds arbitrary: acc n)
  case (Cons d ds)
  then show ?case by (simp add: domain_ok_def TrimSpace_trimmed)
qed (simp add: skipLine_def)

lemma lineDomain_domain: "domain_ok d \<Longrightarrow> lineDomain d = Some d"
  by (simp add: domain_ok_def lineDomain_def TrimSpace_trimmed)

text \<open>C7: Saving a list that loading produced and loading the file gives the same domains, whatever
  order the map is saved in; the reported count becomes the number of different domains.\<close>

theorem save_load_roundtrip:
  assumes "gfw_reachable g" and "order_ok ord"
  shows "\<exists>g'. LoadFromFile (\<lambda>_. Ok (savedText ord g, None)) now path g0 = (g', Ok (length (gDomains g))) \<and>
     set (gDomains g') = set (gDomains g) \<and> gCount g' = card (set (gDomains g)) \<and>
     (\<forall>host. IsBlocked g' host = IsBlocked g host)"
proof -
  let ?ds = "ord (gDomains g)"
  have inv: "distinct (gDomains g)" "\<forall>d \<in> set (gDomains g). domain_ok d"
    using gfw_reachable_inv [OF assms(1)] by (auto simp: gfw_inv_def)
  have o: "distinct ?ds" "set ?ds = set (gDomains g)" using order_ok_keys [OF assms(2) inv(1)] by blast+
  have ok: "\<forall>d \<in> set ?ds. domain_ok d" using inv(2) o(2) by simp
  have lines: "Split (savedText ord g) newline = ?ds @ [[]]"
    unfolding savedText_def using ok by (intro Split_saved) (auto simp: domain_ok_def)
  have scan: "scanLines (?ds @ [[]]) = (?ds @ [[]], None)"
    using ok by (intro scanLines_short) (auto simp: domain_ok_def maxScanTokenSize_def)
  obtain ds n where ds: "collectDomains (?ds @ [[]]) ([], 0) = (ds, n)" by force
  have n: "n = length (gDomains g)"
    using collectDomains_saved [OF ok, of "[]" 0] ds o distinct_card [OF o(1)] distinct_card [OF inv(1)] by simp
  have "set ds = set (gDomains g)"
  proof -
    have "lineDomain [] = None" by (simp add: lineDomain_def skipLine_def)
    then have "{d. \<exists>l \<in> set (?ds @ [[]]). lineDomain l = Some d} = set ?ds" using ok lineDomain_domain by auto
    then show ?thesis using collectDomains_props [OF ds] o(2) by simp
  qed
  moreover have "LoadFromFile (\<lambda>_. Ok (savedText ord g, None)) now path g0 =
      (\<lparr>gDomains = ds, gCount = n, gLastLoad = now\<rparr>, Ok n)"
    by (simp add: LoadFromFile_def LoadFromReader_def lines scan ds)
  moreover have "\<forall>host. IsBlocked \<lparr>gDomains = ds, gCount = n, gLastLoad = now\<rparr> host = IsBlocked g host"
    using \<open>set ds = set (gDomains g)\<close> by (intro allI IsBlocked_cong) simp
  ultimately show ?thesis using n distinct_card [OF inv(1)] by auto
qed

theorem save_load_roundtrip_witness:
  "\<exists>g'. LoadFromFile (\<lambda>_. Ok (savedText (\<lambda>ks. ks) \<lparr>gDomains = [''a.com''], gCount = 2, gLastLoad = 5\<rparr>, None)) 9 ''p'' NewGFWList
     = (g', Ok 1) \<and> gCount g' = 1"
proof -
  have lines: "Split (''A.com'' @ [newline] @ ''# x'' @ [newline] @ ''a.com'') newline = [''A.com'', ''# x'', ''a.com'']"
    by code_simp
  have "scanLines [''A.com'', ''# x'', ''a.com''] = ([''A.com'', ''# x'', ''a.com''], None)"
    by (rule scanLines_short) (simp add: maxScanTokenSize_def)
  moreover have "collectDomains [''A.com'', ''# x'', ''a.com''] ([], 0) = ([''a.com''], 2)" by code_simp
  ultimately have "LoadFromReader 5 (''A.com'' @ [newline] @ ''# x'' @ [newline] @ ''a.com'', None) NewGFWList =
      (\<lparr>gDomains = [''a.com''], gCount = 2, gLastLoad = 5\<rparr>, Ok 2)"
    unfolding LoadFromReader_def fst_conv lines by simp
  then have "gfw_reachable \<lparr>gDomains = [''a.com''], gCount = 2, gLastLoad = 5\<rparr>"
    using gfw_reachable.load gfw_reachable.new by blast
  from save_load_roundtrip [OF this order_ok_id, of 9 "''p''" NewGFWList] show ?thesis by auto
qed

end
