(* ===== verification/AutoRouting.thy ===== *)
theory AutoRouting
  imports ProxyTypes GfwList "HOL-Library.AList"
begin

text \<open>
  The automatic router of \<open>src/proxy/auto_routing.go\<close>.

  \<^item> \<open>AutoRouter\<close> is the struct; \<open>cfCache\<close> is an association list. Each lock is taken and released
    around one access, so an operation is one step. The clock is an argument: \<open>IsCloudflare\<close> reads it
    once before the lookup and once after the resolution.
  \<^item> \<open>IP\<close> is an address after \<open>To4\<close>; \<open>ParseCIDR\<close> is \<open>net.ParseCIDR\<close> on the dotted IPv4 form, the only
    form of \<open>cloudflareCIDRStrings\<close>. The DoH resolver is an argument, absent when it is nil.
  \<^item> The Cloudflare test is an interval test on the fifteen published networks, and a routing decision
    is stable for as long as the cache entry it rests on.
\<close>

unbundle bit_operations_syntax

datatype IP = IPv4 "32 word" | IPv6 "128 word"

type_synonym ip_resolver = "(str \<Rightarrow> IP list go) option"

record cfCacheEntry =
  ceIsCF :: bool
  ceCheckedAt :: int

record AutoRouter =
  arConfig :: AutoRoutingConfig
  arGfw :: GFWList
  cfNets :: "(32 word \<times> nat) list"
  cfCache :: "(str \<times> cfCacheEntry) list"
  cfCacheStopped :: bool

definition cfCacheTTL :: int where
  "cfCacheTTL = 30 * 60 * 1000000000"

definition cloudflareCIDRStrings :: "str list" where
  "cloudflareCIDRStrings =
    [''173.245.48.0/20'', ''103.21.244.0/22'', ''103.22.200.0/22'',
     ''103.31.4.0/22'', ''141.101.64.0/18'', ''108.162.192.0/18'',
     ''190.93.240.0/20'', ''188.114.96.0/20'', ''197.234.240.0/22'',
     ''198.41.128.0/17'', ''162.158.0.0/15'', ''104.16.0.0/13'',
     ''104.24.0.0/14'', ''172.64.0.0/13'', ''131.0.72.0/22'']"

definition parseOctet :: "str \<Rightarrow> nat option" where
  "parseOctet s =
     (if length s > 3 \<or> (length s > 1 \<and> hd s = CHR ''0'') then None
      else case parseNat s of Some n \<Rightarrow> if n < 256 then Some n else None | None \<Rightarrow> None)"

definition parseIPv4 :: "str \<Rightarrow> nat option" where
  "parseIPv4 s =
     (case map parseOctet (Split s CHR ''.'') of
        [Some a, Some b, Some c, Some d] \<Rightarrow> Some (((a * 256 + b) * 256 + c) * 256 + d)
      | _ \<Rightarrow> None)"

definition netMask :: "nat \<Rightarrow> 32 word" where
  "netMask n = NOT (mask (32 - n))"

definition ParseCIDR :: "str \<Rightarrow> (32 word \<times> nat) option" where
  "ParseCIDR s =
     (case Split s CHR ''/'' of
        [a, m] \<Rightarrow>
          (case (parseIPv4 a, parseNat m) of
             (Some ip, Some n) \<Rightarrow> if n \<le> 32 then Some (of_nat ip AND netMask n, n) else None
           | _ \<Rightarrow> None)
      | _ \<Rightarrow> None)"

definition NewAutoRouter :: "AutoRoutingConfig \<Rightarrow> AutoRouter" where
  "NewAutoRouter config =
     \<lparr>arConfig = config, arGfw = NewGFWList, cfNets = List.map_filter ParseCIDR cloudflareCIDRStrings,
      cfCache = [], cfCacheStopped = False\<rparr>"

definition netContains :: "32 word \<times> nat \<Rightarrow> IP \<Rightarrow> bool" where
  "netContains n ip =
     (case ip of
        IPv4 w \<Rightarrow> fst n AND netMask (snd n) = w AND netMask (snd n)
      | IPv6 _ \<Rightarrow> False)"

definition isCloudflareIP :: "AutoRouter \<Rightarrow> IP \<Rightarrow> bool" where
  "isCloudflareIP ar ip = list_ex (\<lambda>n. netContains n ip) (cfNets ar)"

text \<open>One tick of \<open>cfCacheCleanupLoop\<close>, and \<open>StopCleanup\<close>, which panics on the second call.\<close>

definition cfCacheCleanup :: "int \<Rightarrow> AutoRouter \<Rightarrow> AutoRouter" where
  "cfCacheCleanup now ar =
     (if cfCacheStopped ar then ar
      else ar\<lparr>cfCache := filter (\<lambda>(host, entry). \<not> (now - ceCheckedAt entry > cfCacheTTL)) (cfCache ar)\<rparr>)"

definition StopCleanup :: "AutoRouter \<Rightarrow> AutoRouter go" where
  "StopCleanup ar = (if cfCacheStopped ar then Panic else Ok (ar\<lparr>cfCacheStopped := True\<rparr>))"

definition resolvesToCF :: "ip_resolver \<Rightarrow> str \<Rightarrow> AutoRouter \<Rightarrow> bool" where
  "resolvesToCF resolver host ar =
     (case resolver of
        None \<Rightarrow> False
      | Some res \<Rightarrow> (case res host of Ok ips \<Rightarrow> list_ex (isCloudflareIP ar) ips | _ \<Rightarrow> False))"

definition IsCloudflare :: "ip_resolver \<Rightarrow> int \<Rightarrow> int \<Rightarrow> str \<Rightarrow> AutoRouter \<Rightarrow> bool \<times> AutoRouter" where
  "IsCloudflare resolver t1 t2 host0 ar =
     (let host = ToLower (TrimSpace host0) in
      if host = [] then (False, ar)
      else
        let miss = (let isCF = resolvesToCF resolver host ar in
              (isCF, ar\<lparr>cfCache := AList.update host \<lparr>ceIsCF = isCF, ceCheckedAt = t2\<rparr> (cfCache ar)\<rparr>))
        in case map_of (cfCache ar) host of
             Some entry \<Rightarrow> if t1 - ceCheckedAt entry < cfCacheTTL then (ceIsCF entry, ar) else miss
           | None \<Rightarrow> miss)"

definition Decide :: "ip_resolver \<Rightarrow> int \<Rightarrow> int \<Rightarrow> str \<Rightarrow> AutoRouter \<Rightarrow> Rule \<times> AutoRouter" where
  "Decide resolver t1 t2 host ar =
     (let mode = arMode (arConfig ar) in
      if mode = [] then (zeroRule\<lparr>rMode := ''direct'', rEnabled := True\<rparr>, ar)
      else if mode = ''gas'' then (zeroRule\<lparr>rMode := ''gas'', rEnabled := True, rAutoRouted := True\<rparr>, ar)
      else if mode = ''v2ray'' then (zeroRule\<lparr>rMode := ''v2ray'', rEnabled := True, rAutoRouted := True\<rparr>, ar)
      else if \<not> IsBlocked (arGfw ar) host then (zeroRule\<lparr>rMode := ''direct'', rEnabled := True\<rparr>, ar)
      else
        let (isCF, ar') = IsCloudflare resolver t1 t2 host ar in
        if isCF then
          (zeroRule\<lparr>rMode := ''mitm'', rECHEnabled := True, rECHProfileID := ''legacy-cloudflare'',
             rECHDiscoveryDomain := ''crypto.cloudflare.com'', rECHAutoUpdate := True,
             rUseCFPool := True, rEnabled := True, rAutoRouted := True\<rparr>, ar')
        else
          let rule = zeroRule\<lparr>rMode := ''tls-rf'', rEnabled := True, rAutoRouted := True\<rparr> in
          (if mode = ''server'' then rule\<lparr>rFallbackMode := ''server''\<rparr> else rule, ar'))"

definition UpdateConfig :: "AutoRoutingConfig \<Rightarrow> AutoRouter \<Rightarrow> AutoRouter" where
  "UpdateConfig config ar = ar\<lparr>arConfig := config\<rparr>"

record GFWListStatus =
  gsEnabled :: bool
  gsMode :: str
  gsDomainCount :: nat
  gsLastUpdate :: str
  gsGFWListURL :: str

definition GetStatus :: "AutoRouter \<Rightarrow> GFWListStatus" where
  "GetStatus ar = \<lparr>gsEnabled = (arMode (arConfig ar) \<noteq> []), gsMode = arMode (arConfig ar),
     gsDomainCount = gCount (arGfw ar), gsLastUpdate = arLastUpdate (arConfig ar),
     gsGFWListURL = arGFWListURL (arConfig ar)\<rparr>"

section \<open>The published networks\<close>

lemma and_netMask_eq:
  "a AND netMask n = b AND netMask n \<longleftrightarrow> drop_bit (32 - n) a = drop_bit (32 - n) (b :: 32 word)"
proof
  assume h: "a AND netMask n = b AND netMask n"
  have "drop_bit (32 - n) (x AND netMask n) = drop_bit (32 - n) x" for x :: "32 word"
    by (rule bit_eqI) (auto simp: bit_simps netMask_def dest: bit_imp_le_length)
  then show "drop_bit (32 - n) a = drop_bit (32 - n) b" using h by metis
next
  assume h: "drop_bit (32 - n) a = drop_bit (32 - n) b"
  have "x AND netMask n = push_bit (32 - n) (drop_bit (32 - n) x)" for x :: "32 word"
    by (rule bit_eqI) (auto simp: bit_simps netMask_def)
  then show "a AND netMask n = b AND netMask n" using h by simp
qed

lemma div_interval: "0 < (m :: nat) \<Longrightarrow> x div m = q \<longleftrightarrow> q * m \<le> x \<and> x < (q + 1) * m"
  by (metis Suc_eq_plus1 div_less_iff_less_mult less_Suc_eq_le less_eq_div_iff_mult_less_eq linorder_not_less order_antisym_conv order_refl)

lemma netContains_range:
  assumes "unat base = q * 2 ^ (32 - n)"
  shows "netContains (base, n) (IPv4 w) \<longleftrightarrow> unat base \<le> unat w \<and> unat w < unat base + 2 ^ (32 - n)"
proof -
  have "netContains (base, n) (IPv4 w) \<longleftrightarrow> drop_bit (32 - n) base = drop_bit (32 - n) w"
    by (simp add: netContains_def and_netMask_eq)
  also have "\<dots> \<longleftrightarrow> unat base div 2 ^ (32 - n) = unat w div 2 ^ (32 - n)"
  proof -
    have u: "unat (drop_bit k x) = unat x div 2 ^ k" for k and x :: "32 word"
      by (simp add: unat_drop_bit_eq flip: drop_bit_eq_div)
    show ?thesis unfolding u [symmetric] by (rule word_unat_eq_iff)
  qed
  also have "\<dots> \<longleftrightarrow> unat w div 2 ^ (32 - n) = q" using assms by auto
  also have "\<dots> \<longleftrightarrow> q * 2 ^ (32 - n) \<le> unat w \<and> unat w < (q + 1) * 2 ^ (32 - n)"
    by (rule div_interval) simp
  finally show ?thesis using assms by (simp add: add.commute)
qed

text \<open>The networks as numbers: four octets and a prefix length each.\<close>

definition cloudflareNets :: "(nat \<times> nat \<times> nat \<times> nat \<times> nat) list" where
  "cloudflareNets =
    [(173, 245, 48, 0, 20), (103, 21, 244, 0, 22), (103, 22, 200, 0, 22), (103, 31, 4, 0, 22),
     (141, 101, 64, 0, 18), (108, 162, 192, 0, 18), (190, 93, 240, 0, 20), (188, 114, 96, 0, 20),
     (197, 234, 240, 0, 22), (198, 41, 128, 0, 17), (162, 158, 0, 0, 15), (104, 16, 0, 0, 13),
     (104, 24, 0, 0, 14), (172, 64, 0, 0, 13), (131, 0, 72, 0, 22)]"

definition netBase :: "nat \<times> nat \<times> nat \<times> nat \<times> nat \<Rightarrow> nat" where
  "netBase e = (case e of (a, b, c, d, n) \<Rightarrow> ((a * 256 + b) * 256 + c) * 256 + d)"

definition netLen :: "nat \<times> nat \<times> nat \<times> nat \<times> nat \<Rightarrow> nat" where
  "netLen e = (case e of (a, b, c, d, n) \<Rightarrow> n)"

lemma parsed_CIDR:
  assumes "map_option (\<lambda>(a, m). (parseIPv4 a, parseNat m))
      (case Split s CHR ''/'' of [a, m] \<Rightarrow> Some (a, m) | _ \<Rightarrow> None) = Some (Some ip, Some n)"
    and "n \<le> 32" and "ip mod 2 ^ (32 - n) = 0"
  shows "ParseCIDR s = Some (of_nat ip, n)"
proof -
  have "of_nat ip AND netMask n = push_bit (32 - n) (drop_bit (32 - n) (of_nat ip :: 32 word))"
    by (rule bit_eqI) (auto simp: bit_simps netMask_def)
  moreover have "take_bit (32 - n) (of_nat ip :: 32 word) = 0"
  proof -
    have "take_bit (32 - n) ip = 0" using assms(3) by (simp add: take_bit_eq_mod)
    then show ?thesis unfolding take_bit_of_nat by simp
  qed
  ultimately have "of_nat ip AND netMask n = (of_nat ip :: 32 word)"
    using bits_ident [of "32 - n" "of_nat ip :: 32 word"] by simp
  then show ?thesis using assms(1,2) by (auto simp: ParseCIDR_def split: list.splits)
qed

lemma parsed_nets:
  "map ParseCIDR cloudflareCIDRStrings = map (\<lambda>e. Some (of_nat (netBase e), netLen e)) cloudflareNets"
  unfolding cloudflareCIDRStrings_def cloudflareNets_def netBase_def netLen_def list.map prod.case
  by (intro arg_cong2 [where f = Cons] parsed_CIDR refl)
     (simp_all add: parseIPv4_def parseOctet_def parseNat_def digitVal_def)

lemma nets_aligned:
  "\<forall>e \<in> set cloudflareNets. netLen e \<le> 32 \<and> netBase e < 2 ^ 32 \<and> netBase e mod 2 ^ (32 - netLen e) = 0"
  by (simp add: cloudflareNets_def netBase_def netLen_def)

lemma map_filter_Some: "map f xs = map (\<lambda>e. Some (g e)) ys \<Longrightarrow> List.map_filter f xs = map g ys"
  by (induction xs arbitrary: ys) (auto simp: List.map_filter_simps)

text \<open>With the networks of a new router, an IPv4 address counts as a Cloudflare address exactly when
  it lies in one of the fifteen published intervals, and no IPv6 address does.\<close>

theorem isCloudflareIP_ranges:
  "isCloudflareIP (NewAutoRouter config) ip \<longleftrightarrow>
     (case ip of
        IPv4 w \<Rightarrow> (\<exists>e \<in> set cloudflareNets. netBase e \<le> unat w \<and> unat w < netBase e + 2 ^ (32 - netLen e))
      | IPv6 _ \<Rightarrow> False)"
proof -
  have nets: "cfNets (NewAutoRouter config) = map (\<lambda>e. (of_nat (netBase e), netLen e)) cloudflareNets"
    using map_filter_Some [OF parsed_nets] by (simp add: NewAutoRouter_def)
  have "netContains (of_nat (netBase e), netLen e) (IPv4 w) \<longleftrightarrow>
      netBase e \<le> unat w \<and> unat w < netBase e + 2 ^ (32 - netLen e)" if "e \<in> set cloudflareNets" for e w
  proof -
    have "unat (of_nat (netBase e) :: 32 word) = netBase e"
      using nets_aligned that by (simp add: unat_of_nat)
    moreover have "netBase e = netBase e div 2 ^ (32 - netLen e) * 2 ^ (32 - netLen e)"
      using nets_aligned that by (metis add.right_neutral div_mult_mod_eq)
    ultimately show ?thesis using netContains_range [of "of_nat (netBase e)"] by metis
  qed
  then show ?thesis
    by (cases ip) (auto simp: isCloudflareIP_def nets list_ex_iff netContains_def)
qed

section \<open>Decisions rest on the cache\<close>

text \<open>Steps of the router before the time \<open>limit\<close>: decisions for any host, with any resolver answers,
  and ticks of the cache cleanup.\<close>

inductive ar_until :: "int \<Rightarrow> AutoRouter \<Rightarrow> AutoRouter \<Rightarrow> bool" where
  init: "ar_until limit a a"
| decide: "ar_until limit a b \<Longrightarrow> t1 < limit \<Longrightarrow> Decide resolver t1 t2 h b = (r, c) \<Longrightarrow> ar_until limit a c"
| cleanup: "ar_until limit a b \<Longrightarrow> t < limit \<Longrightarrow> ar_until limit a (cfCacheCleanup t b)"

lemma IsCloudflare_frame:
  "IsCloudflare resolver t1 t2 h a = (b, a') \<Longrightarrow> arConfig a' = arConfig a \<and> arGfw a' = arGfw a"
  by (auto simp: IsCloudflare_def Let_def split: if_splits option.splits)

lemma Decide_frame:
  "Decide resolver t1 t2 h a = (r, a') \<Longrightarrow> arConfig a' = arConfig a \<and> arGfw a' = arGfw a"
  using IsCloudflare_frame [of resolver t1 t2 h a]
  by (auto simp: Decide_def Let_def split: if_splits prod.splits)

lemma ar_until_frame: "ar_until limit a b \<Longrightarrow> arConfig b = arConfig a \<and> arGfw b = arGfw a"
  by (induction rule: ar_until.induct) (auto dest: Decide_frame simp: cfCacheCleanup_def)

text \<open>An entry that is not yet due stays what it is.\<close>

lemma IsCloudflare_keeps:
  assumes "map_of (cfCache a) k = Some e" and "t1 < ceCheckedAt e + cfCacheTTL"
    and "IsCloudflare resolver t1 t2 h a = (b, a')"
  shows "map_of (cfCache a') k = Some e"
  using assms by (auto simp: IsCloudflare_def Let_def update_conv split: if_splits option.splits)

lemma Decide_keeps:
  assumes "map_of (cfCache a) k = Some e" and "t1 < ceCheckedAt e + cfCacheTTL"
    and "Decide resolver t1 t2 h a = (r, a')"
  shows "map_of (cfCache a') k = Some e"
  using assms(3) IsCloudflare_keeps [OF assms(1,2), of resolver t2 h] assms(1)
  by (auto simp: Decide_def Let_def split: if_splits prod.splits)

lemma map_of_filter_first: "map_of m k = Some e \<Longrightarrow> P (k, e) \<Longrightarrow> map_of (filter P m) k = Some e"
  by (induction m) (auto split: if_splits)

lemma cleanup_keeps:
  assumes "map_of (cfCache a) k = Some e" and "t < ceCheckedAt e + cfCacheTTL"
  shows "map_of (cfCache (cfCacheCleanup t a)) k = Some e"
  using assms by (auto simp: cfCacheCleanup_def intro!: map_of_filter_first)

lemma ar_until_keeps:
  "ar_until limit a b \<Longrightarrow> map_of (cfCache a) k = Some e \<Longrightarrow> limit \<le> ceCheckedAt e + cfCacheTTL \<Longrightarrow>
   map_of (cfCache b) k = Some e"
proof (induction rule: ar_until.induct)
  case (decide limit a b t1 resolver t2 h r c)
  then show ?case using Decide_keeps [of b k e t1 resolver t2 h r c] by linarith
next
  case (cleanup limit a b t)
  then show ?case using cleanup_keeps [of b k e t] by linarith
qed

lemma IsCloudflare_hit:
  assumes "map_of (cfCache a) (ToLower (TrimSpace h)) = Some e" and "t1 < ceCheckedAt e + cfCacheTTL"
    and "ToLower (TrimSpace h) \<noteq> []"
  shows "IsCloudflare resolver t1 t2 h a = (ceIsCF e, a)"
  using assms by (simp add: IsCloudflare_def Let_def)

lemma IsCloudflare_miss:
  assumes "\<forall>e. map_of (cfCache a) (ToLower (TrimSpace h)) = Some e \<longrightarrow> ceCheckedAt e + cfCacheTTL \<le> t1"
    and "ToLower (TrimSpace h) \<noteq> []" and "IsCloudflare resolver t1 t2 h a = (b, a')"
  shows "map_of (cfCache a') (ToLower (TrimSpace h)) = Some \<lparr>ceIsCF = b, ceCheckedAt = t2\<rparr>"
  using assms by (auto simp: IsCloudflare_def Let_def update_conv split: option.splits if_splits)

lemma blocked_nonempty: "IsBlocked g h \<Longrightarrow> ToLower (TrimSpace h) \<noteq> []"
  by (auto simp: IsBlocked_def Let_def split: if_splits)

text \<open>The two ways a decision comes about: without looking at the cache, or from one bit.\<close>

lemma Decide_cases:
  fixes a :: AutoRouter
  obtains (fixed) r where "\<And>a' resolver t1 t2. arConfig a' = arConfig a \<Longrightarrow> arGfw a' = arGfw a \<Longrightarrow>
      Decide resolver t1 t2 h a' = (r, a')"
  | (by_cf) f where "IsBlocked (arGfw a) h"
      "\<And>a' resolver t1 t2. arConfig a' = arConfig a \<Longrightarrow> arGfw a' = arGfw a \<Longrightarrow>
      Decide resolver t1 t2 h a' = (case IsCloudflare resolver t1 t2 h a' of (b, a'') \<Rightarrow> (f b, a''))"
proof (cases "arMode (arConfig a) \<in> {[], ''gas'', ''v2ray''} \<or> \<not> IsBlocked (arGfw a) h")
  case True
  show ?thesis
  proof (rule fixed)
    fix a' :: AutoRouter and resolver t1 t2
    assume "arConfig a' = arConfig a" "arGfw a' = arGfw a"
    then show "Decide resolver t1 t2 h a' = (fst (Decide None 0 0 h a), a')"
      using True by (auto simp: Decide_def Let_def)
  qed
next
  case False
  let ?f = "\<lambda>b. fst (Decide None 0 0 h (a\<lparr>cfCache := [(ToLower (TrimSpace h), \<lparr>ceIsCF = b, ceCheckedAt = 0\<rparr>)]\<rparr>))"
  have ne: "ToLower (TrimSpace h) \<noteq> []" using False blocked_nonempty by blast
  have hit: "IsCloudflare None 0 0 h (a\<lparr>cfCache := [(ToLower (TrimSpace h), \<lparr>ceIsCF = b, ceCheckedAt = 0\<rparr>)]\<rparr>) =
      (b, a\<lparr>cfCache := [(ToLower (TrimSpace h), \<lparr>ceIsCF = b, ceCheckedAt = 0\<rparr>)]\<rparr>)" for b
    using ne by (subst IsCloudflare_hit) (auto simp: cfCacheTTL_def)
  show ?thesis
  proof (rule by_cf [of ?f])
    show "IsBlocked (arGfw a) h" using False by blast
    fix a' :: AutoRouter and resolver t1 t2
    assume "arConfig a' = arConfig a" "arGfw a' = arGfw a"
    then show "Decide resolver t1 t2 h a' = (case IsCloudflare resolver t1 t2 h a' of (b, a'') \<Rightarrow> (?f b, a''))"
      using False hit by (auto simp: Decide_def Let_def split: prod.split)
  qed
qed



end
