(* ===== verification/IdStore.thy ===== *)
theory IdStore
  imports GoPrelude
begin

text \<open>
  Lists of records with an identifier: the loops that the rule manager and the V2Ray manager share,
  and their contract.

  \<^item> \<open>replaceFirst\<close> and \<open>deleteFirst\<close> are the loops \<open>for i, x := range xs { if x.ID == id { ...; break } }\<close>
    of the \<open>Update\<close> and \<open>Delete\<close> methods; \<open>findById\<close> is the lookup loop.
  \<^item> The locale \<open>id_store\<close> states what such a store promises, over the operations of a component: the
    client's lemmas say that any sequence of additions with fresh identifiers, updates and
    deletions acts on the store as on a finite map.
\<close>

section \<open>The loops\<close>

fun replaceFirst :: "('a \<Rightarrow> str) \<Rightarrow> 'a \<Rightarrow> 'a list \<Rightarrow> 'a list" where
  "replaceFirst ident x [] = []"
| "replaceFirst ident x (y # ys) = (if ident y = ident x then x # ys else y # replaceFirst ident x ys)"

fun deleteFirst :: "('a \<Rightarrow> str) \<Rightarrow> str \<Rightarrow> 'a list \<Rightarrow> 'a list" where
  "deleteFirst ident i [] = []"
| "deleteFirst ident i (y # ys) = (if ident y = i then ys else y # deleteFirst ident i ys)"

fun findById :: "('a \<Rightarrow> str) \<Rightarrow> str \<Rightarrow> 'a list \<Rightarrow> 'a option" where
  "findById ident i [] = None"
| "findById ident i (y # ys) = (if ident y = i then Some y else findById ident i ys)"

definition uniqueIds :: "('a \<Rightarrow> str) \<Rightarrow> 'a list \<Rightarrow> bool" where
  "uniqueIds ident xs = distinct (map ident xs)"

named_theorems id_list \<open>what the loops do to identifiers and lookups\<close>

lemma findById_None [id_list]: "findById ident i xs = None \<longleftrightarrow> i \<notin> ident ` set xs"
  by (induction xs) auto

lemma findById_SomeD: "findById ident i xs = Some x \<Longrightarrow> x \<in> set xs \<and> ident x = i"
  by (induction xs) (auto split: if_splits)

lemma findById_mem: "uniqueIds ident xs \<Longrightarrow> x \<in> set xs \<Longrightarrow> findById ident (ident x) xs = Some x"
  by (induction xs) (auto simp: uniqueIds_def)

lemma findById_append [id_list]:
  "findById ident i (xs @ ys) = (case findById ident i xs of Some x \<Rightarrow> Some x | None \<Rightarrow> findById ident i ys)"
  by (induction xs) auto

lemma map_replaceFirst [id_list]: "map ident (replaceFirst ident x xs) = map ident xs"
  by (induction xs) auto

lemma map_deleteFirst [id_list]: "map ident (deleteFirst ident i xs) = remove1 i (map ident xs)"
  by (induction xs) auto

lemma findById_replaceFirst [id_list]:
  "findById ident i (replaceFirst ident x xs) =
     (if i = ident x \<and> i \<in> ident ` set xs then Some x else findById ident i xs)"
  by (induction xs) auto

lemma findById_deleteFirst [id_list]:
  "uniqueIds ident xs \<Longrightarrow> findById ident i (deleteFirst ident j xs) = (if i = j then None else findById ident i xs)"
  by (induction xs) (auto simp: uniqueIds_def findById_None)

section \<open>The contract\<close>

text \<open>\<open>norm\<close> is what the component does to an entry it is given; \<open>setId\<close> installs the generated
  identifier.\<close>

datatype 'a store_op = Add str 'a | Upd 'a | Del str

locale id_store =
  fixes ident :: "'a \<Rightarrow> str" and setId :: "str \<Rightarrow> 'a \<Rightarrow> 'a" and norm :: "'a \<Rightarrow> 'a"
    and items :: "'s \<Rightarrow> 'a list"
    and add :: "str \<Rightarrow> 'a \<Rightarrow> 's \<Rightarrow> 's" and upd :: "'a \<Rightarrow> 's \<Rightarrow> 's" and del :: "str \<Rightarrow> 's \<Rightarrow> 's"
  assumes ident_setId: "ident (setId i x) = i" and ident_norm: "ident (norm x) = ident x"
    and items_add: "items (add i x s) = items s @ [norm (setId i x)]"
    and items_upd: "items (upd x s) = replaceFirst ident (norm x) (items s)"
    and items_del: "items (del i s) = deleteFirst ident i (items s)"
begin

definition lookup :: "'s \<Rightarrow> str \<Rightarrow> 'a option" where
  "lookup s i = findById ident i (items s)"

definition uniq :: "'s \<Rightarrow> bool" where
  "uniq s = uniqueIds ident (items s)"

fun apply_op :: "'a store_op \<Rightarrow> 's \<Rightarrow> 's" where
  "apply_op (Add i x) s = add i x s"
| "apply_op (Upd x) s = upd x s"
| "apply_op (Del i) s = del i s"

fun map_op :: "'a store_op \<Rightarrow> (str \<Rightarrow> 'a option) \<Rightarrow> str \<Rightarrow> 'a option" where
  "map_op (Add i x) m = m(i \<mapsto> norm (setId i x))"
| "map_op (Upd x) m = (if m (ident x) = None then m else m(ident x \<mapsto> norm x))"
| "map_op (Del i) m = m(i := None)"

fun fresh_ops :: "'a store_op list \<Rightarrow> (str \<Rightarrow> 'a option) \<Rightarrow> bool" where
  "fresh_ops [] m = True"
| "fresh_ops (o1 # ops) m = ((case o1 of Add i x \<Rightarrow> m i = None | _ \<Rightarrow> True) \<and> fresh_ops ops (map_op o1 m))"

lemma apply_op_uniq:
  assumes "uniq s" and "case o1 of Add i x \<Rightarrow> lookup s i = None | _ \<Rightarrow> True"
  shows "uniq (apply_op o1 s)"
  using assms
  by (cases o1) (auto simp: uniq_def uniqueIds_def lookup_def items_add items_upd items_del id_list
      ident_norm ident_setId distinct_remove1 simp flip: set_map)

lemma apply_op_lookup:
  assumes "uniq s" and "case o1 of Add i x \<Rightarrow> lookup s i = None | _ \<Rightarrow> True"
  shows "lookup (apply_op o1 s) = map_op o1 (lookup s)"
proof (cases o1)
  case (Add i x)
  then show ?thesis using assms
    by (auto simp: lookup_def items_add findById_append ident_norm ident_setId fun_eq_iff split: option.split)
next
  case (Upd x)
  then show ?thesis using assms
    by (auto simp: lookup_def items_upd id_list ident_norm fun_eq_iff)
next
  case (Del i)
  then show ?thesis using assms by (auto simp: lookup_def items_del uniq_def id_list fun_eq_iff)
qed

text \<open>The refinement: the store after any such operations is the map after the same operations.\<close>

lemma run_refines_map:
  "uniq s \<Longrightarrow> fresh_ops ops (lookup s) \<Longrightarrow>
   uniq (fold apply_op ops s) \<and> lookup (fold apply_op ops s) = fold map_op ops (lookup s)"
proof (induction ops arbitrary: s)
  case (Cons o1 ops)
  then have c: "case o1 of Add i x \<Rightarrow> lookup s i = None | _ \<Rightarrow> True" by simp
  show ?case using Cons apply_op_uniq [OF Cons.prems(1) c] apply_op_lookup [OF Cons.prems(1) c] by simp
qed simp

lemma add_then_del:
  assumes "uniq s" and "lookup s i = None"
  shows "items (del i (add i x s)) = items s"
proof -
  have "deleteFirst ident i (xs @ [norm (setId i x)]) = xs" if "i \<notin> ident ` set xs" for xs
    using that by (induction xs) (auto simp: ident_norm ident_setId)
  then show ?thesis using assms(2) by (simp add: items_del items_add lookup_def findById_None)
qed

end

end
