(* ===== verification/RuleManager.thy ===== *)
theory RuleManager
  imports AutoRouting IdStore
begin

text \<open>
  The rule manager of \<open>src/proxy/proxy.go\<close>: the persisted configuration (site groups, upstreams, DNS
  nodes, ECH profiles, settings), the rules built from it, and the choice of a rule for a host.

  \<^item> \<open>RuleManager\<close> is the struct with its two files. A file holds the struct that its JSON text decodes
    to, or the error that reading or decoding it gives; it is absent before the first save. A save
    may fail: its argument \<open>w\<close> is the error of the write, if any. Saving counts a call of
    \<open>triggerConfigSaved\<close>.
  \<^item> The methods hold the mutex for their whole body or for the assignment before the save; each is
    one function on the state. \<open>generateID\<close> reads the clock: the identifier is an argument.
  \<^item> \<open>matchRule\<close> gives the rule, the router after its cache was consulted, and the route event.
\<close>

section \<open>State\<close>

record SettingsConfig =
  scListenPort :: str
  scListenHost :: str
  scSocksAddr :: str
  scSocksHost :: str
  scSocksPort :: str
  scServerHost :: str
  scServerAuth :: str
  scCloseToTray :: "bool option"
  scAutoStart :: "bool option"
  scShowMainWindowOnAutoStart :: "bool option"
  scAutoEnableProxyOnAutoStart :: "bool option"
  scAutoRouting :: AutoRoutingConfig
  scTUN :: TUNConfig
  scLanguage :: str
  scTheme :: str
  scCountry :: str
  scCloudflareConfig :: CloudflareConfig

record RulesConfig =
  rcSiteGroups :: "SiteGroup list"
  rcUpstreams :: "Upstream list"
  rcDNSNodes :: "DNSNode list"
  rcECHProfiles :: "ECHProfile list"

record RuleManager =
  rules :: "Rule list"
  siteGroups :: "SiteGroup list"
  upstreams :: "Upstream list"
  dnsNodes :: "DNSNode list"
  echProfiles :: "ECHProfile list"
  cloudflareConfig :: CloudflareConfig
  tunConfig :: TUNConfig
  closeToTray :: bool
  autoStart :: bool
  showMainOnAutoStart :: bool
  autoEnableProxyOnAutoStart :: bool
  serverHost :: str
  serverAuth :: str
  listenPort :: str
  listenHost :: str
  socksAddr :: str
  socksHost :: str
  socksPort :: str
  autoRouter :: "AutoRouter option"
  autoRoutingConfig :: AutoRoutingConfig
  language :: str
  theme :: str
  country :: str
  settingsFile :: "SettingsConfig go option"
  rulesFile :: "RulesConfig go option"
  configSaved :: nat

definition NewRuleManager :: "SettingsConfig go option \<Rightarrow> RulesConfig go option \<Rightarrow> RuleManager" where
  "NewRuleManager settings rulesF =
     \<lparr>rules = [], siteGroups = [], upstreams = [], dnsNodes = [], echProfiles = [],
      cloudflareConfig = \<lparr>cfPreferredIPs = [], cfAutoUpdate = False, cfAPIKey = []\<rparr>,
      tunConfig = \<lparr>tunEnabled = False, tunMTU = 0, tunDNSHijack = False, tunAutoRoute = False, tunStrictRoute = False\<rparr>,
      closeToTray = True, autoStart = False, showMainOnAutoStart = True, autoEnableProxyOnAutoStart = False,
      serverHost = [], serverAuth = [], listenPort = [], listenHost = [], socksAddr = [], socksHost = [], socksPort = [],
      autoRouter = None, autoRoutingConfig = \<lparr>arMode = [], arGFWListURL = [], arLastUpdate = []\<rparr>,
      language = [], theme = [], country = [],
      settingsFile = settings, rulesFile = rulesF, configSaved = 0\<rparr>"

section \<open>Choosing a rule\<close>

definition SetRules :: "Rule list \<Rightarrow> RuleManager \<Rightarrow> RuleManager" where
  "SetRules rs rm = rm\<lparr>rules := rs\<rparr>"

fun bestRule :: "(str \<Rightarrow> str \<Rightarrow> bool option) \<Rightarrow> str \<Rightarrow> Rule list \<Rightarrow> Rule \<times> int \<Rightarrow> Rule \<times> int" where
  "bestRule re host [] acc = acc"
| "bestRule re host (rule # rs) (best, bestScore) =
     (if \<not> rEnabled rule then bestRule re host rs (best, bestScore)
      else
        let score = domainMatchScore re host (rDomain rule) in
        if score \<ge> 0 \<and> score > bestScore then bestRule re host rs (rule, score)
        else bestRule re host rs (best, bestScore))"

record route_env =
  reMatch :: "str \<Rightarrow> str \<Rightarrow> bool option"
  reResolver :: ip_resolver
  reT1 :: int
  reT2 :: int

definition matchRule :: "route_env \<Rightarrow> str \<Rightarrow> str \<Rightarrow> RuleManager \<Rightarrow> Rule \<times> RuleManager \<times> (str \<times> str)" where
  "matchRule env host0 mode0 r =
     (let host = normalizeHost host0; mode = ToLower (TrimSpace mode0);
          autoMode = arMode (autoRoutingConfig r) in
      if mode = ''v2ray'' then (zeroRule\<lparr>rMode := ''v2ray'', rEnabled := True\<rparr>, r, (host, ''v2ray''))
      else if mode = ''gas'' then (zeroRule\<lparr>rMode := ''gas'', rEnabled := True\<rparr>, r, (host, ''gas''))
      else if autoRouter r \<noteq> None \<and> autoMode = ''v2ray'' then
        (zeroRule\<lparr>rMode := ''v2ray'', rEnabled := True, rAutoRouted := True\<rparr>, r, (host, ''v2ray''))
      else if autoRouter r \<noteq> None \<and> autoMode = ''gas'' then
        (zeroRule\<lparr>rMode := ''gas'', rEnabled := True, rAutoRouted := True\<rparr>, r, (host, ''gas''))
      else
        let (best, bestScore) = bestRule (reMatch env) host (rules r) (zeroRule, - 1) in
        if bestScore \<ge> 0 then
          (let best1 = (if mode = ''transparent'' \<and> rMode best = ''mitm'' then best\<lparr>rMode := ''direct''\<rparr> else best) in
           (best1, r, (host, rMode best1)))
        else
          let direct = zeroRule\<lparr>rMode := ''direct'', rEnabled := True\<rparr> in
          case autoRouter r of
            None \<Rightarrow> (direct, r, (host, ''direct''))
          | Some ar \<Rightarrow>
              if autoMode = [] then (direct, r, (host, ''direct''))
              else
                let (autoRule, ar1) = Decide (reResolver env) (reT1 env) (reT2 env) host ar;
                    r1 = r\<lparr>autoRouter := Some ar1\<rparr> in
                if rMode autoRule \<noteq> ''direct'' then (autoRule, r1, (host, rMode autoRule))
                else (direct, r1, (host, ''direct'')))"

section \<open>ECH profiles and migration\<close>

definition findECHProfileByID :: "ECHProfile list \<Rightarrow> str \<Rightarrow> ECHProfile option" where
  "findECHProfileByID profiles id0 =
     (let i = TrimSpace id0 in if i = [] then None else findById echID i profiles)"

definition normalizeECHProfile :: "ECHProfile \<Rightarrow> ECHProfile" where
  "normalizeECHProfile p = \<lparr>echID = TrimSpace (echID p), echName = TrimSpace (echName p),
     echConfig = TrimSpace (echConfig p), echDiscoveryDomain = TrimSpace (echDiscoveryDomain p),
     echDoHUpstream = TrimSpace (echDoHUpstream p), echAutoUpdate = echAutoUpdate p\<rparr>"

text \<open>The profile found is updated in place, through the pointer.\<close>

fun updateFirst :: "('a \<Rightarrow> str) \<Rightarrow> str \<Rightarrow> ('a \<Rightarrow> 'a) \<Rightarrow> 'a list \<Rightarrow> 'a list" where
  "updateFirst ident i f [] = []"
| "updateFirst ident i f (x # xs) = (if ident x = i then f x # xs else x # updateFirst ident i f xs)"

definition legacyDefaults :: "ECHProfile \<Rightarrow> ECHProfile" where
  "legacyDefaults p0 =
     (let p = normalizeECHProfile p0;
          p1 = (if echName p = [] then p\<lparr>echName := ''Legacy Cloudflare''\<rparr> else p)
      in if echDiscoveryDomain p1 = [] then p1\<lparr>echDiscoveryDomain := ''crypto.cloudflare.com''\<rparr> else p1)"

definition ensureLegacyCloudflareProfile :: "ECHProfile list \<Rightarrow> ECHProfile list \<times> str" where
  "ensureLegacyCloudflareProfile profiles =
     (case findECHProfileByID profiles ''legacy-cloudflare'' of
        Some existing \<Rightarrow>
          (updateFirst echID ''legacy-cloudflare'' legacyDefaults profiles, echID (legacyDefaults existing))
      | None \<Rightarrow>
          (profiles @ [zeroECHProfile\<lparr>echID := ''legacy-cloudflare'', echName := ''Legacy Cloudflare'',
              echDiscoveryDomain := ''crypto.cloudflare.com'', echAutoUpdate := True\<rparr>], ''legacy-cloudflare''))"

fun migrateLegacyECHRules :: "SiteGroup list \<Rightarrow> ECHProfile list \<Rightarrow> SiteGroup list \<times> ECHProfile list \<times> bool" where
  "migrateLegacyECHRules [] profiles = ([], profiles, False)"
| "migrateLegacyECHRules (sg0 # sgs) profiles =
     (let sg = sg0\<lparr>sgECHProfileID := TrimSpace (sgECHProfileID sg0), sgECHDomain := TrimSpace (sgECHDomain sg0)\<rparr> in
      if sgECHEnabled sg \<and> sgECHProfileID sg = [] \<and> EqualFold (sgECHDomain sg) ''crypto.cloudflare.com'' then
        (let (profiles1, pid) = ensureLegacyCloudflareProfile profiles;
             (rest, profiles2, m) = migrateLegacyECHRules sgs profiles1
         in (sg\<lparr>sgECHProfileID := pid, sgECHDomain := []\<rparr> # rest, profiles2, True))
      else
        let (rest, profiles2, m) = migrateLegacyECHRules sgs profiles in (sg # rest, profiles2, m))"

definition websiteTable :: "(str list \<times> str) list" where
  "websiteTable =
    [([''google.com'', ''youtube.com'', ''gstatic.com'', ''googlevideo.com'', ''gvt1.com'',
      ''ytimg.com'', ''youtu.be'', ''ggpht.com''],
      ''google''),
     ([''github.com'', ''githubusercontent.com'', ''githubassets.com'', ''github.io''],
      ''github''),
     ([''telegram.org'', ''web.telegram.org'', ''cdn-telegram.org'', ''t.me'', ''telesco.pe'',
      ''tg.dev'', ''telegram.me''],
      ''telegram''),
     ([''proton.me''],
      ''proton''),
     ([''pixiv.net'', ''fanbox.cc'', ''pximg.net'', ''pixiv.org''],
      ''pixiv''),
     ([''nyaa.si''],
      ''nyaa''),
     ([''wikipedia.org'', ''wikimedia.org'', ''mediawiki.org'', ''wikibooks.org'', ''wikidata.org'',
      ''wikifunctions.org'', ''wikinews.org'', ''wikiquote.org'', ''wikisource.org'',
      ''wikiversity.org'', ''wikivoyage.org'', ''wiktionary.org''],
      ''wikipedia''),
     ([''e-hentai.org'', ''exhentai.org'', ''ehgt.org'', ''hentaiverse.org'', ''ehwiki.org'',
      ''ehtracker.org''],
      ''ehentai''),
     ([''facebook.com'', ''fbcdn.net'', ''instagram.com'', ''cdninstagram.com'', ''instagr.am'',
      ''ig.me'', ''whatsapp.com'', ''whatsapp.net''],
      ''meta''),
     ([''twitter.com'', ''x.com'', ''t.co'', ''twimg.com''],
      ''x''),
     ([''steamcommunity.com'', ''steampowered.com''],
      ''steam''),
     ([''mega.nz'', ''mega.io'', ''mega.co.nz''],
      ''mega''),
     ([''dailymotion.com''],
      ''dailymotion''),
     ([''duckduckgo.com''],
      ''duckduckgo''),
     ([''reddit.com'', ''redd.it'', ''redditmedia.com'', ''redditstatic.com''],
      ''reddit''),
     ([''twitch.tv''],
      ''twitch''),
     ([''bbc.com'', ''bbc.co.uk'', ''bbci.co.uk''],
      ''bbc'')]"

definition siteOfTokens :: "str list \<Rightarrow> str option" where
  "siteOfTokens tokens =
     map_option snd (find (\<lambda>(domains, _). list_ex (\<lambda>t. list_ex (tokenMatchesDomain t) domains) tokens) websiteTable)"

fun secondLabel :: "str list \<Rightarrow> str option" where
  "secondLabel [] = None"
| "secondLabel (d0 # ds) =
     (let d = cleanWebsiteToken d0 in
      if d = [] \<or> d = ''off'' then secondLabel ds
      else
        let parts = Split d CHR ''.'' in
        Some (if length parts \<ge> 2 then parts ! (length parts - 2) else d))"

definition inferWebsiteFromSiteGroup :: "SiteGroup \<Rightarrow> str" where
  "inferWebsiteFromSiteGroup sg =
     (let tokens = [sgName sg, sgUpstream sg, sgSniFake sg] @ sgDomains sg in
      case siteOfTokens tokens of
        Some w \<Rightarrow> w
      | None \<Rightarrow>
          (case secondLabel (sgDomains sg) of
             Some w \<Rightarrow> w
           | None \<Rightarrow> (case secondLabel tokens of Some w \<Rightarrow> w | None \<Rightarrow> ''misc'')))"

section \<open>Building the rules\<close>

text \<open>The maps of \<open>buildRules\<close>: a later entry with the same key replaces an earlier one.\<close>

definition upstreamMap :: "Upstream list \<Rightarrow> str \<Rightarrow> str option" where
  "upstreamMap ups = map_of (rev (map (\<lambda>u. (upID u, upAddress u)) (filter (\<lambda>u. upEnabled u \<and> upAddress u \<noteq> []) ups)))"

definition echProfileMap :: "ECHProfile list \<Rightarrow> str \<Rightarrow> ECHProfile option" where
  "echProfileMap ps = map_of (rev (map (\<lambda>p. (echID p, p)) ps))"

definition resolveUp :: "Upstream list \<Rightarrow> str \<Rightarrow> str" where
  "resolveUp ups u = (case upstreamMap ups u of Some addr \<Rightarrow> addr | None \<Rightarrow> u)"

definition groupRules :: "Upstream list \<Rightarrow> ECHProfile list \<Rightarrow> SiteGroup \<Rightarrow> Rule list" where
  "groupRules ups ps sg =
     (if \<not> sgEnabled sg then []
      else
        let echProfile = (if sgECHProfileID sg \<noteq> [] then
              (case echProfileMap ps (sgECHProfileID sg) of Some p \<Rightarrow> p | None \<Rightarrow> zeroECHProfile)
              else zeroECHProfile) in
        map (\<lambda>domain. zeroRule\<lparr>
          rDomain := domain, rMode := sgMode sg, rUpstream := resolveUp ups (sgUpstream sg),
          rUpstreams := map (resolveUp ups) (sgUpstreams sg), rDNSMode := normalizeDNSMode (sgDNSMode sg),
          rSniFake := sgSniFake sg, rConnectPolicy := TrimSpace (sgConnectPolicy sg),
          rSniPolicy := TrimSpace (sgSniPolicy sg), rEnabled := True, rSiteID := sgID sg,
          rECHEnabled := sgECHEnabled sg, rECHProfileID := sgECHProfileID sg, rUseCFPool := sgUseCFPool sg,
          rECHDiscoveryDomain := echDiscoveryDomain echProfile, rECHDoHUpstream := echDoHUpstream echProfile,
          rECHAutoUpdate := echAutoUpdate echProfile, rCertVerify := sgCertVerify sg\<rparr>) (sgDomains sg))"

definition builtRules :: "RuleManager \<Rightarrow> Rule list" where
  "builtRules rm = concat (map (groupRules (upstreams rm) (echProfiles rm)) (siteGroups rm))"

definition buildRules :: "RuleManager \<Rightarrow> RuleManager" where
  "buildRules rm = rm\<lparr>rules := builtRules rm\<rparr>"

section \<open>Settings\<close>

definition normalizeTUNConfig :: "bool \<Rightarrow> TUNConfig \<Rightarrow> TUNConfig" where
  "normalizeTUNConfig windows cfg =
     (let cfg1 = (if tunMTU cfg \<le> 0 then cfg\<lparr>tunMTU := 9000\<rparr> else cfg)
      in if windows then cfg1\<lparr>tunStrictRoute := False\<rparr> else cfg1)"

definition orDefault :: "str \<Rightarrow> str \<Rightarrow> str" where
  "orDefault s d = (if s = [] then d else s)"

definition applySettingsDefaults :: "bool \<Rightarrow> RuleManager \<Rightarrow> RuleManager" where
  "applySettingsDefaults windows rm = rm\<lparr>
     listenPort := orDefault (listenPort rm) ''8080'',
     listenHost := orDefault (listenHost rm) ''127.0.0.1'',
     socksAddr := orDefault (socksAddr rm) ''127.0.0.1:1080'',
     socksHost := orDefault (socksHost rm) ''127.0.0.1'',
     socksPort := orDefault (socksPort rm) ''1080'',
     tunConfig := normalizeTUNConfig windows (tunConfig rm)\<rparr>"

definition settingsOf :: "bool \<Rightarrow> RuleManager \<Rightarrow> SettingsConfig" where
  "settingsOf windows rm =
     \<lparr>scListenPort = orDefault (listenPort rm) ''8080'', scListenHost = orDefault (listenHost rm) ''127.0.0.1'',
      scSocksAddr = orDefault (socksAddr rm) ''127.0.0.1:1080'', scSocksHost = orDefault (socksHost rm) ''127.0.0.1'',
      scSocksPort = orDefault (socksPort rm) ''1080'', scServerHost = serverHost rm, scServerAuth = serverAuth rm,
      scCloseToTray = Some (closeToTray rm), scAutoStart = Some (autoStart rm),
      scShowMainWindowOnAutoStart = Some (showMainOnAutoStart rm),
      scAutoEnableProxyOnAutoStart = Some (autoEnableProxyOnAutoStart rm),
      scAutoRouting = autoRoutingConfig rm, scTUN = normalizeTUNConfig windows (tunConfig rm),
      scLanguage = language rm, scTheme = theme rm, scCountry = country rm,
      scCloudflareConfig = cloudflareConfig rm\<rparr>"

definition saveSettingsConfig :: "bool \<Rightarrow> str option \<Rightarrow> RuleManager \<Rightarrow> RuleManager \<times> unit go" where
  "saveSettingsConfig windows w rm =
     (case w of
        Some e \<Rightarrow> (rm, Err e)
      | None \<Rightarrow> (rm\<lparr>settingsFile := Some (Ok (settingsOf windows rm)), configSaved := configSaved rm + 1\<rparr>, Ok ()))"

definition rulesOf :: "RuleManager \<Rightarrow> RulesConfig" where
  "rulesOf rm = \<lparr>rcSiteGroups = siteGroups rm, rcUpstreams = upstreams rm, rcDNSNodes = dnsNodes rm,
     rcECHProfiles = echProfiles rm\<rparr>"

definition saveRulesConfig :: "str option \<Rightarrow> RuleManager \<Rightarrow> RuleManager \<times> unit go" where
  "saveRulesConfig w rm =
     (case w of
        Some e \<Rightarrow> (rm, Err e)
      | None \<Rightarrow> (rm\<lparr>rulesFile := Some (Ok (rulesOf rm)), configSaved := configSaved rm + 1\<rparr>, Ok ()))"

definition saveDefaultSettingsConfig :: "bool \<Rightarrow> str option \<Rightarrow> RuleManager \<Rightarrow> RuleManager \<times> unit go" where
  "saveDefaultSettingsConfig windows w rm =
     saveSettingsConfig windows w (applySettingsDefaults windows
       (rm\<lparr>closeToTray := True, autoStart := False, showMainOnAutoStart := True, autoEnableProxyOnAutoStart := False\<rparr>))"

definition applySettings :: "bool \<Rightarrow> SettingsConfig \<Rightarrow> RuleManager \<Rightarrow> RuleManager" where
  "applySettings windows config rm =
     (let rm1 = rm\<lparr>closeToTray := True, autoStart := False, showMainOnAutoStart := True,
            autoEnableProxyOnAutoStart := False, cloudflareConfig := scCloudflareConfig config,
            tunConfig := scTUN config, serverHost := scServerHost config, serverAuth := scServerAuth config,
            listenPort := orDefault (scListenPort config) (listenPort rm),
            listenHost := orDefault (scListenHost config) (listenHost rm),
            socksAddr := orDefault (scSocksAddr config) (socksAddr rm),
            socksHost := orDefault (scSocksHost config) (socksHost rm),
            socksPort := orDefault (scSocksPort config) (socksPort rm)\<rparr>;
          rm2 = (if scSocksAddr config \<noteq> [] \<and> scSocksHost config = [] \<and> scSocksPort config = [] then
                   (case SplitHostPort (scSocksAddr config) of
                      Ok (h, p) \<Rightarrow> rm1\<lparr>socksHost := h, socksPort := p\<rparr>
                    | _ \<Rightarrow> rm1)
                 else rm1);
          rm3 = rm2\<lparr>autoRoutingConfig := scAutoRouting config, language := scLanguage config,
            theme := scTheme config, country := scCountry config,
            closeToTray := (case scCloseToTray config of Some b \<Rightarrow> b | None \<Rightarrow> closeToTray rm2),
            autoStart := (case scAutoStart config of Some b \<Rightarrow> b | None \<Rightarrow> autoStart rm2),
            showMainOnAutoStart := (case scShowMainWindowOnAutoStart config of Some b \<Rightarrow> b | None \<Rightarrow> showMainOnAutoStart rm2),
            autoEnableProxyOnAutoStart :=
              (case scAutoEnableProxyOnAutoStart config of Some b \<Rightarrow> b | None \<Rightarrow> autoEnableProxyOnAutoStart rm2)\<rparr>
      in applySettingsDefaults windows rm3)"

definition loadSettingsConfig :: "bool \<Rightarrow> str option \<Rightarrow> RuleManager \<Rightarrow> RuleManager \<times> unit go" where
  "loadSettingsConfig windows w rm =
     (case settingsFile rm of
        None \<Rightarrow> saveDefaultSettingsConfig windows w rm
      | Some (Ok config) \<Rightarrow> (applySettings windows config rm, Ok ())
      | Some (Err e) \<Rightarrow> (rm, Err e)
      | Some Panic \<Rightarrow> (rm, Panic))"

definition defaultDNSNodes :: "DNSNode list" where
  "defaultDNSNodes = []"

definition defaultGoogleDomains :: "str list" where
  "defaultGoogleDomains =
    [''*.google.com'', ''*.googleapis.com'', ''*.googlevideo.com'', ''*.youtube.com'',
     ''*.ytimg.com'', ''*.ggpht.com'', ''*.googleusercontent.com'', ''*.gstatic.com'',
     ''*.yt3.ggpht.com'', ''*.googleadservices.com'', ''*.googlesyndication.com'',
     ''*.google-analytics.com'', ''*.doubleclick.net'', ''*.blogger.com'', ''*.blogspot.com'',
     ''*.googleblog.com'', ''*.youtu.be'', ''*.gmail.com'', ''*.googlemail.com'',
     ''*.withgoogle.com'', ''*.goo.gl'', ''*.app.goo.gl'', ''*.chrome.com'', ''*.chromium.org'',
     ''*.g.co'', ''*.android.com'', ''*.androidify.com'', ''*.waymo.com'', ''*.nest.com'',
     ''*.fitbit.com'', ''*.wearos.com'', ''*.adsense.com'', ''*.admob.com'', ''*.firebase.com'',
     ''*.firebaseio.com'', ''*.firebaseapp.com'', ''*.cloud.google.com'', ''*.appspot.com'',
     ''*.googleapi.com'', ''*.googleapiclient.com'', ''*.googlecode.com'', ''*.flutter.dev'',
     ''*.dartlang.org'', ''*.golang.org'', ''*.googlesource.com'', ''*.googlehosted.com'',
     ''*.googlezip.net'', ''*.googlecommerce.com'', ''*.googletagmanager.com'',
     ''*.googleoptimize.com'', ''*.googleweblight.com'', ''*.googlelabs.com'', ''*.google.info'',
     ''*.google.net'', ''*.google.org'', ''*.google.eu'', ''*.1e100.net'', ''*.withyoutube.com'',
     ''*.youtubekids.com'', ''*.youtubeeducation.com'', ''*.googletraveladservices.com'',
     ''*.googlegroups.com'', ''*.googlechat.com'', ''*.googleplus.com'', ''*.googlehangouts.com'',
     ''*.googleplay.com'', ''*.googledrive.com'', ''*.googlephotos.com'', ''*.googlecalendar.com'',
     ''*.googlekeep.com'', ''*.googlepodcasts.com'', ''*.googlebooks.com'', ''*.googlenews.com'',
     ''*.googlefinance.com'', ''*.googletranslate.com'', ''*.googlemaps.com'',
     ''*.googleearth.com'', ''*.googleclassroom.com'', ''*.googlemeet.com'', ''*.googleforms.com'',
     ''*.googleslides.com'', ''*.googlesites.com'', ''*.googledocs.com'', ''*.googlesheets.com'',
     ''*.googleads.google.com'', ''*.googlehosted.com'', ''*.googlezip.net'',
     ''*.googlecommerce.com'', ''*.googletagmanager.com'', ''*.googleoptimize.com'',
     ''*.googleweblight.com'', ''*.googlelabs.com'', ''*.google.info'', ''*.google.net'',
     ''*.google.org'', ''*.google.eu'', ''*.google.us'', ''*.google.co'', ''*.google.ac'',
     ''*.google.ad'', ''*.google.ae'', ''*.google.af'', ''*.google.ag'', ''*.google.ai'',
     ''*.google.al'', ''*.google.am'', ''*.google.ao'', ''*.google.ar'', ''*.google.as'',
     ''*.google.at'', ''*.google.au'', ''*.google.az'', ''*.google.ba'', ''*.google.bd'',
     ''*.google.be'', ''*.google.bf'', ''*.google.bg'', ''*.google.bh'', ''*.google.bi'',
     ''*.google.bj'', ''*.google.bn'', ''*.google.bo'', ''*.google.br'', ''*.google.bs'',
     ''*.google.bt'', ''*.google.bw'', ''*.google.by'', ''*.google.bz'', ''*.google.ca'',
     ''*.google.cc'', ''*.google.cd'', ''*.google.cf'', ''*.google.cg'', ''*.google.ch'',
     ''*.google.ci'', ''*.google.cl'', ''*.google.cm'', ''*.google.cn'', ''*.google.co.ao'',
     ''*.google.co.bw'', ''*.google.co.ck'', ''*.google.co.cr'', ''*.google.co.id'',
     ''*.google.co.il'', ''*.google.co.in'', ''*.google.co.jp'', ''*.google.co.ke'',
     ''*.google.co.kr'', ''*.google.co.ls'', ''*.google.co.ma'', ''*.google.co.nz'',
     ''*.google.co.th'', ''*.google.co.tz'', ''*.google.co.ug'', ''*.google.co.uk'',
     ''*.google.co.uz'', ''*.google.co.ve'', ''*.google.co.vi'', ''*.google.co.za'',
     ''*.google.co.zm'', ''*.google.co.zw'', ''*.google.com.af'', ''*.google.com.ag'',
     ''*.google.com.ai'', ''*.google.com.ar'', ''*.google.com.au'', ''*.google.com.bd'',
     ''*.google.com.bh'', ''*.google.com.bn'', ''*.google.com.bo'', ''*.google.com.br'',
     ''*.google.com.by'', ''*.google.com.bz'', ''*.google.com.cn'', ''*.google.com.co'',
     ''*.google.com.cu'', ''*.google.com.cy'', ''*.google.com.do'', ''*.google.com.ec'',
     ''*.google.com.eg'', ''*.google.com.et'', ''*.google.com.fj'', ''*.google.com.gh'',
     ''*.google.com.gi'', ''*.google.com.gt'', ''*.google.com.hk'', ''*.google.com.jm'',
     ''*.google.com.jo'', ''*.google.com.kh'', ''*.google.com.kw'', ''*.google.com.lb'',
     ''*.google.com.lc'', ''*.google.com.ly'', ''*.google.com.mt'', ''*.google.com.mx'',
     ''*.google.com.my'', ''*.google.com.na'', ''*.google.com.nf'', ''*.google.com.ng'',
     ''*.google.com.ni'', ''*.google.com.np'', ''*.google.com.nr'', ''*.google.com.om'',
     ''*.google.com.pa'', ''*.google.com.pe'', ''*.google.com.ph'', ''*.google.com.pk'',
     ''*.google.com.pl'', ''*.google.com.pr'', ''*.google.com.py'', ''*.google.com.qa'',
     ''*.google.com.ru'', ''*.google.com.sa'', ''*.google.com.sb'', ''*.google.com.sg'',
     ''*.google.com.sl'', ''*.google.com.sv'', ''*.google.com.tj'', ''*.google.com.tr'',
     ''*.google.com.tw'', ''*.google.com.ua'', ''*.google.com.uy'', ''*.google.com.vc'',
     ''*.google.com.ve'', ''*.google.com.vn'', ''*.google.cv'', ''*.google.cz'', ''*.google.de'',
     ''*.google.dj'', ''*.google.dk'', ''*.google.dm'', ''*.google.dz'', ''*.google.ee'',
     ''*.google.es'', ''*.google.fi'', ''*.google.fm'', ''*.google.fr'', ''*.google.ga'',
     ''*.google.ge'', ''*.google.gf'', ''*.google.gg'', ''*.google.gl'', ''*.google.gn'',
     ''*.google.gp'', ''*.google.gr'', ''*.google.gy'', ''*.google.hn'', ''*.google.hr'',
     ''*.google.ht'', ''*.google.hu'', ''*.google.ie'', ''*.google.im'', ''*.google.io'',
     ''*.google.iq'', ''*.google.is'', ''*.google.it'', ''*.google.je'', ''*.google.jo'',
     ''*.google.jobs'', ''*.google.jp'', ''*.google.kg'', ''*.google.ki'', ''*.google.kz'',
     ''*.google.la'', ''*.google.li'', ''*.google.lk'', ''*.google.lt'', ''*.google.lu'',
     ''*.google.lv'', ''*.google.md'', ''*.google.me'', ''*.google.mg'', ''*.google.mk'',
     ''*.google.ml'', ''*.google.mn'', ''*.google.ms'', ''*.google.mu'', ''*.google.mv'',
     ''*.google.mw'', ''*.google.ne'', ''*.google.nf'', ''*.google.nl'', ''*.google.no'',
     ''*.google.nr'', ''*.google.nu'', ''*.google.off.ai'', ''*.google.pk'', ''*.google.pl'',
     ''*.google.pn'', ''*.google.ps'', ''*.google.pt'', ''*.google.ro'', ''*.google.rs'',
     ''*.google.ru'', ''*.google.rw'', ''*.google.sc'', ''*.google.se'', ''*.google.sh'',
     ''*.google.si'', ''*.google.sk'', ''*.google.sm'', ''*.google.sn'', ''*.google.so'',
     ''*.google.st'', ''*.google.td'', ''*.google.tg'', ''*.google.tk'', ''*.google.tl'',
     ''*.google.tm'', ''*.google.tn'', ''*.google.to'', ''*.google.tt'', ''*.google.us'',
     ''*.google.uz'', ''*.google.vg'', ''*.google.vu'', ''*.google.ws'', ''*.google.cat'',
     ''google.com'', ''youtube.com'', ''googleblog.com'', ''blogger.com'', ''blogspot.com'',
     ''youtu.be'', ''gmail.com'', ''googlemail.com'', ''ggpht.com'', ''googlevideo.com'',
     ''ytimg.com'', ''googleusercontent.com'', ''googleapis.com'', ''gstatic.com'',
     ''yt3.ggpht.com'', ''googleadservices.com'', ''googlesyndication.com'',
     ''google-analytics.com'', ''doubleclick.net'', ''withgoogle.com'', ''goo.gl'', ''app.goo.gl'',
     ''chrome.com'', ''chromium.org'', ''g.co'', ''android.com'', ''androidify.com'',
     ''waymo.com'', ''nest.com'', ''fitbit.com'', ''wearos.com'', ''adsense.com'', ''admob.com'',
     ''firebase.com'', ''firebaseio.com'', ''firebaseapp.com'', ''cloud.google.com'',
     ''appspot.com'', ''googleapi.com'', ''googleapiclient.com'', ''googlecode.com'',
     ''flutter.dev'', ''dartlang.org'', ''golang.org'', ''googlesource.com'', ''googlehosted.com'',
     ''googlezip.net'', ''googlecommerce.com'', ''googletagmanager.com'', ''googleoptimize.com'',
     ''googleweblight.com'', ''googlelabs.com'', ''google.info'', ''google.net'', ''google.org'',
     ''google.eu'']"

definition defaultSiteGroups :: "SiteGroup list" where
  "defaultSiteGroups =
    [zeroSiteGroup\<lparr>sgID := ''google-youtube-full'',
       sgName := map char_of [218, 169, 216, 167, 217, 133, 217, 132, 32, 218, 175, 217, 136, 218, 175, 217, 132, 32, 217, 136, 32, 219, 140, 217, 136, 216, 170, 219, 140, 217, 136, 216, 168 :: nat],
       sgWebsite := ''google'', sgDomains := defaultGoogleDomains, sgMode := ''mitm'',
       sgUpstream := ''216.239.38.120:443'', sgSniFake := ''www.google.com'', sgEnabled := True,
       sgCertVerify := zeroCertVerify\<lparr>cvMode := ''allow_names'', cvNames :=
        [''*.google.com'', ''*.youtube.com'', ''*.googlevideo.com'', ''*.googleapis.com'',
        ''*.ytimg.com'', ''*.ggpht.com'', ''*.gstatic.com'', ''*.googleusercontent.com'',
        ''*.googleadservices.com'', ''*.googlesyndication.com'', ''*.doubleclick.net'',
        ''*.blogger.com'', ''*.blogspot.com'', ''*.youtu.be'', ''*.gmail.com'', ''*.android.com'',
        ''*.firebase.com'', ''*.cloud.google.com'', ''*.appspot.com'', ''*.flutter.dev'',
        ''*.dartlang.org'', ''*.golang.org'', ''*.googlesource.com'', ''*.1e100.net'']\<rparr>\<rparr>,
     zeroSiteGroup\<lparr>sgID := ''google-direct-rules'', sgName := ''Google Direct Access'', sgWebsite := ''google-direct'',
       sgDomains :=
        [''gemini.google.com'', ''aistudio.google.com'', ''notebooklm.google.com'',
        ''labs.google.com'', ''meet.google.com'', ''accounts.google.com'', ''ogs.google.com'',
        ''mail.google.com'', ''calendar.google.com'', ''drive.google.com'', ''docs.google.com'',
        ''chat.google.com'', ''photos.google.com'', ''maps.google.com'', ''myaccount.google.com'',
        ''contacts.google.com'', ''classroom.google.com'', ''keep.google.com'',
        ''play.google.com'', ''translate.google.com'', ''assistant.google.com'', ''lens.google.com''],
       sgMode := ''direct'', sgUpstream := ''direct'', sgSniFake := [], sgEnabled := True\<rparr>,
     zeroSiteGroup\<lparr>sgID := ''sni-rewrite-domains'', sgName := ''SNI Rewrite Domains'', sgWebsite := ''sni-rewrite'',
       sgDomains :=
        [''*.youtube.com'', ''*.youtu.be'', ''*.youtube-nocookie.com'', ''*.ytimg.com'',
        ''*.ggpht.com'', ''*.gvt1.com'', ''*.gvt2.com'', ''*.doubleclick.net'',
        ''*.googlesyndication.com'', ''*.googleadservices.com'', ''*.google-analytics.com'',
        ''*.googletagmanager.com'', ''*.googletagservices.com'', ''fonts.googleapis.com'',
        ''script.google.com''],
       sgMode := ''mitm'', sgUpstream := ''216.239.38.120:443'', sgSniFake := ''www.google.com'', sgEnabled := True\<rparr>]"

definition saveDefaultRulesConfig :: "str option \<Rightarrow> RuleManager \<Rightarrow> RuleManager \<times> unit go" where
  "saveDefaultRulesConfig w rm =
     saveRulesConfig w (buildRules (rm\<lparr>siteGroups := defaultSiteGroups, upstreams := [],
       dnsNodes := defaultDNSNodes, echProfiles := []\<rparr>))"

definition loadRulesConfig :: "str option \<Rightarrow> RuleManager \<Rightarrow> RuleManager \<times> unit go" where
  "loadRulesConfig w rm =
     (case rulesFile rm of
        None \<Rightarrow> saveDefaultRulesConfig w rm
      | Some (Ok config) \<Rightarrow>
          (rm\<lparr>siteGroups := rcSiteGroups config, upstreams := rcUpstreams config,
              dnsNodes := (if length (rcDNSNodes config) = 0 then defaultDNSNodes else rcDNSNodes config),
              echProfiles := rcECHProfiles config\<rparr>, Ok ())
      | Some (Err e) \<Rightarrow> (rm, Err e)
      | Some Panic \<Rightarrow> (rm, Panic))"

definition fillWebsite :: "SiteGroup \<Rightarrow> SiteGroup" where
  "fillWebsite sg0 =
     (let sg = sg0\<lparr>sgWebsite := TrimSpace (sgWebsite sg0)\<rparr>
      in if sgWebsite sg = [] then sg\<lparr>sgWebsite := inferWebsiteFromSiteGroup sg\<rparr> else sg)"

text \<open>The part of \<open>LoadConfig\<close> after the two files are read; \<open>w\<close> is the error of the save that follows a
  migration, which is only logged.\<close>

definition finishLoad :: "bool \<Rightarrow> str option \<Rightarrow> RuleManager \<Rightarrow> RuleManager" where
  "finishLoad windows w rm =
     (let rm1 = applySettingsDefaults windows
            (rm\<lparr>siteGroups := map (\<lambda>sg. sg\<lparr>sgDNSMode := normalizeDNSMode (sgDNSMode sg)\<rparr>) (siteGroups rm),
                echProfiles := map normalizeECHProfile (echProfiles rm)\<rparr>);
          noSite = list_ex (\<lambda>sg. TrimSpace (sgWebsite sg) = []) (siteGroups rm1);
          (sgs, ps, m) = migrateLegacyECHRules (map fillWebsite (siteGroups rm1)) (echProfiles rm1);
          rm2 = buildRules (rm1\<lparr>siteGroups := sgs, echProfiles := ps\<rparr>)
      in if noSite \<or> m then fst (saveRulesConfig w rm2) else rm2)"

definition LoadConfig :: "bool \<Rightarrow> str option \<Rightarrow> str option \<Rightarrow> str option \<Rightarrow> RuleManager \<Rightarrow> RuleManager \<times> unit go" where
  "LoadConfig windows w1 w2 w3 rm =
     (case loadSettingsConfig windows w1 rm of
        (rm1, Ok _) \<Rightarrow>
          (case loadRulesConfig w2 rm1 of
             (rm2, Ok _) \<Rightarrow> (finishLoad windows w3 rm2, Ok ())
           | (rm2, e) \<Rightarrow> (rm2, e))
      | (rm1, e) \<Rightarrow> (rm1, e))"

definition SaveConfig :: "bool \<Rightarrow> str option \<Rightarrow> str option \<Rightarrow> RuleManager \<Rightarrow> RuleManager \<times> unit go" where
  "SaveConfig windows w1 w2 rm =
     (case saveSettingsConfig windows w1 rm of
        (rm1, Ok _) \<Rightarrow> saveRulesConfig w2 rm1
      | (rm1, e) \<Rightarrow> (rm1, e))"

section \<open>Operations of the user interface\<close>

definition AddSiteGroup :: "str option \<Rightarrow> str \<Rightarrow> SiteGroup \<Rightarrow> RuleManager \<Rightarrow> RuleManager \<times> unit go" where
  "AddSiteGroup w newID sg rm =
     saveRulesConfig w (buildRules (rm\<lparr>siteGroups := siteGroups rm @ [sg\<lparr>sgID := newID, sgWebsite := TrimSpace (sgWebsite sg)\<rparr>]\<rparr>))"

definition UpdateSiteGroup :: "str option \<Rightarrow> SiteGroup \<Rightarrow> RuleManager \<Rightarrow> RuleManager \<times> unit go" where
  "UpdateSiteGroup w sg rm =
     saveRulesConfig w (buildRules (rm\<lparr>siteGroups := replaceFirst sgID (sg\<lparr>sgWebsite := TrimSpace (sgWebsite sg)\<rparr>) (siteGroups rm)\<rparr>))"

definition DeleteSiteGroup :: "str option \<Rightarrow> str \<Rightarrow> RuleManager \<Rightarrow> RuleManager \<times> unit go" where
  "DeleteSiteGroup w i rm =
     saveRulesConfig w (buildRules (rm\<lparr>siteGroups := deleteFirst sgID i (siteGroups rm)\<rparr>))"

definition AddUpstream :: "str option \<Rightarrow> str \<Rightarrow> Upstream \<Rightarrow> RuleManager \<Rightarrow> RuleManager \<times> unit go" where
  "AddUpstream w newID u rm = saveRulesConfig w (rm\<lparr>upstreams := upstreams rm @ [u\<lparr>upID := newID\<rparr>]\<rparr>)"

definition UpdateUpstream :: "str option \<Rightarrow> Upstream \<Rightarrow> RuleManager \<Rightarrow> RuleManager \<times> unit go" where
  "UpdateUpstream w u rm = saveRulesConfig w (rm\<lparr>upstreams := replaceFirst upID u (upstreams rm)\<rparr>)"

definition DeleteUpstream :: "str option \<Rightarrow> str \<Rightarrow> RuleManager \<Rightarrow> RuleManager \<times> unit go" where
  "DeleteUpstream w i rm = saveRulesConfig w (rm\<lparr>upstreams := deleteFirst upID i (upstreams rm)\<rparr>)"

definition AddDNSNode :: "str option \<Rightarrow> str \<Rightarrow> DNSNode \<Rightarrow> RuleManager \<Rightarrow> RuleManager \<times> unit go" where
  "AddDNSNode w newID n rm = saveRulesConfig w (rm\<lparr>dnsNodes := dnsNodes rm @ [n\<lparr>dnID := newID\<rparr>]\<rparr>)"

definition UpdateDNSNode :: "str option \<Rightarrow> DNSNode \<Rightarrow> RuleManager \<Rightarrow> RuleManager \<times> unit go" where
  "UpdateDNSNode w n rm = saveRulesConfig w (rm\<lparr>dnsNodes := replaceFirst dnID n (dnsNodes rm)\<rparr>)"

definition DeleteDNSNode :: "str option \<Rightarrow> str \<Rightarrow> RuleManager \<Rightarrow> RuleManager \<times> unit go" where
  "DeleteDNSNode w i rm = saveRulesConfig w (rm\<lparr>dnsNodes := deleteFirst dnID i (dnsNodes rm)\<rparr>)"

fun indexById :: "('a \<Rightarrow> str) \<Rightarrow> str \<Rightarrow> 'a list \<Rightarrow> nat option" where
  "indexById ident i [] = None"
| "indexById ident i (x # xs) = (if ident x = i then Some 0 else map_option Suc (indexById ident i xs))"

definition moveTo :: "nat \<Rightarrow> nat \<Rightarrow> 'a list \<Rightarrow> 'a list" where
  "moveTo src tgt xs =
     (let node = xs ! src; removed = take src xs @ drop (src + 1) xs; tail = drop tgt removed
      in take tgt removed @ [node] @ tail)"

definition SetDNSNodePriority :: "str option \<Rightarrow> str \<Rightarrow> int \<Rightarrow> RuleManager \<Rightarrow> RuleManager \<times> unit go" where
  "SetDNSNodePriority w i targetIndex0 rm =
     (case indexById dnID i (dnsNodes rm) of
        None \<Rightarrow> (rm, Err (''dns node '' @ i @ '' not found''))
      | Some srcIdx \<Rightarrow>
          let t1 = (if targetIndex0 < 0 then 0 else targetIndex0);
              targetIndex = (if t1 \<ge> int (length (dnsNodes rm)) then length (dnsNodes rm) - 1 else nat t1)
          in if srcIdx = targetIndex then (rm, Ok ())
             else saveRulesConfig w (rm\<lparr>dnsNodes := moveTo srcIdx targetIndex (dnsNodes rm)\<rparr>))"

definition UpsertECHProfile :: "str option \<Rightarrow> str \<Rightarrow> ECHProfile \<Rightarrow> RuleManager \<Rightarrow> RuleManager \<times> unit go" where
  "UpsertECHProfile w newID p0 rm =
     (let p = normalizeECHProfile p0;
          ps = (if echID p = [] then echProfiles rm @ [p\<lparr>echID := newID\<rparr>]
                else case findById echID (echID p) (echProfiles rm) of
                  Some _ \<Rightarrow> replaceFirst echID p (echProfiles rm)
                | None \<Rightarrow> echProfiles rm @ [p])
      in saveRulesConfig w (rm\<lparr>echProfiles := ps\<rparr>))"

definition DeleteECHProfile :: "str option \<Rightarrow> str \<Rightarrow> RuleManager \<Rightarrow> RuleManager \<times> unit go" where
  "DeleteECHProfile w i rm = saveRulesConfig w (rm\<lparr>echProfiles := deleteFirst echID i (echProfiles rm)\<rparr>)"

text \<open>\<open>base64.StdEncoding\<close> is an argument: \<open>decode\<close> and \<open>encode\<close>.\<close>

definition GetBinaryECHConfig :: "(str \<Rightarrow> bytes go) \<Rightarrow> str \<Rightarrow> RuleManager \<Rightarrow> bytes" where
  "GetBinaryECHConfig decode i rm =
     (case findById echID i (echProfiles rm) of
        None \<Rightarrow> []
      | Some p \<Rightarrow> (case decode (echConfig p) of Ok data \<Rightarrow> data | _ \<Rightarrow> []))"

definition UpdateECHProfileConfig :: "(bytes \<Rightarrow> str) \<Rightarrow> str option \<Rightarrow> str \<Rightarrow> bytes \<Rightarrow> RuleManager \<Rightarrow> RuleManager \<times> unit go" where
  "UpdateECHProfileConfig encode w profileID configBytes rm =
     (if profileID = [] \<or> length configBytes = 0 then (rm, Ok ())
      else
        let configBase64 = encode configBytes in
        case findById echID profileID (echProfiles rm) of
          None \<Rightarrow> (rm, Err (''profile '' @ profileID @ '' not found''))
        | Some p \<Rightarrow>
            if echConfig p = configBase64 then (rm, Ok ())
            else saveRulesConfig w (rm\<lparr>echProfiles := updateFirst echID profileID (\<lambda>p. p\<lparr>echConfig := configBase64\<rparr>) (echProfiles rm)\<rparr>))"

definition SetListenPort :: "str \<Rightarrow> RuleManager \<Rightarrow> RuleManager" where
  "SetListenPort port rm = rm\<lparr>listenPort := port\<rparr>"

definition SetListenHost :: "str \<Rightarrow> RuleManager \<Rightarrow> RuleManager" where
  "SetListenHost host rm = rm\<lparr>listenHost := host\<rparr>"

definition SetSocksAddr :: "str \<Rightarrow> RuleManager \<Rightarrow> RuleManager" where
  "SetSocksAddr addr rm =
     (let rm1 = rm\<lparr>socksAddr := addr\<rparr> in
      case SplitHostPort addr of Ok (h, p) \<Rightarrow> rm1\<lparr>socksHost := h, socksPort := p\<rparr> | _ \<Rightarrow> rm1)"

definition SetSocksHost :: "str \<Rightarrow> RuleManager \<Rightarrow> RuleManager" where
  "SetSocksHost host rm = rm\<lparr>socksHost := host\<rparr>"

definition SetSocksPort :: "str \<Rightarrow> RuleManager \<Rightarrow> RuleManager" where
  "SetSocksPort port rm = rm\<lparr>socksPort := port\<rparr>"

definition UpdateServerConfig :: "bool \<Rightarrow> str option \<Rightarrow> str \<Rightarrow> str \<Rightarrow> RuleManager \<Rightarrow> RuleManager \<times> unit go" where
  "UpdateServerConfig windows w host auth rm = saveSettingsConfig windows w (rm\<lparr>serverHost := host, serverAuth := auth\<rparr>)"

definition GetTUNConfig :: "bool \<Rightarrow> RuleManager \<Rightarrow> TUNConfig" where
  "GetTUNConfig windows rm = normalizeTUNConfig windows (tunConfig rm)"

definition SetCloseToTray :: "bool \<Rightarrow> str option \<Rightarrow> bool \<Rightarrow> RuleManager \<Rightarrow> RuleManager \<times> unit go" where
  "SetCloseToTray windows w enabled rm = saveSettingsConfig windows w (rm\<lparr>closeToTray := enabled\<rparr>)"

definition SetAutoStart :: "bool \<Rightarrow> str option \<Rightarrow> bool \<Rightarrow> RuleManager \<Rightarrow> RuleManager \<times> unit go" where
  "SetAutoStart windows w enabled rm = saveSettingsConfig windows w (rm\<lparr>autoStart := enabled\<rparr>)"

definition SetShowMainWindowOnAutoStart :: "bool \<Rightarrow> str option \<Rightarrow> bool \<Rightarrow> RuleManager \<Rightarrow> RuleManager \<times> unit go" where
  "SetShowMainWindowOnAutoStart windows w enabled rm = saveSettingsConfig windows w (rm\<lparr>showMainOnAutoStart := enabled\<rparr>)"

definition SetAutoEnableProxyOnAutoStart :: "bool \<Rightarrow> str option \<Rightarrow> bool \<Rightarrow> RuleManager \<Rightarrow> RuleManager \<times> unit go" where
  "SetAutoEnableProxyOnAutoStart windows w enabled rm =
     saveSettingsConfig windows w (rm\<lparr>autoEnableProxyOnAutoStart := enabled\<rparr>)"

definition SetLanguage :: "bool \<Rightarrow> str option \<Rightarrow> str \<Rightarrow> RuleManager \<Rightarrow> RuleManager \<times> unit go" where
  "SetLanguage windows w lang rm = saveSettingsConfig windows w (rm\<lparr>language := lang\<rparr>)"

definition GetTheme :: "RuleManager \<Rightarrow> str" where
  "GetTheme rm = (if theme rm = [] then ''light'' else theme rm)"

definition SetTheme :: "bool \<Rightarrow> str option \<Rightarrow> str \<Rightarrow> RuleManager \<Rightarrow> RuleManager \<times> unit go" where
  "SetTheme windows w t rm = saveSettingsConfig windows w (rm\<lparr>theme := t\<rparr>)"

definition GetCountry :: "RuleManager \<Rightarrow> str" where
  "GetCountry rm = (if country rm = [] then ''iran'' else country rm)"

definition SetCountry :: "bool \<Rightarrow> str option \<Rightarrow> str \<Rightarrow> RuleManager \<Rightarrow> RuleManager \<times> unit go" where
  "SetCountry windows w c rm = saveSettingsConfig windows w (rm\<lparr>country := c\<rparr>)"

definition UpdateCloudflareConfig :: "bool \<Rightarrow> str option \<Rightarrow> CloudflareConfig \<Rightarrow> RuleManager \<Rightarrow> RuleManager \<times> unit go" where
  "UpdateCloudflareConfig windows w cfg rm = saveSettingsConfig windows w (rm\<lparr>cloudflareConfig := cfg\<rparr>)"

definition UpdateTUNConfig :: "bool \<Rightarrow> str option \<Rightarrow> TUNConfig \<Rightarrow> RuleManager \<Rightarrow> RuleManager \<times> unit go" where
  "UpdateTUNConfig windows w cfg rm = saveSettingsConfig windows w (rm\<lparr>tunConfig := normalizeTUNConfig windows cfg\<rparr>)"

definition UpdateAutoRoutingConfig :: "bool \<Rightarrow> str option \<Rightarrow> AutoRoutingConfig \<Rightarrow> RuleManager \<Rightarrow> RuleManager \<times> unit go" where
  "UpdateAutoRoutingConfig windows w cfg rm =
     saveSettingsConfig windows w (rm\<lparr>autoRoutingConfig := cfg, autoRouter := map_option (UpdateConfig cfg) (autoRouter rm)\<rparr>)"

definition InitAutoRouter :: "(str \<Rightarrow> reader go) \<Rightarrow> int \<Rightarrow> str \<Rightarrow> RuleManager \<Rightarrow> RuleManager" where
  "InitAutoRouter openF now cachePath rm =
     (let ar = NewAutoRouter (autoRoutingConfig rm)
      in rm\<lparr>autoRouter := Some (ar\<lparr>arGfw := fst (LoadFromFile openF now cachePath (arGfw ar))\<rparr>)\<rparr>)"

text \<open>The save to the cache file is only logged when it fails.\<close>

definition RefreshGFWList ::
  "bool \<Rightarrow> (str \<Rightarrow> (int \<times> reader) go) \<Rightarrow> int \<Rightarrow> str \<Rightarrow> str option \<Rightarrow> RuleManager \<Rightarrow> RuleManager \<times> nat go" where
  "RefreshGFWList windows get now nowText w rm =
     (case autoRouter rm of
        None \<Rightarrow> (rm, Err ''auto router not initialized'')
      | Some ar \<Rightarrow>
          let url = orDefault (arGFWListURL (autoRoutingConfig rm)) defaultGFWListURL in
          case LoadFromURL get now url (arGfw ar) of
            (g, Ok count) \<Rightarrow>
              (let cfg = (autoRoutingConfig rm)\<lparr>arLastUpdate := nowText\<rparr>;
                   rm1 = rm\<lparr>autoRoutingConfig := cfg, autoRouter := Some (UpdateConfig cfg (ar\<lparr>arGfw := g\<rparr>))\<rparr>
               in (fst (saveSettingsConfig windows w rm1), Ok count))
          | (g, e) \<Rightarrow> (rm\<lparr>autoRouter := Some (ar\<lparr>arGfw := g\<rparr>)\<rparr>, e))"

definition GetAutoRoutingStatus :: "RuleManager \<Rightarrow> GFWListStatus" where
  "GetAutoRoutingStatus rm =
     (case autoRouter rm of
        Some ar \<Rightarrow> GetStatus ar
      | None \<Rightarrow> \<lparr>gsEnabled = False, gsMode = arMode (autoRoutingConfig rm), gsDomainCount = 0, gsLastUpdate = [], gsGFWListURL = []\<rparr>)"

end
