(* ===== verification/RuleTheorems.thy ===== *)
theory RuleTheorems
  imports RuleManager "HOL-Library.Multiset"
begin

text \<open>
  Properties of the rule manager: which rule is chosen for a host, that settings survive a save and
  a load, that the legacy ECH settings are migrated once and for all, that the stores of site groups,
  upstreams and DNS nodes act as maps, and which operations keep the rules in step with the
  configuration.
\<close>

section \<open>The rule that is chosen\<close>

definition scoreOf :: "route_env \<Rightarrow> str \<Rightarrow> Rule \<Rightarrow> int" where
  "scoreOf env host rule = domainMatchScore (reMatch env) host (rDomain rule)"

lemma bestRule_cases:
  assumes "bestRule re h rs (b, s) = (b', s')" and "- 1 \<le> s"
  shows "(b' = b \<and> s' = s \<and> (\<forall>x \<in> set rs. rEnabled x \<longrightarrow> domainMatchScore re h (rDomain x) \<le> s)) \<or>
    (\<exists>pre post. rs = pre @ b' # post \<and> rEnabled b' \<and> s' = domainMatchScore re h (rDomain b') \<and> s < s' \<and> 0 \<le> s' \<and>
       (\<forall>x \<in> set pre. rEnabled x \<longrightarrow> domainMatchScore re h (rDomain x) < s') \<and>
       (\<forall>x \<in> set post. rEnabled x \<longrightarrow> domainMatchScore re h (rDomain x) \<le> s'))"
  using assms
proof (induction rs arbitrary: b s)
  case (Cons x xs)
  let ?d = "domainMatchScore re h (rDomain x)"
  show ?case
  proof (cases "rEnabled x \<and> 0 \<le> ?d \<and> s < ?d")
    case True
    then have step: "bestRule re h xs (x, ?d) = (b', s')" "- 1 \<le> ?d" using Cons.prems by (simp_all add: Let_def)
    from Cons.IH [OF this] show ?thesis
    proof
      assume "b' = x \<and> s' = ?d \<and> (\<forall>x \<in> set xs. rEnabled x \<longrightarrow> domainMatchScore re h (rDomain x) \<le> ?d)"
      then show ?thesis using True by (intro disjI2 exI [of _ "[]"] exI [of _ xs]) auto
    next
      assume "\<exists>pre post. xs = pre @ b' # post \<and> rEnabled b' \<and> s' = domainMatchScore re h (rDomain b') \<and> ?d < s' \<and> 0 \<le> s' \<and>
         (\<forall>x \<in> set pre. rEnabled x \<longrightarrow> domainMatchScore re h (rDomain x) < s') \<and>
         (\<forall>x \<in> set post. rEnabled x \<longrightarrow> domainMatchScore re h (rDomain x) \<le> s')"
      then obtain pre post where p: "xs = pre @ b' # post" "rEnabled b'" "s' = domainMatchScore re h (rDomain b')" "?d < s'" "0 \<le> s'"
        "\<forall>x \<in> set pre. rEnabled x \<longrightarrow> domainMatchScore re h (rDomain x) < s'"
        "\<forall>x \<in> set post. rEnabled x \<longrightarrow> domainMatchScore re h (rDomain x) \<le> s'" by blast
      then show ?thesis using True by (intro disjI2 exI [of _ "x # pre"] exI [of _ post]) auto
    qed
  next
    case False
    then have step: "bestRule re h xs (b, s) = (b', s')" using Cons.prems(1) by (auto simp: Let_def split: if_splits)
    have low: "rEnabled x \<Longrightarrow> ?d \<le> s" using False Cons.prems(2) by linarith
    from Cons.IH [OF step Cons.prems(2)] show ?thesis
    proof
      assume "b' = b \<and> s' = s \<and> (\<forall>x \<in> set xs. rEnabled x \<longrightarrow> domainMatchScore re h (rDomain x) \<le> s)"
      then show ?thesis using low by auto
    next
      assume "\<exists>pre post. xs = pre @ b' # post \<and> rEnabled b' \<and> s' = domainMatchScore re h (rDomain b') \<and> s < s' \<and> 0 \<le> s' \<and>
         (\<forall>x \<in> set pre. rEnabled x \<longrightarrow> domainMatchScore re h (rDomain x) < s') \<and>
         (\<forall>x \<in> set post. rEnabled x \<longrightarrow> domainMatchScore re h (rDomain x) \<le> s')"
      then obtain pre post where p: "xs = pre @ b' # post" "rEnabled b'" "s' = domainMatchScore re h (rDomain b')" "s < s'" "0 \<le> s'"
        "\<forall>x \<in> set pre. rEnabled x \<longrightarrow> domainMatchScore re h (rDomain x) < s'"
        "\<forall>x \<in> set post. rEnabled x \<longrightarrow> domainMatchScore re h (rDomain x) \<le> s'" by blast
      then show ?thesis using low by (intro disjI2 exI [of _ "x # pre"] exI [of _ post]) auto
    qed
  qed
qed simp

definition globalMode :: "str \<Rightarrow> RuleManager \<Rightarrow> bool" where
  "globalMode mode r = (ToLower (TrimSpace mode) \<in> {''v2ray'', ''gas''} \<or>
     (autoRouter r \<noteq> None \<and> arMode (autoRoutingConfig r) \<in> {''v2ray'', ''gas''}))"

text \<open>C9: When no global mode overrides the rules and some enabled rule matches the host, the rule
  that is chosen is the first of the enabled rules with the highest score; its mode is changed only
  where the global mode is transparent and the rule says \<open>mitm\<close>, to \<open>direct\<close>; the event names the
  mode of the rule returned.\<close>

theorem matchRule_best:
  assumes "\<not> globalMode mode r" and "x \<in> set (rules r)" and "rEnabled x" and "0 \<le> scoreOf env (normalizeHost host) x"
  shows "\<exists>pre best post. rules r = pre @ best # post \<and> rEnabled best \<and>
     (\<forall>y \<in> set pre. rEnabled y \<longrightarrow> scoreOf env (normalizeHost host) y < scoreOf env (normalizeHost host) best) \<and>
     (\<forall>y \<in> set post. rEnabled y \<longrightarrow> scoreOf env (normalizeHost host) y \<le> scoreOf env (normalizeHost host) best) \<and>
     (let best1 = (if ToLower (TrimSpace mode) = ''transparent'' \<and> rMode best = ''mitm''
                   then best\<lparr>rMode := ''direct''\<rparr> else best)
      in matchRule env host mode r = (best1, r, (normalizeHost host, rMode best1)))"
proof -
  obtain b s where b: "bestRule (reMatch env) (normalizeHost host) (rules r) (zeroRule, - 1) = (b, s)" by force
  have "\<not> (\<forall>y \<in> set (rules r). rEnabled y \<longrightarrow> domainMatchScore (reMatch env) (normalizeHost host) (rDomain y) \<le> - 1)"
    using assms(2-4) by (auto simp: scoreOf_def)
  then obtain pre post where p: "rules r = pre @ b # post" "rEnabled b" "s = scoreOf env (normalizeHost host) b" "0 \<le> s"
    "\<forall>y \<in> set pre. rEnabled y \<longrightarrow> scoreOf env (normalizeHost host) y < s"
    "\<forall>y \<in> set post. rEnabled y \<longrightarrow> scoreOf env (normalizeHost host) y \<le> s"
    using bestRule_cases [OF b] by (auto simp: scoreOf_def)
  have c: "ToLower (TrimSpace mode) \<noteq> ''v2ray''" "ToLower (TrimSpace mode) \<noteq> ''gas''"
    "\<not> (autoRouter r \<noteq> None \<and> arMode (autoRoutingConfig r) = ''v2ray'')"
    "\<not> (autoRouter r \<noteq> None \<and> arMode (autoRoutingConfig r) = ''gas'')"
    using assms(1) by (auto simp: globalMode_def)
  then have "let best1 = (if ToLower (TrimSpace mode) = ''transparent'' \<and> rMode b = ''mitm'' then b\<lparr>rMode := ''direct''\<rparr> else b)
      in matchRule env host mode r = (best1, r, (normalizeHost host, rMode best1))"
    using p(4) unfolding matchRule_def Let_def b by (simp only: c if_False if_True prod.case)
  then show ?thesis using p by blast
qed

text \<open>Two rules for subdomains and one exact rule, listed last, in transparent mode.\<close>

theorem matchRule_best_witness:
  "fst (matchRule \<lparr>reMatch = \<lambda>_ _. None, reResolver = None, reT1 = 0, reT2 = 0\<rparr> ''www.a.com:443'' ''Transparent''
     ((NewRuleManager None None)\<lparr>rules :=
       [zeroRule\<lparr>rDomain := ''a.com'', rMode := ''server'', rEnabled := True\<rparr>,
        zeroRule\<lparr>rDomain := ''www.a.com'', rMode := ''mitm'', rEnabled := True\<rparr>]\<rparr>))
   = zeroRule\<lparr>rDomain := ''www.a.com'', rMode := ''direct'', rEnabled := True\<rparr>"
proof -
  let ?env = "\<lparr>reMatch = \<lambda>_ _. None, reResolver = None, reT1 = 0, reT2 = 0\<rparr>"
  let ?a = "zeroRule\<lparr>rDomain := ''a.com'', rMode := ''server'', rEnabled := True\<rparr>"
  let ?b = "zeroRule\<lparr>rDomain := ''www.a.com'', rMode := ''mitm'', rEnabled := True\<rparr>"
  let ?r = "(NewRuleManager None None)\<lparr>rules := [?a, ?b]\<rparr>"
  have h: "normalizeHost ''www.a.com:443'' = ''www.a.com''" by code_simp
  have m: "ToLower (TrimSpace ''Transparent'') = ''transparent''" by code_simp
  have sa: "scoreOf ?env ''www.a.com'' ?a = 5" by code_simp
  have sb: "scoreOf ?env ''www.a.com'' ?b = 1009" by code_simp
  have g: "\<not> globalMode ''Transparent'' ?r" by (simp add: globalMode_def m NewRuleManager_def)
  have "?b \<in> set (rules ?r)" "rEnabled ?b" by simp_all
  from matchRule_best [OF g this, of ?env "''www.a.com:443''"] sb obtain pre best post where
    p: "rules ?r = pre @ best # post" "rEnabled best"
      "\<forall>y \<in> set pre. rEnabled y \<longrightarrow> scoreOf ?env ''www.a.com'' y < scoreOf ?env ''www.a.com'' best"
      "\<forall>y \<in> set post. rEnabled y \<longrightarrow> scoreOf ?env ''www.a.com'' y \<le> scoreOf ?env ''www.a.com'' best"
    and eq: "let best1 = (if ToLower (TrimSpace ''Transparent'') = ''transparent'' \<and> rMode best = ''mitm''
                   then best\<lparr>rMode := ''direct''\<rparr> else best)
      in matchRule ?env ''www.a.com:443'' ''Transparent'' ?r = (best1, ?r, (normalizeHost ''www.a.com:443'', rMode best1))"
    unfolding h by auto
  have split: "[?a, ?b] = pre @ best # post" using p(1) by simp
  have "best = ?b"
  proof (cases pre)
    case Nil
    then have "best = ?a" "post = [?b]" using split by simp_all
    then show ?thesis using p(4) sa sb by simp
  next
    case (Cons y ys)
    then show ?thesis using split by (cases ys) auto
  qed
  then show ?thesis using eq m by simp
qed

section \<open>Settings survive a save and a load\<close>

lemma orDefault_simps [simp]:
  "orDefault (orDefault s d) d' = (if s = [] then orDefault d d' else s)" "orDefault [] d = d" "s \<noteq> [] \<Longrightarrow> orDefault s d = s"
  by (simp_all add: orDefault_def)

lemma normalizeTUNConfig_idem [simp]: "normalizeTUNConfig w (normalizeTUNConfig w c) = normalizeTUNConfig w c"
  by (auto simp: normalizeTUNConfig_def Let_def)

lemma orDefault_nonempty [simp]: "d \<noteq> [] \<Longrightarrow> orDefault s d \<noteq> []"
  by (simp add: orDefault_def)

text \<open>Everything that \<open>settings.json\<close> holds of the manager.\<close>

definition settingsView where
  "settingsView rm = ((listenPort rm, listenHost rm, socksAddr rm, socksHost rm, socksPort rm),
     (serverHost rm, serverAuth rm, closeToTray rm, autoStart rm, showMainOnAutoStart rm, autoEnableProxyOnAutoStart rm),
     (autoRoutingConfig rm, tunConfig rm, language rm, theme rm, country rm, cloudflareConfig rm))"

text \<open>C10: Settings that were saved are the settings of any manager that loads the file, whatever its
  state before: the load succeeds, every persisted field is the saved one with its default filled
  in, and saving again would write the same file.\<close>

theorem settings_roundtrip:
  assumes "saveSettingsConfig windows None rm = (rm1, Ok ())" and "settingsFile other = settingsFile rm1"
  shows "\<exists>rm2. loadSettingsConfig windows w other = (rm2, Ok ()) \<and>
     settingsView rm2 = settingsView (applySettingsDefaults windows rm) \<and>
     settingsOf windows rm2 = settingsOf windows rm"
proof -
  have "settingsFile other = Some (Ok (settingsOf windows rm))"
    using assms by (auto simp: saveSettingsConfig_def)
  then have "loadSettingsConfig windows w other = (applySettings windows (settingsOf windows rm) other, Ok ())"
    by (simp add: loadSettingsConfig_def)
  moreover have "settingsView (applySettings windows (settingsOf windows rm) other) =
      settingsView (applySettingsDefaults windows rm)"
    by (simp add: settingsView_def applySettings_def settingsOf_def applySettingsDefaults_def Let_def)
  moreover have "settingsOf windows (applySettings windows (settingsOf windows rm) other) = settingsOf windows rm"
    by (simp add: applySettings_def settingsOf_def applySettingsDefaults_def Let_def)
  ultimately show ?thesis by blast
qed

theorem settings_roundtrip_witness:
  "\<exists>rm2. loadSettingsConfig True None
      ((NewRuleManager None None)\<lparr>settingsFile := Some (Ok (settingsOf True ((NewRuleManager None None)\<lparr>listenPort := ''9''\<rparr>)))\<rparr>)
    = (rm2, Ok ()) \<and> settingsOf True rm2 = settingsOf True ((NewRuleManager None None)\<lparr>listenPort := ''9''\<rparr>)"
proof -
  have "saveSettingsConfig True None ((NewRuleManager None None)\<lparr>listenPort := ''9''\<rparr>) =
      (((NewRuleManager None None)\<lparr>listenPort := ''9''\<rparr>)\<lparr>settingsFile := Some (Ok (settingsOf True ((NewRuleManager None None)\<lparr>listenPort := ''9''\<rparr>))),
         configSaved := 1\<rparr>, Ok ())"
    by (simp add: saveSettingsConfig_def NewRuleManager_def)
  from settings_roundtrip [OF this, of "(NewRuleManager None None)\<lparr>settingsFile := Some (Ok (settingsOf True ((NewRuleManager None None)\<lparr>listenPort := ''9''\<rparr>)))\<rparr>" None]
  show ?thesis by auto
qed

section \<open>Migration of the legacy ECH settings\<close>

definition legacyGroup :: "SiteGroup \<Rightarrow> bool" where
  "legacyGroup sg = (sgECHEnabled sg \<and> TrimSpace (sgECHProfileID sg) = [] \<and>
     EqualFold (TrimSpace (sgECHDomain sg)) ''crypto.cloudflare.com'')"

lemma TrimSpace_legacy: "TrimSpace ''legacy-cloudflare'' = ''legacy-cloudflare''"
  by code_simp

lemma findById_updateFirst:
  "findById ident i xs = Some x \<Longrightarrow> ident (f x) = i \<Longrightarrow> findById ident i (updateFirst ident i f xs) = Some (f x)"
  by (induction xs) (auto split: if_splits)

lemma echID_legacyDefaults: "echID (legacyDefaults p) = TrimSpace (echID p)"
  by (simp add: legacyDefaults_def normalizeECHProfile_def Let_def)

lemma ensureLegacy_props:
  assumes "ensureLegacyCloudflareProfile ps = (ps', i)"
  shows "i = ''legacy-cloudflare'' \<and> findById echID i ps' \<noteq> None"
proof (cases "findById echID ''legacy-cloudflare'' ps")
  case None
  then show ?thesis using assms
    by (auto simp: ensureLegacyCloudflareProfile_def findECHProfileByID_def TrimSpace_legacy findById_append zeroECHProfile_def)
next
  case (Some p)
  then have "echID (legacyDefaults p) = ''legacy-cloudflare''"
    using findById_SomeD [OF Some] by (simp add: echID_legacyDefaults TrimSpace_legacy)
  then show ?thesis using assms Some findById_updateFirst [OF Some, of legacyDefaults]
    by (auto simp: ensureLegacyCloudflareProfile_def findECHProfileByID_def TrimSpace_legacy)
qed

lemma ensureLegacy_keeps:
  assumes "ensureLegacyCloudflareProfile ps = (ps', i)" and "findById echID ''legacy-cloudflare'' ps \<noteq> None"
  shows "findById echID ''legacy-cloudflare'' ps' \<noteq> None"
  using ensureLegacy_props [OF assms(1)] by auto

lemma migrate_props:
  "migrateLegacyECHRules sgs ps = (sgs', ps', m) \<Longrightarrow>
     (\<forall>sg \<in> set sgs'. \<not> legacyGroup sg \<and> trimmed (sgECHProfileID sg) \<and> trimmed (sgECHDomain sg)) \<and>
     m = list_ex legacyGroup sgs \<and>
     (m \<or> findById echID ''legacy-cloudflare'' ps \<noteq> None \<longrightarrow> findById echID ''legacy-cloudflare'' ps' \<noteq> None) \<and>
     (\<not> m \<longrightarrow> ps' = ps) \<and>
     list_all2 (\<lambda>sg sg'. sgID sg' = sgID sg \<and> sgDomains sg' = sgDomains sg \<and>
        (legacyGroup sg \<longrightarrow> sgECHProfileID sg' = ''legacy-cloudflare'')) sgs sgs'"
proof (induction sgs ps arbitrary: sgs' ps' m rule: migrateLegacyECHRules.induct)
  case (2 sg0 sgs ps)
  let ?sg = "sg0\<lparr>sgECHProfileID := TrimSpace (sgECHProfileID sg0), sgECHDomain := TrimSpace (sgECHDomain sg0)\<rparr>"
  show ?case
  proof (cases "legacyGroup sg0")
    case True
    then have c: "sgECHEnabled ?sg \<and> sgECHProfileID ?sg = [] \<and> EqualFold (sgECHDomain ?sg) ''crypto.cloudflare.com''"
      by (simp add: legacyGroup_def)
    obtain ps1 i where e: "ensureLegacyCloudflareProfile ps = (ps1, i)" by force
    obtain rest ps2 m2 where r: "migrateLegacyECHRules sgs ps1 = (rest, ps2, m2)" by (metis prod_cases3)
    have out: "sgs' = ?sg\<lparr>sgECHProfileID := i, sgECHDomain := []\<rparr> # rest" "ps' = ps2" "m"
      using 2(3) c e r by (simp_all add: Let_def)
    have i: "i = ''legacy-cloudflare''" "findById echID ''legacy-cloudflare'' ps1 \<noteq> None"
      using ensureLegacy_props [OF e] by auto
    note IH = 2(1) [OF refl c refl e [symmetric] r]
    have "\<not> legacyGroup (?sg\<lparr>sgECHProfileID := i, sgECHDomain := []\<rparr>)" "trimmed i"
      using i(1) TrimSpace_legacy trimmed_TrimSpace [of "''legacy-cloudflare''"] by (simp_all add: legacyGroup_def)
    then show ?thesis using IH i True out by (simp add: trimmed_def)
  next
    case False
    then have c: "\<not> (sgECHEnabled ?sg \<and> sgECHProfileID ?sg = [] \<and> EqualFold (sgECHDomain ?sg) ''crypto.cloudflare.com'')"
      by (simp add: legacyGroup_def)
    obtain rest ps2 m2 where r: "migrateLegacyECHRules sgs ps = (rest, ps2, m2)" by (metis prod_cases3)
    have out: "sgs' = ?sg # rest" "ps' = ps2" "m = m2"
      using 2(3) c r by (auto simp: Let_def)
    note IH = 2(2) [OF refl c r]
    have "\<not> legacyGroup ?sg" using False by (simp add: legacyGroup_def)
    then show ?thesis using IH False out by simp
  qed
qed simp

lemma migrate_noop:
  "\<forall>sg \<in> set sgs. \<not> legacyGroup sg \<and> trimmed (sgECHProfileID sg) \<and> trimmed (sgECHDomain sg) \<Longrightarrow>
   migrateLegacyECHRules sgs ps = (sgs, ps, False)"
proof (induction sgs)
  case (Cons sg sgs)
  have t: "TrimSpace (sgECHProfileID sg) = sgECHProfileID sg" "TrimSpace (sgECHDomain sg) = sgECHDomain sg"
    using Cons.prems by (simp_all add: TrimSpace_trimmed)
  then have same: "sg\<lparr>sgECHProfileID := TrimSpace (sgECHProfileID sg), sgECHDomain := TrimSpace (sgECHDomain sg)\<rparr> = sg"
    by simp
  have "\<not> (sgECHEnabled sg \<and> sgECHProfileID sg = [] \<and> EqualFold (sgECHDomain sg) ''crypto.cloudflare.com'')"
    using Cons.prems t by (simp add: legacyGroup_def)
  moreover have "migrateLegacyECHRules sgs ps = (sgs, ps, False)" using Cons by simp
  ultimately show ?case unfolding migrateLegacyECHRules.simps(2) same Let_def by (simp only: if_False prod.case)
qed simp

text \<open>Migrating the legacy ECH settings leaves no site group with them: each such group then uses
  the profile \<open>legacy-cloudflare\<close>, which exists, every group keeps its identifier and domains, the
  result says whether there was one, and a second migration changes nothing.\<close>

theorem migration_complete:
  assumes "migrateLegacyECHRules sgs ps = (sgs', ps', m)"
  shows "m = list_ex legacyGroup sgs \<and>
     list_all2 (\<lambda>sg sg'. sgID sg' = sgID sg \<and> sgDomains sg' = sgDomains sg \<and> \<not> legacyGroup sg' \<and>
        (legacyGroup sg \<longrightarrow> findById echID (sgECHProfileID sg') ps' \<noteq> None)) sgs sgs' \<and>
     migrateLegacyECHRules sgs' ps' = (sgs', ps', False)"
proof -
  note p = migrate_props [OF assms]
  have "list_all2 (\<lambda>sg sg'. sgID sg' = sgID sg \<and> sgDomains sg' = sgDomains sg \<and>
      (legacyGroup sg \<longrightarrow> sgECHProfileID sg' = ''legacy-cloudflare'')) sgs sgs'" using p by blast
  then have "list_all2 (\<lambda>sg sg'. sgID sg' = sgID sg \<and> sgDomains sg' = sgDomains sg \<and> \<not> legacyGroup sg' \<and>
        (legacyGroup sg \<longrightarrow> findById echID (sgECHProfileID sg') ps' \<noteq> None)) sgs sgs'"
  proof (rule list.rel_mono_strong)
    fix sg sg'
    assume "sg \<in> set sgs" "sg' \<in> set sgs'"
      and h: "sgID sg' = sgID sg \<and> sgDomains sg' = sgDomains sg \<and> (legacyGroup sg \<longrightarrow> sgECHProfileID sg' = ''legacy-cloudflare'')"
    then have "\<not> legacyGroup sg'" "legacyGroup sg \<Longrightarrow> m" using p by (auto simp: list_ex_iff)
    then show "sgID sg' = sgID sg \<and> sgDomains sg' = sgDomains sg \<and> \<not> legacyGroup sg' \<and>
        (legacyGroup sg \<longrightarrow> findById echID (sgECHProfileID sg') ps' \<noteq> None)" using h p by simp
  qed
  then show ?thesis using p migrate_noop [of sgs' ps'] by blast
qed

theorem migration_complete_witness:
  "\<exists>sgs' ps'. migrateLegacyECHRules [zeroSiteGroup\<lparr>sgECHEnabled := True, sgECHDomain := ''Crypto.Cloudflare.com ''\<rparr>] [] = (sgs', ps', True)
     \<and> migrateLegacyECHRules sgs' ps' = (sgs', ps', False)"
proof -
  let ?sg = "zeroSiteGroup\<lparr>sgECHEnabled := True, sgECHDomain := ''Crypto.Cloudflare.com ''\<rparr>"
  obtain sgs' ps' m where e: "migrateLegacyECHRules [?sg] [] = (sgs', ps', m)" by (metis prod_cases3)
  have "legacyGroup ?sg" by code_simp
  then show ?thesis using migration_complete [OF e] e by auto
qed

section \<open>The stores of the configuration\<close>

lemmas save_defs = saveRulesConfig_def rulesOf_def buildRules_def

lemma saveRulesConfig_frame [simp]:
  "siteGroups (fst (saveRulesConfig w rm)) = siteGroups rm" "upstreams (fst (saveRulesConfig w rm)) = upstreams rm"
  "dnsNodes (fst (saveRulesConfig w rm)) = dnsNodes rm" "echProfiles (fst (saveRulesConfig w rm)) = echProfiles rm"
  "rules (fst (saveRulesConfig w rm)) = rules rm"
  by (simp_all add: saveRulesConfig_def split: option.split)

lemma buildRules_frame [simp]:
  "siteGroups (buildRules rm) = siteGroups rm" "upstreams (buildRules rm) = upstreams rm"
  "dnsNodes (buildRules rm) = dnsNodes rm" "echProfiles (buildRules rm) = echProfiles rm"
  "rules (buildRules rm) = builtRules rm"
  by (simp_all add: buildRules_def)

interpretation sites: id_store sgID "\<lambda>i sg. sg\<lparr>sgID := i\<rparr>" "\<lambda>sg. sg\<lparr>sgWebsite := TrimSpace (sgWebsite sg)\<rparr>" siteGroups
  "\<lambda>i sg rm. fst (AddSiteGroup None i sg rm)" "\<lambda>sg rm. fst (UpdateSiteGroup None sg rm)" "\<lambda>i rm. fst (DeleteSiteGroup None i rm)"
  by unfold_locales (simp_all add: AddSiteGroup_def UpdateSiteGroup_def DeleteSiteGroup_def)

interpretation ups: id_store upID "\<lambda>i u. u\<lparr>upID := i\<rparr>" "\<lambda>u. u" upstreams
  "\<lambda>i u rm. fst (AddUpstream None i u rm)" "\<lambda>u rm. fst (UpdateUpstream None u rm)" "\<lambda>i rm. fst (DeleteUpstream None i rm)"
  by unfold_locales (simp_all add: AddUpstream_def UpdateUpstream_def DeleteUpstream_def)

interpretation nodes: id_store dnID "\<lambda>i n. n\<lparr>dnID := i\<rparr>" "\<lambda>n. n" dnsNodes
  "\<lambda>i n rm. fst (AddDNSNode None i n rm)" "\<lambda>n rm. fst (UpdateDNSNode None n rm)" "\<lambda>i rm. fst (DeleteDNSNode None i rm)"
  by unfold_locales (simp_all add: AddDNSNode_def UpdateDNSNode_def DeleteDNSNode_def)

text \<open>The same operations on the manager and on a map from identifiers to site groups.\<close>

fun siteOp :: "SiteGroup store_op \<Rightarrow> RuleManager \<Rightarrow> RuleManager" where
  "siteOp (Add i sg) rm = fst (AddSiteGroup None i sg rm)"
| "siteOp (Upd sg) rm = fst (UpdateSiteGroup None sg rm)"
| "siteOp (Del i) rm = fst (DeleteSiteGroup None i rm)"

definition cleanGroup :: "SiteGroup \<Rightarrow> SiteGroup" where
  "cleanGroup sg = sg\<lparr>sgWebsite := TrimSpace (sgWebsite sg)\<rparr>"

fun siteMapOp :: "SiteGroup store_op \<Rightarrow> (str \<Rightarrow> SiteGroup option) \<Rightarrow> str \<Rightarrow> SiteGroup option" where
  "siteMapOp (Add i sg) m = m(i \<mapsto> cleanGroup (sg\<lparr>sgID := i\<rparr>))"
| "siteMapOp (Upd sg) m = (if m (sgID sg) = None then m else m(sgID sg \<mapsto> cleanGroup sg))"
| "siteMapOp (Del i) m = m(i := None)"

fun freshIds :: "SiteGroup store_op list \<Rightarrow> (str \<Rightarrow> SiteGroup option) \<Rightarrow> bool" where
  "freshIds [] m = True"
| "freshIds (o1 # ops) m = ((case o1 of Add i sg \<Rightarrow> m i = None | _ \<Rightarrow> True) \<and> freshIds ops (siteMapOp o1 m))"

definition siteMap :: "RuleManager \<Rightarrow> str \<Rightarrow> SiteGroup option" where
  "siteMap rm i = findById sgID i (siteGroups rm)"

lemma siteOp_eq: "siteOp o1 = sites.apply_op o1" "siteMapOp o1 = sites.map_op o1"
  by (cases o1; simp add: fun_eq_iff cleanGroup_def)+

lemma freshIds_eq: "freshIds ops m = sites.fresh_ops ops m"
  by (induction ops arbitrary: m) (simp_all add: siteOp_eq)

lemma siteOp_fresh_rules: "rules rm = builtRules rm \<Longrightarrow> rules (siteOp o1 rm) = builtRules (siteOp o1 rm)"
  by (cases o1) (simp_all add: AddSiteGroup_def UpdateSiteGroup_def DeleteSiteGroup_def builtRules_def)

lemma fold_siteOp_fresh_rules: "rules rm = builtRules rm \<Longrightarrow> rules (fold siteOp ops rm) = builtRules (fold siteOp ops rm)"
  by (induction ops arbitrary: rm) (simp_all add: siteOp_fresh_rules)

text \<open>C11: Any sequence of additions (with identifiers not in use), updates and deletions of site groups
  acts on the manager as on a map from identifiers to groups, keeps the identifiers distinct, and
  leaves the rules equal to those built from the configuration.\<close>

theorem siteGroups_refine_map:
  assumes "uniqueIds sgID (siteGroups rm)" and "freshIds ops (siteMap rm)" and "rules rm = builtRules rm"
  shows "siteMap (fold siteOp ops rm) = fold siteMapOp ops (siteMap rm) \<and>
     uniqueIds sgID (siteGroups (fold siteOp ops rm)) \<and>
     rules (fold siteOp ops rm) = builtRules (fold siteOp ops rm)"
proof -
  have l: "siteMap = sites.lookup" by (simp add: fun_eq_iff siteMap_def sites.lookup_def)
  have f: "siteOp = sites.apply_op" "siteMapOp = sites.map_op" by (simp_all add: fun_eq_iff siteOp_eq)
  show ?thesis using sites.run_refines_map [of rm ops] fold_siteOp_fresh_rules [OF assms(3)] assms(1,2)
    unfolding l f by (simp add: sites.uniq_def freshIds_eq)
qed

theorem siteGroups_refine_map_witness:
  "siteMap (fold siteOp [Add ''7'' zeroSiteGroup, Upd (zeroSiteGroup\<lparr>sgID := ''7'', sgEnabled := True\<rparr>), Del ''7''] (NewRuleManager None None)) ''7'' = None"
proof -
  let ?ops = "[Add ''7'' zeroSiteGroup, Upd (zeroSiteGroup\<lparr>sgID := ''7'', sgEnabled := True\<rparr>), Del ''7'']"
  have "uniqueIds sgID (siteGroups (NewRuleManager None None))" "freshIds ?ops (siteMap (NewRuleManager None None))"
    "rules (NewRuleManager None None) = builtRules (NewRuleManager None None)"
    by (simp_all add: NewRuleManager_def uniqueIds_def siteMap_def builtRules_def)
  from siteGroups_refine_map [OF this] show ?thesis by simp
qed

section \<open>Upstreams and the rules that were built from them\<close>

lemma upstreamMap_unique:
  assumes "uniqueIds upID ups" and "u \<in> set ups" and "upEnabled u" and "upAddress u \<noteq> []"
  shows "upstreamMap ups (upID u) = Some (upAddress u)"
proof -
  let ?l = "map (\<lambda>u. (upID u, upAddress u)) (filter (\<lambda>u. upEnabled u \<and> upAddress u \<noteq> []) ups)"
  have "distinct (map fst ?l)" using assms(1) by (simp add: uniqueIds_def distinct_map_filter o_def)
  then have "distinct (map fst (rev ?l))" by (simp flip: rev_map)
  moreover have "(upID u, upAddress u) \<in> set (rev ?l)" using assms(2-4) by auto
  ultimately show ?thesis unfolding upstreamMap_def by (rule map_of_is_SomeI)
qed

lemma set_replaceFirst: "y \<in> set ys \<Longrightarrow> ident y = ident x \<Longrightarrow> x \<in> set (replaceFirst ident x ys)"
  by (induction ys) auto

lemma groupRules_upstream:
  "sgEnabled sg \<Longrightarrow> d \<in> set (sgDomains sg) \<Longrightarrow>
   \<exists>rule \<in> set (groupRules ups ps sg). rSiteID rule = sgID sg \<and> rDomain rule = d"
  by (auto simp: groupRules_def Let_def)

lemma groupRules_rUpstream: "rule \<in> set (groupRules ups ps sg) \<Longrightarrow> rUpstream rule = resolveUp ups (sgUpstream sg)"
  by (auto simp: groupRules_def Let_def split: if_splits)

lemma concat_map_eq:
  "(\<And>x. x \<in> set xs \<Longrightarrow> length (f x) = length (g x)) \<Longrightarrow> concat (map f xs) = concat (map g xs) \<Longrightarrow> \<forall>x \<in> set xs. f x = g x"
  by (induction xs) (auto simp: append_eq_append_conv)

text \<open>Changing the address of an upstream saves the new address but leaves the rules of the site
  groups that use it at the old one: after the update the rules are not those the configuration
  gives, and every rule of such a group still dials the old address.\<close>

theorem UpdateUpstream_stale:
  assumes "rules rm = builtRules rm" and "uniqueIds upID (upstreams rm)" and "u0 \<in> set (upstreams rm)"
    and "upID u = upID u0" and "upEnabled u0" and "upEnabled u" and "upAddress u0 \<noteq> []" and "upAddress u \<noteq> []"
    and "upAddress u \<noteq> upAddress u0" and "sg \<in> set (siteGroups rm)" and "sgEnabled sg"
    and "sgUpstream sg = upID u0" and "d \<in> set (sgDomains sg)"
  shows "\<exists>rm'. UpdateUpstream None u rm = (rm', Ok ()) \<and>
     rulesFile rm' = Some (Ok (rulesOf rm')) \<and> u \<in> set (rcUpstreams (rulesOf rm')) \<and>
     rules rm' \<noteq> builtRules rm' \<and>
     (\<exists>rule \<in> set (rules rm'). rSiteID rule = sgID sg \<and> rDomain rule = d \<and> rUpstream rule = upAddress u0)"
proof -
  define ups where "ups = replaceFirst upID u (upstreams rm)"
  define rm' where "rm' = rm\<lparr>upstreams := ups, rulesFile := Some (Ok (rulesOf (rm\<lparr>upstreams := ups\<rparr>))), configSaved := configSaved rm + 1\<rparr>"
  have run: "UpdateUpstream None u rm = (rm', Ok ())"
    by (simp add: UpdateUpstream_def saveRulesConfig_def rm'_def ups_def)
  have mem: "u \<in> set ups" unfolding ups_def using set_replaceFirst [of u0 "upstreams rm" upID u] assms(3,4) by simp
  have uniq: "uniqueIds upID ups" using assms(2) by (simp add: ups_def uniqueIds_def map_replaceFirst)
  have old: "resolveUp (upstreams rm) (sgUpstream sg) = upAddress u0"
    using upstreamMap_unique [OF assms(2,3,5,7)] assms(12) by (simp add: resolveUp_def)
  have new: "resolveUp ups (sgUpstream sg) = upAddress u"
    using upstreamMap_unique [OF uniq mem assms(6,8)] assms(4,12) by (simp add: resolveUp_def)
  have rules': "rules rm' = concat (map (groupRules (upstreams rm) (echProfiles rm)) (siteGroups rm))"
    "builtRules rm' = concat (map (groupRules ups (echProfiles rm)) (siteGroups rm))"
    using assms(1) by (simp_all add: rm'_def builtRules_def)
  have ne: "groupRules (upstreams rm) (echProfiles rm) sg \<noteq> groupRules ups (echProfiles rm) sg"
    using groupRules_upstream [OF assms(11,13)] groupRules_rUpstream old new assms(9) by metis
  have "rules rm' \<noteq> builtRules rm'"
  proof
    assume "rules rm' = builtRules rm'"
    moreover have "length (groupRules (upstreams rm) ps g) = length (groupRules ups ps g)" for ps g
      by (simp add: groupRules_def Let_def)
    ultimately have "\<forall>g \<in> set (siteGroups rm). groupRules (upstreams rm) (echProfiles rm) g = groupRules ups (echProfiles rm) g"
      unfolding rules' by (intro concat_map_eq) auto
    then show False using ne assms(10) by blast
  qed
  moreover obtain rule where "rule \<in> set (groupRules (upstreams rm) (echProfiles rm) sg)" "rSiteID rule = sgID sg" "rDomain rule = d"
    using groupRules_upstream [OF assms(11,13)] by blast
  moreover from this(1) have "rUpstream rule = upAddress u0" "rule \<in> set (rules rm')"
    using groupRules_rUpstream old assms(10) unfolding rules' by auto
  ultimately show ?thesis using run mem by (intro exI [of _ rm']) (auto simp: rm'_def rulesOf_def)
qed

theorem UpdateUpstream_stale_witness:
  "\<exists>rm'. UpdateUpstream None \<lparr>upID = ''1'', upName = [], upAddress = ''9.9.9.9:443'', upEnabled = True\<rparr>
      (buildRules ((NewRuleManager None None)\<lparr>
         upstreams := [\<lparr>upID = ''1'', upName = [], upAddress = ''8.8.8.8:443'', upEnabled = True\<rparr>],
         siteGroups := [zeroSiteGroup\<lparr>sgID := ''g'', sgDomains := [''a.com''], sgUpstream := ''1'', sgEnabled := True\<rparr>]\<rparr>)) = (rm', Ok ()) \<and>
     rules rm' \<noteq> builtRules rm'"
proof -
  let ?old = "\<lparr>upID = ''1'', upName = [], upAddress = ''8.8.8.8:443'', upEnabled = True\<rparr>"
  let ?new = "\<lparr>upID = ''1'', upName = [], upAddress = ''9.9.9.9:443'', upEnabled = True\<rparr>"
  let ?sg = "zeroSiteGroup\<lparr>sgID := ''g'', sgDomains := [''a.com''], sgUpstream := ''1'', sgEnabled := True\<rparr>"
  let ?rm = "buildRules ((NewRuleManager None None)\<lparr>upstreams := [?old], siteGroups := [?sg]\<rparr>)"
  have "rules ?rm = builtRules ?rm" by (simp add: builtRules_def)
  moreover have "uniqueIds upID (upstreams ?rm)" "?old \<in> set (upstreams ?rm)" "?sg \<in> set (siteGroups ?rm)"
    by (simp_all add: uniqueIds_def)
  moreover have "upID ?new = upID ?old" "upEnabled ?old" "upEnabled ?new" "upAddress ?old \<noteq> []" "upAddress ?new \<noteq> []"
    "upAddress ?new \<noteq> upAddress ?old" "sgEnabled ?sg" "sgUpstream ?sg = upID ?old" "''a.com'' \<in> set (sgDomains ?sg)"
    by simp_all
  ultimately show ?thesis using UpdateUpstream_stale [of ?rm ?old ?new ?sg "''a.com''"] by blast
qed

section \<open>The order of the DNS nodes\<close>

lemma indexById_Some:
  "indexById ident i xs = Some n \<Longrightarrow> n < length xs \<and> ident (xs ! n) = i \<and> (\<forall>k < n. ident (xs ! k) \<noteq> i)"
proof (induction xs arbitrary: n)
  case (Cons x xs)
  show ?case
  proof (cases "ident x = i")
    case False
    then obtain m where m: "indexById ident i xs = Some m" "n = Suc m" using Cons.prems by auto
    show ?thesis using Cons.IH [OF m(1)] m(2) False by (auto simp: nth_Cons split: nat.split)
  qed (use Cons.prems in auto)
qed simp

definition without :: "nat \<Rightarrow> 'a list \<Rightarrow> 'a list" where
  "without i xs = take i xs @ drop (i + 1) xs"

lemma moveTo_props:
  assumes "src < length xs" and "tgt < length xs"
  shows "length (moveTo src tgt xs) = length xs" and "moveTo src tgt xs ! tgt = xs ! src"
    and "without tgt (moveTo src tgt xs) = without src xs"
proof -
  let ?r = "without src xs"
  have "length ?r = length xs - 1" using assms by (auto simp: without_def)
  then have t: "length (take tgt ?r) = tgt" using assms(2) by simp
  have m: "moveTo src tgt xs = take tgt ?r @ xs ! src # drop tgt ?r" by (simp add: moveTo_def Let_def without_def)
  show "moveTo src tgt xs ! tgt = xs ! src" unfolding m using t by (simp add: nth_append)
  show "without tgt (moveTo src tgt xs) = without src xs" unfolding m without_def [of tgt] using t by simp
  show "length (moveTo src tgt xs) = length xs" unfolding m using \<open>length ?r = length xs - 1\<close> assms by auto
qed

definition clampIndex :: "int \<Rightarrow> nat \<Rightarrow> nat" where
  "clampIndex t n = nat (max 0 (min t (int n - 1)))"

lemma without_mset: "i < length xs \<Longrightarrow> mset xs = add_mset (xs ! i) (mset (without i xs))"
  using id_take_nth_drop [of i xs] by (metis Suc_eq_plus1 mset.simps(2) mset_append union_mset_add_mset_right without_def)

text \<open>Setting the priority of a DNS node moves the first node with the identifier to the given
  index, clamped to the list, and leaves the others in their order; the list stays a permutation of
  itself. An unknown identifier is an error that changes nothing.\<close>

theorem SetDNSNodePriority_moves:
  "case indexById dnID i (dnsNodes rm) of
     None \<Rightarrow> SetDNSNodePriority w i t rm = (rm, Err (''dns node '' @ i @ '' not found''))
   | Some src \<Rightarrow>
       let nodes = dnsNodes (fst (SetDNSNodePriority w i t rm)); tgt = clampIndex t (length (dnsNodes rm)) in
       length nodes = length (dnsNodes rm) \<and> nodes ! tgt = dnsNodes rm ! src \<and> dnID (nodes ! tgt) = i \<and>
       without tgt nodes = without src (dnsNodes rm) \<and> mset nodes = mset (dnsNodes rm)"
proof (cases "indexById dnID i (dnsNodes rm)")
  case None
  then show ?thesis by (simp add: SetDNSNodePriority_def)
next
  case (Some src)
  note s = indexById_Some [OF Some]
  let ?tgt = "clampIndex t (length (dnsNodes rm))"
  have t: "(if (if t < 0 then 0 else t) \<ge> int (length (dnsNodes rm)) then length (dnsNodes rm) - 1
      else nat (if t < 0 then 0 else t)) = ?tgt" "?tgt < length (dnsNodes rm)"
    using s by (auto simp: clampIndex_def)
  have n: "dnsNodes (fst (SetDNSNodePriority w i t rm)) = (if src = ?tgt then dnsNodes rm else moveTo src ?tgt (dnsNodes rm))"
    unfolding SetDNSNodePriority_def Some option.case Let_def t(1) by simp
  have m: "length (moveTo src ?tgt (dnsNodes rm)) = length (dnsNodes rm)" "moveTo src ?tgt (dnsNodes rm) ! ?tgt = dnsNodes rm ! src"
    "without ?tgt (moveTo src ?tgt (dnsNodes rm)) = without src (dnsNodes rm)"
    using moveTo_props [of src "dnsNodes rm" ?tgt] s t(2) by auto
  have "mset (moveTo src ?tgt (dnsNodes rm)) = mset (dnsNodes rm)"
    using without_mset [of ?tgt "moveTo src ?tgt (dnsNodes rm)"] without_mset [of src "dnsNodes rm"] m s t(2) by simp
  then show ?thesis using n m s Some by (cases "src = ?tgt") (simp_all add: Let_def)
qed

end
