(* ===== verification/ConfigImport.thy ===== *)
theory ConfigImport
  imports RuleTheorems "HOL-Library.List_Lexorder" "HOL-Library.Char_ord"
begin

text \<open>
  Export and import of rules, \<open>src/proxy/config.go\<close>.

  \<^item> \<open>import_env\<close> holds what \<open>encoding/json\<close> gives for the texts at hand: the top-level object as a
    function from keys to values (a string, or any other value with the text that marshalling it
    gives), and the \<open>ConfigFile\<close> that a payload decodes to. \<open>genID n\<close> is the identifier of the \<open>n\<close>-th
    call of \<open>generateID\<close>.
  \<^item> \<open>sort.Strings\<close> is the lexicographic order of bytes.
  \<^item> The theorems: the counts of the summary add up, existing groups keep their identifiers and
    places, and importing the same file again changes nothing.
\<close>

record ConfigRule =
  crName :: str
  crWebsite :: str
  crMode :: str
  crEnabled :: bool
  crDomains :: "str list"
  crUpstream :: str
  crUpstreams :: "str list"
  crDNSMode :: str
  crSniFake :: str
  crConnectPolicy :: str
  crSniPolicy :: str
  crECHEnabled :: bool
  crECHProfileID :: str
  crECHDomain :: str
  crUseCFPool :: bool
  crCertVerify :: CertVerifyConfig

record ConfigFile =
  cfgVersion :: str
  cfgType :: str
  cfgRules :: "ConfigRule list"

record ImportSummary =
  isTotal :: nat
  isAdded :: nat
  isOverwritten :: nat
  isSkipped :: nat

datatype json_val = JStr str | JOther "str go"

record import_env =
  parseWrapper :: "str \<Rightarrow> (str \<Rightarrow> json_val option) go"
  parseFile :: "str \<Rightarrow> ConfigFile go"
  genID :: "nat \<Rightarrow> str"

section \<open>Export\<close>

definition exportRule :: "SiteGroup \<Rightarrow> ConfigRule" where
  "exportRule sg = \<lparr>crName = sgName sg, crWebsite = sgWebsite sg, crMode = sgMode sg, crEnabled = sgEnabled sg,
     crDomains = sgDomains sg, crUpstream = sgUpstream sg, crUpstreams = sgUpstreams sg, crDNSMode = sgDNSMode sg,
     crSniFake = sgSniFake sg, crConnectPolicy = sgConnectPolicy sg, crSniPolicy = sgSniPolicy sg,
     crECHEnabled = sgECHEnabled sg, crECHProfileID = sgECHProfileID sg, crECHDomain = sgECHDomain sg,
     crUseCFPool = sgUseCFPool sg, crCertVerify = sgCertVerify sg\<rparr>"

text \<open>The files under the keys of the exported object; \<open>exported\<close> is the time.\<close>

definition ExportConfig :: "RuleManager \<Rightarrow> (str \<times> ConfigFile) list" where
  "ExportConfig rm =
     (let mitmRules = map exportRule (filter (\<lambda>sg. sgMode sg = ''mitm'') (siteGroups rm));
          transRules = map exportRule (filter (\<lambda>sg. sgMode sg \<noteq> ''mitm'') (siteGroups rm))
      in (if length mitmRules > 0 then [(''mitm'', \<lparr>cfgVersion = ''1.0'', cfgType = ''mitm'', cfgRules = mitmRules\<rparr>)] else []) @
         (if length transRules > 0 then [(''transparent'', \<lparr>cfgVersion = ''1.0'', cfgType = ''transparent'', cfgRules = transRules\<rparr>)] else []))"

section \<open>Import\<close>

fun keyDomains :: "str list \<Rightarrow> str list \<Rightarrow> str list" where
  "keyDomains out [] = out"
| "keyDomains out (d # ds) =
     (let n = ToLower (TrimSpace d) in
      if n = [] then keyDomains out ds
      else if n \<in> set out then keyDomains out ds
      else keyDomains (out @ [n]) ds)"

definition normalizeDomainsForKey :: "str list \<Rightarrow> str" where
  "normalizeDomainsForKey domains = (if length domains = 0 then [] else Join (sort (keyDomains [] domains)) '','')"

definition importMergeKey :: "SiteGroup \<Rightarrow> str" where
  "importMergeKey sg = ToLower (TrimSpace (sgMode sg)) @ ''|'' @ normalizeDomainsForKey (sgDomains sg)"

definition importModes :: "str list" where
  "importModes = [''mitm'', ''transparent'', ''server'', ''tls-rf'', ''quic'', ''warp'', ''gas'', ''direct'']"

definition importGroup :: "str \<Rightarrow> str \<Rightarrow> ConfigRule \<Rightarrow> SiteGroup" where
  "importGroup newID ruleMode rule =
     (let sg = \<lparr>sgID = newID, sgName = TrimSpace (crName rule), sgWebsite = TrimSpace (crWebsite rule),
            sgDomains = crDomains rule, sgMode = ruleMode, sgUpstream = TrimSpace (crUpstream rule),
            sgUpstreams = crUpstreams rule, sgDNSMode = normalizeDNSMode (crDNSMode rule),
            sgSniFake = TrimSpace (crSniFake rule), sgConnectPolicy = ToLower (TrimSpace (crConnectPolicy rule)),
            sgSniPolicy = ToLower (TrimSpace (crSniPolicy rule)), sgEnabled = crEnabled rule,
            sgECHEnabled = crECHEnabled rule, sgECHProfileID = crECHProfileID rule, sgECHDomain = crECHDomain rule,
            sgUseCFPool = crUseCFPool rule, sgCertVerify = crCertVerify rule\<rparr>;
          sg1 = (if sgName sg = [] then sg\<lparr>sgName := hd (sgDomains sg)\<rparr> else sg)
      in if \<not> sgEnabled sg1 then sg1\<lparr>sgEnabled := True\<rparr> else sg1)"

fun collectGroups :: "(nat \<Rightarrow> str) \<Rightarrow> nat \<Rightarrow> str \<Rightarrow> ConfigRule list \<Rightarrow> SiteGroup list \<times> nat" where
  "collectGroups gen n mode [] = ([], 0)"
| "collectGroups gen n mode (rule # rs) =
     (if length (crDomains rule) = 0 then
        (let (out, skipped) = collectGroups gen n mode rs in (out, skipped + 1))
      else
        let m = ToLower (TrimSpace (crMode rule)); ruleMode = (if m = [] then mode else m) in
        if ruleMode \<notin> set importModes then
          (let (out, skipped) = collectGroups gen n mode rs in (out, skipped + 1))
        else
          let (out, skipped) = collectGroups gen (n + 1) mode rs in (importGroup (gen n) ruleMode rule # out, skipped))"

definition parseConfigPayload :: "import_env \<Rightarrow> nat \<Rightarrow> str \<Rightarrow> str \<Rightarrow> (SiteGroup list \<times> nat) go" where
  "parseConfigPayload env n payload forcedType =
     bind_go (parseFile env payload) (\<lambda>cfg.
       let m = ToLower (TrimSpace (cfgType cfg)); mode = (if m = [] then ToLower (TrimSpace forcedType) else m) in
       if mode \<noteq> ''mitm'' \<and> mode \<noteq> ''transparent'' then Err ''invalid or missing config type''
       else Ok (collectGroups (genID env) n mode (cfgRules cfg)))"

text \<open>One key of the wrapper: its payload, parsed; anything that fails is passed over.\<close>

definition importPart :: "import_env \<Rightarrow> nat \<Rightarrow> (str \<Rightarrow> json_val option) \<Rightarrow> str \<Rightarrow> SiteGroup list \<times> nat" where
  "importPart env n wrapper key =
     (let payload = (case wrapper key of None \<Rightarrow> None | Some (JStr v) \<Rightarrow> Some v
          | Some (JOther (Ok v)) \<Rightarrow> Some v | Some (JOther _) \<Rightarrow> None)
      in case payload of
           None \<Rightarrow> ([], 0)
         | Some v \<Rightarrow> (case parseConfigPayload env n v key of Ok r \<Rightarrow> r | _ \<Rightarrow> ([], 0)))"

definition importWrapped :: "import_env \<Rightarrow> str \<Rightarrow> SiteGroup list \<times> nat" where
  "importWrapped env content =
     (case parseWrapper env content of
        Ok wrapper \<Rightarrow>
          (let (a, s1) = importPart env 0 wrapper ''mitm'';
               (b, s2) = importPart env (length a) wrapper ''transparent''
           in (a @ b, s1 + s2))
      | _ \<Rightarrow> ([], 0))"

text \<open>The groups to import with the number skipped, and the total counted so far.\<close>

definition importedGroups :: "import_env \<Rightarrow> str \<Rightarrow> SiteGroup list \<times> nat" where
  "importedGroups env content =
     (let (imported, skipped) = importWrapped env content in
      if length imported = 0 then
        (case parseConfigPayload env 0 content [] of
           Ok (sgs, partSkipped) \<Rightarrow> (imported @ sgs, skipped + partSkipped)
         | _ \<Rightarrow> (imported, skipped))
      else (imported, skipped))"

fun buildIndex :: "nat \<Rightarrow> SiteGroup list \<Rightarrow> (str \<Rightarrow> nat option) \<Rightarrow> str \<Rightarrow> nat option" where
  "buildIndex i [] index = index"
| "buildIndex i (sg # sgs) index =
     (let key = importMergeKey sg in
      buildIndex (i + 1) sgs (if key = ''|'' then index else index(key \<mapsto> i)))"

record merge_state =
  msMerged :: "SiteGroup list"
  msIndex :: "str \<Rightarrow> nat option"
  msAdded :: nat
  msOverwritten :: nat
  msSkipped :: nat

definition mergeStep :: "SiteGroup \<Rightarrow> merge_state \<Rightarrow> merge_state" where
  "mergeStep sg st =
     (let key = importMergeKey sg in
      if key = ''|'' then st\<lparr>msSkipped := msSkipped st + 1\<rparr>
      else case msIndex st key of
        Some idx \<Rightarrow>
          st\<lparr>msMerged := (msMerged st)[idx := sg\<lparr>sgID := sgID (msMerged st ! idx)\<rparr>],
             msOverwritten := msOverwritten st + 1\<rparr>
      | None \<Rightarrow>
          st\<lparr>msMerged := msMerged st @ [sg], msIndex := (msIndex st)(key \<mapsto> length (msMerged st)),
             msAdded := msAdded st + 1\<rparr>)"

definition ImportConfigWithSummary ::
  "import_env \<Rightarrow> str option \<Rightarrow> str \<Rightarrow> RuleManager \<Rightarrow> RuleManager \<times> ImportSummary go" where
  "ImportConfigWithSummary env w content0 rm =
     (let content = TrimSpace content0 in
      if content = [] then (rm, Err ''empty config content'')
      else
        let (imported, skipped) = importedGroups env content; total = length imported + skipped in
        if length imported = 0 then (rm, Err ''no valid rules found'')
        else
          let st = fold mergeStep imported
                \<lparr>msMerged = siteGroups rm, msIndex = buildIndex 0 (siteGroups rm) Map.empty,
                 msAdded = 0, msOverwritten = 0, msSkipped = skipped\<rparr>;
              rm1 = buildRules (rm\<lparr>siteGroups := msMerged st\<rparr>)
          in case saveRulesConfig w rm1 of
               (rm2, Ok _) \<Rightarrow> (rm2, Ok \<lparr>isTotal = (if total = 0 then length imported + msSkipped st else total),
                  isAdded = msAdded st, isOverwritten = msOverwritten st, isSkipped = msSkipped st\<rparr>)
             | (rm2, Err e) \<Rightarrow> (rm2, Err e)
             | (rm2, Panic) \<Rightarrow> (rm2, Panic))"

section \<open>The merge\<close>

abbreviation keyOf :: "SiteGroup \<Rightarrow> str" where
  "keyOf \<equiv> importMergeKey"

lemma keyOf_setID [simp]: "keyOf (sg\<lparr>sgID := i\<rparr>) = keyOf sg"
  by (simp add: importMergeKey_def)

lemma buildIndex_append:
  "buildIndex i (xs @ [x]) ix =
     (let m = buildIndex i xs ix in if keyOf x = ''|'' then m else m(keyOf x \<mapsto> i + length xs))"
proof (induction i xs ix rule: buildIndex.induct)
  case (1 i index)
  show ?case by (simp add: Let_def fun_upd_def)
next
  case (2 i sg sgs index)
  then show ?case by (simp add: Let_def fun_upd_def cong: if_cong)
qed

lemma buildIndex_update:
  "j < length xs \<Longrightarrow> keyOf y = keyOf (xs ! j) \<Longrightarrow> buildIndex i (xs[j := y]) ix = buildIndex i xs ix"
proof (induction i xs ix arbitrary: j rule: buildIndex.induct)
  case (2 i sg sgs index)
  then show ?case by (cases j) (simp_all add: Let_def)
qed simp

lemma buildIndex_SomeD:
  "buildIndex 0 xs Map.empty k = Some j \<Longrightarrow> j < length xs \<and> keyOf (xs ! j) = k \<and> k \<noteq> ''|''"
proof (induction xs rule: rev_induct)
  case (snoc x xs)
  then show ?case by (auto simp: buildIndex_append Let_def nth_append split: if_splits)
qed simp

text \<open>The invariant of the merge loop: the index is the index of the list, the list starts with the old
  groups' identifiers, and a place that an imported group took holds the last such group.\<close>

definition lastFor :: "SiteGroup list \<Rightarrow> str \<Rightarrow> SiteGroup" where
  "lastFor imp k = last (filter (\<lambda>sg. keyOf sg = k) imp)"

definition placed :: "SiteGroup list \<Rightarrow> merge_state \<Rightarrow> bool" where
  "placed imp st = (\<forall>j < length (msMerged st).
     msIndex st (keyOf (msMerged st ! j)) = Some j \<and> keyOf (msMerged st ! j) \<in> keyOf ` set imp \<longrightarrow>
     msMerged st ! j = (lastFor imp (keyOf (msMerged st ! j)))\<lparr>sgID := sgID (msMerged st ! j)\<rparr>)"

definition framed :: "SiteGroup list \<Rightarrow> SiteGroup list \<Rightarrow> merge_state \<Rightarrow> bool" where
  "framed old imp st = (\<forall>j < length old. sgID (msMerged st ! j) = sgID (old ! j) \<and> keyOf (msMerged st ! j) = keyOf (old ! j) \<and>
     (keyOf (old ! j) \<notin> keyOf ` set imp \<longrightarrow> msMerged st ! j = old ! j))"

definition merge_inv :: "SiteGroup list \<Rightarrow> nat \<Rightarrow> SiteGroup list \<Rightarrow> merge_state \<Rightarrow> bool" where
  "merge_inv old skipped imp st = (
     msIndex st = buildIndex 0 (msMerged st) Map.empty \<and>
     length (msMerged st) = length old + msAdded st \<and>
     framed old imp st \<and>
     msAdded st + msOverwritten st + msSkipped st = length imp + skipped \<and>
     (\<forall>sg \<in> set imp. keyOf sg = ''|'' \<or> msIndex st (keyOf sg) \<noteq> None) \<and>
     placed imp st)"

lemma lastFor_snoc: "lastFor (imp @ [sg]) k = (if keyOf sg = k then sg else lastFor imp k)"
  by (simp add: lastFor_def)

lemma lastFor_key: "k \<in> keyOf ` set imp \<Longrightarrow> keyOf (lastFor imp k) = k"
proof -
  assume "k \<in> keyOf ` set imp"
  then have "filter (\<lambda>sg. keyOf sg = k) imp \<noteq> []" by (auto simp: filter_empty_conv)
  then have "lastFor imp k \<in> set (filter (\<lambda>sg. keyOf sg = k) imp)" unfolding lastFor_def by (rule last_in_set)
  then show ?thesis by simp
qed

lemma merge_inv_skip:
  assumes "merge_inv old skipped imp st" and "keyOf sg = ''|''"
  shows "merge_inv old skipped (imp @ [sg]) (mergeStep sg st)"
proof -
  have ix: "msIndex st = buildIndex 0 (msMerged st) Map.empty" using assms(1) by (simp add: merge_inv_def)
  have st: "mergeStep sg st = st\<lparr>msSkipped := msSkipped st + 1\<rparr>" using assms(2) by (simp add: mergeStep_def)
  have nobar: "msIndex st ''|'' \<noteq> Some j" for j using buildIndex_SomeD [of "msMerged st" "''|''" j] ix by auto
  have "placed (imp @ [sg]) (st\<lparr>msSkipped := msSkipped st + 1\<rparr>)"
    unfolding placed_def
  proof (intro allI impI)
    fix j
    assume j: "j < length (msMerged (st\<lparr>msSkipped := msSkipped st + 1\<rparr>))"
      and h: "msIndex (st\<lparr>msSkipped := msSkipped st + 1\<rparr>) (keyOf (msMerged (st\<lparr>msSkipped := msSkipped st + 1\<rparr>) ! j)) = Some j \<and>
        keyOf (msMerged (st\<lparr>msSkipped := msSkipped st + 1\<rparr>) ! j) \<in> keyOf ` set (imp @ [sg])"
    then have k: "keyOf (msMerged st ! j) \<noteq> ''|''" using nobar by auto
    have "placed imp st" using assms(1) by (simp add: merge_inv_def)
    then have "msMerged st ! j = (lastFor imp (keyOf (msMerged st ! j)))\<lparr>sgID := sgID (msMerged st ! j)\<rparr>"
      using j h k assms(2) by (auto simp: placed_def)
    then show "msMerged (st\<lparr>msSkipped := msSkipped st + 1\<rparr>) ! j =
        (lastFor (imp @ [sg]) (keyOf (msMerged (st\<lparr>msSkipped := msSkipped st + 1\<rparr>) ! j)))
          \<lparr>sgID := sgID (msMerged (st\<lparr>msSkipped := msSkipped st + 1\<rparr>) ! j)\<rparr>"
      using k assms(2) by (simp add: lastFor_snoc)
  qed
  moreover have "framed old (imp @ [sg]) (st\<lparr>msSkipped := msSkipped st + 1\<rparr>)"
    using assms(1) by (simp add: merge_inv_def framed_def)
  moreover have "\<forall>x \<in> set (imp @ [sg]). keyOf x = ''|'' \<or> msIndex st (keyOf x) \<noteq> None"
    using assms by (auto simp: merge_inv_def)
  ultimately show ?thesis using assms(1) unfolding st merge_inv_def by simp
qed

lemma merge_inv_add:
  assumes inv: "merge_inv old skipped imp st" and key: "keyOf sg \<noteq> ''|''" and none: "msIndex st (keyOf sg) = None"
  shows "merge_inv old skipped (imp @ [sg]) (mergeStep sg st)"
proof -
  let ?m = "msMerged st"
  let ?st = "st\<lparr>msMerged := ?m @ [sg], msIndex := (msIndex st)(keyOf sg \<mapsto> length ?m), msAdded := msAdded st + 1\<rparr>"
  have ix: "msIndex st = buildIndex 0 ?m Map.empty" and len: "length ?m = length old + msAdded st"
    and fr: "framed old imp st" and pl: "placed imp st"
    using inv by (simp_all add: merge_inv_def)
  have st: "mergeStep sg st = ?st" using key none by (simp add: mergeStep_def)
  have "msIndex ?st = buildIndex 0 (msMerged ?st) Map.empty"
    using key by (simp add: buildIndex_append Let_def ix)
  moreover have "framed old (imp @ [sg]) ?st" using fr len by (simp add: framed_def nth_append)
  moreover have "placed (imp @ [sg]) ?st"
    unfolding placed_def
  proof (intro allI impI)
    fix j
    assume j: "j < length (msMerged ?st)"
      and h: "msIndex ?st (keyOf (msMerged ?st ! j)) = Some j \<and> keyOf (msMerged ?st ! j) \<in> keyOf ` set (imp @ [sg])"
    show "msMerged ?st ! j = (lastFor (imp @ [sg]) (keyOf (msMerged ?st ! j)))\<lparr>sgID := sgID (msMerged ?st ! j)\<rparr>"
    proof (cases "j = length ?m")
      case True
      then show ?thesis by (simp add: lastFor_snoc)
    next
      case False
      then have j': "j < length ?m" "msMerged ?st ! j = ?m ! j" using j by (simp_all add: nth_append)
      then have k: "keyOf (?m ! j) \<noteq> keyOf sg" using h False by auto
      then show ?thesis using h j' pl by (auto simp: placed_def lastFor_snoc)
    qed
  qed
  moreover have "length (msMerged ?st) = length old + msAdded ?st"
    "msAdded ?st + msOverwritten ?st + msSkipped ?st = length (imp @ [sg]) + skipped"
    "\<forall>x \<in> set (imp @ [sg]). keyOf x = ''|'' \<or> msIndex ?st (keyOf x) \<noteq> None"
    using inv by (auto simp: merge_inv_def)
  ultimately show ?thesis unfolding st merge_inv_def by blast
qed

lemma merge_inv_overwrite:
  assumes inv: "merge_inv old skipped imp st" and key: "keyOf sg \<noteq> ''|''" and some: "msIndex st (keyOf sg) = Some i"
  shows "merge_inv old skipped (imp @ [sg]) (mergeStep sg st)"
proof -
  let ?m = "msMerged st"
  let ?x = "sg\<lparr>sgID := sgID (?m ! i)\<rparr>"
  let ?st = "st\<lparr>msMerged := ?m[i := ?x], msOverwritten := msOverwritten st + 1\<rparr>"
  have ix: "msIndex st = buildIndex 0 ?m Map.empty" and len: "length ?m = length old + msAdded st"
    and fr: "framed old imp st" and pl: "placed imp st"
    using inv by (simp_all add: merge_inv_def)
  have i: "i < length ?m" "keyOf (?m ! i) = keyOf sg" using buildIndex_SomeD some ix by metis+
  have st: "mergeStep sg st = ?st" using key some by (simp add: mergeStep_def)
  have keys: "keyOf (?m[i := ?x] ! j) = keyOf (?m ! j)" for j using i by (cases "j = i") simp_all
  have "msIndex ?st = buildIndex 0 (msMerged ?st) Map.empty"
    using i buildIndex_update [of i ?m ?x 0 Map.empty] by (simp add: ix)
  moreover have "framed old (imp @ [sg]) ?st"
    unfolding framed_def
  proof (intro allI impI)
    fix j
    assume j: "j < length old"
    have b: "sgID (?m ! j) = sgID (old ! j)" "keyOf (?m ! j) = keyOf (old ! j)"
      "keyOf (old ! j) \<notin> keyOf ` set imp \<Longrightarrow> ?m ! j = old ! j"
      using fr j by (auto simp: framed_def)
    have "?m[i := ?x] ! j = ?m ! j" if "keyOf (old ! j) \<notin> keyOf ` set (imp @ [sg])"
      using that b(2) i by (cases "j = i") auto
    moreover have "sgID (?m[i := ?x] ! j) = sgID (?m ! j)" using i by (cases "j = i") simp_all
    ultimately show "sgID (msMerged ?st ! j) = sgID (old ! j) \<and> keyOf (msMerged ?st ! j) = keyOf (old ! j) \<and>
       (keyOf (old ! j) \<notin> keyOf ` set (imp @ [sg]) \<longrightarrow> msMerged ?st ! j = old ! j)"
      using b keys [of j] by simp
  qed
  moreover have "placed (imp @ [sg]) ?st"
    unfolding placed_def
  proof (intro allI impI)
    fix j
    assume j: "j < length (msMerged ?st)"
      and h: "msIndex ?st (keyOf (msMerged ?st ! j)) = Some j \<and> keyOf (msMerged ?st ! j) \<in> keyOf ` set (imp @ [sg])"
    show "msMerged ?st ! j = (lastFor (imp @ [sg]) (keyOf (msMerged ?st ! j)))\<lparr>sgID := sgID (msMerged ?st ! j)\<rparr>"
    proof (cases "j = i")
      case True
      then show ?thesis using i by (simp add: lastFor_snoc)
    next
      case False
      then have k: "keyOf (?m ! j) \<noteq> keyOf sg" using h some by auto
      then show ?thesis using h j False pl by (auto simp: placed_def lastFor_snoc)
    qed
  qed
  moreover have "length (msMerged ?st) = length old + msAdded ?st"
    "msAdded ?st + msOverwritten ?st + msSkipped ?st = length (imp @ [sg]) + skipped"
    "\<forall>x \<in> set (imp @ [sg]). keyOf x = ''|'' \<or> msIndex ?st (keyOf x) \<noteq> None"
    using inv some by (auto simp: merge_inv_def)
  ultimately show ?thesis unfolding st merge_inv_def by blast
qed

lemma merge_inv_fold:
  "merge_inv old skipped [] st \<Longrightarrow> merge_inv old skipped imp (fold mergeStep imp st)"
proof (induction imp rule: rev_induct)
  case (snoc sg imp)
  then have inv: "merge_inv old skipped imp (fold mergeStep imp st)" by simp
  show ?case
  proof (cases "keyOf sg = ''|''")
    case False
    then show ?thesis
      using merge_inv_add [OF inv False] merge_inv_overwrite [OF inv False]
      by (cases "msIndex (fold mergeStep imp st) (keyOf sg)") simp_all
  qed (simp add: merge_inv_skip [OF inv])
qed simp

definition startMerge :: "SiteGroup list \<Rightarrow> nat \<Rightarrow> merge_state" where
  "startMerge old skipped = \<lparr>msMerged = old, msIndex = buildIndex 0 old Map.empty, msAdded = 0, msOverwritten = 0, msSkipped = skipped\<rparr>"

lemma merge_inv_start: "merge_inv old skipped [] (startMerge old skipped)"
  by (simp add: merge_inv_def startMerge_def framed_def placed_def)

section \<open>What is imported\<close>

definition importable :: "SiteGroup \<Rightarrow> bool" where
  "importable sg = (sgMode sg \<in> set importModes \<and> sgEnabled sg)"

definition sameBut :: "SiteGroup \<Rightarrow> SiteGroup \<Rightarrow> bool" where
  "sameBut a b = (b = a\<lparr>sgID := sgID b\<rparr>)"

lemma importGroup_props:
  "sgMode (importGroup i m rule) = m" "sgEnabled (importGroup i m rule)" "sameBut (importGroup i m rule) (importGroup i' m rule)"
  by (simp_all add: importGroup_def Let_def sameBut_def)

lemma importable_key: "importable sg \<Longrightarrow> keyOf sg \<noteq> ''|''"
proof -
  assume "importable sg"
  then have "sgMode sg \<in> set importModes" by (simp add: importable_def)
  moreover have "\<forall>m \<in> set importModes. ToLower (TrimSpace m) \<noteq> []" by code_simp
  ultimately show ?thesis by (auto simp: importMergeKey_def append_eq_Cons_conv)
qed

definition ruleModeOf :: "str \<Rightarrow> ConfigRule \<Rightarrow> str" where
  "ruleModeOf mode rule = (let m = ToLower (TrimSpace (crMode rule)) in if m = [] then mode else m)"

lemma collectGroups_Cons:
  "collectGroups gen n mode (rule # rs) =
     (if length (crDomains rule) = 0 \<or> ruleModeOf mode rule \<notin> set importModes
      then (fst (collectGroups gen n mode rs), snd (collectGroups gen n mode rs) + 1)
      else (importGroup (gen n) (ruleModeOf mode rule) rule # fst (collectGroups gen (n + 1) mode rs),
            snd (collectGroups gen (n + 1) mode rs)))"
  by (simp add: ruleModeOf_def Let_def split_beta)

lemma collectGroups_importable: "\<forall>sg \<in> set (fst (collectGroups gen n mode rs)). importable sg"
proof (induction rs arbitrary: n)
  case (Cons rule rs)
  then show ?case unfolding collectGroups_Cons by (simp add: importable_def importGroup_props)
qed simp

lemma collectGroups_gen:
  "list_all2 sameBut (fst (collectGroups gen n mode rs)) (fst (collectGroups gen' n' mode rs)) \<and>
   snd (collectGroups gen n mode rs) = snd (collectGroups gen' n' mode rs)"
proof (induction rs arbitrary: n n')
  case (Cons rule rs)
  then show ?case unfolding collectGroups_Cons by (simp add: importGroup_props)
qed simp

definition payloadRules :: "import_env \<Rightarrow> str \<Rightarrow> str \<Rightarrow> (str \<times> ConfigRule list) go" where
  "payloadRules env payload forcedType =
     bind_go (parseFile env payload) (\<lambda>cfg.
       let m = ToLower (TrimSpace (cfgType cfg)); mode = (if m = [] then ToLower (TrimSpace forcedType) else m) in
       if mode \<noteq> ''mitm'' \<and> mode \<noteq> ''transparent'' then Err ''invalid or missing config type''
       else Ok (mode, cfgRules cfg))"

lemma parse_payloadRules:
  "parseConfigPayload env n v f = bind_go (payloadRules env v f) (\<lambda>(mode, rs). Ok (collectGroups (genID env) n mode rs))"
  by (cases "parseFile env v") (simp_all add: parseConfigPayload_def payloadRules_def Let_def)

lemma payloadRules_gen [simp]: "payloadRules (env\<lparr>genID := gen\<rparr>) = payloadRules env"
  by (simp add: payloadRules_def fun_eq_iff)

lemma parsePayload_gen:
  assumes "parseConfigPayload env n v f = Ok r"
  shows "\<exists>r'. parseConfigPayload (env\<lparr>genID := gen\<rparr>) n' v f = Ok r' \<and> list_all2 sameBut (fst r) (fst r') \<and> snd r' = snd r \<and>
     (\<forall>sg \<in> set (fst r). importable sg)"
proof -
  obtain mode rs where p: "payloadRules env v f = Ok (mode, rs)" "r = collectGroups (genID env) n mode rs"
    using assms by (auto simp: parse_payloadRules bind_go_Ok_iff)
  then show ?thesis using collectGroups_gen [of "genID env" n mode rs gen n'] collectGroups_importable [of "genID env" n mode rs]
    by (simp add: parse_payloadRules)
qed

lemma parsePayload_not_Ok:
  "(\<forall>r. parseConfigPayload env n v f \<noteq> Ok r) \<Longrightarrow> (\<forall>r. parseConfigPayload (env\<lparr>genID := gen\<rparr>) n' v f \<noteq> Ok r)"
proof (cases "payloadRules env v f")
  case (Ok p)
  assume "\<forall>r. parseConfigPayload env n v f \<noteq> Ok r"
  then show ?thesis using Ok by (simp add: parse_payloadRules split_beta)
qed (simp_all add: parse_payloadRules)

lemma importPart_gen:
  "list_all2 sameBut (fst (importPart env n wr key)) (fst (importPart (env\<lparr>genID := gen\<rparr>) n' wr key)) \<and>
   snd (importPart (env\<lparr>genID := gen\<rparr>) n' wr key) = snd (importPart env n wr key) \<and>
   (\<forall>sg \<in> set (fst (importPart env n wr key)). importable sg)"
proof -
  define payload where "payload = (case wr key of None \<Rightarrow> None | Some (JStr v) \<Rightarrow> Some v
          | Some (JOther (Ok v)) \<Rightarrow> Some v | Some (JOther _) \<Rightarrow> None)"
  have eq: "importPart e k wr key = (case payload of None \<Rightarrow> ([], 0)
      | Some v \<Rightarrow> (case parseConfigPayload e k v key of Ok r \<Rightarrow> r | _ \<Rightarrow> ([], 0)))" for e k
    by (simp add: importPart_def payload_def Let_def)
  show ?thesis
  proof (cases payload)
    case (Some v)
    show ?thesis
    proof (cases "\<exists>r. parseConfigPayload env n v key = Ok r")
      case True
      then obtain r where r: "parseConfigPayload env n v key = Ok r" by blast
      from parsePayload_gen [OF r, of gen n'] show ?thesis using r Some by (auto simp: eq)
    next
      case False
      then show ?thesis using parsePayload_not_Ok [of env n v key gen n'] Some by (auto simp: eq split: go.split)
    qed
  qed (simp add: eq)
qed

lemma importedGroups_gen:
  "list_all2 sameBut (fst (importedGroups env c)) (fst (importedGroups (env\<lparr>genID := gen\<rparr>) c)) \<and>
   snd (importedGroups (env\<lparr>genID := gen\<rparr>) c) = snd (importedGroups env c) \<and>
   (\<forall>sg \<in> set (fst (importedGroups env c)). importable sg)"
proof -
  have w: "list_all2 sameBut (fst (importWrapped env c)) (fst (importWrapped (env\<lparr>genID := gen\<rparr>) c)) \<and>
     snd (importWrapped (env\<lparr>genID := gen\<rparr>) c) = snd (importWrapped env c) \<and>
     (\<forall>sg \<in> set (fst (importWrapped env c)). importable sg)"
  proof (cases "parseWrapper env c")
    case (Ok wr)
    let ?e = "env\<lparr>genID := gen\<rparr>"
    note a = importPart_gen [of env 0 wr "''mitm''" gen 0]
    note b = importPart_gen [of env "length (fst (importPart env 0 wr ''mitm''))" wr "''transparent''" gen "length (fst (importPart ?e 0 wr ''mitm''))"]
    have e: "fst (importWrapped x c) = fst (importPart x 0 wr ''mitm'') @ fst (importPart x (length (fst (importPart x 0 wr ''mitm''))) wr ''transparent'')"
      "snd (importWrapped x c) = snd (importPart x 0 wr ''mitm'') + snd (importPart x (length (fst (importPart x 0 wr ''mitm''))) wr ''transparent'')"
      if "parseWrapper x c = Ok wr" for x
      using that by (simp_all add: importWrapped_def Let_def split_beta)
    have "parseWrapper ?e c = Ok wr" using Ok by simp
    then show ?thesis using a b by (auto simp only: e [OF Ok] e [of ?e] set_append intro!: list_all2_appendI)
  qed (simp_all add: importWrapped_def)
  have len: "length (fst (importWrapped (env\<lparr>genID := gen\<rparr>) c)) = length (fst (importWrapped env c))"
    using w list_all2_lengthD by metis
  show ?thesis
  proof (cases "length (fst (importWrapped env c)) = 0")
    case True
    show ?thesis
    proof (cases "\<exists>r. parseConfigPayload env 0 c [] = Ok r")
      case ok: True
      then obtain r where r: "parseConfigPayload env 0 c [] = Ok r" by blast
      from parsePayload_gen [OF r, of gen 0] show ?thesis
        using r True len w by (auto simp: importedGroups_def Let_def split_beta)
    next
      case False
      then show ?thesis using parsePayload_not_Ok [of env 0 c "[]" gen 0] True len w
        by (auto simp: importedGroups_def Let_def split_beta split: go.split)
    qed
  next
    case False
    then have "fst (importWrapped (env\<lparr>genID := gen\<rparr>) c) \<noteq> []" using len by auto
    then show ?thesis using False w by (simp add: importedGroups_def Let_def split_beta)
  qed
qed

section \<open>The import as a whole\<close>

lemma Import_unfold:
  assumes "TrimSpace content \<noteq> []" and "importedGroups env (TrimSpace content) = (imp, sk)" and "imp \<noteq> []"
  shows "ImportConfigWithSummary env None content rm =
     (let st = fold mergeStep imp (startMerge (siteGroups rm) sk)
      in (fst (saveRulesConfig None (buildRules (rm\<lparr>siteGroups := msMerged st\<rparr>))),
          Ok \<lparr>isTotal = length imp + sk, isAdded = msAdded st, isOverwritten = msOverwritten st, isSkipped = msSkipped st\<rparr>))"
  using assms by (simp add: ImportConfigWithSummary_def Let_def startMerge_def saveRulesConfig_def)

lemma Import_OkD:
  assumes "ImportConfigWithSummary env None content rm = (rm', Ok s)"
  obtains imp sk st where "TrimSpace content \<noteq> []" "importedGroups env (TrimSpace content) = (imp, sk)" "imp \<noteq> []"
    "st = fold mergeStep imp (startMerge (siteGroups rm) sk)" "siteGroups rm' = msMerged st"
    "rules rm' = builtRules rm'"
    "s = \<lparr>isTotal = length imp + sk, isAdded = msAdded st, isOverwritten = msOverwritten st, isSkipped = msSkipped st\<rparr>"
proof -
  obtain imp sk where i: "importedGroups env (TrimSpace content) = (imp, sk)" by force
  have c: "TrimSpace content \<noteq> []" using assms by (auto simp: ImportConfigWithSummary_def Let_def)
  have ne: "imp \<noteq> []" using assms c i by (auto simp: ImportConfigWithSummary_def Let_def)
  define st where "st = fold mergeStep imp (startMerge (siteGroups rm) sk)"
  have r: "rm' = fst (saveRulesConfig None (buildRules (rm\<lparr>siteGroups := msMerged st\<rparr>)))"
    "s = \<lparr>isTotal = length imp + sk, isAdded = msAdded st, isOverwritten = msOverwritten st, isSkipped = msSkipped st\<rparr>"
    using assms unfolding Import_unfold [OF c i ne] Let_def st_def by auto
  have "siteGroups rm' = msMerged st" "rules rm' = builtRules rm'"
    by (simp_all add: r(1) builtRules_def)
  then show thesis using that [OF c i ne st_def] r(2) by blast
qed

lemma import_index:
  assumes "importedGroups env c = (imp, sk)" and "st = fold mergeStep imp (startMerge old sk)"
  shows "merge_inv old sk imp st" and "\<forall>sg \<in> set imp. keyOf sg \<noteq> ''|'' \<and> msIndex st (keyOf sg) \<noteq> None"
proof -
  show inv: "merge_inv old sk imp st" unfolding assms(2) by (rule merge_inv_fold [OF merge_inv_start])
  have "\<forall>sg \<in> set imp. importable sg" using importedGroups_gen [of env c] assms(1) by simp
  then show "\<forall>sg \<in> set imp. keyOf sg \<noteq> ''|'' \<and> msIndex st (keyOf sg) \<noteq> None"
    using inv importable_key by (auto simp: merge_inv_def)
qed


lemma mergeStep_hit:
  "keyOf sg \<noteq> ''|'' \<Longrightarrow> msIndex st (keyOf sg) = Some i \<Longrightarrow>
   mergeStep sg st = st\<lparr>msMerged := (msMerged st)[i := sg\<lparr>sgID := sgID (msMerged st ! i)\<rparr>], msOverwritten := msOverwritten st + 1\<rparr>"
  by (simp add: mergeStep_def)

text \<open>A run in which every key is in the index: nothing is added, and a place that the index does not
  name is untouched.\<close>

lemma rerun_fold:
  assumes "\<forall>sg \<in> set imp. keyOf sg \<noteq> ''|'' \<and> buildIndex 0 old Map.empty (keyOf sg) \<noteq> None"
  shows "msAdded (fold mergeStep imp (startMerge old sk)) = 0 \<and>
     (\<forall>j < length old. buildIndex 0 old Map.empty (keyOf (old ! j)) \<noteq> Some j \<longrightarrow>
        msMerged (fold mergeStep imp (startMerge old sk)) ! j = old ! j)
     \<and> msIndex (fold mergeStep imp (startMerge old sk)) = buildIndex 0 old Map.empty"
  using assms
proof (induction imp rule: rev_induct)
  case (snoc sg imp)
  let ?st = "fold mergeStep imp (startMerge old sk)"
  obtain i where i: "buildIndex 0 old Map.empty (keyOf sg) = Some i" "keyOf sg \<noteq> ''|''" using snoc.prems by auto
  have IH: "msAdded ?st = 0" "\<forall>j < length old. buildIndex 0 old Map.empty (keyOf (old ! j)) \<noteq> Some j \<longrightarrow> msMerged ?st ! j = old ! j"
    "msIndex ?st = buildIndex 0 old Map.empty" using snoc by auto
  have "keyOf (old ! i) = keyOf sg" using buildIndex_SomeD [OF i(1)] by blast
  moreover have "mergeStep sg ?st = ?st\<lparr>msMerged := (msMerged ?st)[i := sg\<lparr>sgID := sgID (msMerged ?st ! i)\<rparr>], msOverwritten := msOverwritten ?st + 1\<rparr>"
    using mergeStep_hit [OF i(2)] IH(3) i(1) by simp
  moreover have "(msMerged ?st)[i := x] ! j = old ! j"
    if "j < length old" "buildIndex 0 old Map.empty (keyOf (old ! j)) \<noteq> Some j" for j x
  proof -
    have "j \<noteq> i" using that(2) i(1) \<open>keyOf (old ! i) = keyOf sg\<close> by auto
    then show ?thesis using IH(2) that by simp
  qed
  ultimately show ?case using IH(1,3) by simp
qed (simp add: startMerge_def)

lemma sameBut_keys: "list_all2 sameBut xs ys \<Longrightarrow> map keyOf ys = map keyOf xs"
proof (induction rule: list_all2_induct)
  case (Cons x xs y ys)
  then have "keyOf y = keyOf x" unfolding sameBut_def by (metis keyOf_setID)
  then show ?case using Cons by simp
qed simp

lemma sameBut_setID: "sameBut a b \<Longrightarrow> b\<lparr>sgID := i\<rparr> = a\<lparr>sgID := i\<rparr>"
proof -
  assume "sameBut a b"
  then have b: "b = a\<lparr>sgID := sgID b\<rparr>" by (simp add: sameBut_def)
  show ?thesis by (subst b) simp
qed

lemma sameBut_lastFor:
  assumes "list_all2 sameBut xs ys" and "k \<in> keyOf ` set xs"
  shows "sameBut (lastFor xs k) (lastFor ys k)"
  using assms
proof (induction xs arbitrary: ys rule: rev_induct)
  case (snoc x xs)
  obtain y ys0 where y: "ys = ys0 @ [y]" "list_all2 sameBut xs ys0" "sameBut x y"
    using snoc.prems(1) by (auto simp: list_all2_append1 list_all2_Cons1)
  then have "keyOf y = keyOf x" unfolding sameBut_def by (metis keyOf_setID)
  then show ?case using snoc y by (auto simp: lastFor_snoc)
qed simp

text \<open>C13: Importing the same text a second time succeeds, adds nothing and leaves the site groups and
  the rules as they are, whatever identifiers the second import generates.\<close>

theorem import_idempotent:
  assumes "ImportConfigWithSummary env None content rm = (rm1, Ok s1)"
  shows "\<exists>rm2 s2. ImportConfigWithSummary (env\<lparr>genID := gen\<rparr>) None content rm1 = (rm2, Ok s2) \<and>
     siteGroups rm2 = siteGroups rm1 \<and> rules rm2 = rules rm1 \<and> isAdded s2 = 0"
proof -
  obtain imp sk st where o: "TrimSpace content \<noteq> []" "importedGroups env (TrimSpace content) = (imp, sk)" "imp \<noteq> []"
    "st = fold mergeStep imp (startMerge (siteGroups rm) sk)" "siteGroups rm1 = msMerged st" "rules rm1 = builtRules rm1"
    "s1 = \<lparr>isTotal = length imp + sk, isAdded = msAdded st, isOverwritten = msOverwritten st, isSkipped = msSkipped st\<rparr>"
    by (rule Import_OkD [OF assms])
  let ?e = "env\<lparr>genID := gen\<rparr>" and ?M = "msMerged st" and ?ix = "buildIndex 0 (msMerged st) Map.empty"
  obtain imp2 where i2: "importedGroups ?e (TrimSpace content) = (imp2, sk)" and sb: "list_all2 sameBut imp imp2"
    using importedGroups_gen [of env "TrimSpace content" gen] o(2) by (metis fst_conv prod.collapse snd_conv)
  have ne: "imp2 \<noteq> []" using o(3) sb by auto
  have keys: "keyOf ` set imp2 = keyOf ` set imp" using sameBut_keys [OF sb] by (metis list.set_map)
  note inv1 = import_index [OF o(2,4)]
  have ix1: "msIndex st = ?ix" "placed imp st" using inv1(1) by (simp_all add: merge_inv_def)
  define st2 where "st2 = fold mergeStep imp2 (startMerge ?M sk)"
  have inv2: "merge_inv ?M sk imp2 st2" unfolding st2_def by (rule merge_inv_fold [OF merge_inv_start])
  have cover: "\<forall>sg \<in> set imp2. keyOf sg \<noteq> ''|'' \<and> ?ix (keyOf sg) \<noteq> None"
  proof
    fix sg
    assume "sg \<in> set imp2"
    then have "keyOf sg \<in> keyOf ` set imp" using keys by blast
    then obtain x where "x \<in> set imp" "keyOf x = keyOf sg" by (metis imageE)
    then show "keyOf sg \<noteq> ''|'' \<and> ?ix (keyOf sg) \<noteq> None" using inv1(2) ix1(1) by (metis (no_types, lifting))
  qed
  note re = rerun_fold [OF cover, of sk, folded st2_def]
  have len: "length (msMerged st2) = length ?M" using inv2 re by (simp add: merge_inv_def)
  have fr: "framed ?M imp2 st2" and pl: "placed imp2 st2" using inv2 by (simp_all add: merge_inv_def)
  have "msMerged st2 = ?M"
  proof (rule nth_equalityI [OF len])
    fix j
    assume "j < length (msMerged st2)"
    then have j: "j < length ?M" using len by simp
    have k: "keyOf (msMerged st2 ! j) = keyOf (?M ! j)" "sgID (msMerged st2 ! j) = sgID (?M ! j)"
      using fr j by (simp_all add: framed_def)
    show "msMerged st2 ! j = ?M ! j"
    proof (cases "?ix (keyOf (?M ! j)) = Some j \<and> keyOf (?M ! j) \<in> keyOf ` set imp")
      case True
      have "?M ! j = (lastFor imp (keyOf (?M ! j)))\<lparr>sgID := sgID (?M ! j)\<rparr>"
        using ix1 j True by (simp add: placed_def)
      moreover have "msMerged st2 ! j = (lastFor imp2 (keyOf (?M ! j)))\<lparr>sgID := sgID (?M ! j)\<rparr>"
      proof -
        have "msIndex st2 (keyOf (msMerged st2 ! j)) = Some j" "keyOf (msMerged st2 ! j) \<in> keyOf ` set imp2" "j < length (msMerged st2)"
          using re True k(1) keys j len by auto
        then have "msMerged st2 ! j = (lastFor imp2 (keyOf (msMerged st2 ! j)))\<lparr>sgID := sgID (msMerged st2 ! j)\<rparr>"
          using pl unfolding placed_def by blast
        then show ?thesis unfolding k .
      qed
      moreover have "sameBut (lastFor imp (keyOf (?M ! j))) (lastFor imp2 (keyOf (?M ! j)))"
        using sameBut_lastFor [OF sb] True by blast
      ultimately show ?thesis using sameBut_setID by metis
    next
      case False
      then show ?thesis using re fr j keys by (auto simp: framed_def)
    qed
  qed
  moreover have "builtRules (rm1\<lparr>siteGroups := ?M\<rparr>) = rules rm1" using o(5,6) by (simp add: builtRules_def)
  ultimately show ?thesis unfolding Import_unfold [OF o(1) i2 ne] Let_def o(5) st2_def [symmetric]
    using re o(5) by (simp add: builtRules_def)
qed

section \<open>A file with one rule\<close>

definition sampleEnv :: import_env where
  "sampleEnv = \<lparr>parseWrapper = (\<lambda>_. Err ''not an object''), parseFile = (\<lambda>_. Ok \<lparr>cfgVersion = ''2.0'', cfgType = ''mitm'',
     cfgRules = [\<lparr>crName = [], crWebsite = [], crMode = [], crEnabled = False, crDomains = [''a.com''], crUpstream = [],
       crUpstreams = [], crDNSMode = [], crSniFake = [], crConnectPolicy = [], crSniPolicy = [], crECHEnabled = False,
       crECHProfileID = [], crECHDomain = [], crUseCFPool = False, crCertVerify = zeroCertVerify\<rparr>]\<rparr>),
     genID = (\<lambda>n. itoa n)\<rparr>"

lemma sample_import: "\<exists>rm' s. ImportConfigWithSummary sampleEnv None ''x'' (NewRuleManager None None) = (rm', Ok s)"
proof -
  have x: "TrimSpace ''x'' = ''x''" by code_simp
  have l: "ToLower (TrimSpace ''mitm'') = ''mitm''" "TrimSpace ''mitm'' \<noteq> []" by code_simp+
  have "fst (importedGroups sampleEnv ''x'') \<noteq> []"
    by (simp add: importedGroups_def importWrapped_def parseConfigPayload_def sampleEnv_def l importModes_def)
  moreover obtain imp sk where "importedGroups sampleEnv ''x'' = (imp, sk)" by force
  ultimately show ?thesis using Import_unfold [of "''x''" sampleEnv imp sk] x by (simp add: Let_def)
qed


theorem import_idempotent_witness:
  "\<exists>rm1 s1 rm2 s2. ImportConfigWithSummary sampleEnv None ''x'' (NewRuleManager None None) = (rm1, Ok s1) \<and>
     ImportConfigWithSummary (sampleEnv\<lparr>genID := \<lambda>n. itoa (n + 5)\<rparr>) None ''x'' rm1 = (rm2, Ok s2) \<and> isAdded s2 = 0"
  using sample_import import_idempotent [of sampleEnv "''x''" "NewRuleManager None None"] by blast

end
