(* ===== verification/TlsFragment.thy ===== *)
theory TlsFragment
  imports ProxyTypes
begin

text \<open>
  The TLS-RF mode of \<open>src/proxy/tls_fragment.go\<close>: reading the client's first TLS record, finding
  the server name in its ClientHello, cutting the record into several records at the last dot of
  the name, and sending them.

  \<^item> \<open>readInitialTLSRecord\<close> reads from the bytes the client sends.
  \<^item> \<open>parseClientHello\<close> is the checks of the source in order; every read of the record goes
    through a bounds check that panics, so that its safety is a theorem. The loop over the
    extensions is \<open>parseExtensions\<close>, one round of it \<open>extStep\<close>.
  \<^item> \<open>findLastDot\<close>, \<open>splitAndAppend\<close>, \<open>makeRecord\<close>, \<open>sendRecords\<close> follow the code with all their
    options; what is sent is a list of events, and a write may fail wherever the environment
    says so.
  \<^item> \<open>handleTLSFragment\<close> and \<open>handleTLSRFFallback\<close> give the list of everything done to the three
    connections.
\<close>

section \<open>Reading the first record\<close>

definition readInitialTLSRecord :: "bytes \<Rightarrow> (bytes \<times> bytes) go" where
  "readInitialTLSRecord conn =
     bind_go (ReadFull 5 conn) (\<lambda>(header, rest).
       let recordLen = be16 (header ! 3) (header ! 4) in
       if recordLen > 0 then
         bind_go (ReadFull recordLen rest) (\<lambda>(body, rest'). Ok (header @ body, rest'))
       else Ok (header, rest))"

section \<open>Parsing a ClientHello\<close>

record client_hello =
  prtVer :: bytes
  sniPos :: int
  sniLen :: nat
  hasKeyShare :: bool

text \<open>What one round of the extension loop does: return, or go on at an offset.\<close>

datatype ext_step = Return client_hello | Continue nat client_hello

definition extStep :: "bytes \<Rightarrow> nat \<Rightarrow> nat \<Rightarrow> client_hello \<Rightarrow> ext_step go" where
  "extStep data extensionsEnd offset h =
     with_u16 data offset (\<lambda>extType.
     with_u16 data (offset + 2) (\<lambda>extLen.
     let extDataStart = offset + 4; extDataEnd = extDataStart + extLen in
     if extDataEnd > extensionsEnd then Err ''extension length exceeds extensions block''
     else
       let h1 = (if extType = 51 then h\<lparr>hasKeyShare := True\<rparr> else h) in
       if extType = 51 \<and> sniPos h1 \<noteq> - 1 then Ok (Return h1)
       else if sniPos h1 = - 1 \<and> extType = 0 then
         if extLen < 2 then Err ''malformed SNI extension''
         else
           with_u16 data extDataStart (\<lambda>listLen.
           if listLen + 2 \<noteq> extLen then Err ''SNI list length field mismatch''
           else
             let cursor = extDataStart + 2 in
             if cursor + 3 > extDataEnd then Err ''SNI entry too short''
             else
               with_byte data cursor (\<lambda>nameType.
               if nameType \<noteq> 0 then Err ''unsupported SNI name type''
               else
                 with_u16 data (cursor + 1) (\<lambda>nameLen.
                 let nameStart = cursor + 3; nameEnd = nameStart + nameLen in
                 if nameEnd > extDataEnd then Err ''SNI name length exceeds extension''
                 else
                   let h2 = h1\<lparr>sniPos := int nameStart, sniLen := nameLen\<rparr> in
                   if hasKeyShare h2 then Ok (Return h2) else Ok (Continue extDataEnd h2))))
       else Ok (Continue extDataEnd h1)))"

lemma extStep_advances:
  "extStep data e off h = Ok (Continue off' h') \<Longrightarrow> off + 4 \<le> off' \<and> off' \<le> e"
  unfolding extStep_def with_u16_def with_byte_def Let_def by (auto split: if_splits)

function parseExtensions :: "bytes \<Rightarrow> nat \<Rightarrow> nat \<Rightarrow> client_hello \<Rightarrow> client_hello go" where
  "parseExtensions data extensionsEnd offset h =
     (if offset + 4 \<le> extensionsEnd then
        (case extStep data extensionsEnd offset h of
           Ok (Return h') \<Rightarrow> Ok h'
         | Ok (Continue offset' h') \<Rightarrow> parseExtensions data extensionsEnd offset' h'
         | Err m \<Rightarrow> Err m
         | Panic \<Rightarrow> Panic)
      else Ok h)"
  by pat_completeness auto
termination
  by (relation "measure (\<lambda>(data, e, off, h). e - off)") (auto dest: extStep_advances)

declare parseExtensions.simps [simp del]

text \<open>The tail of \<open>parseClientHello\<close>, from the length of the session id on.\<close>

definition parseHelloBody :: "bytes \<Rightarrow> nat \<Rightarrow> bytes \<Rightarrow> client_hello go" where
  "parseHelloBody data offset0 ver =
     (let none = \<lparr>prtVer = ver, sniPos = - 1, sniLen = 0, hasKeyShare = False\<rparr> in
      if offset0 \<ge> length data then Err ''unexpected end after Random''
      else with_byte data offset0 (\<lambda>sidLen.
      let offset1 = offset0 + 1; sessionIDLen = unat sidLen in
      if offset1 + sessionIDLen > length data then Err ''session_id length exceeds data''
      else
        let offset2 = offset1 + sessionIDLen in
        if offset2 + 2 > length data then Err ''cannot read cipher_suites length''
        else with_u16 data offset2 (\<lambda>csLen.
        let offset3 = offset2 + 2 in
        if offset3 + csLen > length data then Err ''cipher_suites exceed data''
        else
          let offset4 = offset3 + csLen in
          if offset4 \<ge> length data then Err ''cannot read compression_methods length''
          else with_byte data offset4 (\<lambda>cmLen.
          let offset5 = offset4 + 1; compMethodsLen = unat cmLen in
          if offset5 + compMethodsLen > length data then Err ''compression_methods exceed data''
          else
            let offset6 = offset5 + compMethodsLen in
            if offset6 + 2 > length data then Ok none
            else with_u16 data offset6 (\<lambda>extTotalLen.
            let offset7 = offset6 + 2 in
            if offset7 + extTotalLen > length data then Err ''extensions length exceeds data''
            else parseExtensions data (offset7 + extTotalLen) offset7 none)))))"

definition parseClientHello :: "bytes \<Rightarrow> client_hello go" where
  "parseClientHello data =
     (if length data < 5 then Err ''TLS record too short''
      else with_u16 data 3 (\<lambda>recordLen.
      if length data < 5 + recordLen then Err ''record length exceeds data size''
      else if recordLen < 4 then Err ''handshake message too short''
      else with_byte data 5 (\<lambda>ty.
      if ty \<noteq> 1 then Err (''not a ClientHello handshake (type='' @ itoa (unat ty) @ '')'')
      else with_byte data 6 (\<lambda>a. with_byte data 7 (\<lambda>b. with_byte data 8 (\<lambda>c.
      let handshakeLen = unat a * 65536 + unat b * 256 + unat c in
      if handshakeLen + 4 > recordLen then Err ''handshake length exceeds record length''
      else if handshakeLen < 2 + 32 + 1 then Err ''ClientHello too short for mandatory fields''
      else with_slice data 9 11 (\<lambda>ver. parseHelloBody data (9 + 2 + 32) ver)))))))"

section \<open>Cutting the record\<close>

definition with_int :: "bytes \<Rightarrow> int \<Rightarrow> (byte \<Rightarrow> 'a go) \<Rightarrow> 'a go" where
  "with_int data i k = (if 0 \<le> i then with_byte data (nat i) k else Panic)"

text \<open>The loop of \<open>findLastDot\<close>: \<open>i\<close> runs from \<open>pos + k\<close> down to \<open>pos\<close>.\<close>

primrec lastDotFrom :: "bytes \<Rightarrow> int \<Rightarrow> nat \<Rightarrow> int option go" where
  "lastDotFrom data pos 0 = with_int data pos (\<lambda>b. Ok (if b = 46 then Some pos else None))"
| "lastDotFrom data pos (Suc k) =
     with_int data (pos + int (Suc k)) (\<lambda>b.
       if b = 46 then Ok (Some (pos + int (Suc k))) else lastDotFrom data pos k)"

definition findLastDot :: "bytes \<Rightarrow> int \<Rightarrow> nat \<Rightarrow> (int \<times> bool) go" where
  "findLastDot data pos len =
     bind_go (lastDotFrom data pos len) (\<lambda>r.
       case r of Some i \<Rightarrow> Ok (i, True) | None \<Rightarrow> Ok (int (len div 2) + pos, False))"

definition makeRecord :: "bytes \<Rightarrow> bytes \<Rightarrow> bytes" where
  "makeRecord header payload = take 3 (header @ replicate 3 0) @ put16 (length payload) @ payload"

definition splitParts :: "bytes \<Rightarrow> nat \<Rightarrow> bytes list" where
  "splitParts data n =
     (if n = 0 then []
      else if n = 1 \<or> length data < n then [data]
      else let base = length data div n in
        map (\<lambda>i. if i = n - 1 then drop (i * base) data else take base (drop (i * base) data)) [0..<n])"

definition splitAndAppend :: "bytes \<Rightarrow> bytes option \<Rightarrow> nat \<Rightarrow> bytes list \<Rightarrow> bytes list" where
  "splitAndAppend data header n result =
     result @ map (\<lambda>part. case header of None \<Rightarrow> part | Some h \<Rightarrow> makeRecord h part) (splitParts data n)"

section \<open>Sending\<close>

text \<open>What reaches the socket: a write, a write whose last byte is urgent (\<open>sendWithOOB\<close>), or a
  pause of some milliseconds. The environment \<open>wr\<close> gives the error, if any, of the next send
  after what has been sent so far.\<close>

datatype out = Wr bytes | Oob bytes byte | Pause nat

type_synonym wr_env = "out list \<Rightarrow> str option"
type_synonym sent = "out list \<times> unit go"

definition wrap_err :: "str \<Rightarrow> str \<Rightarrow> str" where
  "wrap_err msg cause = msg @ '': '' @ cause"

definition send :: "wr_env \<Rightarrow> str \<Rightarrow> out \<Rightarrow> out list \<Rightarrow> (out list \<Rightarrow> sent) \<Rightarrow> sent" where
  "send wr msg e tr k =
     (case wr tr of None \<Rightarrow> k (tr @ [e]) | Some c \<Rightarrow> (tr, Err (wrap_err msg c)))"

definition pause :: "nat \<Rightarrow> out list \<Rightarrow> out list" where
  "pause interval tr = (if interval > 0 then tr @ [Pause interval] else tr)"

text \<open>The loop over the packets of a single record.\<close>

fun sendPackets :: "wr_env \<Rightarrow> bool \<Rightarrow> nat \<Rightarrow> nat \<Rightarrow> bytes list \<Rightarrow> out list \<Rightarrow> sent" where
  "sendPackets wr oob interval i [] tr = (tr, Ok ())"
| "sendPackets wr oob interval i (p # ps) tr =
     send wr (if i = 0 \<and> oob then ''oob'' else ''write packet '' @ itoa (i + 1))
       (if i = 0 \<and> oob then Oob p 0 else Wr p) tr
       (\<lambda>tr'. sendPackets wr oob interval (Suc i) ps (pause interval tr'))"

text \<open>The loop over the records when \<open>segments = -1\<close>.\<close>

fun sendChunks :: "wr_env \<Rightarrow> bool \<Rightarrow> bool \<Rightarrow> nat \<Rightarrow> nat \<Rightarrow> bytes list \<Rightarrow> out list \<Rightarrow> sent" where
  "sendChunks wr oob oobex interval i [] tr = (tr, Ok ())"
| "sendChunks wr oob oobex interval i (c # cs) tr =
     (if i = 0 then
        if oob then send wr ''oob'' (Oob c 0) tr
          (\<lambda>tr'. sendChunks wr oob oobex interval (Suc i) cs (pause interval tr'))
        else if oobex then
          (if c = [] then (tr, Panic)
           else send wr ''oob 1'' (Oob (butlast c) (last c)) tr
             (\<lambda>tr'. sendChunks wr oob oobex interval (Suc i) cs tr'))
        else sendChunks wr oob oobex interval (Suc i) cs tr
      else if i = 1 \<and> oobex then
        send wr ''oob 2'' (Oob c 0) tr (\<lambda>tr'. sendChunks wr oob oobex interval (Suc i) cs tr')
      else send wr (''write record '' @ itoa (i + 1)) (Wr c) tr
        (\<lambda>tr'. sendChunks wr oob oobex interval (Suc i) cs (pause interval tr')))"

text \<open>The loop over the segments of the merged records.\<close>

fun sendSegments :: "wr_env \<Rightarrow> bool \<Rightarrow> nat \<Rightarrow> nat \<Rightarrow> bytes list \<Rightarrow> out list \<Rightarrow> sent" where
  "sendSegments wr oob interval i [] tr = (tr, Ok ())"
| "sendSegments wr oob interval i (s # ss) tr =
     send wr (if i = 0 \<and> oob then ''oob'' else ''write segment '' @ itoa (i + 1))
       (if i = 0 \<and> oob then Oob s 0 else Wr s) tr
       (\<lambda>tr'. sendSegments wr oob interval (Suc i) ss (pause interval tr'))"

definition segmentsOf :: "bytes \<Rightarrow> nat \<Rightarrow> bytes list" where
  "segmentsOf merged n =
     (let base = length merged div n in
      map (\<lambda>i. take ((if i = n - 1 then length merged else i * base + base) - i * base)
                    (drop (i * base) merged)) [0..<n])"

text \<open>The two urgent sends of \<open>oobex\<close>: bytes 0 to 14 with byte 15 urgent, then bytes 16 to 19 with
  a zero. \<open>cap\<close> is the capacity of the slice, up to which a slice expression may reach.\<close>

definition sendOobEx :: "wr_env \<Rightarrow> nat \<Rightarrow> bytes \<Rightarrow> nat \<Rightarrow> out list \<Rightarrow> (out list \<Rightarrow> bytes \<Rightarrow> sent) \<Rightarrow> sent" where
  "sendOobEx wr capacity buf interval tr k =
     (if length buf \<le> 15 then (tr, Panic)
      else send wr ''oob 1'' (Oob (take 15 buf) (buf ! 15)) tr (\<lambda>tr1.
        if capacity < 20 then (tr1, Panic)
        else send wr ''oob 2''
          (Oob (take 4 (drop 16 (buf @ replicate (capacity - length buf) 0))) 0) tr1 (\<lambda>tr2.
        if length buf < 20 then (pause interval tr2, Panic)
        else k (pause interval tr2) (drop 20 buf))))"

definition sendOneRecord :: "wr_env \<Rightarrow> bytes \<Rightarrow> int \<Rightarrow> nat \<Rightarrow> int \<Rightarrow> bool \<Rightarrow> nat \<Rightarrow> out list \<Rightarrow> sent" where
  "sendOneRecord wr clientHello offset len segments oob interval tr =
     (if segments = 1 then send wr ''send remaining data'' (Wr clientHello) tr (\<lambda>tr'. (tr', Ok ()))
      else if segments < 0 then (tr, Panic)
      else
        let leftSegments = nat segments div 2; rightSegments = nat segments - leftSegments in
        case findLastDot clientHello (offset - 20) len of
          Ok (pos, _) \<Rightarrow>
            if pos < 0 \<or> int (length clientHello) < pos then (tr, Panic)
            else
              let packets = splitAndAppend (drop (nat pos) clientHello) None rightSegments
                              (splitAndAppend (take (nat pos) clientHello) None leftSegments [])
              in sendPackets wr oob interval 0 packets tr
        | _ \<Rightarrow> (tr, Panic))"

definition sendRecords ::
  "wr_env \<Rightarrow> bytes \<Rightarrow> int \<Rightarrow> nat \<Rightarrow> nat \<Rightarrow> int \<Rightarrow> bool \<Rightarrow> bool \<Rightarrow> bool \<Rightarrow> nat \<Rightarrow> sent" where
  "sendRecords wr clientHello0 offset len records segments oob oobex modMinorVer interval =
     (let clientHello = (if modMinorVer \<and> length clientHello0 \<ge> 3 then clientHello0[2 := 4]
                         else clientHello0) in
      if records = 1 then
        (if oobex then
           if length clientHello < 20 then ([], Err (wrap_err ''oob: clientHello too short'' ''nil''))
           else sendOobEx wr (length clientHello) clientHello interval []
             (\<lambda>tr rest. sendOneRecord wr rest offset len segments oob interval tr)
         else sendOneRecord wr clientHello offset len segments oob interval [])
      else
        let leftChunks = records div 2; rightChunks = records - leftChunks in
        case findLastDot clientHello offset len of
          Ok (pos, _) \<Rightarrow>
            if length clientHello < 3 \<or> pos < 5 \<or> int (length clientHello) < pos then ([], Panic)
            else
              let header = take 3 clientHello;
                  chunks = splitAndAppend (drop (nat pos) clientHello) (Some header) rightChunks
                    (splitAndAppend (take (nat pos - 5) (drop 5 clientHello)) (Some header) leftChunks [])
              in
              if segments = - 1 then sendChunks wr oob oobex interval 0 chunks []
              else
                let merged = concat chunks;
                    tail = (\<lambda>tr buf.
                      if segments = 1 \<or> int (length buf) \<le> segments then
                        (case wr tr of None \<Rightarrow> (tr @ [Wr buf], Ok ()) | Some c \<Rightarrow> (tr, Err c))
                      else if segments = 0 then (tr, Panic)
                      else if segments < 0 then (tr, Ok ())
                      else sendSegments wr oob interval 0 (segmentsOf buf (nat segments)) tr)
                in if oobex
                   then sendOobEx wr (records * 5 + length clientHello) merged interval [] tail
                   else tail [] merged
        | _ \<Rightarrow> ([], Panic))"

section \<open>The handler\<close>

text \<open>The environment of one TLS-RF connection: the client's bytes, the errors of the upstream's
  writes, what the one-byte probe of the upstream reads (\<open>None\<close> when it fails), the error of dialling
  an address, and the error of writing to the fallback connection.\<close>

record tls_env =
  clientIn :: bytes
  upWrite :: wr_env
  upRead :: "byte option"
  dialTCP :: "str \<Rightarrow> str option"
  newWrite :: "str option"

text \<open>What the handler does: sends to the upstream or to the fallback connection, closes, and hands
  connections to \<open>directTunnel\<close>. A tunnel carries the bytes put back in front of the upstream's
  stream and the client's bytes that were not read yet.\<close>

datatype tls_act =
    UpSend out | CloseClient | CloseUp
  | NewDial str | NewSend bytes | CloseNew
  | TunnelUp bytes bytes | TunnelNew bytes

definition DialFallback :: "(str \<Rightarrow> str option) \<Rightarrow> str \<Rightarrow> str \<Rightarrow> str \<Rightarrow> str go" where
  "DialFallback dial fallbackMode targetAddr serverHost =
     (if fallbackMode = ''server'' then
        if serverHost = [] then Err ''server host not configured''
        else
          let addr = ensureAddrWithPort serverHost ''443'' in
          case dial addr of None \<Rightarrow> Ok addr | Some e \<Rightarrow> Err e
      else Err (''unknown fallback: '' @ fallbackMode))"

definition handleTLSRFFallback ::
  "tls_env \<Rightarrow> str \<Rightarrow> str \<Rightarrow> Rule \<Rightarrow> bytes \<Rightarrow> bytes \<Rightarrow> tls_act list" where
  "handleTLSRFFallback env serverHost host rule originalRecord rest =
     (let targetAddr = JoinHostPort host ''443'' in
      case DialFallback (dialTCP env) (rFallbackMode rule) targetAddr serverHost of
        Ok addr \<Rightarrow>
          (case newWrite env of
             Some _ \<Rightarrow> [NewDial addr, CloseNew, CloseClient]
           | None \<Rightarrow> [NewDial addr, NewSend originalRecord, TunnelNew rest])
      | _ \<Rightarrow> [CloseClient])"

definition handleTLSFragment :: "tls_env \<Rightarrow> str \<Rightarrow> str \<Rightarrow> Rule \<Rightarrow> tls_act list \<times> unit go" where
  "handleTLSFragment env serverHost host rule =
     (case readInitialTLSRecord (clientIn env) of
        Err _ \<Rightarrow> ([CloseClient, CloseUp], Ok ())
      | Panic \<Rightarrow> ([], Panic)
      | Ok (record, rest) \<Rightarrow>
          (case parseClientHello record of
             Err _ \<Rightarrow> ([CloseClient, CloseUp], Ok ())
           | Panic \<Rightarrow> ([], Panic)
           | Ok h \<Rightarrow>
               if sniPos h \<le> 0 \<or> sniLen h = 0 then
                 (case upWrite env [] of
                    Some _ \<Rightarrow> ([CloseClient, CloseUp], Ok ())
                  | None \<Rightarrow> ([UpSend (Wr record), TunnelUp [] rest], Ok ()))
               else
                 let hasFallback = rFallbackMode rule \<noteq> [];
                     savedRecord = record;
                     (tr, res) = sendRecords (upWrite env) record (sniPos h) (sniLen h) 4 1
                                   False False True 50;
                     sent = map UpSend tr
                 in
                 case res of
                   Panic \<Rightarrow> (sent, Panic)
                 | Err _ \<Rightarrow>
                     if hasFallback
                     then (sent @ [CloseUp] @ handleTLSRFFallback env serverHost host rule savedRecord rest, Ok ())
                     else (sent @ [CloseUp, CloseClient], Ok ())
                 | Ok _ \<Rightarrow>
                     if hasFallback then
                       (case upRead env of
                          None \<Rightarrow> (sent @ [CloseUp] @
                            handleTLSRFFallback env serverHost host rule savedRecord rest, Ok ())
                        | Some b \<Rightarrow> (sent @ [TunnelUp [b] rest], Ok ()))
                     else (sent @ [TunnelUp [] rest], Ok ())))"

section \<open>The parser never reads out of range\<close>

lemma extStep_safe: "off + 4 \<le> e \<Longrightarrow> e \<le> length data \<Longrightarrow> extStep data e off h \<noteq> Panic"
  unfolding extStep_def with_u16_def with_byte_def Let_def by (auto split: if_splits)

lemma parseExtensions_safe: "e \<le> length data \<Longrightarrow> parseExtensions data e off h \<noteq> Panic"
proof (induction data e off h rule: parseExtensions.induct)
  case (1 data e off h)
  show ?case
  proof (cases "off + 4 \<le> e")
    case True
    then have "extStep data e off h \<noteq> Panic" using "1.prems" by (rule extStep_safe)
    with True "1.IH" "1.prems" show ?thesis
      by (subst parseExtensions.simps) (auto split: go.splits ext_step.splits)
  next
    case False
    then show ?thesis by (subst parseExtensions.simps) simp
  qed
qed

lemma parseHelloBody_safe: "parseHelloBody data off ver \<noteq> Panic"
  unfolding parseHelloBody_def with_u16_def with_byte_def Let_def
  using parseExtensions_safe by (simp split: if_splits)

subsection \<open>Where the server name lies\<close>

text \<open>A found name is an entry of type \<open>host_name\<close> whose length field says how long it is, inside
  the record.\<close>

definition sni_entry :: "bytes \<Rightarrow> client_hello \<Rightarrow> bool" where
  "sni_entry data h =
     (let p = nat (sniPos h) in
      9 < p \<and> sniPos h = int p \<and> p + sniLen h \<le> length data \<and> data ! (p - 3) = 0 \<and>
      be16 (data ! (p - 2)) (data ! (p - 1)) = sniLen h)"

definition sni_ok :: "bytes \<Rightarrow> client_hello \<Rightarrow> bool" where
  "sni_ok data h = (sniPos h = - 1 \<and> sniLen h = 0 \<or> sni_entry data h)"

lemma extStep_sni_ok:
  assumes "extStep data e off h = Ok r" "sni_ok data h" "e \<le> length data" "1 \<le> off"
  shows "(case r of Return h' \<Rightarrow> sni_ok data h' | Continue _ h' \<Rightarrow> sni_ok data h')"
  using assms unfolding extStep_def with_u16_def with_byte_def Let_def
  by (auto simp: sni_ok_def sni_entry_def Let_def nat_add_distrib split: if_splits)

lemma parseExtensions_sni_ok:
  "parseExtensions data e off h = Ok h' \<Longrightarrow> sni_ok data h \<Longrightarrow> e \<le> length data \<Longrightarrow> 1 \<le> off \<Longrightarrow>
   sni_ok data h'"
proof (induction data e off h rule: parseExtensions.induct)
  case (1 data e off h)
  show ?case
  proof (cases "off + 4 \<le> e")
    case False
    with "1.prems" show ?thesis by (simp add: parseExtensions.simps)
  next
    case True
    then obtain r where r: "extStep data e off h = Ok r"
      using "1.prems"(1) by (subst (asm) parseExtensions.simps) (auto split: go.splits)
    have ok: "case r of Return h' \<Rightarrow> sni_ok data h' | Continue _ h' \<Rightarrow> sni_ok data h'"
      using r "1.prems"(2,3,4) by (rule extStep_sni_ok)
    show ?thesis
    proof (cases r)
      case (Return x)
      with r ok True "1.prems"(1) show ?thesis by (subst (asm) parseExtensions.simps) simp
    next
      case (Continue off' x)
      with r True "1.prems"(1) have "parseExtensions data e off' x = Ok h'"
        by (subst (asm) parseExtensions.simps) simp
      moreover have "1 \<le> off'" using r Continue extStep_advances by fastforce
      ultimately show ?thesis using "1.IH" True r Continue ok "1.prems"(3) by simp
    qed
  qed
qed

lemma parseHelloBody_sni_ok: "parseHelloBody data off ver = Ok h \<Longrightarrow> sni_ok data h"
  unfolding parseHelloBody_def with_u16_def with_byte_def Let_def
  by (auto split: if_splits simp: sni_ok_def dest: parseExtensions_sni_ok)

lemma parseClientHello_body:
  "parseClientHello data = Ok h \<Longrightarrow> \<exists>ver. parseHelloBody data 43 ver = Ok h"
  unfolding parseClientHello_def with_u16_def with_byte_def with_slice_def Let_def
  by (auto split: if_splits)

lemma parseClientHello_sni_ok: "parseClientHello data = Ok h \<Longrightarrow> sni_ok data h"
  using parseClientHello_body parseHelloBody_sni_ok by blast

section \<open>The cut and the fragments\<close>

lemma lastDotFrom_in:
  "0 \<le> pos \<Longrightarrow> pos + int k < int (length data) \<Longrightarrow>
   \<exists>r. lastDotFrom data pos k = Ok r \<and> (\<forall>i. r = Some i \<longrightarrow> pos \<le> i \<and> i \<le> pos + int k \<and> data ! nat i = 46)"
  by (induction k) (auto simp: with_int_def with_byte_def nat_less_iff)

lemma findLastDot_in:
  assumes "0 \<le> pos" "pos + int len < int (length data)"
  obtains i b where "findLastDot data pos len = Ok (i, b)" "pos \<le> i" "i \<le> pos + int len"
proof -
  from lastDotFrom_in [OF assms] obtain r where
    r: "lastDotFrom data pos len = Ok r" "\<forall>i. r = Some i \<longrightarrow> pos \<le> i \<and> i \<le> pos + int len \<and> data ! nat i = 46"
    by blast
  show ?thesis
  proof (cases r)
    case None
    with r show ?thesis by (intro that [of "int (len div 2) + pos" False]) (auto simp: findLastDot_def)
  next
    case (Some i)
    with r show ?thesis by (intro that [of i True]) (auto simp: findLastDot_def)
  qed
qed

lemma findLastDot_end_panics:
  assumes "0 \<le> pos" "int (length data) \<le> pos + int len"
  shows "findLastDot data pos len = Panic"
  using assms by (cases len) (auto simp: findLastDot_def with_int_def with_byte_def nat_le_iff)

lemma concat_chunks:
  "concat (map (\<lambda>i. take b (drop (i * b) xs)) [0..<m]) = take (m * b) xs"
proof (induction m)
  case (Suc m)
  have "take (m * b) xs @ take b (drop (m * b) xs) = take (m * b + b) xs"
    by (rule take_add [symmetric])
  with Suc.IH show ?case by (simp add: add.commute)
qed simp

lemma concat_splitParts [simp]:
  assumes "0 < n"
  shows "concat (splitParts data n) = data"
proof (cases "n = 1 \<or> length data < n")
  case True
  then show ?thesis using assms by (auto simp: splitParts_def)
next
  case False
  then obtain m where n: "n = Suc m" using assms by (cases n) auto
  let ?b = "length data div n"
  have "splitParts data n = map (\<lambda>i. take ?b (drop (i * ?b) data)) [0..<m] @ [drop (m * ?b) data]"
    using False n by (simp add: splitParts_def Let_def)
  then show ?thesis using concat_chunks [of ?b data m] by simp
qed

lemma length_splitParts: "0 < n \<Longrightarrow> length (splitParts data n) = (if n \<le> length data then n else 1)"
  by (auto simp: splitParts_def Let_def)

lemma splitParts_bound: "p \<in> set (splitParts data n) \<Longrightarrow> length p \<le> length data"
  by (auto simp: splitParts_def Let_def split: if_splits)

lemma concat_segmentsOf:
  assumes "0 < n"
  shows "concat (segmentsOf merged n) = merged"
proof -
  obtain m where n: "n = Suc m" using assms by (cases n) auto
  let ?b = "length merged div n"
  have "segmentsOf merged n
      = map (\<lambda>i. take ?b (drop (i * ?b) merged)) [0..<m] @ [take (length merged - m * ?b) (drop (m * ?b) merged)]"
    using n by (simp add: segmentsOf_def Let_def)
  then show ?thesis using concat_chunks [of ?b merged m] by simp
qed

subsection \<open>Records on the wire\<close>

text \<open>Reading a stream record by record with the code's own \<open>readInitialTLSRecord\<close>.\<close>

lemma readInitialTLSRecord_OkD:
  assumes "readInitialTLSRecord s = Ok (r, rest)"
  shows "s = r @ rest \<and> 5 \<le> length r"
proof -
  from assms obtain hdr rest0 where h: "ReadFull 5 s = Ok (hdr, rest0)"
    by (auto simp: readInitialTLSRecord_def bind_go_Ok_iff split: prod.splits)
  then have s: "s = hdr @ rest0" "length hdr = 5" by (auto dest: ReadFull_OkD)
  show ?thesis
  proof (cases "0 < be16 (hdr ! 3) (hdr ! 4)")
    case True
    then have "bind_go (ReadFull (be16 (hdr ! 3) (hdr ! 4)) rest0) (\<lambda>(body, rest'). Ok (hdr @ body, rest'))
        = Ok (r, rest)"
      using assms h by (simp add: readInitialTLSRecord_def Let_def)
    then obtain body where "ReadFull (be16 (hdr ! 3) (hdr ! 4)) rest0 = Ok (body, rest)" "r = hdr @ body"
      by (auto simp: bind_go_Ok_iff split: prod.splits)
    then show ?thesis using s ReadFull_OkD by fastforce
  next
    case False
    then show ?thesis using assms h s by (auto simp: readInitialTLSRecord_def Let_def)
  qed
qed

function readRecords :: "bytes \<Rightarrow> bytes list go" where
  "readRecords s =
     (if s = [] then Ok []
      else case readInitialTLSRecord s of
        Ok (r, rest) \<Rightarrow> bind_go (readRecords rest) (\<lambda>rs. Ok (r # rs))
      | Err m \<Rightarrow> Err m
      | Panic \<Rightarrow> Panic)"
  by pat_completeness auto
termination
  by (relation "measure length") (auto dest!: readInitialTLSRecord_OkD)

declare readRecords.simps [simp del]

lemma makeRecord_eq:
  "length h = 3 \<Longrightarrow> makeRecord h p = h @ [of_nat (length p div 256), of_nat (length p)] @ p"
  by (simp add: makeRecord_def put16_def)

lemma readInitialTLSRecord_makeRecord:
  assumes "length h = 3" "length p < 65536"
  shows "readInitialTLSRecord (makeRecord h p @ rest) = Ok (makeRecord h p, rest)"
proof -
  let ?hdr = "h @ [of_nat (length p div 256), of_nat (length p)]"
  have "ReadFull 5 (?hdr @ p @ rest) = Ok (?hdr, p @ rest)"
    using assms(1) by (intro ReadFull_append) simp
  moreover have "be16 (?hdr ! 3) (?hdr ! 4) = length p"
    using assms by (simp add: nth_append be16_put16)
  moreover have "ReadFull (length p) (p @ rest) = Ok (p, rest)" by (rule ReadFull_append) simp
  ultimately show ?thesis
    using assms(1) by (simp add: readInitialTLSRecord_def makeRecord_eq Let_def)
qed

lemma readRecords_makeRecords:
  assumes "length h = 3"
  shows "\<forall>p \<in> set ps. length p < 65536 \<Longrightarrow>
    readRecords (concat (map (makeRecord h) ps)) = Ok (map (makeRecord h) ps)"
proof (induction ps)
  case Nil
  then show ?case by (simp add: readRecords.simps)
next
  case (Cons p ps)
  have ne: "makeRecord h p @ concat (map (makeRecord h) ps) \<noteq> []"
    using assms by (simp add: makeRecord_eq)
  have "readInitialTLSRecord (makeRecord h p @ concat (map (makeRecord h) ps))
      = Ok (makeRecord h p, concat (map (makeRecord h) ps))"
    using Cons.prems assms by (simp add: readInitialTLSRecord_makeRecord)
  then show ?case using Cons ne
    by (subst readRecords.simps) simp
qed

lemma drop5_makeRecord [simp]: "length h = 3 \<Longrightarrow> drop 5 (makeRecord h p) = p"
  by (simp add: makeRecord_eq)

lemma take3_makeRecord [simp]: "length h = 3 \<Longrightarrow> take 3 (makeRecord h p) = h"
  by (simp add: makeRecord_eq)

text \<open>The bytes of a trace, in order.\<close>

fun wire :: "out list \<Rightarrow> bytes" where
  "wire [] = []"
| "wire (Wr b # es) = b @ wire es"
| "wire (Oob b c # es) = b @ c # wire es"
| "wire (Pause n # es) = wire es"

lemma wire_append [simp]: "wire (es @ fs) = wire es @ wire fs"
  by (induction es rule: wire.induct) auto

lemma wire_pause [simp]: "wire (pause n tr) = wire tr"
  by (simp add: pause_def)

lemma sendSegments_wire:
  "sendSegments wr False interval i ss tr = (tr', Ok ()) \<Longrightarrow> wire tr' = wire tr @ concat ss"
  by (induction ss arbitrary: i tr) (auto simp: send_def split: option.splits)

lemma sendSegments_total:
  "(\<And>tr. wr tr = None) \<Longrightarrow> \<exists>tr'. sendSegments wr oob interval i ss tr = (tr', Ok ())"
  by (induction ss arbitrary: i tr) (auto simp: send_def)

lemma header_take3: "3 \<le> length ch \<Longrightarrow> length (take 3 ch) = 3"
  by simp

text \<open>What the fragments are, before they are put on the wire.\<close>

definition fragmentsAt :: "bytes \<Rightarrow> nat \<Rightarrow> nat \<Rightarrow> bytes list" where
  "fragmentsAt ch pos records =
     splitParts (take (pos - 5) (drop 5 ch)) (records div 2) @
     splitParts (drop pos ch) (records - records div 2)"

lemma concat_fragmentsAt:
  assumes "2 \<le> records" "5 \<le> pos" "pos \<le> length ch"
  shows "concat (fragmentsAt ch pos records) = drop 5 ch"
proof -
  have "take (pos - 5) (drop 5 ch) @ drop pos ch = drop 5 ch"
    using assms(2) append_take_drop_id [of "pos - 5" "drop 5 ch"] by (simp add: drop_drop)
  then show ?thesis using assms(1) by (simp add: fragmentsAt_def)
qed

lemma fragmentsAt_bound: "p \<in> set (fragmentsAt ch pos records) \<Longrightarrow> 5 \<le> pos \<Longrightarrow> length p \<le> length ch - 5"
  by (auto simp: fragmentsAt_def dest!: splitParts_bound)

lemma chunks_fragmentsAt:
  "splitAndAppend (drop pos ch) (Some h) (records - records div 2)
     (splitAndAppend (take (pos - 5) (drop 5 ch)) (Some h) (records div 2) []) =
   map (makeRecord h) (fragmentsAt ch pos records)"
  by (simp add: splitAndAppend_def fragmentsAt_def)

text \<open>\<open>sendRecords\<close> without urgent data, into one or more segments: it writes the fragments as
  records, and does so if the connection takes the writes.\<close>

lemma sendRecords_plain:
  assumes "2 \<le> records" "1 \<le> segments" "3 \<le> length ch0"
    and ch: "ch = (if modMinorVer then ch0[2 := 4] else ch0)"
    and dot: "findLastDot ch offset len = Ok (int pos, b)" "5 \<le> pos" "pos \<le> length ch"
  shows "sendRecords wr ch0 offset len records segments False False modMinorVer interval = (tr, Ok ()) \<Longrightarrow>
           wire tr = concat (map (makeRecord (take 3 ch)) (fragmentsAt ch pos records))"
    and "(\<And>tr. wr tr = None) \<Longrightarrow>
           \<exists>tr. sendRecords wr ch0 offset len records segments False False modMinorVer interval = (tr, Ok ())"
proof -
  let ?m = "concat (map (makeRecord (take 3 ch)) (fragmentsAt ch pos records))"
  have len: "length ch = length ch0" using ch by simp
  have upd: "(if modMinorVer \<and> 3 \<le> length ch0 then ch0[2 := 4] else ch0) = ch"
    using ch assms(3) by simp
  have eq: "sendRecords wr ch0 offset len records segments False False modMinorVer interval =
      (if segments = 1 \<or> int (length ?m) \<le> segments
       then (case wr [] of None \<Rightarrow> ([Wr ?m], Ok ()) | Some c \<Rightarrow> ([], Err c))
       else sendSegments wr False interval 0 (segmentsOf ?m (nat segments)) [])"
    unfolding sendRecords_def Let_def upd using assms(1-3) dot len
    by (simp add: chunks_fragmentsAt split: option.split)
  show "wire tr = ?m"
    if "sendRecords wr ch0 offset len records segments False False modMinorVer interval = (tr, Ok ())"
    using that assms(2) unfolding eq
    by (auto split: if_splits option.splits simp: concat_segmentsOf dest!: sendSegments_wire)
  show "\<exists>tr. sendRecords wr ch0 offset len records segments False False modMinorVer interval = (tr, Ok ())"
    if "\<And>tr. wr tr = None"
    unfolding eq using that sendSegments_total [of wr False interval 0 "segmentsOf ?m (nat segments)" "[]"]
    by simp
qed

section \<open>The handler settles its connections\<close>

definition closes_or_tunnels :: "(tls_act \<Rightarrow> bool) \<Rightarrow> tls_act list \<Rightarrow> nat" where
  "closes_or_tunnels P acts = length (filter P acts)"

text \<open>The client is closed or tunnelled exactly once, so is the upstream, and every fallback
  connection that was opened.\<close>

definition settled :: "tls_act list \<Rightarrow> bool" where
  "settled acts =
     (closes_or_tunnels (\<lambda>a. case a of CloseClient \<Rightarrow> True | TunnelUp _ _ \<Rightarrow> True | TunnelNew _ \<Rightarrow> True | _ \<Rightarrow> False) acts = 1 \<and>
      closes_or_tunnels (\<lambda>a. case a of CloseUp \<Rightarrow> True | TunnelUp _ _ \<Rightarrow> True | _ \<Rightarrow> False) acts = 1 \<and>
      closes_or_tunnels (\<lambda>a. case a of CloseNew \<Rightarrow> True | TunnelNew _ \<Rightarrow> True | _ \<Rightarrow> False) acts =
      closes_or_tunnels (\<lambda>a. case a of NewDial _ \<Rightarrow> True | _ \<Rightarrow> False) acts)"

lemma settled_UpSend [simp]: "settled (map UpSend tr @ acts) = settled acts"
  by (simp add: settled_def closes_or_tunnels_def filter_map comp_def)

lemma settled_fallback: "settled (CloseUp # handleTLSRFFallback env sh host rule orig rest)"
  by (auto simp: handleTLSRFFallback_def Let_def settled_def closes_or_tunnels_def
      split: go.splits option.splits)

lemma readInitialTLSRecord_not_Panic: "readInitialTLSRecord s \<noteq> Panic"
  by (auto simp: readInitialTLSRecord_def bind_go_Panic_iff Let_def split: prod.splits if_splits)

lemma handleTLSFragment_settled:
  assumes "handleTLSFragment env sh host rule = (acts, Ok ())"
  shows "settled acts"
proof -
  have short: "settled [CloseClient, CloseUp]" "settled [CloseUp, CloseClient]"
    "\<And>b r. settled [TunnelUp b r]" "\<And>o' b r. settled [UpSend o', TunnelUp b r]"
    by (auto simp: settled_def closes_or_tunnels_def)
  show ?thesis using assms short settled_fallback
    unfolding handleTLSFragment_def Let_def
    by (auto split: go.splits prod.splits option.splits if_splits)
qed

text \<open>The panic of \<open>findLastDot\<close> when the name ends the record.\<close>

lemma sendRecords_default_panic_eq:
  assumes "int (length ch) \<le> pos + int len" "0 \<le> pos"
  shows "sendRecords wr ch pos len 4 1 False False True interval = ([], Panic)"
proof -
  have "length (if True \<and> 3 \<le> length ch then ch[2 := 4] else ch) = length ch" by simp
  then have "findLastDot (if True \<and> 3 \<le> length ch then ch[2 := 4] else ch) pos len = Panic"
    using assms by (intro findLastDot_end_panics) simp_all
  then show ?thesis unfolding sendRecords_def Let_def by simp
qed

lemma sendRecords_default_panics:
  assumes "int (length ch) \<le> pos + int len" "0 \<le> pos"
  shows "snd (sendRecords wr ch pos len 4 1 False False True interval) = Panic"
  using sendRecords_default_panic_eq [OF assms] by simp

lemma sendRecords_default_not_Panic:
  assumes "5 \<le> pos" "pos + int len < int (length ch)"
  shows "snd (sendRecords wr ch pos len 4 1 False False True interval) \<noteq> Panic"
proof -
  let ?ch = "if True \<and> 3 \<le> length ch then ch[2 := 4] else ch"
  have l: "length ?ch = length ch" by simp
  have "0 \<le> pos" "pos + int len < int (length ?ch)" using assms l by linarith+
  then obtain i b where i: "findLastDot ?ch pos len = Ok (i, b)" "pos \<le> i" "i \<le> pos + int len"
    by (rule findLastDot_in)
  then show ?thesis using assms \<open>length ?ch = length ch\<close> unfolding sendRecords_def Let_def
    by (simp split: option.split)
qed

lemma handleTLSFragment_panic:
  "snd (handleTLSFragment env sh host rule) = Panic \<longleftrightarrow>
   (\<exists>msg rest h. readInitialTLSRecord (clientIn env) = Ok (msg, rest) \<and>
      parseClientHello msg = Ok h \<and> 0 < sniPos h \<and> 0 < sniLen h \<and>
      sniPos h + int (sniLen h) = int (length msg))"
proof -
  have nopanic: "parseClientHello d \<noteq> Panic" for d
    unfolding parseClientHello_def with_u16_def with_byte_def with_slice_def Let_def
    using parseHelloBody_safe by simp
  have key: "snd (sendRecords wr msg (sniPos h) (sniLen h) 4 1 False False True 50) = Panic \<longleftrightarrow>
      sniPos h + int (sniLen h) = int (length msg)"
    if "parseClientHello msg = Ok h" "0 < sniPos h" for msg h wr
  proof -
    have "sni_entry msg h" using parseClientHello_sni_ok that by (fastforce simp: sni_ok_def)
    then have b: "9 < sniPos h" "sniPos h + int (sniLen h) \<le> int (length msg)"
      by (auto simp: sni_entry_def Let_def)
    show ?thesis
      using sendRecords_default_panics [of msg "sniPos h" "sniLen h"]
        sendRecords_default_not_Panic [of "sniPos h" "sniLen h" msg] b by fastforce
  qed
  show ?thesis
  proof (cases "readInitialTLSRecord (clientIn env)")
    case (Ok p)
    then obtain msg rest where r: "readInitialTLSRecord (clientIn env) = Ok (msg, rest)"
      by (cases p) auto
    show ?thesis
    proof (cases "parseClientHello msg")
      case h: (Ok h)
      obtain tr res where sr:
        "sendRecords (upWrite env) msg (sniPos h) (sniLen h) 4 1 False False True 50 = (tr, res)"
        by fastforce
      have res: "0 < sniPos h \<Longrightarrow> res = Panic \<longleftrightarrow> sniPos h + int (sniLen h) = int (length msg)"
        using key [OF h, of "upWrite env"] sr by simp
      show ?thesis using res 
        by (cases res) (auto simp: handleTLSFragment_def Let_def r h sr split: option.split)
    qed (use r nopanic in \<open>auto simp: handleTLSFragment_def\<close>)
  qed (use readInitialTLSRecord_not_Panic in \<open>auto simp: handleTLSFragment_def\<close>)
qed

section \<open>Parsing an encoded ClientHello\<close>

text \<open>The wire format of RFC 8446 and RFC 6066, as an encoder: the reference against which the
  parser is compared.\<close>

definition encodeExt :: "nat \<times> bytes \<Rightarrow> bytes" where
  "encodeExt x = put16 (fst x) @ put16 (length (snd x)) @ snd x"

definition encodeExts :: "(nat \<times> bytes) list \<Rightarrow> bytes" where
  "encodeExts xs = concat (map encodeExt xs)"

definition encodeSNI :: "bytes \<Rightarrow> bytes" where
  "encodeSNI name = put16 (length name + 3) @ [0] @ put16 (length name) @ name"

definition encodeBody :: "bytes \<Rightarrow> bytes \<Rightarrow> bytes \<Rightarrow> bytes \<Rightarrow> bytes \<Rightarrow> bytes" where
  "encodeBody ver rnd sid cs cms =
     ver @ rnd @ [of_nat (length sid)] @ sid @ put16 (length cs) @ cs @ [of_nat (length cms)] @ cms"

definition encodeHello :: "bytes \<Rightarrow> bytes \<Rightarrow> bytes \<Rightarrow> bytes \<Rightarrow> bytes \<Rightarrow> (nat \<times> bytes) list \<Rightarrow> bytes" where
  "encodeHello ver rnd sid cs cms exts =
     (let body = encodeBody ver rnd sid cs cms @ put16 (length (encodeExts exts)) @ encodeExts exts;
          n = length body;
          msg = [1, of_nat (n div 65536), of_nat (n div 256), of_nat n] @ body
      in [22, 3, 1] @ put16 (length msg) @ msg)"

definition exts_wf :: "(nat \<times> bytes) list \<Rightarrow> bool" where
  "exts_wf xs = (\<forall>x \<in> set xs. fst x < 65536 \<and> length (snd x) < 65536)"

lemma with_byte_at [go_bytes]: "length P = n \<Longrightarrow> with_byte (P @ b # R) n k = k b"
  by (auto simp: with_byte_def)

lemma with_u16_at [go_bytes]:
  "length P = n \<Longrightarrow> m < 65536 \<Longrightarrow> with_u16 (P @ put16 m @ R) n k = k m"
  by (auto simp: with_u16_def with_byte_def put16_def nth_append be16_put16)

lemma length_encodeExt [simp]: "length (encodeExt x) = 4 + length (snd x)"
  by (simp add: encodeExt_def)

lemma extStep_head:
  assumes "fst x < 65536" "length (snd x) < 65536" "length P + 4 + length (snd x) \<le> e"
  shows "extStep (P @ encodeExt x @ R) e (length P) h =
    (let extType = fst x; extLen = length (snd x);
         h1 = (if extType = 51 then h\<lparr>hasKeyShare := True\<rparr> else h) in
     if extType = 51 \<and> sniPos h1 \<noteq> - 1 then Ok (Return h1)
     else if sniPos h1 = - 1 \<and> extType = 0 then extStep (P @ encodeExt x @ R) e (length P) h
     else Ok (Continue (length P + 4 + extLen) h1))"
proof -
  have t: "with_u16 (P @ encodeExt x @ R) (length P) k = k (fst x)" for k :: "nat \<Rightarrow> ext_step go"
    using with_u16_at [of P "length P" "fst x" _ k] assms by (simp add: encodeExt_def)
  have l: "with_u16 (P @ encodeExt x @ R) (length P + 2) k = k (length (snd x))" for k :: "nat \<Rightarrow> ext_step go"
    using with_u16_at [of "P @ put16 (fst x)" "length P + 2" "length (snd x)" _ k] assms
    by (simp add: encodeExt_def)
  show ?thesis
  proof (cases "fst x = 0 \<and> sniPos h = - 1")
    case False
    then show ?thesis using assms(3) unfolding extStep_def t l Let_def by simp
  qed simp
qed

lemma extStep_sni:
  assumes "length name + 5 < 65536" "length P + 9 + length name \<le> e" "sniPos h = - 1"
  shows "extStep (P @ encodeExt (0, encodeSNI name) @ R) e (length P) h =
    (let h2 = h\<lparr>sniPos := int (length P + 9), sniLen := length name\<rparr> in
     if hasKeyShare h2 then Ok (Return h2) else Ok (Continue (length P + 9 + length name) h2))"
proof -
  let ?d = "P @ encodeExt (0, encodeSNI name) @ R"
  have d: "?d = P @ put16 0 @ put16 (length name + 5) @ put16 (length name + 3) @ [0] @
      put16 (length name) @ name @ R"
    by (simp add: encodeExt_def encodeSNI_def eval_nat_numeral)
  have t: "with_u16 ?d (length P) k = k 0" for k :: "nat \<Rightarrow> ext_step go"
    unfolding d by (rule with_u16_at) simp_all
  have l: "with_u16 ?d (length P + 2) k = k (length name + 5)" for k :: "nat \<Rightarrow> ext_step go"
    unfolding d using with_u16_at [of "P @ put16 0" "length P + 2" "length name + 5" _ k] assms(1)
    by simp
  have ll: "with_u16 ?d (length P + 4) k = k (length name + 3)" for k :: "nat \<Rightarrow> ext_step go"
    unfolding d using assms(1)
      with_u16_at [of "P @ put16 0 @ put16 (length name + 5)" "length P + 4" "length name + 3" _ k]
    by simp
  have nt: "with_byte ?d (length P + 4 + 2) k = k 0" for k :: "byte \<Rightarrow> ext_step go"
    unfolding d
    using with_byte_at [of "P @ put16 0 @ put16 (length name + 5) @ put16 (length name + 3)" "length P + 4 + 2" 0 _ k]
    by simp
  have nl: "with_u16 ?d (length P + 4 + 2 + 1) k = k (length name)" for k :: "nat \<Rightarrow> ext_step go"
    unfolding d using assms(1)
      with_u16_at [of "P @ put16 0 @ put16 (length name + 5) @ put16 (length name + 3) @ [0]"
        "length P + 4 + 2 + 1" "length name" _ k]
    by simp
  show ?thesis using assms unfolding extStep_def t l Let_def ll nt nl by simp
qed

lemma parseExtensions_Continue:
  "off + 4 \<le> e \<Longrightarrow> extStep data e off h = Ok (Continue off' h') \<Longrightarrow>
   parseExtensions data e off h = parseExtensions data e off' h'"
  by (subst parseExtensions.simps) simp

lemma parseExtensions_Return:
  "off + 4 \<le> e \<Longrightarrow> extStep data e off h = Ok (Return h') \<Longrightarrow> parseExtensions data e off h = Ok h'"
  by (subst parseExtensions.simps) simp

lemma encodeExts_Cons [simp]: "encodeExts (x # xs) = encodeExt x @ encodeExts xs"
  by (simp add: encodeExts_def)

lemma encodeExts_Nil [simp]: "encodeExts [] = []"
  by (simp add: encodeExts_def)

lemma encodeExts_append [simp]: "encodeExts (xs @ ys) = encodeExts xs @ encodeExts ys"
  by (simp add: encodeExts_def)

text \<open>Before the server name is found, other extensions are skipped, remembering a key share.\<close>

lemma parseExtensions_before:
  assumes "exts_wf xs" "0 \<notin> fst ` set xs" "sniPos h = - 1" "length P + length (encodeExts xs) \<le> e"
  shows "parseExtensions (P @ encodeExts xs @ R) e (length P) h =
    parseExtensions (P @ encodeExts xs @ R) e (length P + length (encodeExts xs))
      (h\<lparr>hasKeyShare := hasKeyShare h \<or> 51 \<in> fst ` set xs\<rparr>)"
  using assms
proof (induction xs arbitrary: P h)
  case Nil
  then show ?case by simp
next
  case (Cons x xs)
  let ?h = "if fst x = 51 then h\<lparr>hasKeyShare := True\<rparr> else h"
  have x: "fst x < 65536" "length (snd x) < 65536" "fst x \<noteq> 0"
    using Cons.prems by (auto simp: exts_wf_def)
  have "extStep (P @ encodeExt x @ encodeExts xs @ R) e (length P) h
      = Ok (Continue (length P + 4 + length (snd x)) ?h)"
    using Cons.prems(3,4) x by (subst extStep_head) (auto simp: Let_def)
  then have "parseExtensions (P @ encodeExt x @ encodeExts xs @ R) e (length P) h
      = parseExtensions (P @ encodeExt x @ encodeExts xs @ R) e (length P + 4 + length (snd x)) ?h"
    using Cons.prems(4) by (intro parseExtensions_Continue) simp_all
  also have "\<dots> = parseExtensions ((P @ encodeExt x) @ encodeExts xs @ R) e (length (P @ encodeExt x)) ?h"
    by (simp add: add.assoc)
  also have "\<dots> = parseExtensions ((P @ encodeExt x) @ encodeExts xs @ R) e
      (length (P @ encodeExt x) + length (encodeExts xs))
      (?h\<lparr>hasKeyShare := hasKeyShare ?h \<or> 51 \<in> fst ` set xs\<rparr>)"
    using Cons.prems by (intro Cons.IH) (auto simp: exts_wf_def)
  finally show ?case by (auto simp: add.assoc insert_commute)
qed

text \<open>Once it is found, the rest is read for a key share only.\<close>

lemma parseExtensions_after:
  assumes "exts_wf xs" "sniPos h \<noteq> - 1" "\<not> hasKeyShare h" "e = length P + length (encodeExts xs)"
  shows "parseExtensions (P @ encodeExts xs) e (length P) h =
    Ok (h\<lparr>hasKeyShare := 51 \<in> fst ` set xs\<rparr>)"
  using assms
proof (induction xs arbitrary: P)
  case Nil
  then show ?case by (subst parseExtensions.simps) simp
next
  case (Cons x xs)
  have x: "fst x < 65536" "length (snd x) < 65536" using Cons.prems by (auto simp: exts_wf_def)
  have le: "length P + 4 \<le> e" using Cons.prems(4) by simp
  have step: "extStep (P @ encodeExt x @ encodeExts xs) e (length P) h =
      (if fst x = 51 then Ok (Return (h\<lparr>hasKeyShare := True\<rparr>))
       else Ok (Continue (length P + 4 + length (snd x)) h))"
    using Cons.prems x by (subst extStep_head) (auto simp: Let_def)
  show ?case
  proof (cases "fst x = 51")
    case True
    with step le show ?thesis by (auto intro!: parseExtensions_Return)
  next
    case False
    then have "parseExtensions (P @ encodeExt x @ encodeExts xs) e (length P) h
        = parseExtensions ((P @ encodeExt x) @ encodeExts xs) e (length (P @ encodeExt x)) h"
      using step le by (simp add: parseExtensions_Continue add.assoc)
    also have "\<dots> = Ok (h\<lparr>hasKeyShare := 51 \<in> fst ` set xs\<rparr>)"
      using Cons.prems by (intro Cons.IH) (auto simp: exts_wf_def)
    finally show ?thesis using False by simp
  qed
qed

lemma parseExtensions_encoded:
  assumes "exts_wf pre" "0 \<notin> fst ` set pre" "exts_wf post" "length name + 5 < 65536"
    and exts: "exts = pre @ (0, encodeSNI name) # post"
  shows "parseExtensions (P @ encodeExts exts) (length P + length (encodeExts exts)) (length P)
      \<lparr>prtVer = ver, sniPos = - 1, sniLen = 0, hasKeyShare = False\<rparr> =
    Ok \<lparr>prtVer = ver, sniPos = int (length P + length (encodeExts pre) + 9), sniLen = length name,
        hasKeyShare = (51 \<in> fst ` set pre \<union> fst ` set post)\<rparr>"
proof -
  let ?h0 = "\<lparr>prtVer = ver, sniPos = - 1, sniLen = 0, hasKeyShare = False\<rparr>"
  let ?e = "length P + length (encodeExts exts)"
  let ?P = "P @ encodeExts pre" and ?x = "(0, encodeSNI name)"
  let ?d = "?P @ encodeExt ?x @ encodeExts post"
  let ?h1 = "?h0\<lparr>hasKeyShare := 51 \<in> fst ` set pre\<rparr>"
  let ?h2 = "?h1\<lparr>sniPos := int (length ?P + 9), sniLen := length name\<rparr>"
  have sni: "length (encodeExt ?x) = 9 + length name" by (simp add: encodeSNI_def)
  have e: "?e = length ?P + 9 + length name + length (encodeExts post)" using exts sni by simp
  have le: "length ?P + 4 \<le> ?e" using e by linarith
  have "parseExtensions (P @ encodeExts exts) ?e (length P) ?h0 = parseExtensions ?d ?e (length ?P) ?h1"
    using parseExtensions_before [OF assms(1,2), of ?h0 P ?e "encodeExt ?x @ encodeExts post"] exts
    by simp
  also have "\<dots> = Ok (?h2\<lparr>hasKeyShare := 51 \<in> fst ` set pre \<union> fst ` set post\<rparr>)"
  proof (cases "51 \<in> fst ` set pre")
    case True
    then have "extStep ?d ?e (length ?P) ?h1 = Ok (Return ?h2)"
      using e assms(4) by (subst extStep_sni) simp_all
    with le have "parseExtensions ?d ?e (length ?P) ?h1 = Ok ?h2"
      by (rule parseExtensions_Return)
    then show ?thesis using True by simp
  next
    case False
    then have "extStep ?d ?e (length ?P) ?h1 = Ok (Continue (length ?P + 9 + length name) ?h2)"
      using e assms(4) by (subst extStep_sni) simp_all
    with le have "parseExtensions ?d ?e (length ?P) ?h1 = parseExtensions ?d ?e (length ?P + 9 + length name) ?h2"
      by (rule parseExtensions_Continue)
    also have "\<dots> = parseExtensions ((?P @ encodeExt ?x) @ encodeExts post) ?e (length (?P @ encodeExt ?x)) ?h2"
      using sni by (simp add: add.assoc)
    also have "\<dots> = Ok (?h2\<lparr>hasKeyShare := 51 \<in> fst ` set post\<rparr>)"
      using assms(3) e sni False by (intro parseExtensions_after) simp_all
    finally show ?thesis using False by simp
  qed
  finally show ?thesis by (simp add: add.assoc)
qed

definition hello_wf :: "bytes \<Rightarrow> bytes \<Rightarrow> bytes \<Rightarrow> bytes \<Rightarrow> bytes \<Rightarrow> (nat \<times> bytes) list \<Rightarrow> bool" where
  "hello_wf ver rnd sid cs cms exts =
     (length ver = 2 \<and> length rnd = 32 \<and> length sid < 256 \<and> length cms < 256 \<and> exts_wf exts \<and>
      length (encodeBody ver rnd sid cs cms) + 2 + length (encodeExts exts) + 4 < 65536)"

lemma parseHelloBody_encoded:
  assumes "length ver = 2" "length rnd = 32" "length sid < 256" "length cms < 256"
    "length cs < 65536" "length (encodeExts exts) < 65536" "length Q = 9"
  shows "parseHelloBody (Q @ encodeBody ver rnd sid cs cms @ put16 (length (encodeExts exts)) @ encodeExts exts)
      43 v =
    parseExtensions (Q @ encodeBody ver rnd sid cs cms @ put16 (length (encodeExts exts)) @ encodeExts exts)
      (9 + length (encodeBody ver rnd sid cs cms) + 2 + length (encodeExts exts))
      (9 + length (encodeBody ver rnd sid cs cms) + 2)
      \<lparr>prtVer = v, sniPos = - 1, sniLen = 0, hasKeyShare = False\<rparr>"
    (is "parseHelloBody ?d 43 v = ?R")
proof -
  let ?P = "Q @ ver @ rnd"
  have sid: "with_byte ?d 43 k = k (of_nat (length sid))" for k :: "byte \<Rightarrow> client_hello go"
    using with_byte_at [of ?P 43 "of_nat (length sid)" _ k] assms by (simp add: encodeBody_def)
  have cs: "with_u16 ?d (44 + length sid) k = k (length cs)" for k :: "nat \<Rightarrow> client_hello go"
    using with_u16_at [of "?P @ [of_nat (length sid)] @ sid" "44 + length sid" "length cs" _ k] assms
    by (simp add: encodeBody_def)
  have cm: "with_byte ?d (46 + length sid + length cs) k = k (of_nat (length cms))"
    for k :: "byte \<Rightarrow> client_hello go"
    using with_byte_at [of "?P @ [of_nat (length sid)] @ sid @ put16 (length cs) @ cs"
        "46 + length sid + length cs" "of_nat (length cms)" _ k] assms
    by (simp add: encodeBody_def)
  have ex: "with_u16 ?d (47 + length sid + length cs + length cms) k = k (length (encodeExts exts))"
    for k :: "nat \<Rightarrow> client_hello go"
    using with_u16_at [of "Q @ encodeBody ver rnd sid cs cms" "47 + length sid + length cs + length cms"
        "length (encodeExts exts)" _ k] assms
    by (simp add: encodeBody_def)
  have u: "unat (of_nat (length sid) :: byte) = length sid" "unat (of_nat (length cms) :: byte) = length cms"
    using assms by (simp_all add: unat_of_nat_byte)
  have len: "length ?d = 49 + length sid + length cs + length cms + length (encodeExts exts)"
    using assms by (simp add: encodeBody_def)
  have bl: "length (encodeBody ver rnd sid cs cms) = 38 + length sid + length cs + length cms"
    using assms by (simp add: encodeBody_def)
  define d where "d = ?d"
  note facts = sid [folded d_def] cs [folded d_def] cm [folded d_def] ex [folded d_def] len [folded d_def]
  show ?thesis unfolding d_def [symmetric] bl parseHelloBody_def Let_def
    using facts u by (simp add: add.assoc)
qed

lemma unat_byte_digits:
  assumes "n < 16777216"
  shows "unat (of_nat (n div 65536) :: byte) * 65536 + unat (of_nat (n div 256) :: byte) * 256 +
    unat (of_nat n :: byte) = n"
proof -
  have "n div 65536 mod 256 = n div 65536" using assms by simp
  moreover have "n div 256 mod 256 = n div 256 - n div 65536 * 256"
    using div_mult2_eq [of n 256 256] by (simp add: minus_mult_div_eq_mod [symmetric] mult.commute)
  moreover have "n div 65536 * 256 \<le> n div 256" using div_mult2_eq [of n 256 256] by simp
  moreover have "n mod 256 = n - n div 256 * 256" by (simp add: minus_div_mult_eq_mod)
  moreover have "n div 256 * 256 \<le> n" by simp
  ultimately show ?thesis by (simp add: unat_of_nat_byte diff_mult_distrib)
qed

lemma parseClientHello_encoded:
  assumes "hello_wf ver rnd sid cs cms exts" and exts: "exts = pre @ (0, encodeSNI name) # post"
    and "0 \<notin> fst ` set pre"
  shows "parseClientHello (encodeHello ver rnd sid cs cms exts) =
    Ok \<lparr>prtVer = ver, sniPos = int (20 + length (encodeBody ver rnd sid cs cms) + length (encodeExts pre)),
        sniLen = length name, hasKeyShare = (51 \<in> fst ` set exts)\<rparr>"
proof -
  let ?body = "encodeBody ver rnd sid cs cms @ put16 (length (encodeExts exts)) @ encodeExts exts"
  define n where "n = length ?body"
  let ?hdr = "[22, 3, 1] @ put16 (n + 4) @ [1, of_nat (n div 65536), of_nat (n div 256), of_nat n]"
  have w: "length ver = 2" "length rnd = 32" "length sid < 256" "length cms < 256" "exts_wf exts"
    and n: "n + 4 < 65536" "35 \<le> n"
    using assms(1) by (auto simp: hello_wf_def n_def encodeBody_def)
  have enc: "encodeHello ver rnd sid cs cms exts = ?hdr @ ?body"
  proof -
    have "length ([1, of_nat (n div 65536), of_nat (n div 256), of_nat n] @ ?body) = n + 4"
      by (simp add: n_def)
    then show ?thesis unfolding encodeHello_def Let_def n_def [symmetric]
      by (simp only: append_assoc)
  qed
  have b: "?hdr ! 3 = of_nat ((n + 4) div 256)" "?hdr ! 4 = of_nat (n + 4)" "?hdr ! 5 = 1"
    "?hdr ! 6 = of_nat (n div 65536)" "?hdr ! 7 = of_nat (n div 256)" "?hdr ! 8 = of_nat n"
    by (simp_all add: put16_def nth_append)
  have hdr9: "length ?hdr = 9" by simp
  have at: "i < 9 \<Longrightarrow> with_byte (?hdr @ ?body) i k = k (?hdr ! i)" for i and k :: "byte \<Rightarrow> client_hello go"
    unfolding with_byte_def nth_append using hdr9 by simp
  have len: "length (?hdr @ ?body) = n + 9" using hdr9 n_def by simp
  have v: "with_slice (?hdr @ ?body) 9 11 k = k ver" for k :: "bytes \<Rightarrow> client_hello go"
    unfolding with_slice_def using len hdr9 n w by (simp add: encodeBody_def)
  have rl: "with_u16 (?hdr @ ?body) 3 k = k (n + 4)" for k :: "nat \<Rightarrow> client_hello go"
    unfolding with_u16_def using at [of 3] at [of 4] b n be16_put16 [of "n + 4"] by simp
  have hl: "unat (of_nat (n div 65536) :: byte) * 65536 + unat (of_nat (n div 256) :: byte) * 256 +
      unat (of_nat n :: byte) = n"
    using n by (intro unat_byte_digits) simp
  have "parseClientHello (?hdr @ ?body) = parseHelloBody (?hdr @ ?body) 43 ver"
    unfolding parseClientHello_def rl len Let_def
    using n by (simp only: at b hl v) simp
  also have "\<dots> = parseExtensions (?hdr @ ?body)
      (9 + length (encodeBody ver rnd sid cs cms) + 2 + length (encodeExts exts))
      (9 + length (encodeBody ver rnd sid cs cms) + 2)
      \<lparr>prtVer = ver, sniPos = - 1, sniLen = 0, hasKeyShare = False\<rparr>"
    using w n hdr9 by (intro parseHelloBody_encoded) (simp_all add: n_def encodeBody_def)
  also have "\<dots> = Ok \<lparr>prtVer = ver,
      sniPos = int (20 + length (encodeBody ver rnd sid cs cms) + length (encodeExts pre)),
      sniLen = length name, hasKeyShare = (51 \<in> fst ` set exts)\<rparr>"
  proof -
    let ?P = "?hdr @ encodeBody ver rnd sid cs cms @ put16 (length (encodeExts exts))"
    let ?h0 = "\<lparr>prtVer = ver, sniPos = - 1, sniLen = 0, hasKeyShare = False\<rparr>"
    have lP: "length ?P = 9 + length (encodeBody ver rnd sid cs cms) + 2" by simp
    have pos: "length ?P + length (encodeExts pre) + 9
        = 20 + length (encodeBody ver rnd sid cs cms) + length (encodeExts pre)" by simp
    have ks: "(51 \<in> fst ` set pre \<union> fst ` set post) = (51 \<in> fst ` set exts)" using exts by auto
    have name: "length name + 5 < 65536" using w(5) exts by (simp add: exts_wf_def encodeSNI_def)
    have wf: "exts_wf pre" "exts_wf post" using w(5) exts by (auto simp: exts_wf_def)
    have "parseExtensions (?P @ encodeExts exts) (length ?P + length (encodeExts exts)) (length ?P) ?h0
        = Ok \<lparr>prtVer = ver, sniPos = int (length ?P + length (encodeExts pre) + 9), sniLen = length name,
            hasKeyShare = (51 \<in> fst ` set pre \<union> fst ` set post)\<rparr>"
      using wf(1) assms(3) wf(2) name exts by (rule parseExtensions_encoded)
    note this [unfolded pos ks, unfolded lP]
    then show ?thesis by (simp only: append_assoc)
  qed
  finally show ?thesis by (simp only: enc)
qed

lemma encodeHello_read:
  assumes "hello_wf ver rnd sid cs cms exts"
  shows "readInitialTLSRecord (encodeHello ver rnd sid cs cms exts) = Ok (encodeHello ver rnd sid cs cms exts, [])"
proof -
  let ?b = "encodeBody ver rnd sid cs cms @ put16 (length (encodeExts exts)) @ encodeExts exts"
  let ?n = "length ?b"
  let ?p = "[1, of_nat (?n div 65536), of_nat (?n div 256), of_nat ?n] @ ?b"
  have "length ?p < 65536" using assms by (simp add: hello_wf_def)
  then have "readInitialTLSRecord (makeRecord [22, 3, 1] ?p @ []) = Ok (makeRecord [22, 3, 1] ?p, [])"
    by (intro readInitialTLSRecord_makeRecord) simp_all
  moreover have "makeRecord [22, 3, 1] ?p = encodeHello ver rnd sid cs cms exts"
    by (simp only: makeRecord_def encodeHello_def Let_def) (simp add: numeral_3_eq_3)
  ultimately show ?thesis by (simp only: append_Nil2)
qed

section \<open>Properties of the TLS-RF mode\<close>

lemma readInitialTLSRecord_length:
  assumes "readInitialTLSRecord s = Ok (r, rest)"
  shows "length r < 65541"
proof -
  from assms obtain hdr rest0 where h: "ReadFull 5 s = Ok (hdr, rest0)"
    by (auto simp: readInitialTLSRecord_def bind_go_Ok_iff split: prod.splits)
  then have "length hdr = 5" by (auto dest: ReadFull_OkD)
  moreover have "length r \<le> 5 + be16 (hdr ! 3) (hdr ! 4)"
    using assms h \<open>length hdr = 5\<close>
    by (auto simp: readInitialTLSRecord_def Let_def bind_go_Ok_iff dest!: ReadFull_OkD split: if_splits prod.splits)
  ultimately show ?thesis using be16_bound [of "hdr ! 3" "hdr ! 4"] by linarith
qed

lemma sendRecords_reassembles:
  assumes "5 \<le> pos" "pos + int len < int (length ch)" "length ch < 65541" "2 \<le> records" "1 \<le> segments"
    and wr: "\<And>tr. wr tr = None"
  shows "\<exists>tr recs. sendRecords wr ch pos len records segments False False True interval = (tr, Ok ()) \<and>
    readRecords (wire tr) = Ok recs \<and> concat (map (drop 5) recs) = drop 5 ch \<and>
    (\<forall>r \<in> set recs. take 3 r = [ch ! 0, ch ! 1, 4])"
proof -
  let ?ch = "if True then ch[2 := 4] else ch"
  have len: "length ?ch = length ch" "3 \<le> length ch" using assms(1,2) by auto
  have "0 \<le> pos" "pos + int len < int (length ?ch)" using assms(1,2) len by linarith+
  then obtain i b where i: "findLastDot ?ch pos len = Ok (i, b)" "pos \<le> i" "i \<le> pos + int len"
    by (rule findLastDot_in)
  then have dot: "findLastDot ?ch pos len = Ok (int (nat i), b)" "5 \<le> nat i" "nat i \<le> length ?ch"
    using assms(1,2) len by auto
  note plain = sendRecords_plain [OF assms(4,5) len(2) refl dot, of wr interval]
  obtain tr where tr: "sendRecords wr ch pos len records segments False False True interval = (tr, Ok ())"
    using plain(2) wr by blast
  let ?h = "take 3 ?ch" and ?ps = "fragmentsAt ?ch (nat i) records"
  have h: "length ?h = 3" using len by simp
  have "\<forall>p \<in> set ?ps. length p < 65536"
    using fragmentsAt_bound [of _ ?ch "nat i" records] dot(2) len assms(3) by fastforce
  then have read: "readRecords (wire tr) = Ok (map (makeRecord ?h) ?ps)"
    unfolding plain(1) [OF tr] by (rule readRecords_makeRecords [OF h])
  have cat: "concat (map (drop 5) (map (makeRecord ?h) ?ps)) = drop 5 ch"
    using concat_fragmentsAt [OF assms(4) dot(2,3)] h by (simp add: comp_def)
  have "?h = [ch ! 0, ch ! 1, 4]"
    using len(2) by (auto simp: numeral_3_eq_3 numeral_2_eq_2 Suc_le_length_iff)
  moreover have "\<forall>r \<in> set (map (makeRecord ?h) ?ps). take 3 r = ?h"
    using h by (simp only: list.set_map ball_simps take3_makeRecord) simp
  ultimately have "\<forall>r \<in> set (map (makeRecord ?h) ?ps). take 3 r = [ch ! 0, ch ! 1, 4]" by (simp only:)
  with tr read cat show ?thesis by blast
qed

text \<open>C3: \<open>parseClientHello\<close> never reads outside the record, whatever bytes the client sends: no
  input makes it panic.\<close>

theorem parseClientHello_never_panics: "parseClientHello data \<noteq> Panic"
  unfolding parseClientHello_def with_u16_def with_byte_def with_slice_def Let_def
  using parseHelloBody_safe by simp

text \<open>A small ClientHello with the server name \<open>a.b\<close>, and what its fields are.\<close>

definition sampleHello :: "(nat \<times> bytes) list \<Rightarrow> bytes" where
  "sampleHello later = encodeHello [3, 3] (replicate 32 7) [] [19, 1] [0] ((0, encodeSNI [97, 46, 98]) # later)"

text \<open>C1: \<open>parseClientHello\<close> decodes what the TLS wire format encodes. On any ClientHello record with
  a server name extension, it returns the offset and length of the name itself, and says whether
  there is a key share, wherever the extensions stand.\<close>

theorem parseClientHello_roundtrip:
  assumes "hello_wf ver rnd sid cs cms exts" and "exts = pre @ (0, encodeSNI name) # post"
    and "0 \<notin> fst ` set pre"
  shows "\<exists>pos. parseClientHello (encodeHello ver rnd sid cs cms exts) =
      Ok \<lparr>prtVer = ver, sniPos = int pos, sniLen = length name, hasKeyShare = (51 \<in> fst ` set exts)\<rparr> \<and>
    take (length name) (drop pos (encodeHello ver rnd sid cs cms exts)) = name"
proof -
  let ?B = "encodeBody ver rnd sid cs cms"
  let ?pos = "20 + length ?B + length (encodeExts pre)"
  let ?enc = "encodeHello ver rnd sid cs cms exts"
  have "drop 9 ?enc = ?B @ put16 (length (encodeExts exts)) @ encodeExts exts"
    by (simp add: encodeHello_def Let_def)
  moreover have "drop ?pos ?enc = drop (11 + length ?B + length (encodeExts pre)) (drop 9 ?enc)"
    by (simp add: add.commute add.left_commute)
  ultimately have "drop ?pos ?enc = name @ encodeExts post"
    using assms(2) by (simp add: encodeExt_def encodeSNI_def)
  then have "take (length name) (drop ?pos ?enc) = name" by simp
  then show ?thesis using parseClientHello_encoded [OF assms] by blast
qed

theorem parseClientHello_roundtrip_witness:
  "\<exists>pos. parseClientHello (sampleHello []) =
      Ok \<lparr>prtVer = [3, 3], sniPos = int pos, sniLen = 3, hasKeyShare = False\<rparr> \<and>
    take 3 (drop pos (sampleHello [])) = [97, 46, 98]"
proof -
  have n: "length [97 :: byte, 46, 98] = 3" by simp
  have wf: "hello_wf [3, 3] (replicate 32 7) [] [19, 1] [0] [(0, encodeSNI [97, 46, 98])]"
    by (simp add: hello_wf_def exts_wf_def encodeBody_def encodeExts_def encodeExt_def encodeSNI_def)
  have "(0 :: nat, encodeSNI [97, 46, 98]) # [] = [] @ (0, encodeSNI [97, 46, 98]) # []"
    "0 \<notin> fst ` set ([] :: (nat \<times> bytes) list)" by simp_all
  from parseClientHello_roundtrip [OF wf this, folded sampleHello_def] show ?thesis
    by (simp add: n del: list.size)
qed

text \<open>A healthy environment for a client that sends \<open>b\<close>.\<close>

definition healthyEnv :: "bytes \<Rightarrow> tls_env" where
  "healthyEnv b = \<lparr>clientIn = b, upWrite = (\<lambda>_. None), upRead = Some 22, dialTCP = (\<lambda>_. None),
     newWrite = None\<rparr>"

lemma sample_wf:
  "hello_wf [3, 3] (replicate 32 7) [] [19, 1] [0] [(0, encodeSNI [97, 46, 98])]"
  "hello_wf [3, 3] (replicate 32 7) [] [19, 1] [0] [(0, encodeSNI [97, 46, 98]), (10, [0, 0])]"
  by (simp_all add: hello_wf_def exts_wf_def encodeBody_def encodeExts_def encodeExt_def encodeSNI_def)

lemma sample_read: "readInitialTLSRecord (sampleHello [(10, [0, 0])]) = Ok (sampleHello [(10, [0, 0])], [])"
  unfolding sampleHello_def by (rule encodeHello_read [OF sample_wf(2)])

lemma sample_parse:
  "parseClientHello (sampleHello [(10, [0, 0])]) =
     Ok \<lparr>prtVer = [3, 3], sniPos = 61, sniLen = 3, hasKeyShare = False\<rparr>"
proof -
  have "length [97 :: byte, 46, 98] = 3" "length ([] :: bytes) = 0" by simp_all
  moreover have "length (encodeBody [3, 3] (replicate 32 7) [] [19, 1] [0]) = 41"
    by (simp add: encodeBody_def)
  ultimately show ?thesis
    using parseClientHello_encoded [OF sample_wf(2), of "[]" "[97, 46, 98]" "[(10, [0, 0])]"]
    by (simp add: sampleHello_def del: list.size)
qed

lemma sample_length: "length (sampleHello [(10, [0, 0])]) = 70"
  by (simp add: sampleHello_def encodeHello_def Let_def encodeBody_def encodeSNI_def)



text \<open>the TLS-RF handler panics exactly when the server name is the last thing in the client's
  record: \<open>findLastDot\<close> starts reading one byte after the name.\<close>

theorem handleTLSFragment_panics_iff:
  "snd (handleTLSFragment env sh host rule) = Panic \<longleftrightarrow>
   (\<exists>msg rest h. readInitialTLSRecord (clientIn env) = Ok (msg, rest) \<and>
      parseClientHello msg = Ok h \<and> 0 < sniPos h \<and> 0 < sniLen h \<and>
      sniPos h + int (sniLen h) = int (length msg))"
  by (rule handleTLSFragment_panic)

text \<open>A well-formed ClientHello whose last extension is its server name is such a record, for every
  client version, random, session id, cipher list and preceding extensions: the handler panics on it
  with neither connection closed nor tunnelled.\<close>

theorem handleTLSFragment_last_sni_panics:
  assumes "hello_wf ver rnd sid cs cms exts" "exts = pre @ [(0, encodeSNI name)]"
    "0 \<notin> fst ` set pre" "name \<noteq> []" "clientIn env = encodeHello ver rnd sid cs cms exts"
  shows "handleTLSFragment env sh host rule = ([], Panic)"
proof -
  let ?enc = "encodeHello ver rnd sid cs cms exts"
  let ?B = "encodeBody ver rnd sid cs cms"
  have read: "readInitialTLSRecord (clientIn env) = Ok (?enc, [])"
    using encodeHello_read [OF assms(1)] assms(5) by simp
  define h where "h = \<lparr>prtVer = ver, sniPos = int (20 + length ?B + length (encodeExts pre)),
    sniLen = length name, hasKeyShare = (51 \<in> fst ` set exts)\<rparr>"
  have parse: "parseClientHello ?enc = Ok h"
    unfolding h_def using assms(1-3) by (intro parseClientHello_encoded [of _ _ _ _ _ _ pre name "[]"]) simp_all
  have len: "length ?enc = 20 + length ?B + length (encodeExts pre) + length name"
    using assms(2) by (simp add: encodeHello_def Let_def encodeSNI_def)
  then have "int (length ?enc) \<le> sniPos h + int (sniLen h)" "0 \<le> sniPos h" by (simp_all add: h_def)
  then have "sendRecords (upWrite env) ?enc (sniPos h) (sniLen h) 4 1 False False True 50 = ([], Panic)"
    by (rule sendRecords_default_panic_eq)
  moreover have "0 < sniPos h" "0 < sniLen h" using assms(4) by (simp_all add: h_def)
  ultimately show ?thesis by (simp add: handleTLSFragment_def Let_def read parse)
qed

theorem handleTLSFragment_last_sni_panics_witness:
  "handleTLSFragment (healthyEnv (sampleHello [])) [] ''a.b'' zeroRule = ([], Panic)"
  using handleTLSFragment_last_sni_panics
    [OF sample_wf(1), of "[]" "[97, 46, 98]" "healthyEnv (sampleHello [])" "[]" "''a.b''" zeroRule]
  by (simp add: healthyEnv_def sampleHello_def)

text \<open>C4: whenever the handler returns, the client's connection and the upstream's connection have each
  been closed or handed to a tunnel exactly once, and so has every fallback connection it opened.\<close>

theorem handleTLSFragment_settles_connections:
  assumes "handleTLSFragment env sh host rule = (acts, Ok ())"
  shows "settled acts"
  using assms by (rule handleTLSFragment_settled)

theorem handleTLSFragment_settles_connections_witness:
  "handleTLSFragment (healthyEnv []) [] ''a.b'' zeroRule = ([CloseClient, CloseUp], Ok ()) \<and>
   settled [CloseClient, CloseUp]"
proof -
  have "handleTLSFragment (healthyEnv []) [] ''a.b'' zeroRule = ([CloseClient, CloseUp], Ok ())"
    by (simp add: handleTLSFragment_def healthyEnv_def readInitialTLSRecord_def ReadFull_def)
  from this handleTLSFragment_settles_connections [OF this] show ?thesis by blast
qed

lemma sendChunks_later:
  "(\<And>tr. wr tr = None) \<Longrightarrow>
   \<exists>tr'. sendChunks wr False False interval (Suc i) cs tr = (tr', Ok ()) \<and> wire tr' = wire tr @ concat cs"
proof (induction cs arbitrary: i tr)
  case Nil
  then show ?case by simp
next
  case (Cons c cs)
  obtain tr' where "sendChunks wr False False interval (Suc (Suc i)) cs (pause interval (tr @ [Wr c])) = (tr', Ok ())"
    "wire tr' = wire (pause interval (tr @ [Wr c])) @ concat cs"
    using Cons.IH Cons.prems by blast
  moreover have "sendChunks wr False False interval (Suc i) (c # cs) tr =
      sendChunks wr False False interval (Suc (Suc i)) cs (pause interval (tr @ [Wr c]))"
    unfolding sendChunks.simps send_def Cons.prems by simp
  ultimately show ?case by simp
qed

lemma fragmentsAt_update: "5 \<le> pos \<Longrightarrow> fragmentsAt (ch[2 := v]) pos records = fragmentsAt ch pos records"
  by (simp add: fragmentsAt_def)

text \<open>with \<open>segments = -1\<close> and no urgent data, \<open>sendRecords\<close> reports success without ever sending
  its first record: what reaches the upstream is every record but the first.\<close>

theorem sendRecords_unsegmented_loses_first:
  assumes "5 \<le> pos" "pos + int len < int (length ch)" "2 \<le> records" "\<forall>tr. wr tr = None"
  shows "\<exists>tr i. sendRecords wr ch pos len records (- 1) False False True interval = (tr, Ok ()) \<and>
    wire tr = concat (map (makeRecord (take 3 (ch[2 := 4]))) (tl (fragmentsAt ch i records)))"
proof -
  let ?ch = "ch[2 := 4]"
  have len: "3 \<le> length ch" using assms(1,2) by auto
  have "0 \<le> pos" "pos + int len < int (length ?ch)" using assms(1,2) by simp_all
  then obtain i b where i: "findLastDot ?ch pos len = Ok (i, b)" "pos \<le> i" "i \<le> pos + int len"
    by (rule findLastDot_in)
  let ?f = "fragmentsAt ch (nat i) records"
  have "sendRecords wr ch pos len records (- 1) False False True interval =
      sendChunks wr False False interval 0 (map (makeRecord (take 3 ?ch)) ?f) []"
    using assms(1-3) i len unfolding sendRecords_def Let_def
    by (simp add: chunks_fragmentsAt fragmentsAt_update)
  also have "\<dots> = sendChunks wr False False interval 1 (map (makeRecord (take 3 ?ch)) (tl ?f)) []"
    by (cases ?f) simp_all
  finally show ?thesis
    using sendChunks_later [of wr interval 0 "map (makeRecord (take 3 ?ch)) (tl ?f)" "[]"] assms(4) by auto
qed

theorem sendRecords_unsegmented_loses_first_witness:
  "\<exists>tr i. sendRecords (\<lambda>_. None) (replicate 20 46) 10 5 2 (- 1) False False True 50 = (tr, Ok ()) \<and>
    wire tr = concat (map (makeRecord (take 3 ((replicate 20 46)[2 := 4])))
      (tl (fragmentsAt (replicate 20 46) i 2)))"
  by (rule sendRecords_unsegmented_loses_first) simp_all

end
