(* ===== verification/CfPool.thy ===== *)
theory CfPool
  imports HostAddr "HOL-Library.AList"
begin

text \<open>
  The pool of Cloudflare addresses of \<open>src/proxy/cf_pool.go\<close>.

  \<^item> \<open>IPStats\<close> and \<open>CloudflarePool\<close> are the structs. \<open>allIPs\<close> is an association list; a Go map is
    iterated in any order, so every operation that ranges over it takes the order as an argument
    \<open>ord\<close>, which permutes the keys. \<open>activeIPs\<close> holds pointers into \<open>allIPs\<close>; each entry is reached
    from its key, so the list holds the keys and the shared statistics are read through \<open>allIPs\<close>.
  \<^item> \<open>sort.Slice\<close> is not stable; \<open>sort_key\<close> after an arbitrary \<open>ord\<close> gives every order it can give.
  \<^item> \<open>cfLocked\<close> is the state of the mutex between operations: each operation runs from its \<open>Lock\<close> to
    its \<open>Unlock\<close> (or return) in one step, and an operation that finds the mutex held is \<open>Blocked\<close>.
  \<^item> \<open>go p.checkAllIPs()\<close> adds a task to \<open>cfTasks\<close>; running it is an operation of its own. The dials
    of \<open>testIP\<close> are an argument \<open>test\<close>, the clock an argument \<open>now\<close> (nanoseconds).
\<close>

section \<open>State\<close>

record IPStats =
  ipIP :: str
  ipLatency :: str
  ipFailures :: int
  ipLastCheck :: str
  ipLatencyVal :: int
  ipLastCheckTime :: int

datatype pool_task = CheckAll | CheckIncremental

record CloudflarePool =
  allIPs :: "(str \<times> IPStats) list"
  activeIPs :: "str list"
  cfRunning :: bool
  checkRunning :: bool
  cfLocked :: bool
  cfTasks :: "pool_task list"

text \<open>Rendering a duration or a time as text is a function of the value that no operation reads
  back.\<close>

record clock =
  durString :: "int \<Rightarrow> str"
  timeFormat :: "int \<Rightarrow> str"
  now :: int

definition newIPStats :: "str \<Rightarrow> IPStats" where
  "newIPStats ip = \<lparr>ipIP = ip, ipLatency = [], ipFailures = 0, ipLastCheck = [], ipLatencyVal = 0,
     ipLastCheckTime = 0\<rparr>"

definition emptyPool :: CloudflarePool where
  "emptyPool = \<lparr>allIPs = [], activeIPs = [], cfRunning = False, checkRunning = False,
     cfLocked = False, cfTasks = []\<rparr>"

abbreviation ipKeys :: "CloudflarePool \<Rightarrow> str list" where
  "ipKeys p \<equiv> map fst (allIPs p)"

abbreviation statsOf :: "CloudflarePool \<Rightarrow> str \<Rightarrow> IPStats option" where
  "statsOf p ip \<equiv> map_of (allIPs p) ip"

definition latencyOf :: "(str \<times> IPStats) list \<Rightarrow> str \<Rightarrow> int" where
  "latencyOf m ip = (case map_of m ip of Some s \<Rightarrow> ipLatencyVal s | None \<Rightarrow> 0)"

definition healthy :: "(str \<times> IPStats) list \<Rightarrow> str \<Rightarrow> bool" where
  "healthy m ip = (case map_of m ip of
     Some s \<Rightarrow> ipLatencyVal s > 0 \<and> ipFailures s < 3
   | None \<Rightarrow> False)"

section \<open>Operations\<close>

text \<open>The filter and sort that \<open>UpdateIPs\<close> and \<open>rebuildActiveIPs\<close> share.\<close>

definition selectActive :: "key_order \<Rightarrow> (str \<times> IPStats) list \<Rightarrow> str list" where
  "selectActive ord m = sort_key (latencyOf m) (filter (healthy m) (ord (map fst m)))"

fun buildIPMap :: "(str \<times> IPStats) list \<Rightarrow> str list \<Rightarrow> (str \<times> IPStats) list \<Rightarrow> (str \<times> IPStats) list" where
  "buildIPMap old [] newMap = newMap"
| "buildIPMap old (x # xs) newMap =
     (let ip = TrimSpace x in
      if ip = [] then buildIPMap old xs newMap
      else case map_of old ip of
        Some existing \<Rightarrow> buildIPMap old xs (AList.update ip existing newMap)
      | None \<Rightarrow> buildIPMap old xs (AList.update ip (newIPStats ip) newMap))"

definition UpdateIPs :: "key_order \<Rightarrow> str list \<Rightarrow> CloudflarePool \<Rightarrow> CloudflarePool blk" where
  "UpdateIPs ord ips p =
     (if cfLocked p then Blocked
      else
        let m = buildIPMap (allIPs p) ips [] in
        Done (p\<lparr>allIPs := m, activeIPs := selectActive ord m, cfTasks := cfTasks p @ [CheckAll]\<rparr>))"

definition NewCloudflarePool :: "key_order \<Rightarrow> str list \<Rightarrow> CloudflarePool blk" where
  "NewCloudflarePool ord ips = UpdateIPs ord ips emptyPool"

text \<open>\<open>Start\<close> runs \<open>healthCheckLoop\<close>, which queues a first check and waits for \<open>Stop\<close>.\<close>

definition StartPool :: "CloudflarePool \<Rightarrow> CloudflarePool blk" where
  "StartPool p =
     (if cfLocked p then Blocked
      else if cfRunning p then Done p
      else Done (p\<lparr>cfRunning := True, cfTasks := cfTasks p @ [CheckAll]\<rparr>))"

definition StopPool :: "CloudflarePool \<Rightarrow> CloudflarePool blk" where
  "StopPool p =
     (if cfLocked p then Blocked
      else if \<not> cfRunning p then Done p
      else Done (p\<lparr>cfRunning := False\<rparr>))"

text \<open>\<open>GetTopIPs\<close>; the fallback loop appends before it compares, so it gives one address even for
  \<open>n = 0\<close>.\<close>

definition GetTopIPs :: "key_order \<Rightarrow> nat \<Rightarrow> CloudflarePool \<Rightarrow> str list blk" where
  "GetTopIPs ord n p =
     (if cfLocked p then Blocked
      else
        let count = length (activeIPs p) in
        if count = 0 then Done (take (max 1 n) (ord (ipKeys p)))
        else Done (take (if n > count then count else n) (activeIPs p)))"

definition GetAllIPsWithStats :: "key_order \<Rightarrow> CloudflarePool \<Rightarrow> str list blk" where
  "GetAllIPsWithStats ord p =
     (if cfLocked p then Blocked
      else Done (
        let (zero, timed) = partition (\<lambda>ip. latencyOf (allIPs p) ip = 0) (ord (ipKeys p))
        in sort_key (latencyOf (allIPs p)) timed @ zero))"

definition rebuildActiveIPs :: "key_order \<Rightarrow> CloudflarePool \<Rightarrow> CloudflarePool blk" where
  "rebuildActiveIPs ord p =
     (if cfLocked p then Blocked else Done (p\<lparr>activeIPs := selectActive ord (allIPs p)\<rparr>))"

definition TriggerHealthCheck :: "CloudflarePool \<Rightarrow> CloudflarePool" where
  "TriggerHealthCheck p = p\<lparr>cfTasks := cfTasks p @ [CheckAll]\<rparr>"

definition RemoveInvalidIPs :: "key_order \<Rightarrow> CloudflarePool \<Rightarrow> (CloudflarePool \<times> nat) blk" where
  "RemoveInvalidIPs ord p =
     (if cfLocked p then Blocked
      else
        let kept = filter (\<lambda>(ip, s). \<not> ipFailures s \<ge> 3) (allIPs p);
            count = length (filter (\<lambda>(ip, s). ipFailures s \<ge> 3) (allIPs p));
            p1 = p\<lparr>allIPs := kept\<rparr>
        in if count > 0 then bind_blk (rebuildActiveIPs ord p1) (\<lambda>p2. Done (p2, count))
           else Done (p1, count))"

text \<open>\<open>ReportFailure\<close>: on a known address the early \<open>return\<close> leaves the mutex locked.\<close>

definition ReportFailure :: "clock \<Rightarrow> key_order \<Rightarrow> str \<Rightarrow> CloudflarePool \<Rightarrow> CloudflarePool blk" where
  "ReportFailure clk ord ip p =
     (if cfLocked p then Blocked
      else case map_of (allIPs p) ip of
        Some s \<Rightarrow>
          let s1 = s\<lparr>ipFailures := ipFailures s + 1, ipLatencyVal := ipLatencyVal s + 1000 * 1000000\<rparr>;
              s2 = s1\<lparr>ipLatency := durString clk (ipLatencyVal s1)\<rparr>
          in Done (p\<lparr>allIPs := AList.update ip s2 (allIPs p), cfLocked := True,
                     cfTasks := cfTasks p @ (if ipFailures s2 \<ge> 2 then [CheckIncremental] else [])\<rparr>)
      | None \<Rightarrow> rebuildActiveIPs ord p)"

definition ReportSuccess :: "str \<Rightarrow> CloudflarePool \<Rightarrow> CloudflarePool blk" where
  "ReportSuccess ip p =
     (if cfLocked p then Blocked
      else case map_of (allIPs p) ip of
        Some s \<Rightarrow>
          if ipFailures s > 0
          then Done (p\<lparr>allIPs := AList.update ip (s\<lparr>ipFailures := ipFailures s - 1\<rparr>) (allIPs p)\<rparr>)
          else Done p
      | None \<Rightarrow> Done p)"

text \<open>What one goroutine of \<open>checkIPs\<close> does with its result, under the mutex.\<close>

definition recordCheck :: "clock \<Rightarrow> (str \<Rightarrow> int option) \<Rightarrow> str \<Rightarrow> (str \<times> IPStats) list \<Rightarrow> (str \<times> IPStats) list" where
  "recordCheck clk test ip m =
     (case map_of m ip of
        None \<Rightarrow> m
      | Some s0 \<Rightarrow>
          let s = s0\<lparr>ipLastCheck := timeFormat clk (now clk), ipLastCheckTime := now clk\<rparr> in
          AList.update ip
            (case test ip of
               None \<Rightarrow> s\<lparr>ipFailures := ipFailures s + 1, ipLatencyVal := 0, ipLatency := []\<rparr>
             | Some latency \<Rightarrow>
                 s\<lparr>ipFailures := 0, ipLatencyVal := latency, ipLatency := durString clk latency\<rparr>) m)"

definition checkIPs ::
  "clock \<Rightarrow> (str \<Rightarrow> int option) \<Rightarrow> key_order \<Rightarrow> str list \<Rightarrow> CloudflarePool \<Rightarrow> CloudflarePool blk" where
  "checkIPs clk test ord ipsToCheck p =
     (if length ipsToCheck = 0 then Done p
      else if cfLocked p then Blocked
      else rebuildActiveIPs ord (p\<lparr>allIPs := fold (recordCheck clk test) ipsToCheck (allIPs p)\<rparr>))"

text \<open>Thirty minutes in nanoseconds.\<close>

definition recheckAfter :: int where
  "recheckAfter = 30 * 60 * 1000000000"

definition checkIncremental ::
  "clock \<Rightarrow> (str \<Rightarrow> int option) \<Rightarrow> key_order \<Rightarrow> CloudflarePool \<Rightarrow> CloudflarePool blk" where
  "checkIncremental clk test ord p =
     (if checkRunning p then Done p
      else if cfLocked p then Blocked
      else
        let ipsToCheck = filter (\<lambda>ip. case map_of (allIPs p) ip of
              Some s \<Rightarrow> ipFailures s \<ge> 2 \<or> now clk - ipLastCheckTime s > recheckAfter
            | None \<Rightarrow> False) (ord (ipKeys p))
        in if length ipsToCheck = 0 then Done p else checkIPs clk test ord ipsToCheck p)"

definition checkAllIPs ::
  "clock \<Rightarrow> (str \<Rightarrow> int option) \<Rightarrow> key_order \<Rightarrow> CloudflarePool \<Rightarrow> CloudflarePool blk" where
  "checkAllIPs clk test ord p =
     (if checkRunning p then Done p
      else if cfLocked p then Blocked
      else checkIPs clk test ord (ord (ipKeys p)) p)"

text \<open>\<open>FetchCloudflareIPs\<close>: the HTTP exchange \<open>get\<close> and the JSON decoder \<open>unmarshal\<close> are
  arguments; \<open>ord\<close> is the order in which the map \<open>Info\<close> is ranged over.\<close>

record cfApiResponse =
  apiStatus :: bool
  apiCode :: int
  apiMsg :: str
  apiInfo :: "(str \<times> str list) list"

definition fetchURL :: "str \<Rightarrow> str" where
  "fetchURL apiKey =
     ''https://www.wetest.vip/api/cf2dns/get_cloudflare_ip?key='' @
     (if apiKey = [] then ''o1zrmHAF'' else apiKey) @ ''&type=v4''"

definition FetchCloudflareIPs ::
  "(str \<Rightarrow> str go) \<Rightarrow> (str \<Rightarrow> cfApiResponse go) \<Rightarrow> ((str \<times> str list) list \<Rightarrow> (str \<times> str list) list) \<Rightarrow>
   str \<Rightarrow> str list go" where
  "FetchCloudflareIPs get unmarshal ord apiKey =
     bind_go (get (fetchURL apiKey)) (\<lambda>body.
       case unmarshal body of
         Panic \<Rightarrow> Panic
       | Err e \<Rightarrow> Err (''failed to parse API response: '' @ e)
       | Ok apiRes \<Rightarrow>
           if \<not> apiStatus apiRes \<or> apiCode apiRes \<noteq> 200
           then Err (''API error: '' @ apiMsg apiRes @ '' (code '' @ itoaInt (apiCode apiRes) @ '')'')
           else Ok (concat (map (\<lambda>(_, list). filter (\<lambda>ip. ip \<noteq> []) list) (ord (apiInfo apiRes)))))"

section \<open>The pool as a state machine\<close>

datatype pool_op =
    OpUpdate "str list" | OpStart | OpStop | OpTrigger | OpRemove
  | OpFailure str | OpSuccess str | OpCheckAll | OpCheckIncremental

definition pool_exec ::
  "clock \<Rightarrow> (str \<Rightarrow> int option) \<Rightarrow> key_order \<Rightarrow> pool_op \<Rightarrow> CloudflarePool \<Rightarrow> CloudflarePool blk" where
  "pool_exec clk test ord op p =
     (case op of
        OpUpdate ips \<Rightarrow> UpdateIPs ord ips p
      | OpStart \<Rightarrow> StartPool p
      | OpStop \<Rightarrow> StopPool p
      | OpTrigger \<Rightarrow> Done (TriggerHealthCheck p)
      | OpRemove \<Rightarrow> bind_blk (RemoveInvalidIPs ord p) (\<lambda>(p', _). Done p')
      | OpFailure ip \<Rightarrow> ReportFailure clk ord ip p
      | OpSuccess ip \<Rightarrow> ReportSuccess ip p
      | OpCheckAll \<Rightarrow> checkAllIPs clk test ord p
      | OpCheckIncremental \<Rightarrow> checkIncremental clk test ord p)"

text \<open>Every state reachable from a new pool by any operations, with any clock, any test results that
  are not negative, and any iteration order.\<close>

definition test_ok :: "(str \<Rightarrow> int option) \<Rightarrow> bool" where
  "test_ok test = (\<forall>ip l. test ip = Some l \<longrightarrow> 0 \<le> l)"

inductive pool_reachable :: "CloudflarePool \<Rightarrow> bool" where
  new: "order_ok ord \<Longrightarrow> NewCloudflarePool ord ips = Done p \<Longrightarrow> pool_reachable p"
| step: "pool_reachable p \<Longrightarrow> order_ok ord \<Longrightarrow> test_ok test \<Longrightarrow>
     pool_exec clk test ord op p = Done p' \<Longrightarrow> pool_reachable p'"

text \<open>The invariant: one entry per address, entries under their own address, no negative counters or
  latencies, and active addresses that are distinct and known.\<close>

definition entry_ok :: "str \<times> IPStats \<Rightarrow> bool" where
  "entry_ok e = (ipIP (snd e) = fst e \<and> fst e \<noteq> [] \<and> trimmed (fst e) \<and>
     0 \<le> ipFailures (snd e) \<and> 0 \<le> ipLatencyVal (snd e))"

definition map_ok :: "(str \<times> IPStats) list \<Rightarrow> bool" where
  "map_ok m = (distinct (map fst m) \<and> (\<forall>e \<in> set m. entry_ok e))"

definition pool_inv :: "CloudflarePool \<Rightarrow> bool" where
  "pool_inv p = (map_ok (allIPs p) \<and> distinct (activeIPs p) \<and> set (activeIPs p) \<subseteq> set (ipKeys p) \<and>
     \<not> checkRunning p)"


inductive pool_steps :: "CloudflarePool \<Rightarrow> CloudflarePool \<Rightarrow> bool" where
  init: "pool_steps p p"
| step: "pool_steps p q \<Longrightarrow> pool_exec clk test ord op q = Done r \<Longrightarrow> pool_steps p r"

section \<open>The invariant is kept by every operation\<close>

named_theorems pool_defs \<open>unfolding of the pool operations\<close>

lemmas pool_op_defs [pool_defs] = UpdateIPs_def StartPool_def StopPool_def GetTopIPs_def
  rebuildActiveIPs_def TriggerHealthCheck_def RemoveInvalidIPs_def ReportFailure_def
  ReportSuccess_def checkIPs_def checkIncremental_def checkAllIPs_def

lemma map_ok_lookup: "map_ok m \<Longrightarrow> map_of m ip = Some s \<Longrightarrow> entry_ok (ip, s)"
  by (auto simp: map_ok_def dest: map_of_SomeD)

lemma map_ok_update:
  assumes "map_ok m" and "entry_ok (ip, s)"
  shows "map_ok (AList.update ip s m)"
proof -
  have "e \<in> set (AList.update ip s m) \<Longrightarrow> e \<in> set m \<or> e = (ip, s)" for e
    by (induction m) (auto split: if_splits)
  then show ?thesis using assms by (auto simp: map_ok_def distinct_update)
qed

lemma dom_update_known: "map_of m ip = Some s \<Longrightarrow> fst ` set (AList.update ip v m) = fst ` set m"
  by (simp add: dom_update insert_absorb weak_map_of_SomeI image_iff) (metis fst_conv map_of_SomeD insert_absorb image_eqI)

lemma selectActive_ok:
  assumes "order_ok ord" and "map_ok m"
  shows "distinct (selectActive ord m)" and "set (selectActive ord m) = {ip \<in> fst ` set m. healthy m ip}"
    and "sorted (map (latencyOf m) (selectActive ord m))"
  using assms order_ok_keys [of ord "map fst m"] by (auto simp: selectActive_def map_ok_def)

lemma entry_ok_new: "ip \<noteq> [] \<Longrightarrow> trimmed ip \<Longrightarrow> entry_ok (ip, newIPStats ip)"
  by (simp add: entry_ok_def newIPStats_def)

lemma buildIPMap_ok: "map_ok old \<Longrightarrow> map_ok acc \<Longrightarrow> map_ok (buildIPMap old ips acc)"
proof (induction old ips acc rule: buildIPMap.induct)
  case (2 old x xs newMap)
  then show ?case
    by (cases "map_of old (TrimSpace x)")
      (simp_all add: Let_def map_ok_update map_ok_lookup entry_ok_new)
qed simp

lemma recordCheck_ok:
  assumes "map_ok m" and "test_ok test"
  shows "map_ok (recordCheck clk test ip m)" and "fst ` set (recordCheck clk test ip m) = fst ` set m"
proof -
  show "map_ok (recordCheck clk test ip m)"
  proof (cases "map_of m ip")
    case (Some s)
    then have "entry_ok (ip, s)" using map_ok_lookup [OF assms(1)] by blast
    then show ?thesis using Some assms(2)
      by (auto simp: recordCheck_def Let_def entry_ok_def test_ok_def split: option.split
          intro!: map_ok_update [OF assms(1)])
  qed (simp add: recordCheck_def assms)
  show "fst ` set (recordCheck clk test ip m) = fst ` set m"
    by (cases "map_of m ip") (simp_all add: recordCheck_def Let_def dom_update_known)
qed

lemma fold_recordCheck_ok:
  "map_ok m \<Longrightarrow> test_ok test \<Longrightarrow>
   map_ok (fold (recordCheck clk test) ips m) \<and>
   fst ` set (fold (recordCheck clk test) ips m) = fst ` set m"
  by (induction ips arbitrary: m) (simp_all add: recordCheck_ok)

lemma pool_invD:
  assumes "pool_inv p"
  shows "map_ok (allIPs p)" and "distinct (activeIPs p)" and "set (activeIPs p) \<subseteq> set (ipKeys p)"
    and "distinct (ipKeys p)" and "\<not> checkRunning p"
  using assms by (auto simp: pool_inv_def map_ok_def)

text \<open>Replacing the map and rebuilding the active list keeps the invariant.\<close>

lemma rebuilt_inv:
  assumes "order_ok ord" and "map_ok m" and "\<not> checkRunning p"
  shows "pool_inv (p\<lparr>allIPs := m, activeIPs := selectActive ord m\<rparr>)"
  using selectActive_ok [OF assms(1,2)] assms by (auto simp: pool_inv_def)

lemma rebuildActiveIPs_inv:
  assumes "order_ok ord" and "map_ok (allIPs p)" and "\<not> checkRunning p" and "rebuildActiveIPs ord p = Done p'"
  shows "pool_inv p'"
  using rebuilt_inv [OF assms(1-3)] assms(4) by (auto simp: rebuildActiveIPs_def split: if_splits)

lemma entry_update_inv:
  assumes "pool_inv p" and "statsOf p ip = Some s" and "entry_ok (ip, s')"
  shows "pool_inv (p\<lparr>allIPs := AList.update ip s' (allIPs p)\<rparr>)"
  using assms dom_update_known [OF assms(2), of s'] map_ok_update [of "allIPs p" ip s']
  by (simp add: pool_inv_def)

lemma pool_inv_frame [simp]:
  "pool_inv (p\<lparr>cfTasks := ts\<rparr>) = pool_inv p" "pool_inv (p\<lparr>cfRunning := b\<rparr>) = pool_inv p"
  "pool_inv (p\<lparr>cfLocked := b\<rparr>) = pool_inv p"
  by (simp_all add: pool_inv_def)

lemma UpdateIPs_inv:
  assumes "order_ok ord" and "map_ok (allIPs p)" and "\<not> checkRunning p" and "UpdateIPs ord ips p = Done p'"
  shows "pool_inv p'"
proof -
  have "map_ok []" by (simp add: map_ok_def)
  then have "map_ok (buildIPMap (allIPs p) ips [])" using buildIPMap_ok assms(2) by blast
  from rebuilt_inv [OF assms(1) this assms(3)] show ?thesis
    using assms(4) by (auto simp: UpdateIPs_def Let_def pool_inv_def split: if_splits)
qed

lemma RemoveInvalidIPs_inv:
  assumes "order_ok ord" and inv: "pool_inv p" and run: "RemoveInvalidIPs ord p = Done (p', n)"
  shows "pool_inv p'"
proof -
  let ?kept = "filter (\<lambda>(ip, s). \<not> ipFailures s \<ge> 3) (allIPs p)"
  have kept: "map_ok ?kept" using pool_invD(1) [OF inv]
    by (auto simp: map_ok_def distinct_map_filter)
  show ?thesis
  proof (cases "filter (\<lambda>(ip, s). ipFailures s \<ge> 3) (allIPs p) = []")
    case True
    then have "?kept = allIPs p" by (auto simp: filter_empty_conv filter_id_conv)
    then show ?thesis using run inv True by (auto simp: RemoveInvalidIPs_def Let_def split: if_splits)
  next
    case False
    then show ?thesis
      using run rebuilt_inv [OF assms(1) kept pool_invD(5) [OF inv]]
      by (auto simp: RemoveInvalidIPs_def rebuildActiveIPs_def Let_def split: if_splits)
  qed
qed

lemma ReportFailure_inv:
  assumes "order_ok ord" and inv: "pool_inv p" and run: "ReportFailure clk ord ip p = Done p'"
  shows "pool_inv p'"
proof (cases "statsOf p ip")
  case None
  then show ?thesis using run rebuildActiveIPs_inv [OF assms(1) pool_invD(1,5) [OF inv], of p']
    by (simp add: ReportFailure_def split: if_splits)
next
  case (Some s)
  let ?s = "s\<lparr>ipFailures := ipFailures s + 1, ipLatencyVal := ipLatencyVal s + 1000000000,
     ipLatency := durString clk (ipLatencyVal s + 1000000000)\<rparr>"
  have "entry_ok (ip, ?s)" using map_ok_lookup [OF pool_invD(1) [OF inv] Some] by (simp add: entry_ok_def)
  from entry_update_inv [OF inv Some this] show ?thesis
    using run Some by (auto simp: ReportFailure_def Let_def pool_inv_def split: if_splits)
qed

lemma ReportSuccess_inv:
  assumes inv: "pool_inv p" and run: "ReportSuccess ip p = Done p'"
  shows "pool_inv p'"
proof (cases "statsOf p ip")
  case (Some s)
  have "ipFailures s > 0 \<Longrightarrow> entry_ok (ip, s\<lparr>ipFailures := ipFailures s - 1\<rparr>)"
    using map_ok_lookup [OF pool_invD(1) [OF inv] Some] by (simp add: entry_ok_def)
  then show ?thesis using run Some inv entry_update_inv [OF inv Some]
    by (auto simp: ReportSuccess_def split: if_splits)
qed (use run inv in \<open>auto simp: ReportSuccess_def split: if_splits\<close>)

lemma checkIPs_inv:
  assumes "order_ok ord" and "test_ok test" and inv: "pool_inv p" and "checkIPs clk test ord ips p = Done p'"
  shows "pool_inv p'"
  using assms(4) inv fold_recordCheck_ok [OF pool_invD(1) [OF inv] assms(2), of clk ips]
    rebuildActiveIPs_inv [OF assms(1), of "p\<lparr>allIPs := fold (recordCheck clk test) ips (allIPs p)\<rparr>" p']
    pool_invD(5) [OF inv]
  by (auto simp: checkIPs_def split: if_splits)

lemma pool_exec_inv:
  assumes "order_ok ord" and "test_ok test" and inv: "pool_inv p" and run: "pool_exec clk test ord op p = Done p'"
  shows "pool_inv p'"
proof (cases op)
  case (OpUpdate ips)
  then show ?thesis using run UpdateIPs_inv [OF assms(1) pool_invD(1,5) [OF inv]] by (simp add: pool_exec_def)
next
  case OpRemove
  then show ?thesis using run RemoveInvalidIPs_inv [OF assms(1) inv]
    by (auto simp: pool_exec_def bind_blk_Done_iff)
next
  case OpCheckAll
  then show ?thesis using run checkIPs_inv [OF assms(1,2) inv] inv
    by (auto simp: pool_exec_def checkAllIPs_def split: if_splits)
next
  case OpCheckIncremental
  then show ?thesis using run checkIPs_inv [OF assms(1,2) inv] inv
    by (auto simp: pool_exec_def checkIncremental_def Let_def split: if_splits)
qed (use run inv ReportFailure_inv [OF assms(1) inv] ReportSuccess_inv [OF inv] in
    \<open>auto simp: pool_exec_def StartPool_def StopPool_def TriggerHealthCheck_def split: if_splits\<close>)

lemma reachable_inv: "pool_reachable p \<Longrightarrow> pool_inv p"
proof (induction rule: pool_reachable.induct)
  case (new ord ips p)
  moreover have "map_ok (allIPs emptyPool)" "\<not> checkRunning emptyPool"
    by (simp_all add: emptyPool_def map_ok_def)
  ultimately show ?case using UpdateIPs_inv unfolding NewCloudflarePool_def by blast
qed (rule pool_exec_inv)

definition samplePool :: CloudflarePool where
  "samplePool = \<lparr>allIPs = [(''1.1.1.1'', newIPStats ''1.1.1.1''), (''1.0.0.1'', newIPStats ''1.0.0.1'')],
     activeIPs = [], cfRunning = False, checkRunning = False, cfLocked = False, cfTasks = [CheckAll]\<rparr>"

lemma samplePool_new:
  "NewCloudflarePool (\<lambda>ks. ks) [''1.1.1.1'', '' 1.0.0.1'', '''', ''1.1.1.1''] = Done samplePool"
  by code_simp

lemma samplePool_reachable: "pool_reachable samplePool"
  by (rule pool_reachable.new [OF order_ok_id samplePool_new])

text \<open>C5: In every reachable state of the pool there is one entry per address, stored under its own
  non-empty trimmed address with non-negative counters and latencies, and the active addresses are
  distinct addresses of the pool.\<close>

theorem pool_reachable_inv:
  assumes "pool_reachable p"
  shows "distinct (ipKeys p) \<and> distinct (activeIPs p) \<and> set (activeIPs p) \<subseteq> set (ipKeys p) \<and>
     (\<forall>(ip, s) \<in> set (allIPs p). ipIP s = ip \<and> ip \<noteq> [] \<and> trimmed ip \<and>
        0 \<le> ipFailures s \<and> 0 \<le> ipLatencyVal s)"
  using reachable_inv [OF assms] by (auto simp: pool_inv_def map_ok_def entry_ok_def)

text \<open>A pool built from two addresses, one of them written twice and one with a blank.\<close>

theorem pool_reachable_inv_witness:
  "pool_reachable samplePool \<and> distinct (ipKeys samplePool) \<and> length (ipKeys samplePool) = 2"
  using pool_reachable_inv [OF samplePool_reachable] samplePool_reachable by (simp add: samplePool_def)

section \<open>What the pool offers\<close>

lemma GetTopIPs_active:
  "\<not> cfLocked p \<Longrightarrow> activeIPs p \<noteq> [] \<Longrightarrow> GetTopIPs ord n p = Done (take n (activeIPs p))"
  by (simp add: GetTopIPs_def Let_def)

section \<open>The interface the dialler uses\<close>

text \<open>What the code that builds dial candidates relies on: a store of addresses \<open>known\<close>, from which
  \<open>top\<close> takes up to \<open>n\<close> distinct ones, at least one when there is one, or waits forever.\<close>

locale candidate_pool =
  fixes inv :: "'s \<Rightarrow> bool" and known :: "'s \<Rightarrow> str set" and stuck :: "'s \<Rightarrow> bool"
    and top :: "key_order \<Rightarrow> nat \<Rightarrow> 's \<Rightarrow> str list blk"
  assumes top_stuck: "top ord n s = Blocked \<longleftrightarrow> stuck s"
    and top_known: "inv s \<Longrightarrow> order_ok ord \<Longrightarrow> top ord n s = Done ips \<Longrightarrow> set ips \<subseteq> known s \<and> distinct ips"
    and top_some: "inv s \<Longrightarrow> order_ok ord \<Longrightarrow> 0 < n \<Longrightarrow> top ord n s = Done ips \<Longrightarrow> ips = [] \<longleftrightarrow> known s = {}"
    and top_few: "0 < n \<Longrightarrow> top ord n s = Done ips \<Longrightarrow> length ips \<le> n"

interpretation cf: candidate_pool pool_inv "\<lambda>p. set (ipKeys p)" cfLocked GetTopIPs
proof
  show "GetTopIPs ord n s = Blocked \<longleftrightarrow> cfLocked s" for ord n s by (simp add: GetTopIPs_def Let_def)
  show "length ips \<le> n" if "0 < n" "GetTopIPs ord n s = Done ips" for ord n s ips
    using that by (auto simp: GetTopIPs_def Let_def split: if_splits)
next
  fix s ord n ips
  assume inv: "pool_inv s" and ord: "order_ok ord" and run: "GetTopIPs ord n s = Done ips"
  have o: "distinct (ord (ipKeys s))" "set (ord (ipKeys s)) = set (ipKeys s)"
    using order_ok_keys [OF ord pool_invD(4) [OF inv]] by blast+
  show "set ips \<subseteq> set (ipKeys s) \<and> distinct ips"
  proof (cases "activeIPs s = []")
    case True
    then have "ips = take (max 1 n) (ord (ipKeys s))" using run by (simp add: GetTopIPs_def split: if_splits)
    then show ?thesis using o set_take_subset by (metis distinct_take)
  next
    case False
    then have "ips = take n (activeIPs s)" using run GetTopIPs_active [of s ord n] by (cases "cfLocked s") (auto simp: GetTopIPs_def)
    then show ?thesis using pool_invD(2,3) [OF inv] set_take_subset by (metis distinct_take subset_trans)
  qed
  show "ips = [] \<longleftrightarrow> set (ipKeys s) = {}" if "0 < n"
  proof (cases "activeIPs s = []")
    case True
    then have "ips = take (max 1 n) (ord (ipKeys s))" using run by (simp add: GetTopIPs_def split: if_splits)
    then show ?thesis using o(2) by (metis max.strict_coboundedI2 set_empty take_eq_Nil that less_numeral_extra(3))
  next
    case False
    then have "ips = take n (activeIPs s)" using run GetTopIPs_active [of s ord n] by (cases "cfLocked s") (auto simp: GetTopIPs_def)
    then show ?thesis using False that pool_invD(3) [OF inv] by auto
  qed
qed

section \<open>Health checks\<close>

lemma recordCheck_lookup:
  "map_of (recordCheck clk test ip m) k =
     (if k = ip then map_option (\<lambda>s0. let s = s0\<lparr>ipLastCheck := timeFormat clk (now clk), ipLastCheckTime := now clk\<rparr> in
        (case test ip of
           None \<Rightarrow> s\<lparr>ipFailures := ipFailures s + 1, ipLatencyVal := 0, ipLatency := []\<rparr>
         | Some latency \<Rightarrow> s\<lparr>ipFailures := 0, ipLatencyVal := latency, ipLatency := durString clk latency\<rparr>)) (map_of m ip)
      else map_of m k)"
  by (cases "map_of m ip") (simp_all add: recordCheck_def update_conv Let_def)

definition answered :: "(str \<Rightarrow> int option) \<Rightarrow> str \<Rightarrow> bool" where
  "answered test ip = (case test ip of Some l \<Rightarrow> l > 0 | None \<Rightarrow> False)"

lemma recordCheck_stats:
  assumes "map_of m ip \<noteq> None"
  shows "healthy (recordCheck clk test ip m) ip = answered test ip"
    and "answered test ip \<Longrightarrow> latencyOf (recordCheck clk test ip m) ip = the (test ip)"
  using assms
  by (auto simp: healthy_def latencyOf_def recordCheck_lookup answered_def Let_def split: option.splits)

lemma recordCheck_other:
  assumes "k \<noteq> ip"
  shows "healthy (recordCheck clk test ip m) k = healthy m k"
    and "latencyOf (recordCheck clk test ip m) k = latencyOf m k"
  using assms by (simp_all add: healthy_def latencyOf_def recordCheck_lookup)

lemma fold_recordCheck_dom:
  "map_of (fold (recordCheck clk test) xs m) k \<noteq> None \<longleftrightarrow> map_of m k \<noteq> None"
  by (induction xs arbitrary: m) (simp_all add: recordCheck_lookup)

lemma fold_recordCheck_stats:
  "distinct ips \<Longrightarrow> \<forall>k \<in> set ips. map_of m k \<noteq> None \<Longrightarrow> ip \<in> set ips \<Longrightarrow>
   healthy (fold (recordCheck clk test) ips m) ip = answered test ip \<and>
   (answered test ip \<longrightarrow> latencyOf (fold (recordCheck clk test) ips m) ip = the (test ip))"
proof (induction ips rule: rev_induct)
  case (snoc x xs)
  let ?m = "fold (recordCheck clk test) xs m"
  show ?case
  proof (cases "ip = x")
    case True
    have "map_of ?m x \<noteq> None" using fold_recordCheck_dom [of clk test xs m x] snoc.prems(2) by simp
    then show ?thesis using recordCheck_stats [where m = ?m and ip = x and test = test and clk = clk] True by simp
  next
    case False
    then show ?thesis using snoc recordCheck_other [OF False] by simp
  qed
qed simp

lemma sorted_take_least:
  assumes "sorted (map f xs)" and "y \<in> set xs" and "y \<notin> set (take n xs)" and "x \<in> set (take n xs)"
  shows "f x \<le> f y"
proof -
  have "y \<in> set (drop n xs)" using assms(2,3) append_take_drop_id [of n xs] by (metis Un_iff set_append)
  moreover have "sorted (map f (take n xs) @ map f (drop n xs))"
    using assms(1) by (simp flip: map_append)
  ultimately show ?thesis using assms(4) by (auto simp: sorted_append)
qed

text \<open>After a complete health check of a reachable, unlocked pool in which some known address
  answered, \<open>GetTopIPs n\<close> gives the \<open>n\<close> fastest of the addresses that answered, fastest first: each
  is a known address that answered, there are as many as asked for or as there are, and no address
  left out was faster than one that is given.\<close>

theorem checkAllIPs_then_top:
  assumes "pool_reachable p" and "\<not> cfLocked p" and ord: "order_ok ord" and test: "test_ok test"
    and some: "ip0 \<in> set (ipKeys p)" "answered test ip0"
  shows "\<exists>p' top. checkAllIPs clk test ord p = Done p' \<and> GetTopIPs ord' n p' = Done top \<and>
     distinct top \<and> length top = min n (card {ip \<in> set (ipKeys p). answered test ip}) \<and>
     (\<forall>ip \<in> set top. ip \<in> set (ipKeys p) \<and> answered test ip) \<and>
     sorted (map (\<lambda>ip. the (test ip)) top) \<and>
     (\<forall>ip \<in> set (ipKeys p) - set top. answered test ip \<longrightarrow> (\<forall>t \<in> set top. the (test t) \<le> the (test ip)))"
proof -
  note inv = pool_invD [OF reachable_inv [OF assms(1)]]
  define ips where "ips = ord (ipKeys p)"
  define m where "m = fold (recordCheck clk test) ips (allIPs p)"
  let ?good = "{ip \<in> set (ipKeys p). answered test ip}"
  let ?act = "selectActive ord m"
  have ips: "distinct ips" "set ips = set (ipKeys p)"
    using order_ok_keys [OF ord inv(4)] by (simp_all add: ips_def)
  have known: "\<forall>k \<in> set ips. map_of (allIPs p) k \<noteq> None" using ips by (auto simp: map_of_eq_None_iff)
  have m: "map_ok m" "fst ` set m = set ips"
    using fold_recordCheck_ok [OF inv(1) test] ips by (simp_all add: m_def)
  have stats: "healthy m ip = answered test ip" "answered test ip \<Longrightarrow> latencyOf m ip = the (test ip)"
    if "ip \<in> set ips" for ip
    using fold_recordCheck_stats [OF ips(1) known that] by (simp_all add: m_def)
  have act: "distinct ?act" "sorted (map (latencyOf m) ?act)" using selectActive_ok [OF ord m(1)] by blast+
  have good: "set ?act = ?good"
    using selectActive_ok(2) [OF ord m(1)] m(2) ips(2) stats(1) by (simp cong: conj_cong)
  have lat: "map (latencyOf m) ?act = map (\<lambda>ip. the (test ip)) ?act"
    using good ips stats by simp
  have srt: "sorted (map (\<lambda>ip. the (test ip)) ?act)" using act(2) lat by simp
  have ne: "ips \<noteq> []" "?act \<noteq> []" using some ips good by (auto simp flip: set_empty)
  let ?p = "p\<lparr>allIPs := m, activeIPs := ?act\<rparr>"
  have check: "checkAllIPs clk test ord p = Done ?p" using ne(1) assms(2) inv(5)
    by (simp add: checkAllIPs_def checkIPs_def rebuildActiveIPs_def flip: ips_def m_def)
  have top: "GetTopIPs ord' n ?p = Done (take n ?act)"
    using assms(2) ne(2) by (simp add: GetTopIPs_active)
  have "length (take n ?act) = min n (card ?good)"
    using distinct_card [OF act(1)] good by (simp add: min_def)
  moreover have "sorted (map (\<lambda>ip. the (test ip)) (take n ?act))"
    using sorted_wrt_take [OF srt, of n] by (simp add: take_map)
  moreover have "the (test t) \<le> the (test ip)"
    if "ip \<in> set (ipKeys p) - set (take n ?act)" "answered test ip" "t \<in> set (take n ?act)" for ip t
    using sorted_take_least [OF srt, of ip n t] that good by simp
  ultimately show ?thesis using check top act(1) good set_take_subset [of n ?act]
    by (intro exI [of _ ?p] exI [of _ "take n ?act"]) auto
qed

theorem checkAllIPs_then_top_witness:
  "\<exists>p' top. checkAllIPs \<lparr>durString = \<lambda>_. [], timeFormat = \<lambda>_. [], now = 0\<rparr> (\<lambda>_. Some 7) (\<lambda>ks. ks) samplePool = Done p' \<and>
     GetTopIPs (\<lambda>ks. ks) 5 p' = Done top \<and> length top = 2"
proof -
  have "\<not> cfLocked samplePool" "test_ok (\<lambda>_. Some 7)" "''1.1.1.1'' \<in> set (ipKeys samplePool)"
    "answered (\<lambda>_. Some 7) ''1.1.1.1''"
    by (simp_all add: samplePool_def test_ok_def answered_def)
  from checkAllIPs_then_top [OF samplePool_reachable this(1) order_ok_id this(2-4),
      of "\<lparr>durString = \<lambda>_. [], timeFormat = \<lambda>_. [], now = 0\<rparr>" "\<lambda>ks. ks" 5]
  obtain p' top where "checkAllIPs \<lparr>durString = \<lambda>_. [], timeFormat = \<lambda>_. [], now = 0\<rparr> (\<lambda>_. Some 7) (\<lambda>ks. ks) samplePool = Done p'"
    "GetTopIPs (\<lambda>ks. ks) 5 p' = Done top"
    "length top = min 5 (card {ip \<in> set (ipKeys samplePool). answered (\<lambda>_. Some 7) ip})" by blast
  moreover have "{ip \<in> set (ipKeys samplePool). answered (\<lambda>_. Some 7) ip} = {''1.1.1.1'', ''1.0.0.1''}"
    by (auto simp: samplePool_def answered_def)
  ultimately show ?thesis by auto
qed

lemma map_of_filter_snd:
  "distinct (map fst m) \<Longrightarrow> map_of (filter (\<lambda>(k, v). P v) m) k =
     (case map_of m k of Some v \<Rightarrow> if P v then Some v else None | None \<Rightarrow> None)"
proof (induction m)
  case (Cons a m)
  then show ?case by (cases a) (auto split: option.split simp: map_of_eq_None_iff image_iff)
qed simp

lemma RemoveInvalidIPs_map:
  "\<not> cfLocked p \<Longrightarrow> \<exists>p'. RemoveInvalidIPs ord p =
     Done (p', length (filter (\<lambda>(ip, s). ipFailures s \<ge> 3) (allIPs p))) \<and>
     allIPs p' = filter (\<lambda>(ip, s). \<not> ipFailures s \<ge> 3) (allIPs p) \<and> \<not> cfLocked p'"
  by (simp add: RemoveInvalidIPs_def rebuildActiveIPs_def Let_def)

text \<open>\<open>RemoveInvalidIPs\<close> on a reachable, unlocked pool deletes exactly the addresses with three
  or more failures, keeps the statistics of the others, counts the deleted ones, and leaves no
  deleted address in what \<open>GetTopIPs\<close> can offer, whatever is asked for and in whatever order the
  map is ranged over.\<close>

theorem RemoveInvalidIPs_exact:
  assumes "pool_reachable p" and "\<not> cfLocked p" and "order_ok ord" and "order_ok ord'"
  shows "\<exists>p' n. RemoveInvalidIPs ord p = Done (p', n) \<and>
     (\<forall>ip. statsOf p' ip = (case statsOf p ip of
         Some s \<Rightarrow> if ipFailures s \<ge> 3 then None else Some s | None \<Rightarrow> None)) \<and>
     n = card {ip \<in> set (ipKeys p). ipFailures (the (statsOf p ip)) \<ge> 3} \<and>
     (\<exists>top. GetTopIPs ord' k p' = Done top \<and>
        (\<forall>ip \<in> set top. \<exists>s. statsOf p ip = Some s \<and> ipFailures s < 3))"
proof -
  note inv = pool_invD [OF reachable_inv [OF assms(1)]]
  let ?bad = "\<lambda>(ip :: str, s). ipFailures s \<ge> 3"
  obtain p' where run: "RemoveInvalidIPs ord p = Done (p', length (filter ?bad (allIPs p)))"
    and all: "allIPs p' = filter (\<lambda>(ip, s). \<not> ipFailures s \<ge> 3) (allIPs p)" and "\<not> cfLocked p'"
    using RemoveInvalidIPs_map [OF assms(2)] by blast
  have inv': "pool_inv p'" using RemoveInvalidIPs_inv [OF assms(3) reachable_inv [OF assms(1)] run] .
  have look: "statsOf p' ip = (case statsOf p ip of
      Some s \<Rightarrow> if ipFailures s \<ge> 3 then None else Some s | None \<Rightarrow> None)" for ip
    unfolding all using map_of_filter_snd [OF inv(4), of "\<lambda>s. \<not> ipFailures s \<ge> 3" ip] by (auto split: option.split)
  have stats: "statsOf p ip = Some s" if "(ip, s) \<in> set (allIPs p)" for ip s
    using that inv(4) by simp
  have bad: "set (map fst (filter ?bad (allIPs p))) = {ip \<in> set (ipKeys p). ipFailures (the (statsOf p ip)) \<ge> 3}"
    by (auto simp: stats image_iff)
  have "distinct (map fst (filter ?bad (allIPs p)))" using inv(4) by (rule distinct_map_filter)
  from distinct_card [OF this]
  have cnt: "length (filter ?bad (allIPs p)) = card {ip \<in> set (ipKeys p). ipFailures (the (statsOf p ip)) \<ge> 3}"
    unfolding bad by simp
  obtain top where top: "GetTopIPs ord' k p' = Done top" "set top \<subseteq> set (ipKeys p')"
    using cf.top_stuck [of ord' k p'] cf.top_known [OF inv' assms(4)] \<open>\<not> cfLocked p'\<close>
    by (cases "GetTopIPs ord' k p'") auto
  have "\<exists>s. statsOf p ip = Some s \<and> ipFailures s < 3" if "ip \<in> set top" for ip
    using that top(2) all stats by fastforce
  then show ?thesis using run look cnt top(1) by blast
qed

theorem RemoveInvalidIPs_exact_witness:
  "\<exists>p' n. RemoveInvalidIPs (\<lambda>ks. ks) samplePool = Done (p', n)"
  using RemoveInvalidIPs_exact [OF samplePool_reachable _ order_ok_id order_ok_id, of 1]
  by (auto simp: samplePool_def)

section \<open>The mutex after a reported failure\<close>

lemma locked_exec:
  assumes "cfLocked p" and "\<not> checkRunning p" and "pool_exec clk test ord op p = Done p'"
  shows "cfLocked p' \<and> \<not> checkRunning p'"
  using assms by (cases op) (auto simp add: pool_exec_def pool_defs)

lemma locked_steps: "pool_steps p q \<Longrightarrow> cfLocked p \<Longrightarrow> \<not> checkRunning p \<Longrightarrow> cfLocked q \<and> \<not> checkRunning q"
  by (induction rule: pool_steps.induct) (auto dest: locked_exec)

text \<open>Reporting a failure of a known address of a reachable, unlocked pool returns with the mutex
  held, so that from then on, after any further operations that complete, \<open>GetTopIPs\<close> never
  returns and no operation but queueing a check does.\<close>

theorem ReportFailure_deadlocks:
  assumes "pool_reachable p" and "\<not> cfLocked p" and "ip \<in> set (ipKeys p)"
  shows "\<exists>p'. ReportFailure clk ord ip p = Done p' \<and>
     (\<forall>q. pool_steps p' q \<longrightarrow> GetTopIPs ord' n q = Blocked \<and> GetAllIPsWithStats ord' q = Blocked \<and>
        (\<forall>op. op \<noteq> OpTrigger \<longrightarrow> pool_exec clk' test ord' op q = Blocked))"
proof -
  obtain s where s: "statsOf p ip = Some s" using assms(3) by (cases "statsOf p ip") (auto simp: map_of_eq_None_iff)
  then obtain p' where p': "ReportFailure clk ord ip p = Done p'" "cfLocked p'" "\<not> checkRunning p'"
    using assms(2) pool_invD(5) [OF reachable_inv [OF assms(1)]] by (auto simp: ReportFailure_def Let_def)
  have "GetTopIPs ord' n q = Blocked \<and> GetAllIPsWithStats ord' q = Blocked \<and>
      (\<forall>op. op \<noteq> OpTrigger \<longrightarrow> pool_exec clk' test ord' op q = Blocked)" if "pool_steps p' q" for q
  proof -
    have q: "cfLocked q" "\<not> checkRunning q" using locked_steps [OF that] p' by auto
    then have "pool_exec clk' test ord' op q = Blocked" if "op \<noteq> OpTrigger" for op
      using that by (cases op) (simp_all add: pool_exec_def pool_defs)
    then show ?thesis using q by (simp add: GetTopIPs_def GetAllIPsWithStats_def)
  qed
  then show ?thesis using p'(1) by blast
qed

theorem ReportFailure_deadlocks_witness:
  "\<exists>p'. ReportFailure \<lparr>durString = \<lambda>_. [], timeFormat = \<lambda>_. [], now = 0\<rparr> (\<lambda>ks. ks) ''1.1.1.1'' samplePool = Done p' \<and>
     GetTopIPs (\<lambda>ks. ks) 5 p' = Blocked"
proof -
  have "\<not> cfLocked samplePool" "''1.1.1.1'' \<in> set (ipKeys samplePool)" by (simp_all add: samplePool_def)
  from ReportFailure_deadlocks [OF samplePool_reachable this] show ?thesis
    by (blast intro: pool_steps.init)
qed

end
