(* ===== verification/CertVerify.thy ===== *)
theory CertVerify
  imports ProxyTypes
begin

text \<open>
  The certificate policy of \<open>src/proxy/cert_verify.go\<close>: \<open>normalizeCertVerifyConfig\<close>, the closure
  that \<open>buildVerifyConnection\<close> installs, and the matchers on the names and on the public key of the
  leaf certificate.

  \<^item> A certificate is the part of \<open>x509.Certificate\<close> the code reads. Chain verification
    (\<open>x509.Certificate.Verify\<close> with the system roots) is the argument \<open>verify\<close>: given the DNS name of
    the options (empty when none is set), the leaf and the intermediates, it gives an error or none.
    The hash \<open>base64(sha256(spki))\<close> is the argument \<open>hash\<close>.
  \<^item> \<open>normalizeCertVerifyConfig\<close> writes the normalised entries through the slices it shares with the
    caller's struct; the model gives the returned struct.
  \<^item> The theorems give the accepted handshakes of every mode as a condition on decompositions of
    names, without the string functions of the code.
\<close>

section \<open>Certificates and errors\<close>

record Certificate =
  certCommonName :: str
  certDNSNames :: "str list"
  certRawSPKI :: bytes

datatype verify_error = UnknownAuthorityError str | OtherError str

type_synonym chain_verifier = "str \<Rightarrow> Certificate \<Rightarrow> Certificate list \<Rightarrow> verify_error option"
type_synonym spki_hash = "bytes \<Rightarrow> str"

section \<open>Operations\<close>

definition normalizeCertVerifyConfig :: "CertVerifyConfig \<Rightarrow> str \<Rightarrow> CertVerifyConfig" where
  "normalizeCertVerifyConfig cfg verifyName =
     (let mode = TrimSpace (cvMode cfg);
          mode = (if mode = [] then
                    (if length (cvNames cfg) > 0 then ''allow_names''
                     else if length (cvSuffixes cfg) > 0 then ''allow_suffixes''
                     else if length (cvSPKISHA256 cfg) > 0 then ''allow_spki''
                     else [])
                  else mode);
          out = cfg\<lparr>cvMode := mode,
                    cvNames := map normalizeHost (cvNames cfg),
                    cvSuffixes := map (\<lambda>s. ToLower (TrimSpace s)) (cvSuffixes cfg),
                    cvSPKISHA256 := map TrimSpace (cvSPKISHA256 cfg)\<rparr>
      in if cvMode out = ''strict_real'' \<and> verifyName \<noteq> [] \<and> length (cvNames out) = 0
         then out\<lparr>cvNames := [normalizeHost verifyName]\<rparr>
         else out)"

definition maybeIgnoreUnknownAuthority :: "verify_error option \<Rightarrow> CertVerifyConfig \<Rightarrow> verify_error option" where
  "maybeIgnoreUnknownAuthority err cfg =
     (case err of
        None \<Rightarrow> err
      | Some e \<Rightarrow>
          if \<not> cvAllowUnknownAuthority cfg then err
          else (case e of UnknownAuthorityError _ \<Rightarrow> None | OtherError _ \<Rightarrow> err))"

fun appendNames :: "str list \<Rightarrow> str list \<Rightarrow> str list" where
  "appendNames out [] = out"
| "appendNames out (x # xs) =
     (let v = ToLower (TrimSpace x) in
      if v = [] then appendNames out xs
      else if v \<in> set out then appendNames out xs
      else appendNames (out @ [v]) xs)"

definition certNames :: "Certificate \<Rightarrow> str list" where
  "certNames cert = appendNames [] (certCommonName cert # certDNSNames cert)"

definition dnsMatch :: "str \<Rightarrow> str \<Rightarrow> bool" where
  "dnsMatch certName host =
     (let certName = ToLower (TrimSpace certName); host = ToLower (TrimSpace host) in
      if certName = [] \<or> host = [] then False
      else if certName = host then True
      else if HasPrefix certName ''*.'' then
        (let base = TrimPrefix certName ''*.'' in
         HasSuffix host (''.'' @ base) \<and> CountByte host CHR ''.'' \<ge> CountByte base CHR ''.'' + 1)
      else False)"

definition matchesAllowedNames :: "Certificate option \<Rightarrow> str list \<Rightarrow> bool" where
  "matchesAllowedNames cert names =
     (case cert of
        None \<Rightarrow> False
      | Some c \<Rightarrow>
          if length names = 0 then False
          else
            let candidates = certNames c in
            list_ex (\<lambda>allowed.
              let allowed = ToLower (TrimSpace allowed) in
              if allowed = [] then False
              else list_ex (\<lambda>candidate. dnsMatch candidate allowed \<or> dnsMatch allowed candidate) candidates) names)"

definition suffixHit :: "str \<Rightarrow> str \<Rightarrow> bool" where
  "suffixHit suffix candidate0 =
     (let candidate = ToLower candidate0 in
      if candidate = suffix \<or> HasSuffix candidate suffix then True
      else if HasPrefix candidate ''*.'' then
        (let base = TrimPrefix candidate ''*'' in base = suffix \<or> HasSuffix base suffix)
      else False)"

definition matchesAllowedSuffixes :: "Certificate option \<Rightarrow> str list \<Rightarrow> bool" where
  "matchesAllowedSuffixes cert suffixes =
     (case cert of
        None \<Rightarrow> False
      | Some c \<Rightarrow>
          if length suffixes = 0 then False
          else
            let candidates = certNames c in
            list_ex (\<lambda>s. let suffix = ToLower (TrimSpace s) in
              if suffix = [] then False else list_ex (suffixHit suffix) candidates) suffixes)"

definition spkiHashBase64 :: "spki_hash \<Rightarrow> Certificate option \<Rightarrow> str" where
  "spkiHashBase64 hash cert = (case cert of None \<Rightarrow> [] | Some c \<Rightarrow> hash (certRawSPKI c))"

definition matchesSPKI :: "spki_hash \<Rightarrow> Certificate option \<Rightarrow> str list \<Rightarrow> bool" where
  "matchesSPKI hash cert allowed =
     (let h = spkiHashBase64 hash cert in list_ex (\<lambda>item. EqualFold (TrimSpace item) h) allowed)"

definition verifyPeer ::
  "chain_verifier \<Rightarrow> spki_hash \<Rightarrow> str \<Rightarrow> CertVerifyConfig \<Rightarrow> Certificate list \<Rightarrow> verify_error option" where
  "verifyPeer verify hash realName cfg peers =
     (case peers of
        [] \<Rightarrow> Some (OtherError ''no peer certificates'')
      | leaf # intermediates \<Rightarrow>
          let verifyChain = (\<lambda>withDNSName. verify (if withDNSName then realName else []) leaf intermediates) in
          if cvMode cfg = ''strict_real'' then maybeIgnoreUnknownAuthority (verifyChain True) cfg
          else if cvMode cfg = ''chain_only'' then maybeIgnoreUnknownAuthority (verifyChain False) cfg
          else if cvMode cfg = ''allow_names'' then
            (case maybeIgnoreUnknownAuthority (verifyChain False) cfg of
               Some e \<Rightarrow> Some e
             | None \<Rightarrow> if \<not> matchesAllowedNames (Some leaf) (cvNames cfg)
                 then Some (OtherError ''certificate names do not match configured allow_names'') else None)
          else if cvMode cfg = ''allow_suffixes'' then
            (case maybeIgnoreUnknownAuthority (verifyChain False) cfg of
               Some e \<Rightarrow> Some e
             | None \<Rightarrow> if \<not> matchesAllowedSuffixes (Some leaf) (cvSuffixes cfg)
                 then Some (OtherError ''certificate names do not match configured allow_suffixes'') else None)
          else if cvMode cfg = ''allow_spki'' then
            (case maybeIgnoreUnknownAuthority (verifyChain False) cfg of
               Some e \<Rightarrow> Some e
             | None \<Rightarrow> if \<not> matchesSPKI hash (Some leaf) (cvSPKISHA256 cfg)
                 then Some (OtherError (''leaf spki '' @ spkiHashBase64 hash (Some leaf) @ '' not in allowlist'')) else None)
          else Some (OtherError (''unknown cert_verify mode: '' @ cvMode cfg)))"

text \<open>\<open>None\<close> is the nil hook: no check beyond the handshake's own.\<close>

definition buildVerifyConnection ::
  "chain_verifier \<Rightarrow> spki_hash \<Rightarrow> str \<Rightarrow> CertVerifyConfig \<Rightarrow> (Certificate list \<Rightarrow> verify_error option) option" where
  "buildVerifyConnection verify hash realName cfg =
     (let cfg = normalizeCertVerifyConfig cfg realName in
      if cvMode cfg = [] then None else Some (verifyPeer verify hash realName cfg))"

section \<open>The policy, stated on names\<close>

text \<open>A pattern covers a name: they are equal, or the pattern is \<open>*.base\<close> and the name ends in
  \<open>.base\<close> at any depth.\<close>

definition covers :: "str \<Rightarrow> str \<Rightarrow> bool" where
  "covers pat name = (pat = name \<or> (\<exists>base l. pat = ''*.'' @ base \<and> name = l @ ''.'' @ base))"

definition cleanName :: "str \<Rightarrow> str" where
  "cleanName s = ToLower (TrimSpace s)"

definition leafNames :: "Certificate \<Rightarrow> str set" where
  "leafNames c = cleanName ` set (certCommonName c # certDNSNames c) - {[]}"

definition chainOK :: "chain_verifier \<Rightarrow> CertVerifyConfig \<Rightarrow> str \<Rightarrow> Certificate \<Rightarrow> Certificate list \<Rightarrow> bool" where
  "chainOK verify cfg name leaf rest =
     (case verify name leaf rest of
        None \<Rightarrow> True
      | Some (UnknownAuthorityError _) \<Rightarrow> cvAllowUnknownAuthority cfg
      | Some (OtherError _) \<Rightarrow> False)"

definition policyOK ::
  "chain_verifier \<Rightarrow> spki_hash \<Rightarrow> str \<Rightarrow> CertVerifyConfig \<Rightarrow> Certificate \<Rightarrow> Certificate list \<Rightarrow> bool" where
  "policyOK verify hash realName cfg leaf rest =
     (if cvMode cfg = ''strict_real'' then chainOK verify cfg realName leaf rest
      else chainOK verify cfg [] leaf rest \<and>
        (cvMode cfg = ''chain_only''
         \<or> (cvMode cfg = ''allow_names'' \<and>
              (\<exists>a \<in> cleanName ` set (cvNames cfg). \<exists>c \<in> leafNames leaf. a \<noteq> [] \<and> (covers c a \<or> covers a c)))
         \<or> (cvMode cfg = ''allow_suffixes'' \<and>
              (\<exists>a \<in> cleanName ` set (cvSuffixes cfg). \<exists>c \<in> leafNames leaf. a \<noteq> [] \<and> (\<exists>l. c = l @ a)))
         \<or> (cvMode cfg = ''allow_spki'' \<and>
              (\<exists>a \<in> set (cvSPKISHA256 cfg). EqualFold (TrimSpace a) (hash (certRawSPKI leaf))))))"

section \<open>The matchers implement the policy\<close>

lemma cleanName_idem [simp]: "cleanName (cleanName s) = cleanName s"
  by (simp add: cleanName_def)

lemma ToLower_cleanName [simp]: "ToLower (cleanName s) = cleanName s"
  by (simp add: cleanName_def)

lemma appendNames_props:
  "set (appendNames out xs) = set out \<union> (cleanName ` set xs - {[]}) \<and> (distinct out \<longrightarrow> distinct (appendNames out xs))"
  by (induction out xs rule: appendNames.induct) (auto simp: Let_def cleanName_def)

lemma set_certNames: "set (certNames c) = leafNames c"
  using appendNames_props [of "[]" "certCommonName c # certDNSNames c"] by (simp add: certNames_def leafNames_def)

lemma CountByte_append [simp]: "CountByte (s @ t) c = CountByte s c + CountByte t c"
  by (simp add: CountByte_def)

lemma dnsMatch_covers:
  "dnsMatch c h \<longleftrightarrow> cleanName c \<noteq> [] \<and> cleanName h \<noteq> [] \<and> covers (cleanName c) (cleanName h)"
  unfolding dnsMatch_def cleanName_def [symmetric] Let_def covers_def
  by (auto simp: HasPrefix_iff HasSuffix_iff CountByte_def TrimPrefix_def)

lemma leafNames_clean: "c \<in> leafNames leaf \<Longrightarrow> cleanName c = c \<and> c \<noteq> []"
  by (auto simp: leafNames_def)

lemma matchesAllowedNames_iff:
  "matchesAllowedNames (Some leaf) names \<longleftrightarrow>
     (\<exists>a \<in> cleanName ` set names. \<exists>c \<in> leafNames leaf. a \<noteq> [] \<and> (covers c a \<or> covers a c))"
proof -
  have "matchesAllowedNames (Some leaf) names \<longleftrightarrow>
      (\<exists>n \<in> set names. cleanName n \<noteq> [] \<and>
         (\<exists>c \<in> leafNames leaf. dnsMatch c (cleanName n) \<or> dnsMatch (cleanName n) c))"
    by (auto simp: matchesAllowedNames_def list_ex_iff set_certNames Let_def cleanName_def)
  then show ?thesis using leafNames_clean by (auto simp: dnsMatch_covers)
qed

lemma suffixHit_iff: "suffixHit s c \<longleftrightarrow> (\<exists>l. ToLower c = l @ s)"
proof -
  have "\<exists>l. v = l @ s" if v: "HasPrefix v ''*.''" "TrimPrefix v ''*'' = s \<or> (\<exists>l. TrimPrefix v ''*'' = l @ s)" for v
  proof -
    obtain t where "v = ''*'' @ (''.'' @ t)" using v(1) by (auto simp: HasPrefix_iff)
    then show ?thesis using v(2) TrimPrefix_append [of "''*''" "''.'' @ t"] by (metis append_assoc)
  qed
  then show ?thesis by (auto simp: suffixHit_def Let_def HasSuffix_iff)
qed

lemma matchesAllowedSuffixes_iff:
  "matchesAllowedSuffixes (Some leaf) sfx \<longleftrightarrow>
     (\<exists>a \<in> cleanName ` set sfx. \<exists>c \<in> leafNames leaf. a \<noteq> [] \<and> (\<exists>l. c = l @ a))"
proof -
  have "ToLower c = c" if "c \<in> leafNames leaf" for c
    using leafNames_clean [OF that] ToLower_cleanName [of c] by simp
  then show ?thesis
    by (auto simp: matchesAllowedSuffixes_def list_ex_iff set_certNames Let_def suffixHit_iff cleanName_def)
qed

lemma maybeIgnore_chainOK:
  "maybeIgnoreUnknownAuthority (verify n leaf rest) cfg = None \<longleftrightarrow> chainOK verify cfg n leaf rest"
  by (auto simp: maybeIgnoreUnknownAuthority_def chainOK_def split: option.split verify_error.split)

lemma matchesSPKI_iff:
  "matchesSPKI hash (Some leaf) allowed \<longleftrightarrow>
     (\<exists>a \<in> set allowed. EqualFold (TrimSpace a) (hash (certRawSPKI leaf)))"
  by (simp add: matchesSPKI_def spkiHashBase64_def list_ex_iff Let_def)

lemma verifyPeer_policy:
  "verifyPeer verify hash realName cfg (leaf # rest) = None \<longleftrightarrow> policyOK verify hash realName cfg leaf rest"
proof -
  have guard: "(case maybeIgnoreUnknownAuthority (verify n leaf rest) cfg of Some e \<Rightarrow> Some e
      | None \<Rightarrow> if \<not> b then Some x else None) = None \<longleftrightarrow> chainOK verify cfg n leaf rest \<and> b" for n b x
    using maybeIgnore_chainOK [of verify n leaf rest cfg] by (auto split: option.split)
  show ?thesis
    unfolding verifyPeer_def policyOK_def Let_def list.case
    by (simp only: guard maybeIgnore_chainOK if_True if_False matchesAllowedNames_iff
        matchesAllowedSuffixes_iff matchesSPKI_iff split: if_split) simp
qed

lemma buildVerifyConnection_check:
  assumes "buildVerifyConnection verify hash realName cfg = Some check"
  shows "check = verifyPeer verify hash realName (normalizeCertVerifyConfig cfg realName)"
  using assms by (auto simp: buildVerifyConnection_def Let_def split: if_splits)

text \<open>C6: The hook that \<open>buildVerifyConnection\<close> installs accepts a handshake exactly when the peer
  presented a certificate whose chain verifies (an unknown authority counting only where the
  configuration allows it) and which satisfies the configured mode: the real name in
  \<open>strict_real\<close>, an allowed name that covers or is covered by a name of the leaf in \<open>allow_names\<close>, an
  allowed suffix of a name of the leaf in \<open>allow_suffixes\<close>, a pinned key in \<open>allow_spki\<close>. Any other
  mode accepts nothing.\<close>

theorem buildVerifyConnection_policy:
  assumes "buildVerifyConnection verify hash realName cfg = Some check"
  shows "check peers = None \<longleftrightarrow>
     (\<exists>leaf rest. peers = leaf # rest \<and>
        policyOK verify hash realName (normalizeCertVerifyConfig cfg realName) leaf rest)"
  using buildVerifyConnection_check [OF assms] verifyPeer_policy
  by (cases peers) (simp_all add: verifyPeer_def)

text \<open>A name list without a mode; the wildcard of the certificate covers the allowed name two levels
  deep.\<close>

theorem buildVerifyConnection_policy_witness:
  "\<exists>check. buildVerifyConnection (\<lambda>_ _ _. None) (\<lambda>_. []) ''a.example.org''
      (zeroCertVerify\<lparr>cvNames := [''X.Y.Example.org:443'']\<rparr>) = Some check \<and>
     (check [\<lparr>certCommonName = ''*.example.org'', certDNSNames = [], certRawSPKI = []\<rparr>] = None \<longleftrightarrow>
      (\<exists>leaf rest. [\<lparr>certCommonName = ''*.example.org'', certDNSNames = [], certRawSPKI = []\<rparr>] = leaf # rest \<and>
        policyOK (\<lambda>_ _ _. None) (\<lambda>_. []) ''a.example.org''
          (normalizeCertVerifyConfig (zeroCertVerify\<lparr>cvNames := [''X.Y.Example.org:443'']\<rparr>) ''a.example.org'') leaf rest))"
proof -
  let ?cfg = "zeroCertVerify\<lparr>cvNames := [''X.Y.Example.org:443'']\<rparr>"
  obtain check where c: "buildVerifyConnection (\<lambda>_ _ _. None) (\<lambda>_. []) ''a.example.org'' ?cfg = Some check"
    by (simp add: buildVerifyConnection_def normalizeCertVerifyConfig_def zeroCertVerify_def Let_def)
  show ?thesis by (rule exI [of _ check], rule conjI [OF c], rule buildVerifyConnection_policy [OF c])
qed

section \<open>Two consequences for configurations\<close>

text \<open>A suffix entry has no label boundary: whatever a certificate's common name puts in front of
  an allowed suffix, the leaf is accepted as soon as its chain verifies, so the entry
  \<open>example.com\<close> admits \<open>evilexample.com\<close>.\<close>

theorem allow_suffixes_no_boundary:
  assumes "TrimSpace (cvMode cfg) = ''allow_suffixes''" and "sfx \<in> set (cvSuffixes cfg)"
    and "sfx = cleanName sfx" and "sfx \<noteq> []" and "cleanName (evil @ sfx) = evil @ sfx"
    and "certCommonName leaf = evil @ sfx" and "verify [] leaf rest = None"
  shows "\<exists>check. buildVerifyConnection verify hash realName cfg = Some check \<and> check (leaf # rest) = None"
proof -
  let ?n = "normalizeCertVerifyConfig cfg realName"
  have n: "cvMode ?n = ''allow_suffixes''" "cvSuffixes ?n = map cleanName (cvSuffixes cfg)"
    using assms(1) by (simp_all add: normalizeCertVerifyConfig_def Let_def cleanName_def)
  have "sfx \<in> cleanName ` set (cvSuffixes ?n)" using assms(2,3) n(2) by force
  moreover have "evil @ sfx \<in> leafNames leaf" using assms(4-6) by (force simp: leafNames_def)
  ultimately have "policyOK verify hash realName ?n leaf rest"
    using n(1) assms(4,7) by (auto simp: policyOK_def chainOK_def)
  then show ?thesis using n(1) verifyPeer_policy by (simp add: buildVerifyConnection_def Let_def)
qed

theorem allow_suffixes_no_boundary_witness:
  "\<exists>check. buildVerifyConnection (\<lambda>_ _ _. None) (\<lambda>_. []) ''www.example.com''
     (zeroCertVerify\<lparr>cvMode := ''allow_suffixes'', cvSuffixes := [''example.com'']\<rparr>) = Some check \<and>
   check [\<lparr>certCommonName = ''evilexample.com'', certDNSNames = [], certRawSPKI = []\<rparr>] = None"
proof (rule allow_suffixes_no_boundary [where sfx = "''example.com''" and evil = "''evil''"])
  show "''example.com'' = cleanName ''example.com''" by code_simp
  show "cleanName (''evil'' @ ''example.com'') = ''evil'' @ ''example.com''" by code_simp
  show "TrimSpace (cvMode (zeroCertVerify\<lparr>cvMode := ''allow_suffixes'', cvSuffixes := [''example.com'']\<rparr>)) = ''allow_suffixes''"
    by code_simp
qed simp_all

end
