(* ===== verification/Connect.thy ===== *)
theory Connect
  imports TlsFragment CfPool CertVerify RuleTheorems
begin

text \<open>
  Reaching an upstream, \<open>src/proxy/proxy.go\<close> and \<open>src/proxy/tun_flow.go\<close>: the addresses to dial, the
  name to announce, the CONNECT handler with its dial loop, the TLS configuration of an upstream
  connection and the loop that establishes it, and the plan for a TUN flow.

  \<^item> \<open>net_env\<close> is the outside world: the DoH resolver (absent when it is nil), the system resolver, the
    outcome of each dial and of each TLS handshake, the base64 codec, and what \<open>net\<close> says of IPv6
    texts. \<open>isLiteralIP\<close> uses \<open>net.ParseIP\<close>, whose IPv4 part is \<open>parseIPv4\<close>.
  \<^item> \<open>ProxyServer\<close> holds the fields these operations read, with the pool and the rules. Operations that
    use the pool are \<open>Blocked\<close> where they would wait for its mutex forever.
  \<^item> \<open>handleConnect\<close> gives the actions on the client and upstream connections in order; the handlers it
    ends with (\<open>handleMITM\<close>, \<open>handleTLSFragment\<close>, \dots) are actions.
\<close>

section \<open>The outside world and the server\<close>

text \<open>The configuration of a TLS client and the outcome of a handshake: the negotiated protocol, a rejected
  ECH configuration or another error.\<close>

record utls_config =
  ucServerName :: str
  ucInsecureSkipVerify :: bool
  ucECHConfigList :: bytes
  ucNextProtos :: "str list"
  ucVerifyConnection :: "(Certificate list \<Rightarrow> verify_error option) option"
  ucInsecureServerNameToVerify :: str
  ucHelloID :: str

datatype handshake = HsOK str | HsRejected str | HsFailed str

record net_env =
  neDoH :: ip_resolver
  neSystem :: "str \<Rightarrow> IP list go"
  neV6 :: "str \<Rightarrow> bool"
  neV6Text :: "128 word \<Rightarrow> str"
  neDial :: "str \<Rightarrow> nat \<Rightarrow> str option"
  neHandshake :: "str \<Rightarrow> nat \<Rightarrow> utls_config \<Rightarrow> handshake"
  neFetchECH :: "str \<Rightarrow> bytes go"
  neRefreshECH :: "str \<Rightarrow> bytes go"
  neDecode :: "str \<Rightarrow> bytes go"
  neEncode :: "bytes \<Rightarrow> str"
  neOrder :: key_order
  neClock :: clock

record ProxyServer =
  psListenAddr :: str
  psSocksAddr :: str
  psMode :: str
  psRunning :: bool
  psSocksRunning :: bool
  psRules :: RuleManager
  psPool :: "CloudflarePool option"
  psGasRelay :: bool
  psGasDialAddr :: str
  psBypass :: "str list"

definition NewProxyServer :: "key_order \<Rightarrow> str \<Rightarrow> ProxyServer blk" where
  "NewProxyServer ord addr =
     bind_blk (NewCloudflarePool ord []) (\<lambda>pool.
       Done \<lparr>psListenAddr = addr, psSocksAddr = [], psMode = ''mitm'', psRunning = False, psSocksRunning = False,
         psRules = NewRuleManager None None, psPool = Some pool, psGasRelay = False, psGasDialAddr = [], psBypass = []\<rparr>)"

definition withPool :: "(CloudflarePool \<Rightarrow> CloudflarePool blk) \<Rightarrow> ProxyServer \<Rightarrow> ProxyServer blk" where
  "withPool f p = (case psPool p of None \<Rightarrow> Done p | Some pool \<Rightarrow> bind_blk (f pool) (\<lambda>pool1. Done (p\<lparr>psPool := Some pool1\<rparr>)))"

text \<open>\<open>SetRuleManager\<close> with a manager that is not nil.\<close>

definition SetRuleManager :: "key_order \<Rightarrow> RuleManager \<Rightarrow> ProxyServer \<Rightarrow> ProxyServer blk" where
  "SetRuleManager ord rm p = withPool (UpdateIPs ord (cfPreferredIPs (cloudflareConfig rm))) (p\<lparr>psRules := rm\<rparr>)"

definition UpdateCloudflareIPPool :: "key_order \<Rightarrow> str list \<Rightarrow> ProxyServer \<Rightarrow> ProxyServer blk" where
  "UpdateCloudflareIPPool ord ips p = withPool (UpdateIPs ord ips) p"

definition SetGASDialAddr :: "str \<Rightarrow> ProxyServer \<Rightarrow> ProxyServer" where
  "SetGASDialAddr addr p = p\<lparr>psGasDialAddr := addr\<rparr>"

definition SetSOCKSAddr :: "str \<Rightarrow> ProxyServer \<Rightarrow> ProxyServer \<times> unit go" where
  "SetSOCKSAddr addr p =
     (if psRunning p then (p, Err ''cannot change SOCKS5 address while proxy is running'')
      else (p\<lparr>psSocksAddr := addr\<rparr>, Ok ()))"

definition SetListenAddr :: "str \<Rightarrow> ProxyServer \<Rightarrow> ProxyServer \<times> unit go" where
  "SetListenAddr addr p =
     (if psRunning p then (p, Err ''cannot change address while proxy is running'')
      else (p\<lparr>psListenAddr := addr\<rparr>, Ok ()))"

definition SetMode :: "str \<Rightarrow> ProxyServer \<Rightarrow> ProxyServer \<times> unit go" where
  "SetMode mode0 p =
     (let mode = ToLower (TrimSpace mode0) in
      if mode \<notin> {''mitm'', ''transparent'', ''tls-rf'', ''quic'', ''gas'', ''v2ray'', ''rule''}
      then (p, Err (''invalid proxy mode: '' @ mode))
      else (p\<lparr>psMode := mode\<rparr>, Ok ()))"

text \<open>\<open>Start\<close> and \<open>Stop\<close>; \<open>listen\<close> is the outcome of listening on an address, \<open>closeErr\<close> that of closing the server.\<close>

definition StartServer :: "(str \<Rightarrow> str option) \<Rightarrow> ProxyServer \<Rightarrow> (ProxyServer \<times> unit go) blk" where
  "StartServer listen p =
     (if psRunning p then Done (p, Ok ())
      else bind_blk (withPool StartPool p) (\<lambda>p1.
        case listen (psListenAddr p1) of
          Some e \<Rightarrow> bind_blk (withPool StopPool p1) (\<lambda>p2. Done (p2, Err (''failed to listen on '' @ psListenAddr p1 @ '': '' @ e)))
        | None \<Rightarrow>
            Done (p1\<lparr>psRunning := True,
               psSocksRunning := (if psSocksAddr p1 \<noteq> [] \<and> listen (psSocksAddr p1) = None then True else psSocksRunning p1)\<rparr>, Ok ())))"

definition StopServer :: "str option \<Rightarrow> ProxyServer \<Rightarrow> (ProxyServer \<times> unit go) blk" where
  "StopServer closeErr p =
     (if \<not> psRunning p then Done (p, Ok ())
      else bind_blk (withPool StopPool (p\<lparr>psRunning := False\<rparr>)) (\<lambda>p1.
        Done (p1\<lparr>psSocksRunning := False\<rparr>, case closeErr of None \<Rightarrow> Ok () | Some e \<Rightarrow> Err e)))"

definition SetGasRelay :: "bool \<Rightarrow> ProxyServer \<Rightarrow> ProxyServer" where
  "SetGasRelay r p = p\<lparr>psGasRelay := r\<rparr>"

definition UpdateCloudflareConfigServer :: "key_order \<Rightarrow> CloudflareConfig \<Rightarrow> ProxyServer \<Rightarrow> ProxyServer blk" where
  "UpdateCloudflareConfigServer ord cfg p = withPool (UpdateIPs ord (cfPreferredIPs cfg)) p"

definition TriggerCFHealthCheck :: "ProxyServer \<Rightarrow> ProxyServer blk" where
  "TriggerCFHealthCheck p = withPool (\<lambda>pool. Done (TriggerHealthCheck pool)) p"

definition RemoveInvalidCFIPs :: "key_order \<Rightarrow> ProxyServer \<Rightarrow> (ProxyServer \<times> nat) blk" where
  "RemoveInvalidCFIPs ord p =
     (case psPool p of
        None \<Rightarrow> Done (p, 0)
      | Some pool \<Rightarrow> bind_blk (RemoveInvalidIPs ord pool) (\<lambda>(pool1, n). Done (p\<lparr>psPool := Some pool1\<rparr>, n)))"

definition GetAllCFIPsWithStats :: "key_order \<Rightarrow> ProxyServer \<Rightarrow> str list blk" where
  "GetAllCFIPsWithStats ord p = (case psPool p of None \<Rightarrow> Done [] | Some pool \<Rightarrow> GetAllIPsWithStats ord pool)"

section \<open>Addresses to dial\<close>

definition isLiteralIP :: "net_env \<Rightarrow> str \<Rightarrow> bool" where
  "isLiteralIP env host = (let h = TrimSet host ''[]'' in parseIPv4 h \<noteq> None \<or> neV6 env h)"

definition ipString :: "net_env \<Rightarrow> IP \<Rightarrow> str" where
  "ipString env ip =
     (case ip of
        IPv4 w \<Rightarrow> (let n = unat w in
          itoa (n div 16777216) @ ''.'' @ itoa (n div 65536 mod 256) @ ''.'' @ itoa (n div 256 mod 256) @ ''.'' @ itoa (n mod 256))
      | IPv6 w \<Rightarrow> neV6Text env w)"

definition isV4 :: "IP \<Rightarrow> bool" where
  "isV4 ip = (case ip of IPv4 _ \<Rightarrow> True | IPv6 _ \<Rightarrow> False)"

definition reorderIPsByDNSMode :: "IP list \<Rightarrow> str \<Rightarrow> IP list" where
  "reorderIPsByDNSMode ips mode0 =
     (if length ips = 0 then []
      else
        let mode = normalizeDNSMode mode0 in
        if mode = [] then ips
        else
          let v4s = filter isV4 ips; v6s = filter (\<lambda>ip. \<not> isV4 ip) ips in
          if mode = ''prefer_ipv4'' then v4s @ v6s
          else if mode = ''prefer_ipv6'' then v6s @ v4s
          else if mode = ''ipv4_only'' then v4s
          else if mode = ''ipv6_only'' then v6s
          else ips)"

definition resolveDomainCandidates :: "net_env \<Rightarrow> str \<Rightarrow> str \<Rightarrow> str \<Rightarrow> str list" where
  "resolveDomainCandidates env host0 port dnsMode =
     (let host = normalizeHost host0 in
      if host = [] \<or> isLiteralIP env host then []
      else case neDoH env of
        None \<Rightarrow> []
      | Some resolve \<Rightarrow>
          (case resolve host of
             Ok ips \<Rightarrow>
               (let ordered = reorderIPsByDNSMode ips dnsMode in
                if length ordered = 0 then []
                else dedupeDialCandidates (map (\<lambda>ip. JoinHostPort (ipString env ip) port) ordered))
           | _ \<Rightarrow> []))"

fun systemV4 :: "net_env \<Rightarrow> str \<Rightarrow> str set \<Rightarrow> IP list \<Rightarrow> str list" where
  "systemV4 env port seen [] = []"
| "systemV4 env port seen (ip # ips) =
     (let addr = ipString env ip in
      if addr \<in> seen then systemV4 env port seen ips
      else (if isV4 ip then [JoinHostPort addr port] else []) @ systemV4 env port (insert addr seen) ips)"

definition resolveSystemDNS :: "net_env \<Rightarrow> str \<Rightarrow> str \<Rightarrow> str list" where
  "resolveSystemDNS env host port =
     (case neSystem env host of
        Ok ips \<Rightarrow>
          (let out = systemV4 env port {} ips in
           if length out = 0
           then map (\<lambda>ip. JoinHostPort (''['' @ ipString env ip @ '']'') port) (filter (\<lambda>ip. \<not> isV4 ip) ips)
           else out)
      | _ \<Rightarrow> [])"

definition orElse :: "str list \<Rightarrow> str list \<Rightarrow> str list" where
  "orElse xs ys = (if length xs > 0 then xs else ys)"

definition upstreamModes :: "str list" where
  "upstreamModes = [''mitm'', ''transparent'', ''tls-rf'', ''quic'']"

definition buildDialCandidates ::
  "net_env \<Rightarrow> CloudflarePool option \<Rightarrow> str \<Rightarrow> str \<Rightarrow> Rule \<Rightarrow> str \<Rightarrow> str list blk" where
  "buildDialCandidates env pool targetHost targetAddr rule effectiveMode =
     (let resolvedUpstream = resolveRuleUpstream targetHost rule; defaultPort = ''443'';
          doh = (\<lambda>h. resolveDomainCandidates env h defaultPort (rDNSMode rule));
          byDNS = (\<lambda>h rest. orElse (doh h) (orElse (resolveSystemDNS env h defaultPort) rest))
      in if EqualFold (TrimSpace (rUpstream rule)) ''warp'' then Done (orElse (doh targetHost) [targetAddr])
         else if effectiveMode \<notin> set upstreamModes then Done [targetAddr]
         else if TrimSpace resolvedUpstream \<noteq> [] then
           (let upstreamCandidates = splitUpstreamCandidates targetHost resolvedUpstream defaultPort in
            if length upstreamCandidates = 0 then Done [targetAddr]
            else
              let firstHost = firstUpstreamHost targetHost resolvedUpstream in
              if firstHost \<noteq> [] \<and> \<not> isLiteralIP env firstHost then Done (byDNS firstHost upstreamCandidates)
              else Done upstreamCandidates)
         else case (rUseCFPool rule, pool) of
           (True, Some p) \<Rightarrow>
             bind_blk (GetTopIPs (neOrder env) 5 p) (\<lambda>topIPs.
               if length topIPs > 0 then Done (dedupeDialCandidates (map (\<lambda>ip. JoinHostPort ip defaultPort) topIPs))
               else Done (byDNS targetHost [targetAddr]))
         | _ \<Rightarrow> Done (byDNS targetHost [targetAddr]))"

definition chooseUpstreamSNI :: "net_env \<Rightarrow> str \<Rightarrow> Rule \<Rightarrow> str" where
  "chooseUpstreamSNI env targetHost0 rule =
     (let targetHost = normalizeHost targetHost0;
          token = TrimSpace (ReplaceAll (ReplaceAll (TrimSet targetHost ''[]'') ''.'' ''-'') '':'' ''-'');
          hostAsToken = (if token = [] then ''g-cn'' else token);
          resolvedUpstream = resolveRuleUpstream targetHost rule;
          policy = ToLower (TrimSpace (rSniPolicy rule));
          upstreamHost = firstUpstreamHost targetHost resolvedUpstream
      in if policy = ''none'' then []
         else if policy = ''original'' then targetHost
         else if policy = ''fake'' then (if TrimSpace (rSniFake rule) \<noteq> [] then rSniFake rule else hostAsToken)
         else if policy = ''upstream'' then
           (if upstreamHost \<noteq> [] \<and> \<not> isLiteralIP env upstreamHost then upstreamHost else targetHost)
         else if TrimSpace (rSniFake rule) \<noteq> [] then rSniFake rule
         else if resolvedUpstream \<noteq> [] \<and> upstreamHost \<noteq> [] \<and> \<not> isLiteralIP env upstreamHost \<and> upstreamHost \<noteq> targetHost
         then upstreamHost
         else targetHost)"

section \<open>The CONNECT handler\<close>

datatype conn_act =
    ActGasRelay | ActGasForward | ActDirect str | ActV2Ray str | ActServerMITM | ActQUICMITM
  | ActDial str bool | ActBadGateway | ActHijackFailed | ActClose str | ActCloseClient | ActEstablished
  | ActMITM "str list" str | ActTLSFragment str | ActTransparent str

text \<open>A report to the pool about an address, as the loops do after each dial.\<close>

definition hostOfAddr :: "str \<Rightarrow> str" where
  "hostOfAddr addr = (case SplitHostPort addr of Ok (h, _) \<Rightarrow> h | _ \<Rightarrow> [])"

definition reportPool :: "net_env \<Rightarrow> bool \<Rightarrow> bool \<Rightarrow> str \<Rightarrow> CloudflarePool option \<Rightarrow> CloudflarePool option blk" where
  "reportPool env success useCF addr pool =
     (case pool of
        None \<Rightarrow> Done None
      | Some p \<Rightarrow>
          if \<not> useCF \<or> hostOfAddr addr = [] then Done pool
          else bind_blk (if success then ReportSuccess (hostOfAddr addr) p
                         else ReportFailure (neClock env) (neOrder env) (hostOfAddr addr) p) (\<lambda>p1. Done (Some p1)))"

fun dialSequential ::
  "net_env \<Rightarrow> bool \<Rightarrow> str list \<Rightarrow> CloudflarePool option \<Rightarrow> (conn_act list \<times> str option \<times> CloudflarePool option) blk" where
  "dialSequential env useCF [] pool = Done ([], None, pool)"
| "dialSequential env useCF (addr # rest) pool =
     (case neDial env addr 0 of
        None \<Rightarrow> bind_blk (reportPool env True useCF addr pool) (\<lambda>pool1. Done ([ActDial addr True], Some addr, pool1))
      | Some _ \<Rightarrow>
          bind_blk (reportPool env False useCF addr pool) (\<lambda>pool1.
            bind_blk (dialSequential env useCF rest pool1) (\<lambda>(acts, r, pool2). Done (ActDial addr False # acts, r, pool2))))"

definition dialCandidatesLoop ::
  "net_env \<Rightarrow> bool \<Rightarrow> str list \<Rightarrow> CloudflarePool option \<Rightarrow> (conn_act list \<times> str option \<times> CloudflarePool option) blk" where
  "dialCandidatesLoop env useCF cands pool =
     (if length cands > 1 then dialSequential env useCF cands pool
      else case cands of
        [] \<Rightarrow> Done ([], None, pool)
      | c # _ \<Rightarrow> (case neDial env c 0 of
          None \<Rightarrow> Done ([ActDial c True], Some c, pool)
        | Some _ \<Rightarrow> Done ([ActDial c False], None, pool)))"

text \<open>What the client's side of the connection does: it can be hijacked, and the reply written.\<close>

record client_env =
  ceHijack :: bool
  ceWrite :: bool

definition effectivePolicy :: "str \<Rightarrow> Rule \<Rightarrow> str \<times> str" where
  "effectivePolicy targetHost rule =
     (let up = resolveRuleUpstream targetHost rule; policy = ToLower (TrimSpace (rConnectPolicy rule)) in
      if policy = ''tunnel_origin'' then (''transparent'', [])
      else if policy = ''tunnel_upstream'' then (''transparent'', up)
      else if policy = ''mitm'' then (''mitm'', up)
      else if policy = ''direct'' then (''direct'', [])
      else (rMode rule, up))"

text \<open>The second stage: a rule for the upstream's own host is laid over the rule of the target.\<close>

definition stageTwo :: "route_env \<Rightarrow> str \<Rightarrow> str \<Rightarrow> str \<Rightarrow> Rule \<Rightarrow> RuleManager \<Rightarrow> Rule \<times> RuleManager" where
  "stageTwo renv targetHost effectiveMode resolvedUpstream rule rm =
     (if (effectiveMode = ''mitm'' \<or> effectiveMode = ''transparent'') \<and> TrimSpace resolvedUpstream \<noteq> [] then
        (let upHost = firstUpstreamHost targetHost resolvedUpstream in
         if upHost \<noteq> [] then
           (let (upRule, rm1, _) = matchRule renv upHost effectiveMode rm in
            if rSiteID upRule \<noteq> [] then (mergeRule rule upRule, rm1) else (rule, rm1))
         else (rule, rm))
      else (rule, rm))"

definition finishConnect :: "client_env \<Rightarrow> str \<Rightarrow> str list \<Rightarrow> str \<Rightarrow> conn_act list" where
  "finishConnect cl mode cands addr =
     (if \<not> ceHijack cl then [ActHijackFailed, ActClose addr]
      else if \<not> ceWrite cl then [ActCloseClient, ActClose addr]
      else [ActEstablished,
        if mode = ''mitm'' then ActMITM cands addr
        else if mode = ''tls-rf'' then ActTLSFragment addr
        else ActTransparent addr])"

definition hijackThen :: "client_env \<Rightarrow> conn_act \<Rightarrow> conn_act list" where
  "hijackThen cl act =
     (if \<not> ceHijack cl then [ActHijackFailed] else if \<not> ceWrite cl then [ActCloseClient] else [ActEstablished, act])"

definition handleConnect ::
  "net_env \<Rightarrow> route_env \<Rightarrow> client_env \<Rightarrow> str \<Rightarrow> Rule \<Rightarrow> ProxyServer \<Rightarrow> (conn_act list \<times> ProxyServer) blk" where
  "handleConnect env renv cl targetAuthority rule0 p =
     (let targetHost = normalizeHost targetAuthority; targetAddr = ensureAddrWithPort targetAuthority ''443'' in
      if psGasRelay p then Done ([ActGasRelay], p)
      else if psGasDialAddr p \<noteq> [] then Done ([ActGasForward], p)
      else
        let (effectiveMode, resolvedUpstream) = effectivePolicy targetHost rule0;
            (rule, rm1) = stageTwo renv targetHost effectiveMode resolvedUpstream rule0 (psRules p);
            p1 = p\<lparr>psRules := rm1\<rparr>
        in if effectiveMode = ''direct'' then Done ([ActDirect targetAddr], p1)
           else if effectiveMode = ''v2ray'' then Done ([ActV2Ray targetAddr], p1)
           else if effectiveMode = ''gas'' then Done ([ActDirect targetAddr], p1)
           else if effectiveMode = ''server'' then Done (hijackThen cl ActServerMITM, p1)
           else if effectiveMode = ''quic'' then Done (hijackThen cl ActQUICMITM, p1)
           else
             bind_blk (buildDialCandidates env (psPool p1) targetHost targetAddr rule effectiveMode) (\<lambda>cands0.
             let cands = (if length cands0 = 0 then [targetAddr] else cands0) in
             bind_blk (dialCandidatesLoop env (rUseCFPool rule) cands (psPool p1)) (\<lambda>(acts, r, pool1).
               Done (acts @ (case r of None \<Rightarrow> [ActBadGateway] | Some addr \<Rightarrow> finishConnect cl effectiveMode cands addr),
                     p1\<lparr>psPool := pool1\<rparr>))))"

text \<open>The dispatch of a request: the rule is matched on the normalised host, and anything but CONNECT goes to
  \<open>handleHTTP\<close>.\<close>

datatype request_act = ActConnect "conn_act list" | ActHTTP Rule

definition handleRequest ::
  "net_env \<Rightarrow> route_env \<Rightarrow> client_env \<Rightarrow> str \<Rightarrow> str \<Rightarrow> str \<Rightarrow> ProxyServer \<Rightarrow> (request_act \<times> ProxyServer) blk" where
  "handleRequest env renv cl method reqHost urlHost p =
     (let host = (if reqHost = [] then urlHost else reqHost);
          (rule, rm1, _) = matchRule renv (normalizeHost host) (psMode p) (psRules p);
          p1 = p\<lparr>psRules := rm1\<rparr>
      in if method = ''CONNECT'' then
           bind_blk (handleConnect env renv cl (if urlHost = [] then reqHost else urlHost) rule p1)
             (\<lambda>(acts, p2). Done (ActConnect acts, p2))
         else Done (ActHTTP rule, p1))"

section \<open>The TLS connection to an upstream\<close>

definition chooseUTLSClientHelloID :: "str \<Rightarrow> str" where
  "chooseUTLSClientHelloID alpn =
     (if EqualFold (TrimSpace alpn) ''http/1.1'' then ''HelloFirefox_120'' else ''HelloChrome_120'')"

definition nextProtosForNegotiatedALPN :: "str \<Rightarrow> str list" where
  "nextProtosForNegotiatedALPN alpn = (if EqualFold (TrimSpace alpn) ''h2'' then [''h2''] else [''http/1.1''])"

definition GetUConn ::
  "chain_verifier \<Rightarrow> spki_hash \<Rightarrow> ProxyServer \<Rightarrow> str \<Rightarrow> str \<Rightarrow> Rule \<Rightarrow> bool \<Rightarrow> str \<Rightarrow> bytes \<Rightarrow> utls_config" where
  "GetUConn verify hash p sni verifyName rule allowInsecure alpn echCfg =
     (let nextProtos = (if EqualFold (TrimSpace alpn) ''http/1.1'' then [''http/1.1''] else [''h2'', ''http/1.1'']);
          verifyConn = buildVerifyConnection verify hash verifyName (rCertVerify rule);
          serverName = (if sni = [] then verifyName else sni);
          skip1 = (if cvMode (rCertVerify rule) \<noteq> [] then True else allowInsecure);
          bypass = (normalizeHost verifyName \<in> set (psBypass p));
          skip2 = (if bypass then True else skip1);
          verify2 = (if bypass then None else verifyConn);
          ech = (length echCfg > 0)
      in \<lparr>ucServerName = serverName, ucInsecureSkipVerify = (if ech then False else skip2),
          ucECHConfigList = echCfg, ucNextProtos = nextProtos,
          ucVerifyConnection = (if ech then None else verify2),
          ucInsecureServerNameToVerify = (if ech then ''*'' else []),
          ucHelloID = chooseUTLSClientHelloID alpn\<rparr>)"

definition resolveRuleECHConfig :: "net_env \<Rightarrow> str \<Rightarrow> Rule \<Rightarrow> RuleManager \<Rightarrow> bytes \<times> RuleManager" where
  "resolveRuleECHConfig env host rule rm =
     (if \<not> rECHEnabled rule then ([], rm)
      else
        let manual = (if rECHProfileID rule \<noteq> [] then GetBinaryECHConfig (neDecode env) (rECHProfileID rule) rm else []) in
        if length manual > 0 then (manual, rm)
        else if rECHAutoUpdate rule then
          (let d = TrimSpace (rECHDiscoveryDomain rule); lookupDomain = (if d = [] then host else d) in
           case neFetchECH env lookupDomain of
             Ok echCfg \<Rightarrow>
               if length echCfg > 0 then
                 (echCfg, if rECHProfileID rule \<noteq> []
                   then fst (UpdateECHProfileConfig (neEncode env) None (rECHProfileID rule) echCfg rm) else rm)
               else ([], rm)
           | _ \<Rightarrow> ([], rm))
        else ([], rm))"

text \<open>One attempt of \<open>establishUpstreamConn\<close> on an address. \<open>Retry\<close> is the \<open>continue\<close> after a refreshed ECH
  configuration, \<open>NextAddr\<close> the \<open>break\<close> with the reason. \<open>rnd\<close> is 0, or 1 in the call with the fallback rule: dials and
  handshakes of an address are numbered across the calls.\<close>

datatype attempt = Connected str utls_config | Retry | NextAddr str

definition upstreamAttempt ::
  "net_env \<Rightarrow> chain_verifier \<Rightarrow> spki_hash \<Rightarrow> nat \<Rightarrow> str \<Rightarrow> Rule \<Rightarrow> str \<Rightarrow> str \<Rightarrow> nat \<Rightarrow> ProxyServer \<Rightarrow> (attempt \<times> ProxyServer) blk" where
  "upstreamAttempt env verify hash rnd host rule alpn addr k p =
     (let (echCfg, rm1) = resolveRuleECHConfig env host rule (psRules p); p1 = p\<lparr>psRules := rm1\<rparr>;
          fail = (\<lambda>why q. bind_blk (reportPool env False (rUseCFPool rule) addr (psPool q)) (\<lambda>pool.
             Done (NextAddr why, q\<lparr>psPool := pool\<rparr>)))
      in case neDial env addr (2 * rnd + k) of
           Some e \<Rightarrow> fail (addr @ '' dial: '' @ e) p1
         | None \<Rightarrow>
             let targetSNI = (if length echCfg > 0 then host else chooseUpstreamSNI env host rule);
                 allowInsecure = (length echCfg = 0 \<and> IsZero (rCertVerify rule));
                 cfg = GetUConn verify hash p1 targetSNI host rule allowInsecure alpn echCfg
             in case neHandshake env addr (2 * rnd + k) cfg of
                  HsOK proto \<Rightarrow>
                    bind_blk (reportPool env True (rUseCFPool rule) addr (psPool p1)) (\<lambda>pool.
                      Done (Connected proto cfg, p1\<lparr>psPool := pool\<rparr>))
                | HsFailed e \<Rightarrow> fail (addr @ '' utls: '' @ e) p1
                | HsRejected e \<Rightarrow>
                    if k = 0 \<and> rECHEnabled rule \<and> neDoH env \<noteq> None then
                      (let d = (if rECHDiscoveryDomain rule = [] then host else rECHDiscoveryDomain rule) in
                       case neRefreshECH env d of
                         Ok newECH \<Rightarrow>
                           if length newECH > 0 then
                             Done (Retry, if rECHProfileID rule \<noteq> []
                               then p1\<lparr>psRules := fst (UpdateECHProfileConfig (neEncode env) None (rECHProfileID rule) newECH rm1)\<rparr> else p1)
                           else fail (addr @ '' utls: '' @ e) p1
                       | _ \<Rightarrow> fail (addr @ '' utls: '' @ e) p1)
                    else fail (addr @ '' utls: '' @ e) p1)"

text \<open>At most two attempts for an address; after a second \<open>Retry\<close> the inner loop ends without an error
  entry (it cannot happen: only the first attempt retries).\<close>

definition tryAddr ::
  "net_env \<Rightarrow> chain_verifier \<Rightarrow> spki_hash \<Rightarrow> nat \<Rightarrow> str \<Rightarrow> Rule \<Rightarrow> str \<Rightarrow> str \<Rightarrow> ProxyServer \<Rightarrow> (attempt \<times> ProxyServer) blk" where
  "tryAddr env verify hash rnd host rule alpn addr p =
     bind_blk (upstreamAttempt env verify hash rnd host rule alpn addr 0 p) (\<lambda>(a, p1).
       case a of
         Retry \<Rightarrow> upstreamAttempt env verify hash rnd host rule alpn addr 1 p1
       | _ \<Rightarrow> Done (a, p1))"

fun tryAddrs ::
  "net_env \<Rightarrow> chain_verifier \<Rightarrow> spki_hash \<Rightarrow> nat \<Rightarrow> str \<Rightarrow> Rule \<Rightarrow> str \<Rightarrow> str list \<Rightarrow> ProxyServer \<Rightarrow>
   ((str \<times> str \<times> utls_config) option \<times> str list \<times> ProxyServer) blk" where
  "tryAddrs env verify hash rnd host rule alpn [] p = Done (None, [], p)"
| "tryAddrs env verify hash rnd host rule alpn (addr # rest) p =
     bind_blk (tryAddr env verify hash rnd host rule alpn addr p) (\<lambda>(a, p1).
       case a of
         Connected proto cfg \<Rightarrow> Done (Some (addr, proto, cfg), [], p1)
       | Retry \<Rightarrow> tryAddrs env verify hash rnd host rule alpn rest p1
       | NextAddr why \<Rightarrow>
           bind_blk (tryAddrs env verify hash rnd host rule alpn rest p1) (\<lambda>(r, errs, p2). Done (r, why # errs, p2)))"

definition orderedCandidates :: "str \<Rightarrow> str list \<Rightarrow> str list" where
  "orderedCandidates host cands = (if length cands = 0 then [JoinHostPort host ''443''] else cands)"

text \<open>The call with the fallback rule; the fallback of that rule is its own mode, so the recursion ends
  after one more round.\<close>

definition establishUpstreamConn ::
  "net_env \<Rightarrow> chain_verifier \<Rightarrow> spki_hash \<Rightarrow> str \<Rightarrow> Rule \<Rightarrow> str list \<Rightarrow> str \<Rightarrow> ProxyServer \<Rightarrow>
   ((str \<times> str \<times> utls_config) go \<times> ProxyServer) blk" where
  "establishUpstreamConn env verify hash host rule dialCandidates initialALPN p =
     (let ordered = orderedCandidates host dialCandidates;
          alpn = (if initialALPN = [] then ''h2_h1'' else initialALPN);
          failure = (\<lambda>errs. if length errs = 0 then Err ''all candidates failed with unknown error''
             else Err (''all candidates failed: '' @ Join errs ''; ''));
          fallback = ToLower (TrimSpace (rFallbackMode rule))
      in bind_blk (tryAddrs env verify hash 0 host rule alpn ordered p) (\<lambda>(r, errs, p1).
           case r of
             Some c \<Rightarrow> Done (Ok c, p1)
           | None \<Rightarrow>
               if length errs > 0 \<and> (fallback = ''tls-rf'' \<or> fallback = ''quic'') \<and> fallback \<noteq> rMode rule then
                 (let rule2 = rule\<lparr>rMode := fallback, rECHEnabled := False\<rparr> in
                  bind_blk (tryAddrs env verify hash 1 host rule2 alpn ordered p1) (\<lambda>(r2, errs2, p2).
                    case r2 of Some c \<Rightarrow> Done (Ok c, p2) | None \<Rightarrow> Done (failure errs2, p2)))
               else Done (failure errs, p1)))"

section \<open>Plans for TUN flows\<close>

record TUNFlow =
  tfProtocol :: str
  tfHost :: str
  tfSNI :: str
  tfDestAddr :: str
  tfDestPort :: int

record TUNFlowPlan =
  tpProtocol :: str
  tpHost :: str
  tpMatchHost :: str
  tpRuleMode :: str
  tpEffectiveMode :: str
  tpUpstream :: str
  tpDialCandidates :: "str list"
  tpUDPStrategy :: str
  tpCanMITM :: bool
  tpNeedsSniffing :: bool
  tpNotes :: "str list"

text \<open>The effective mode, whether the flow can be intercepted, the strategy for UDP, and the note.\<close>

definition tunMode :: "str \<Rightarrow> str \<Rightarrow> str \<times> bool \<times> str \<times> str list" where
  "tunMode protocol mode =
     (if protocol = ''udp'' then
        (if mode \<in> {''mitm'', ''tls-rf'', ''server''} then
           (''transparent'', False, [],
            [mode @ '' is TCP-oriented in the current TUN path; downgrade UDP handling to transparent passthrough''])
         else if mode = ''quic'' then (mode, False, ''native-quic'', [''QUIC-specific UDP handling can be attached here later''])
         else if mode = ''warp'' then (mode, False, ''warp'', [''Warp-selected UDP will need a dedicated UDP associate path''])
         else (mode, False, ''passthrough'',
           if mode = ''direct'' then [''Direct UDP flow will bypass HTTP proxy semantics and use transparent forwarding''] else []))
      else if protocol = ''tcp'' then
        (if mode = ''quic'' then
           (mode, True, [], [''QUIC mode selected for TCP flow; preserve rule but dataplane may remap it later''])
         else if mode = ''transparent'' then
           (mode, False, [], [''Transparent TCP flow can reuse existing upstream dial logic without TLS termination''])
         else if mode = ''direct'' then (mode, False, [], [])
         else (mode, True, [], [''TCP flow can reuse existing rule matching and upstream candidate selection'']))
      else (''direct'', False, [], [''Unknown protocol; treating as direct'']))"

definition PlanTUNFlow :: "net_env \<Rightarrow> route_env \<Rightarrow> TUNFlow \<Rightarrow> ProxyServer \<Rightarrow> (TUNFlowPlan \<times> ProxyServer) blk" where
  "PlanTUNFlow env renv flow p =
     (let pr = ToLower (TrimSpace (tfProtocol flow)); protocol = (if pr = [] then ''tcp'' else pr);
          h1 = normalizeHost (tfHost flow);
          h2 = (if h1 = [] then normalizeHost (tfSNI flow) else h1);
          host = (if h2 = [] then normalizeHost (tfDestAddr flow) else h2);
          port = (if tfDestPort flow \<le> 0 \<or> tfDestPort flow > 65535 then 443 else tfDestPort flow);
          matchMode = (if protocol = ''udp'' then ''transparent'' else ''mitm'');
          (rule, rm1, _) = matchRule renv host matchMode (psRules p);
          m0 = ToLower (TrimSpace (rMode rule)); m1 = (if m0 = [] then ''direct'' else m0);
          (effectiveMode, canMITM, udp, notes0) = tunMode protocol m1;
          notes = notes0 @ (if host = []
            then [''No host/SNI available yet; dataplane should sniff TLS or correlate DNS before advanced routing''] else []);
          t1 = (if TrimSpace (tfDestAddr flow) = [] \<and> host \<noteq> [] then JoinHostPort host (itoaInt port) else tfDestAddr flow);
          targetAddr = (if t1 = [] then JoinHostPort ''0.0.0.0'' (itoaInt port) else t1);
          p1 = p\<lparr>psRules := rm1\<rparr>
      in bind_blk (buildDialCandidates env (psPool p1) host (ensureAddrWithPort targetAddr (itoaInt port)) rule effectiveMode)
           (\<lambda>cands0.
             let cands = (if protocol = ''udp'' \<and> length cands0 = 0 \<and> targetAddr \<noteq> []
                   then [ensureAddrWithPort targetAddr (itoaInt port)] else cands0)
             in Done (\<lparr>tpProtocol = protocol, tpHost = host, tpMatchHost = host, tpRuleMode = rMode rule, tpEffectiveMode = effectiveMode,
                  tpUpstream = resolveRuleUpstream host rule, tpDialCandidates = cands, tpUDPStrategy = udp,
                  tpCanMITM = canMITM, tpNeedsSniffing = (host = []), tpNotes = notes\<rparr>, p1)))"

end
