(* ===== verification/ConnectTheorems.thy ===== *)
theory ConnectTheorems
  imports Connect
begin

text \<open>
  Properties of reaching an upstream: the CONNECT handler waits forever once the first address of the
  Cloudflare pool fails, the upstream loop takes the first candidate that works, certificate policies
  hold where no ECH configuration is used and are dropped where one is, and the policy
  \<open>tunnel_origin\<close> still dials the rule's upstream.
\<close>

section \<open>The pool and the dial loop\<close>

lemma reportPool_locked:
  assumes "cfLocked pool" and "useCF" and "hostOfAddr addr \<noteq> []"
  shows "reportPool env s useCF addr (Some pool) = Blocked"
  using assms by (simp add: reportPool_def ReportSuccess_def ReportFailure_def)

lemma dialSequential_locked:
  assumes "cfLocked pool" and "useCF" and "hostOfAddr addr \<noteq> []"
  shows "dialSequential env useCF (addr # rest) (Some pool) = Blocked"
  using reportPool_locked [OF assms] by (simp split: option.split)

lemma dialSequential_first_fails:
  assumes "\<not> cfLocked pool" and "useCF" and "hostOfAddr a1 \<in> set (ipKeys pool)" and "hostOfAddr a1 \<noteq> []"
    and "hostOfAddr a2 \<noteq> []" and "neDial env a1 0 = Some e"
  shows "dialSequential env useCF (a1 # a2 # rest) (Some pool) = Blocked"
proof -
  obtain s where s: "statsOf pool (hostOfAddr a1) = Some s"
    using assms(3) by (cases "statsOf pool (hostOfAddr a1)") (auto simp: map_of_eq_None_iff)
  obtain pool1 where "ReportFailure (neClock env) (neOrder env) (hostOfAddr a1) pool = Done pool1" "cfLocked pool1"
    using s assms(1) by (auto simp: ReportFailure_def Let_def)
  then have "reportPool env False useCF a1 (Some pool) = Done (Some pool1)" using assms(2,4) by (simp add: reportPool_def)
  then show ?thesis using assms(6) dialSequential_locked [OF \<open>cfLocked pool1\<close> assms(2,5), of env rest]
    by (simp del: dialSequential.simps add: dialSequential.simps(2) [of env useCF a1])
qed

section \<open>Candidates from the pool\<close>

lemma trimmed_JoinHostPort:
  assumes "trimmed h" and "h \<noteq> []" and "trimmed p" and "p \<noteq> []"
  shows "trimmed (JoinHostPort h p)"
  using assms by (auto simp: JoinHostPort_def trimmed_def isSpace_def hd_append last_append)

lemma plain_port_443 [simp]: "plain_port ''443''" "trimmed ''443''"
  by (simp_all add: plain_port_def trimmed_def isSpace_def)

lemma hostOfAddr_Join [simp]: "plain_host h \<Longrightarrow> hostOfAddr (JoinHostPort h ''443'') = h"
  by (simp add: hostOfAddr_def SplitHostPort_JoinHostPort)

lemma dedupe_joined:
  assumes "distinct ips" and "\<forall>ip \<in> set ips. plain_host ip \<and> ip \<noteq> [] \<and> trimmed ip"
  shows "dedupeDialCandidates (map (\<lambda>ip. JoinHostPort ip ''443'') ips) = map (\<lambda>ip. JoinHostPort ip ''443'') ips"
proof -
  let ?as = "map (\<lambda>ip. JoinHostPort ip ''443'') ips"
  have trim: "map TrimSpace ?as = ?as" using assms(2) by (simp add: TrimSpace_trimmed trimmed_JoinHostPort)
  have "inj_on (\<lambda>ip. JoinHostPort ip ''443'') (set ips)"
    using assms(2) by (intro inj_onI) (metis hostOfAddr_Join)
  then have "distinct ?as" using assms(1) by (simp add: distinct_map)
  moreover have "[] \<notin> set ?as" using JoinHostPort_nonempty by (auto dest: sym)
  ultimately show ?thesis unfolding dedupeDialCandidates_def trim by (rule dedupSeen_id) (rule Int_empty_right)
qed

lemma no_upstream: "rUpstream rule = [] \<Longrightarrow> rUpstreams rule = [] \<Longrightarrow> resolveRuleUpstream h rule = []"
  by (simp add: resolveRuleUpstream_def resolveUpstreamHost_def HasPrefix_def)

lemma buildDialCandidates_pool:
  assumes "rUpstream rule = []" and "rUpstreams rule = []" and "rUseCFPool rule" and "mode \<in> set upstreamModes"
    and "pool_inv pool" and "order_ok (neOrder env)" and "\<forall>ip \<in> set (ipKeys pool). plain_host ip"
    and tops: "GetTopIPs (neOrder env) 5 pool = Done tops" "tops \<noteq> []"
  shows "buildDialCandidates env (Some pool) host addr rule mode = Done (map (\<lambda>ip. JoinHostPort ip ''443'') tops)"
proof -
  have t: "set tops \<subseteq> set (ipKeys pool)" "distinct tops" using cf.top_known [OF assms(5,6) tops(1)] by blast+
  have "plain_host ip \<and> ip \<noteq> [] \<and> trimmed ip" if "ip \<in> set (ipKeys pool)" for ip
    using that assms(5,7) by (auto simp: pool_inv_def map_ok_def entry_ok_def)
  then have "dedupeDialCandidates (map (\<lambda>ip. JoinHostPort ip ''443'') tops) = map (\<lambda>ip. JoinHostPort ip ''443'') tops"
    using t by (intro dedupe_joined) (simp_all add: subset_iff)
  then show ?thesis using assms(1-4) tops
    by (simp add: buildDialCandidates_def no_upstream Let_def EqualFold_def ToLower_def)
qed


text \<open>The rule that automatic routing gives a host behind Cloudflare, in a world where nothing answers.\<close>

definition silentNet :: net_env where
  "silentNet = \<lparr>neDoH = None, neSystem = \<lambda>_. Err [], neV6 = \<lambda>_. False, neV6Text = \<lambda>_. [], neDial = \<lambda>_ _. Some ''timeout'',
     neHandshake = \<lambda>_ _ _. HsFailed [], neFetchECH = \<lambda>_. Err [], neRefreshECH = \<lambda>_. Err [], neDecode = \<lambda>_. Err [],
     neEncode = \<lambda>_. [], neOrder = \<lambda>ks. ks, neClock = \<lparr>durString = \<lambda>_. [], timeFormat = \<lambda>_. [], now = 0\<rparr>\<rparr>"

definition sampleServer :: ProxyServer where
  "sampleServer = \<lparr>psListenAddr = [], psSocksAddr = [], psMode = ''mitm'', psRunning = False, psSocksRunning = False,
     psRules = NewRuleManager None None, psPool = Some samplePool, psGasRelay = False, psGasDialAddr = [], psBypass = []\<rparr>"

definition cloudflareRule :: Rule where
  "cloudflareRule = zeroRule\<lparr>rMode := ''mitm'', rECHEnabled := True, rECHProfileID := ''legacy-cloudflare'',
     rECHDiscoveryDomain := ''crypto.cloudflare.com'', rECHAutoUpdate := True, rUseCFPool := True, rEnabled := True,
     rAutoRouted := True\<rparr>"


section \<open>Establishing an upstream connection\<close>

text \<open>Without ECH an attempt depends only on the dial, the handshake and one configuration.\<close>

definition plainConfig :: "net_env \<Rightarrow> chain_verifier \<Rightarrow> spki_hash \<Rightarrow> str \<Rightarrow> Rule \<Rightarrow> str \<Rightarrow> ProxyServer \<Rightarrow> utls_config" where
  "plainConfig env verify hash host rule alpn p =
     GetUConn verify hash p (chooseUpstreamSNI env host rule) host rule (IsZero (rCertVerify rule)) alpn []"

definition plainProto :: "net_env \<Rightarrow> utls_config \<Rightarrow> nat \<Rightarrow> str \<Rightarrow> str option" where
  "plainProto env cfg k addr =
     (case neDial env addr k of Some _ \<Rightarrow> None
      | None \<Rightarrow> (case neHandshake env addr k cfg of HsOK proto \<Rightarrow> Some proto | _ \<Rightarrow> None))"

lemma noECH: "\<not> rECHEnabled rule \<Longrightarrow> resolveRuleECHConfig env host rule rm = ([], rm)"
  by (simp add: resolveRuleECHConfig_def)

lemma reportPool_unused [simp]: "reportPool env s False addr pool = Done pool"
  by (simp add: reportPool_def split: option.split)

lemma tryAddr_plain:
  assumes "\<not> rECHEnabled rule" and "\<not> rUseCFPool rule"
  shows "\<exists>why. tryAddr env verify hash rnd host rule alpn addr p =
    Done (case plainProto env (plainConfig env verify hash host rule alpn p) (2 * rnd) addr of
        Some proto \<Rightarrow> Connected proto (plainConfig env verify hash host rule alpn p) | None \<Rightarrow> NextAddr why, p)"
  using assms
  by (simp add: tryAddr_def upstreamAttempt_def noECH plainProto_def plainConfig_def Let_def split: option.split handshake.split)

lemma tryAddrs_plain:
  assumes "\<not> rECHEnabled rule" and "\<not> rUseCFPool rule" and "cfg = plainConfig env verify hash host rule alpn p"
  shows "\<exists>errs. tryAddrs env verify hash rnd host rule alpn addrs p =
    Done (map_option (\<lambda>a. (a, the (plainProto env cfg (2 * rnd) a), cfg)) (find (\<lambda>a. plainProto env cfg (2 * rnd) a \<noteq> None) addrs), errs, p)
    \<and> (find (\<lambda>a. plainProto env cfg (2 * rnd) a \<noteq> None) addrs = None \<longrightarrow> length errs = length addrs)"
proof (induction addrs)
  case (Cons addr addrs)
  obtain why where w: "tryAddr env verify hash rnd host rule alpn addr p =
      Done (case plainProto env cfg (2 * rnd) addr of Some proto \<Rightarrow> Connected proto cfg | None \<Rightarrow> NextAddr why, p)"
    using tryAddr_plain [OF assms(1,2)] assms(3) by blast
  show ?case using Cons.IH w by (cases "plainProto env cfg (2 * rnd) addr") auto
qed simp

definition hasFallback :: "Rule \<Rightarrow> bool" where
  "hasFallback rule = (let f = ToLower (TrimSpace (rFallbackMode rule)) in (f = ''tls-rf'' \<or> f = ''quic'') \<and> f \<noteq> rMode rule)"

lemma plainConfig_mode:
  "plainConfig env verify hash host (rule\<lparr>rMode := m, rECHEnabled := b\<rparr>) alpn p = plainConfig env verify hash host rule alpn p"
proof -
  have up: "resolveRuleUpstream h (rule\<lparr>rMode := m, rECHEnabled := b\<rparr>) = resolveRuleUpstream h rule" for h
    by (simp add: resolveRuleUpstream_def Let_def)
  have "chooseUpstreamSNI env host (rule\<lparr>rMode := m, rECHEnabled := b\<rparr>) = chooseUpstreamSNI env host rule"
    unfolding chooseUpstreamSNI_def up Let_def by simp
  then show ?thesis by (simp add: plainConfig_def GetUConn_def)
qed

text \<open>C15: Without ECH and without the pool \<open>establishUpstreamConn\<close> always returns: with the first candidate
  that can be dialled and completes the handshake, with the configuration of the rule; if none does and
  the rule has a fallback, with the first that does in a second round; otherwise with an error. A
  candidate that fails never keeps a later one from being tried.\<close>

theorem establishUpstreamConn_first_working:
  assumes "\<not> rECHEnabled rule" and "\<not> rUseCFPool rule" and "alpn \<noteq> []"
    and cfg: "cfg = plainConfig env verify hash host rule alpn p"
  shows "\<exists>r. establishUpstreamConn env verify hash host rule cands alpn p = Done (r, p) \<and>
     (case find (\<lambda>a. plainProto env cfg 0 a \<noteq> None) (orderedCandidates host cands) of
        Some a \<Rightarrow> r = Ok (a, the (plainProto env cfg 0 a), cfg)
      | None \<Rightarrow>
          (case find (\<lambda>a. plainProto env cfg 2 a \<noteq> None) (orderedCandidates host cands) of
             Some a \<Rightarrow> if hasFallback rule then r = Ok (a, the (plainProto env cfg 2 a), cfg) else (\<exists>m. r = Err m)
           | None \<Rightarrow> \<exists>m. r = Err m))"
proof -
  let ?addrs = "orderedCandidates host cands" and ?f = "ToLower (TrimSpace (rFallbackMode rule))"
  let ?rule2 = "rule\<lparr>rMode := ?f, rECHEnabled := False\<rparr>"
  have ne: "?addrs \<noteq> []" by (simp add: orderedCandidates_def)
  obtain errs where one: "tryAddrs env verify hash 0 host rule alpn ?addrs p =
      Done (map_option (\<lambda>a. (a, the (plainProto env cfg 0 a), cfg)) (find (\<lambda>a. plainProto env cfg 0 a \<noteq> None) ?addrs), errs, p)"
    "find (\<lambda>a. plainProto env cfg 0 a \<noteq> None) ?addrs = None \<longrightarrow> length errs = length ?addrs"
    using tryAddrs_plain [OF assms(1,2) cfg, of 0 ?addrs] by auto
  have "cfg = plainConfig env verify hash host ?rule2 alpn p" unfolding cfg by (rule plainConfig_mode [symmetric])
  then obtain errs2 where two: "tryAddrs env verify hash 1 host ?rule2 alpn ?addrs p =
      Done (map_option (\<lambda>a. (a, the (plainProto env cfg 2 a), cfg)) (find (\<lambda>a. plainProto env cfg 2 a \<noteq> None) ?addrs), errs2, p)"
    using tryAddrs_plain [of ?rule2 cfg env verify hash host alpn p 1 ?addrs] assms(2) by auto
  show ?thesis
  proof (cases "find (\<lambda>a. plainProto env cfg 0 a \<noteq> None) ?addrs")
    case (Some a)
    then show ?thesis using one assms(3) by (simp add: establishUpstreamConn_def Let_def)
  next
    case None
    then have "errs \<noteq> []" using one(2) ne by auto
    show ?thesis
    proof (cases "hasFallback rule")
      case True
      then show ?thesis using one two None \<open>errs \<noteq> []\<close> assms(3)
        by (cases "find (\<lambda>a. plainProto env cfg 2 a \<noteq> None) ?addrs")
          (auto simp: establishUpstreamConn_def hasFallback_def Let_def)
    next
      case False
      then show ?thesis using one None assms(3)
        by (auto simp: establishUpstreamConn_def hasFallback_def Let_def split: option.split)
    qed
  qed
qed

theorem establishUpstreamConn_first_working_witness:
  "\<exists>r. establishUpstreamConn (silentNet\<lparr>neDial := \<lambda>a _. if a = ''2.2.2.2:443'' then None else Some ''refused'',
       neHandshake := \<lambda>_ _ _. HsOK ''h2''\<rparr>) (\<lambda>_ _ _. None) (\<lambda>_. []) ''example.org'' zeroRule
       [''1.1.1.1:443'', ''2.2.2.2:443'', ''3.3.3.3:443''] ''h2_h1'' sampleServer = Done (Ok r, sampleServer) \<and>
     fst r = ''2.2.2.2:443'' \<and> fst (snd r) = ''h2''"
proof -
  let ?env = "silentNet\<lparr>neDial := \<lambda>a _. if a = ''2.2.2.2:443'' then None else Some ''refused'', neHandshake := \<lambda>_ _ _. HsOK ''h2''\<rparr>"
  have "\<not> rECHEnabled zeroRule" "\<not> rUseCFPool zeroRule" "''h2_h1'' \<noteq> []" by (simp_all add: zeroRule_def)
  from establishUpstreamConn_first_working [OF this refl, where env = ?env and verify = "\<lambda>_ _ _. None" and hash = "\<lambda>_. []"
      and host = "''example.org''" and p = sampleServer and cands = "[''1.1.1.1:443'', ''2.2.2.2:443'', ''3.3.3.3:443'']"]
  show ?thesis by (auto simp: plainProto_def orderedCandidates_def silentNet_def)
qed

section \<open>Certificate policies on upstream connections\<close>

text \<open>Every connection that is returned was configured by \<open>GetUConn\<close> for the rule's policy and completed its
  handshake with that configuration.\<close>

definition connectedBy ::
  "net_env \<Rightarrow> chain_verifier \<Rightarrow> spki_hash \<Rightarrow> str \<Rightarrow> CertVerifyConfig \<Rightarrow> str list \<Rightarrow> str \<times> str \<times> utls_config \<Rightarrow> bool" where
  "connectedBy env verify hash host cv bypass c =
     (\<exists>q sni rule insecure alpn ech k. psBypass q = bypass \<and> rCertVerify rule = cv \<and>
        snd (snd c) = GetUConn verify hash q sni host rule insecure alpn ech \<and>
        neHandshake env (fst c) k (snd (snd c)) = HsOK (fst (snd c)))"

lemma upstreamAttempt_connected:
  assumes "upstreamAttempt env verify hash rnd host rule alpn addr k p = Done (a, p')"
  shows "psBypass p' = psBypass p" and "a = Connected proto cfg \<Longrightarrow> connectedBy env verify hash host (rCertVerify rule) (psBypass p) (addr, proto, cfg)"
proof -
  obtain ech rm where r: "resolveRuleECHConfig env host rule (psRules p) = (ech, rm)" by fastforce
  let ?p = "p\<lparr>psRules := rm\<rparr>"
  let ?sni = "if length ech > 0 then host else chooseUpstreamSNI env host rule"
  let ?cfg = "GetUConn verify hash ?p ?sni host rule (length ech = 0 \<and> IsZero (rCertVerify rule)) alpn ech"
  note run = assms [unfolded upstreamAttempt_def r Let_def prod.case]
  show "psBypass p' = psBypass p"
    using run by (auto simp: bind_blk_Done_iff split: option.splits handshake.splits if_splits go.splits)
  assume a: "a = Connected proto cfg"
  then have "cfg = ?cfg" "neHandshake env addr (2 * rnd + k) ?cfg = HsOK proto"
    using run by (auto simp: bind_blk_Done_iff split: option.splits handshake.splits if_splits go.splits)
  then show "connectedBy env verify hash host (rCertVerify rule) (psBypass p) (addr, proto, cfg)"
    unfolding connectedBy_def fst_conv snd_conv
    by (intro exI [of _ ?p] exI [of _ ?sni] exI [of _ rule] exI [of _ "length ech = 0 \<and> IsZero (rCertVerify rule)"]
        exI [of _ alpn] exI [of _ ech] exI [of _ "2 * rnd + k"]) simp
qed

lemma tryAddr_connected:
  assumes "tryAddr env verify hash rnd host rule alpn addr p = Done (a, p')"
  shows "psBypass p' = psBypass p" and "a = Connected proto cfg \<Longrightarrow> connectedBy env verify hash host (rCertVerify rule) (psBypass p) (addr, proto, cfg)"
proof -
  obtain a1 p1 where one: "upstreamAttempt env verify hash rnd host rule alpn addr 0 p = Done (a1, p1)"
    using assms by (auto simp: tryAddr_def bind_blk_Done_iff)
  have "psBypass p' = psBypass p \<and>
    (a = Connected proto cfg \<longrightarrow> connectedBy env verify hash host (rCertVerify rule) (psBypass p) (addr, proto, cfg))"
  proof (cases "a1 = Retry")
    case True
    then have "upstreamAttempt env verify hash rnd host rule alpn addr 1 p1 = Done (a, p')"
      using assms one by (simp add: tryAddr_def)
    from upstreamAttempt_connected [OF this] upstreamAttempt_connected [OF one] show ?thesis by auto
  next
    case False
    then have "a1 = a" "p1 = p'" using assms one by (auto simp: tryAddr_def split: attempt.splits)
    then show ?thesis using upstreamAttempt_connected [OF one] by auto
  qed
  then show "psBypass p' = psBypass p" and "a = Connected proto cfg \<Longrightarrow> connectedBy env verify hash host (rCertVerify rule) (psBypass p) (addr, proto, cfg)"
    by blast+
qed

lemma tryAddrs_connected:
  "tryAddrs env verify hash rnd host rule alpn addrs p = Done (r, errs, p') \<Longrightarrow>
   psBypass p' = psBypass p \<and> (\<forall>c. r = Some c \<longrightarrow> connectedBy env verify hash host (rCertVerify rule) (psBypass p) c)"
proof (induction addrs arbitrary: p r errs p')
  case (Cons addr addrs)
  then obtain a p1 where a: "tryAddr env verify hash rnd host rule alpn addr p = Done (a, p1)"
    by (auto simp: bind_blk_Done_iff)
  note here = tryAddr_connected [OF a]
  show ?case using Cons.prems a here Cons.IH [of p1]
    by (cases a) (auto simp: bind_blk_Done_iff)
qed auto

lemma establishUpstreamConn_connected:
  assumes "establishUpstreamConn env verify hash host rule cands alpn p = Done (Ok c, p')"
  shows "connectedBy env verify hash host (rCertVerify rule) (psBypass p) c"
proof -
  let ?a = "if alpn = [] then ''h2_h1'' else alpn" and ?o = "orderedCandidates host cands"
  obtain r errs p1 where one: "tryAddrs env verify hash 0 host rule ?a ?o p = Done (r, errs, p1)"
    using assms by (auto simp: establishUpstreamConn_def Let_def bind_blk_Done_iff)
  note c1 = tryAddrs_connected [OF one]
  show ?thesis
  proof (cases r)
    case (Some d)
    then show ?thesis using assms one c1 by (simp add: establishUpstreamConn_def Let_def)
  next
    case None
    let ?rule2 = "rule\<lparr>rMode := ToLower (TrimSpace (rFallbackMode rule)), rECHEnabled := False\<rparr>"
    obtain errs2 where "tryAddrs env verify hash 1 host ?rule2 ?a ?o p1 = Done (Some c, errs2, p')"
      using assms one None
      by (auto simp: establishUpstreamConn_def Let_def bind_blk_Done_iff split: if_splits option.splits)
    from tryAddrs_connected [OF this] c1 show ?thesis by simp
  qed
qed

text \<open>What is documented of the TLS client: a handshake does not complete when the installed verification
  hook rejects the certificates the peer presented.\<close>

definition hookHonoured :: "net_env \<Rightarrow> (str \<Rightarrow> nat \<Rightarrow> Certificate list) \<Rightarrow> bool" where
  "hookHonoured env peers = (\<forall>addr k cfg proto check.
     neHandshake env addr k cfg = HsOK proto \<longrightarrow> ucVerifyConnection cfg = Some check \<longrightarrow> check (peers addr k) = None)"

text \<open>Whatever the candidates, retries and fallbacks, a connection that \<open>establishUpstreamConn\<close> returns for
  a host that is not bypassed was made to a peer whose certificates satisfy the rule's policy, unless an
  ECH configuration was used: then no policy is installed and only the chain is left to the TLS library,
  for any name.\<close>

theorem upstream_policy_unless_ECH:
  assumes "establishUpstreamConn env verify hash host rule cands alpn p = Done (Ok (addr, proto, cfg), p')"
    and "hookHonoured env peers" and "normalizeHost host \<notin> set (psBypass p)"
    and "cvMode (normalizeCertVerifyConfig (rCertVerify rule) host) \<noteq> []"
  shows "if ucECHConfigList cfg = []
     then \<exists>k leaf rest. peers addr k = leaf # rest \<and>
        policyOK verify hash host (normalizeCertVerifyConfig (rCertVerify rule) host) leaf rest
     else ucVerifyConnection cfg = None \<and> \<not> ucInsecureSkipVerify cfg \<and> ucInsecureServerNameToVerify cfg = ''*''"
proof -
  let ?n = "normalizeCertVerifyConfig (rCertVerify rule) host"
  obtain q sni r insecure al ech k where q: "psBypass q = psBypass p" "rCertVerify r = rCertVerify rule"
    and cfg: "cfg = GetUConn verify hash q sni host r insecure al ech" and hs: "neHandshake env addr k cfg = HsOK proto"
    using establishUpstreamConn_connected [OF assms(1)] by (auto simp: connectedBy_def)
  have list: "ucECHConfigList cfg = ech" unfolding cfg by (simp add: GetUConn_def Let_def)
  show ?thesis
  proof (cases "ech = []")
    case True
    then have "ucVerifyConnection cfg = Some (verifyPeer verify hash host ?n)"
      unfolding cfg using q assms(3,4) by (simp add: GetUConn_def buildVerifyConnection_def Let_def)
    then have "verifyPeer verify hash host ?n (peers addr k) = None"
      using assms(2) [unfolded hookHonoured_def, rule_format, OF hs] by blast
    then have "\<exists>leaf rest. peers addr k = leaf # rest \<and> policyOK verify hash host ?n leaf rest"
      using verifyPeer_policy [of verify hash host ?n] by (cases "peers addr k") (auto simp: verifyPeer_def)
    then show ?thesis using True list by auto
  next
    case False
    then show ?thesis unfolding list using cfg by (simp add: GetUConn_def Let_def)
  qed
qed

text \<open>A peer with a pinned key, and a TLS client that honours the hook.\<close>

theorem upstream_policy_unless_ECH_witness:
  "\<exists>leaf rest. [\<lparr>certCommonName = ''example.org'', certDNSNames = [], certRawSPKI = [7]\<rparr>] = leaf # rest \<and>
     policyOK (\<lambda>_ _ _. None) (\<lambda>_. ''pin'') ''example.org''
       (normalizeCertVerifyConfig (zeroCertVerify\<lparr>cvMode := ''allow_spki'', cvSPKISHA256 := [''pin'']\<rparr>) ''example.org'') leaf rest"
proof -
  let ?cert = "\<lparr>certCommonName = ''example.org'', certDNSNames = [], certRawSPKI = [7 :: byte]\<rparr>"
  let ?rule = "zeroRule\<lparr>rCertVerify := zeroCertVerify\<lparr>cvMode := ''allow_spki'', cvSPKISHA256 := [''pin'']\<rparr>\<rparr>"
  let ?env = "silentNet\<lparr>neDial := \<lambda>_ _. None, neHandshake := \<lambda>_ _ cfg. (case ucVerifyConnection cfg of
      None \<Rightarrow> HsFailed [] | Some check \<Rightarrow> if check [?cert] = None then HsOK ''h2'' else HsFailed [])\<rparr>"
  let ?run = "establishUpstreamConn ?env (\<lambda>_ _ _. None) (\<lambda>_. ''pin'') ''example.org'' ?rule [''1.1.1.1:443''] ''h2'' sampleServer"
  have hook: "hookHonoured ?env (\<lambda>_ _. [?cert])" by (auto simp: hookHonoured_def split: option.splits if_splits)
  have bypass: "normalizeHost ''example.org'' \<notin> set (psBypass sampleServer)" by (simp add: sampleServer_def)
  have mode: "cvMode (normalizeCertVerifyConfig (rCertVerify ?rule) ''example.org'') \<noteq> []" by code_simp
  have "\<exists>addr proto cfg p'. ?run = Done (Ok (addr, proto, cfg), p') \<and> ucECHConfigList cfg = []"
  proof -
    let ?cfg = "plainConfig ?env (\<lambda>_ _ _. None) (\<lambda>_. ''pin'') ''example.org'' ?rule ''h2'' sampleServer"
    have "verifyPeer (\<lambda>_ _ _. None) (\<lambda>_. ''pin'') ''example.org'' (normalizeCertVerifyConfig (rCertVerify ?rule) ''example.org'') [?cert] = None"
      by code_simp
    then have "plainProto ?env ?cfg 0 ''1.1.1.1:443'' = Some ''h2''" "ucECHConfigList ?cfg = []"
      using mode by (simp_all add: plainProto_def plainConfig_def GetUConn_def buildVerifyConnection_def sampleServer_def Let_def)
    moreover have "\<not> rECHEnabled ?rule" "\<not> rUseCFPool ?rule" by (simp_all add: zeroRule_def)
    ultimately show ?thesis
      using tryAddrs_plain [of ?rule ?cfg ?env "\<lambda>_ _ _. None" "\<lambda>_. ''pin''" "''example.org''" "''h2''" sampleServer 0 "[''1.1.1.1:443'']"]
      by (auto simp: establishUpstreamConn_def orderedCandidates_def Let_def)
  qed
  then obtain addr proto cfg p' where "?run = Done (Ok (addr, proto, cfg), p')" "ucECHConfigList cfg = []" by blast
  from upstream_policy_unless_ECH [OF this(1) hook bypass mode] this(2) show ?thesis by simp
qed

section \<open>What a tunnelled CONNECT dials\<close>

lemma dialSequential_acts:
  "\<exists>acts r. dialSequential env False addrs pool = Done (acts, r, pool) \<and>
     (\<forall>act \<in> set acts. \<exists>a b. act = ActDial a b \<and> a \<in> set addrs) \<and> (addrs \<noteq> [] \<longrightarrow> acts \<noteq> [])
     \<and> (\<forall>a. r = Some a \<longrightarrow> a \<in> set addrs)"
proof (induction addrs)
  case (Cons a addrs)
  then obtain acts r where r: "dialSequential env False addrs pool = Done (acts, r, pool)"
    and acts: "\<forall>act \<in> set acts. \<exists>a b. act = ActDial a b \<and> a \<in> set addrs" "\<forall>a. r = Some a \<longrightarrow> a \<in> set addrs" by blast
  have "dialSequential env False (a # addrs) pool =
    Done (case neDial env a 0 of None \<Rightarrow> ([ActDial a True], Some a, pool) | Some _ \<Rightarrow> (ActDial a False # acts, r, pool))"
    using r by (simp split: option.split)
  then show ?case using acts by (cases "neDial env a 0") fastforce+
qed simp

lemma dialCandidatesLoop_acts:
  assumes "cands \<noteq> []"
  shows "\<exists>acts r. dialCandidatesLoop env False cands pool = Done (acts, r, pool) \<and>
     (\<forall>act \<in> set acts. \<exists>a b. act = ActDial a b \<and> a \<in> set cands) \<and> acts \<noteq> [] \<and> (\<forall>a. r = Some a \<longrightarrow> a \<in> set cands)"
  using assms dialSequential_acts [of env cands pool]
  by (cases cands) (auto simp: dialCandidatesLoop_def split: option.split)

lemma finishConnect_no_dial: "ActDial a b \<notin> set (finishConnect cl mode cands addr)"
  by (simp add: finishConnect_def)

text \<open>Under the policy \<open>tunnel_origin\<close> a CONNECT request is answered, but every address that is dialled is one of
  the rule's upstream candidates: the handler clears its own copy of the upstream, and
  \<open>buildDialCandidates\<close> resolves it again from the rule. The origin is not reached.\<close>

theorem tunnel_origin_dials_upstream:
  assumes "\<not> psGasRelay p" and "psGasDialAddr p = []" and "ToLower (TrimSpace (rConnectPolicy rule)) = ''tunnel_origin''"
    and "\<not> EqualFold (TrimSpace (rUpstream rule)) ''warp''" and "\<not> rUseCFPool rule"
    and up: "up = resolveRuleUpstream (normalizeHost authority) rule" "TrimSpace up \<noteq> []"
      "isLiteralIP env (firstUpstreamHost (normalizeHost authority) up)"
    and cands: "cands = splitUpstreamCandidates (normalizeHost authority) up ''443''" "cands \<noteq> []"
  shows "\<exists>acts p'. handleConnect env renv cl authority rule p = Done (acts, p') \<and>
     (\<exists>a b. ActDial a b \<in> set acts) \<and> (\<forall>a b. ActDial a b \<in> set acts \<longrightarrow> a \<in> set cands)"
proof -
  let ?h = "normalizeHost authority"
  have pol: "effectivePolicy ?h rule = (''transparent'', [])" using assms(3) by (simp add: effectivePolicy_def Let_def)
  have st: "stageTwo renv ?h ''transparent'' [] rule (psRules p) = (rule, psRules p)" by (simp add: stageTwo_def)
  have b: "buildDialCandidates env (psPool p) ?h addr rule ''transparent'' = Done cands" for addr
    using assms(4) up cands by (simp add: buildDialCandidates_def upstreamModes_def Let_def)
  obtain acts r where loop: "dialCandidatesLoop env False cands (psPool p) = Done (acts, r, psPool p)"
    and acts: "\<forall>act \<in> set acts. \<exists>a b. act = ActDial a b \<and> a \<in> set cands" "acts \<noteq> []"
    using dialCandidatesLoop_acts [OF cands(2)] by blast
  let ?rest = "case r of None \<Rightarrow> [ActBadGateway] | Some addr \<Rightarrow> finishConnect cl ''transparent'' cands addr"
  have "handleConnect env renv cl authority rule p = Done (acts @ ?rest, p)"
    using assms(1,2,5) b loop cands(2) by (simp add: handleConnect_def pol st Let_def)
  moreover have "\<exists>a b. ActDial a b \<in> set acts" using acts by (metis hd_in_set)
  moreover have "ActDial a b \<notin> set ?rest" for a b by (simp add: finishConnect_no_dial split: option.split)
  ultimately show ?thesis using acts(1) by auto
qed

theorem tunnel_origin_dials_upstream_witness:
  "\<forall>renv cl. \<exists>acts p'. handleConnect silentNet renv cl ''example.org:443'' (zeroRule\<lparr>rUpstream := ''203.0.113.7'', rConnectPolicy := ''tunnel_origin''\<rparr>)
      sampleServer = Done (acts, p') \<and> (\<forall>a b. ActDial a b \<in> set acts \<longrightarrow> a = ''203.0.113.7:443'')"
proof (intro allI)
  fix renv cl
  let ?rule = "zeroRule\<lparr>rUpstream := ''203.0.113.7'', rConnectPolicy := ''tunnel_origin''\<rparr>"
  let ?up = "resolveRuleUpstream (normalizeHost ''example.org:443'') ?rule"
  have up: "?up = ''203.0.113.7''" by code_simp
  have c: "splitUpstreamCandidates (normalizeHost ''example.org:443'') ''203.0.113.7'' ''443'' = [''203.0.113.7:443'']" by code_simp
  have h: "firstUpstreamHost (normalizeHost ''example.org:443'') ''203.0.113.7'' = ''203.0.113.7''" by code_simp
  have lit: "isLiteralIP silentNet ''203.0.113.7''"
    by (simp add: isLiteralIP_def TrimSet_def parseIPv4_def parseOctet_def parseNat_def digitVal_def)
  have g: "\<not> psGasRelay sampleServer" "psGasDialAddr sampleServer = []" by (simp_all add: sampleServer_def)
  have r: "ToLower (TrimSpace (rConnectPolicy ?rule)) = ''tunnel_origin''" "\<not> EqualFold (TrimSpace (rUpstream ?rule)) ''warp''"
    "\<not> rUseCFPool ?rule" by code_simp+
  have "TrimSpace ''203.0.113.7'' \<noteq> []" by code_simp
  from tunnel_origin_dials_upstream [OF g r refl, of "''example.org:443''" silentNet, unfolded up h c, OF this lit refl, of renv cl]
  show "\<exists>acts p'. handleConnect silentNet renv cl ''example.org:443'' ?rule sampleServer = Done (acts, p') \<and>
      (\<forall>a b. ActDial a b \<in> set acts \<longrightarrow> a = ''203.0.113.7:443'')" by auto
qed

end
