(* ===== verification/Socks.thy ===== *)
theory Socks
  imports Connect
begin

text \<open>
  The two ends of SOCKS5 in \<open>src/proxy/proxy.go\<close>: the listener (\<open>handleSOCKS5\<close>, \<open>socksRelay\<close>,
  \<open>socksGASRelayDirect\<close>, \<open>socksDirect\<close>) and the client that forwards a CONNECT request to the V2Ray core
  (\<open>handleV2RayConnect\<close>), with what they write and in which order.

  A peer is the list of bytes it sends before it closes. The actions record writes, dials and the start
  of a tunnel with the bytes of the peer that were not read yet. Writes to the SOCKS client are not
  checked by the code, and deadlines are not modelled.
\<close>

section \<open>Text and bytes\<close>

definition strBytes :: "str \<Rightarrow> bytes" where
  "strBytes s = map (\<lambda>c. of_nat (of_char c)) s"

definition bytesStr :: "bytes \<Rightarrow> str" where
  "bytesStr bs = map (\<lambda>b. char_of (unat b)) bs"

lemma bytesStr_strBytes [simp]: "bytesStr (strBytes s) = s"
proof -
  have "char_of (unat (of_nat (of_char c) :: byte)) = c" for c :: char
  proof -
    have "(of_char c :: nat) mod 256 = of_char c" by (metis char_of_char of_char_of)
    then have "unat (of_nat (of_char c) :: byte) = of_char c" by (simp add: unat_of_nat_byte)
    then show ?thesis by simp
  qed
  then show ?thesis by (simp add: bytesStr_def strBytes_def comp_def)
qed

lemma strBytes_bytesStr [simp]: "strBytes (bytesStr bs) = bs"
proof -
  have "of_nat (of_char (char_of (unat b) :: char)) = b" for b :: byte
    using unat_byte_lt [of b] by (simp add: of_char_of)
  then show ?thesis by (simp add: bytesStr_def strBytes_def comp_def)
qed

lemma length_strBytes [simp]: "length (strBytes s) = length s" "length (bytesStr bs) = length bs"
  by (simp_all add: strBytes_def bytesStr_def)

section \<open>The listener\<close>

text \<open>The text of four address bytes.\<close>

definition v4Text :: "bytes \<Rightarrow> str" where
  "v4Text ip = Join (map (\<lambda>b. itoa (unat b)) ip) ''.''"

text \<open>What the relays meet: dials, the answer of the GAS proxy to CONNECT (its status, or none), and for the
  relay on this port whether a certificate authority is there, a certificate can be made and the
  client completes the TLS handshake, with what it leaves unread. \<open>seText6\<close> is \<open>net.IP.String\<close> on sixteen bytes, \<open>seParse6\<close> is
  \<open>net.ParseIP\<close> on a text that is no dotted quad: four bytes for an IPv4 address in IPv6 form, else sixteen.\<close>

record socks_env =
  seDial :: "str \<Rightarrow> bool"
  seGasWrite :: bool
  seGasStatus :: "nat option"
  seCA :: bool
  seCert :: "str \<Rightarrow> bool"
  seClientTLS :: "bytes \<Rightarrow> bool \<times> bytes"
  seText6 :: "bytes \<Rightarrow> str"
  seParse6 :: "str \<Rightarrow> bytes option"

datatype socks_act =
    SockWrite bytes | SockDial str bool | SockGasConnect str str | SockTunnel str bytes
  | SockRelayTLS str nat bytes | SockCloseUpstream str | SockClose

definition socksDirect :: "socks_env \<Rightarrow> str \<Rightarrow> nat \<Rightarrow> bytes \<Rightarrow> socks_act list" where
  "socksDirect env host port rest =
     (let target = JoinHostPort host (itoa port) in
      if \<not> seDial env target then [SockDial target False]
      else [SockDial target True, SockTunnel target rest, SockCloseUpstream target])"

definition socksGASRelayDirect :: "socks_env \<Rightarrow> str \<Rightarrow> nat \<Rightarrow> bytes \<Rightarrow> socks_act list" where
  "socksGASRelayDirect env host port rest =
     (if port = 443 then
        (if \<not> seCA env then socksDirect env host port rest
         else if \<not> seCert env host then socksDirect env host port rest
         else (case seClientTLS env rest of
             (False, left) \<Rightarrow> socksDirect env host port left
           | (True, left) \<Rightarrow> [SockRelayTLS host port left]))
      else socksDirect env host port rest) @ [SockClose]"

definition socksRelay :: "socks_env \<Rightarrow> ProxyServer \<Rightarrow> str \<Rightarrow> nat \<Rightarrow> bytes \<Rightarrow> socks_act list" where
  "socksRelay env p host port rest =
     (if psGasRelay p then socksGASRelayDirect env host port rest
      else if psGasDialAddr p = [] then socksDirect env host port rest
      else
        let gas = psGasDialAddr p; target = JoinHostPort host (itoa port) in
        if \<not> seDial env gas then SockDial gas False # socksDirect env host port rest
        else SockDial gas True #
          (if \<not> seGasWrite env then socksDirect env host port rest
           else SockGasConnect target host #
             (if seGasStatus env \<noteq> Some 200 then socksDirect env host port rest
              else [SockTunnel gas rest])) @ [SockCloseUpstream gas])"

definition socksReply :: "byte \<Rightarrow> bytes" where
  "socksReply code = [5, code, 0, 1, 0, 0, 0, 0, 0, 0]"

text \<open>The address of a request, by its type: \<open>None\<close> when the peer closes before it is complete, \<open>Some None\<close>
  for a type that is not supported.\<close>

definition readAddr :: "(bytes \<Rightarrow> str) \<Rightarrow> byte \<Rightarrow> bytes \<Rightarrow> (str \<times> bytes) option option" where
  "readAddr text6 addrType inp =
     (if addrType = 1 then
        (case ReadFull 4 inp of Ok (ip, r) \<Rightarrow> Some (Some (v4Text ip, r)) | _ \<Rightarrow> None)
      else if addrType = 3 then
        (case ReadFull 1 inp of
           Ok (ln, r) \<Rightarrow> (case ReadFull (unat (ln ! 0)) r of Ok (name, r2) \<Rightarrow> Some (Some (bytesStr name, r2)) | _ \<Rightarrow> None)
         | _ \<Rightarrow> None)
      else if addrType = 4 then
        (case ReadFull 16 inp of Ok (ip, r) \<Rightarrow> Some (Some (text6 ip, r)) | _ \<Rightarrow> None)
      else Some None)"

text \<open>The negotiation: what is written, and the host, the port and the bytes left when it succeeds.\<close>

definition socksNegotiate :: "(bytes \<Rightarrow> str) \<Rightarrow> bytes \<Rightarrow> socks_act list \<times> (str \<times> nat \<times> bytes) option" where
  "socksNegotiate text6 inp =
     (case ReadFull 2 inp of
        Ok (buf, r1) \<Rightarrow>
          if buf ! 0 \<noteq> 5 then ([], None)
          else (case ReadFull (unat (buf ! 1)) r1 of
            Ok (methods, r2) \<Rightarrow>
              (let w1 = SockWrite [5, 0] in
               case ReadFull 4 r2 of
                 Ok (request, r3) \<Rightarrow>
                   if request ! 0 \<noteq> 5 \<or> request ! 1 \<noteq> 1 then ([w1, SockWrite (socksReply 7)], None)
                   else (case readAddr text6 (request ! 3) r3 of
                     None \<Rightarrow> ([w1], None)
                   | Some None \<Rightarrow> ([w1, SockWrite (socksReply 8)], None)
                   | Some (Some (host, r4)) \<Rightarrow>
                       (case ReadFull 2 r4 of
                          Ok (portBuf, r5) \<Rightarrow>
                            ([w1, SockWrite (socksReply 0)], Some (host, be16 (portBuf ! 0) (portBuf ! 1), r5))
                        | _ \<Rightarrow> ([w1], None)))
               | _ \<Rightarrow> ([w1], None))
          | _ \<Rightarrow> ([], None))
      | _ \<Rightarrow> ([], None))"

definition handleSOCKS5 :: "socks_env \<Rightarrow> ProxyServer \<Rightarrow> bytes \<Rightarrow> socks_act list" where
  "handleSOCKS5 env p inp =
     (case socksNegotiate (seText6 env) inp of
        (acts, None) \<Rightarrow> acts @ [SockClose]
      | (acts, Some (host, port, rest)) \<Rightarrow> acts @ socksRelay env p host port rest @ [SockClose])"

section \<open>The client of the V2Ray core\<close>

datatype v2_act =
    V2Dial bool | V2Write bytes | V2Direct | V2Reject | V2HijackFailed | V2Established | V2Tunnel bytes | V2CloseCore | V2CloseClient

text \<open>\<open>strconv.Atoi\<close> with its error ignored: 0 for a syntax error, the nearest 64-bit number otherwise.\<close>

definition atoiIgnore :: "str \<Rightarrow> int" where
  "atoiIgnore s =
     (case Atoi s of
        Ok n \<Rightarrow> n
      | Err m \<Rightarrow> if m = ''value out of range'' then (if HasPrefix s ''-'' then - (2 ^ 63) else 2 ^ 63 - 1) else 0
      | Panic \<Rightarrow> 0)"

definition v2Port :: "str \<Rightarrow> int" where
  "v2Port port = (let n = atoiIgnore port in if n = 0 then 443 else n)"

definition v4Bytes :: "nat \<Rightarrow> bytes" where
  "v4Bytes n = [of_nat (n div 16777216), of_nat (n div 65536), of_nat (n div 256), of_nat n]"

text \<open>The address part of the command with its type; \<open>None\<close> when the name is too long.\<close>

definition v2Addr :: "(str \<Rightarrow> bytes option) \<Rightarrow> str \<Rightarrow> (byte \<times> bytes) option" where
  "v2Addr parse6 host =
     (case parseIPv4 host of
        Some n \<Rightarrow> Some (1, v4Bytes n)
      | None \<Rightarrow>
          (case parse6 host of
             Some ip \<Rightarrow> if length ip = 4 then Some (1, ip) else Some (4, ip)
           | None \<Rightarrow>
               if length host > 255 then None
               else Some (3, of_nat (length host) # strBytes host)))"

definition v2Target :: "str \<Rightarrow> str \<Rightarrow> str \<times> int" where
  "v2Target targetHost targetAddr =
     (let (host, port) = (case SplitHostPort targetAddr of Ok hp \<Rightarrow> hp | _ \<Rightarrow> ([], [])) in
      (if host = [] then targetHost else host, v2Port port))"

definition v2Command :: "byte \<times> bytes \<Rightarrow> int \<Rightarrow> bytes" where
  "v2Command addr port = [5, 1, 0, fst addr] @ snd addr @ [of_int (port div 256), of_int port]"

text \<open>Skipping the bound address of the core's answer, errors ignored: what is left of the input.\<close>

definition skipBound :: "byte \<Rightarrow> bytes \<Rightarrow> bytes" where
  "skipBound atyp inp =
     (if atyp = 1 then drop 6 inp
      else if atyp = 3 then
        (case inp of [] \<Rightarrow> [] | ln # r \<Rightarrow> drop (unat ln + 2) r)
      else if atyp = 4 then drop 18 inp
      else inp)"

text \<open>\<open>wr i\<close> says whether the \<open>i\<close>-th write to the core succeeds. \<open>V2Direct\<close> is \<open>directConnect\<close>.\<close>

definition handleV2RayConnect ::
  "socks_env \<Rightarrow> client_env \<Rightarrow> (nat \<Rightarrow> bool) \<Rightarrow> nat \<Rightarrow> bytes \<Rightarrow> str \<Rightarrow> str \<Rightarrow> v2_act list" where
  "handleV2RayConnect env cl wr v2rayPort core targetHost targetAddr =
     (if \<not> seDial env (''127.0.0.1:'' @ itoa v2rayPort) then [V2Dial False, V2Direct]
      else V2Dial True #
        (if \<not> wr 0 then [V2Direct]
         else V2Write [5, 1, 0] #
           (case ReadFull 2 core of
              Ok (resp, r1) \<Rightarrow>
                if resp ! 0 \<noteq> 5 \<or> resp ! 1 \<noteq> 0 then [V2Direct]
                else
                  let (host, port) = v2Target targetHost targetAddr in
                  (case v2Addr (seParse6 env) host of
                     None \<Rightarrow> [V2Direct]
                   | Some addr \<Rightarrow>
                       if \<not> wr 1 then [V2Direct]
                       else V2Write (v2Command addr port) #
                         (case ReadFull 4 r1 of
                            Ok (connectResp, r2) \<Rightarrow>
                              if connectResp ! 1 \<noteq> 0 then [V2Reject]
                              else
                                let r3 = skipBound (connectResp ! 3) r2 in
                                if \<not> ceHijack cl then [V2HijackFailed]
                                else if \<not> ceWrite cl then [V2CloseClient]
                                else [V2Established, V2Tunnel r3, V2CloseClient]
                          | _ \<Rightarrow> [V2Reject]))
            | _ \<Rightarrow> [V2Direct])) @ [V2CloseCore])"

section \<open>The requests the listener accepts\<close>

text \<open>A request as RFC 1928 writes it: a greeting with up to 255 methods, then CONNECT to an address.\<close>

datatype socks_dst = DstV4 bytes | DstName bytes | DstV6 bytes

fun dst_ok :: "socks_dst \<Rightarrow> bool" where
  "dst_ok (DstV4 ip) = (length ip = 4)"
| "dst_ok (DstName name) = (length name < 256)"
| "dst_ok (DstV6 ip) = (length ip = 16)"

fun dst_enc :: "socks_dst \<Rightarrow> byte \<times> bytes" where
  "dst_enc (DstV4 ip) = (1, ip)"
| "dst_enc (DstName name) = (3, of_nat (length name) # name)"
| "dst_enc (DstV6 ip) = (4, ip)"

fun dst_text :: "(bytes \<Rightarrow> str) \<Rightarrow> socks_dst \<Rightarrow> str" where
  "dst_text text6 (DstV4 ip) = v4Text ip"
| "dst_text text6 (DstName name) = bytesStr name"
| "dst_text text6 (DstV6 ip) = text6 ip"

definition socks_greeting :: "bytes \<Rightarrow> bytes" where
  "socks_greeting methods = [5, of_nat (length methods)] @ methods"

definition socks_connect :: "byte \<Rightarrow> socks_dst \<Rightarrow> nat \<Rightarrow> bytes" where
  "socks_connect rsv dst port = [5, 1, rsv, fst (dst_enc dst)] @ snd (dst_enc dst) @ put16 port"

lemma unat_length_byte: "length (b :: bytes) < 256 \<Longrightarrow> unat (of_nat (length b) :: byte) = length b"
  by (simp add: unat_of_nat_byte)

lemma readAddr_enc:
  "dst_ok dst \<Longrightarrow> readAddr text6 (fst (dst_enc dst)) (snd (dst_enc dst) @ r) = Some (Some (dst_text text6 dst, r))"
proof (cases dst)
  case (DstName name)
  assume "dst_ok dst"
  moreover have "ReadFull 1 (of_nat (length name) # name @ r) = Ok ([of_nat (length name)], name @ r)" by (simp add: ReadFull_def)
  ultimately show ?thesis using DstName by (simp add: readAddr_def unat_length_byte)
qed (simp_all add: readAddr_def)

lemma readAddr_SomeD:
  assumes "readAddr text6 t inp = Some (Some (h, r))"
  shows "\<exists>dst. dst_ok dst \<and> t = fst (dst_enc dst) \<and> inp = snd (dst_enc dst) @ r \<and> h = dst_text text6 dst"
proof -
  consider "t = 1" | "t = 3" | "t = 4" using assms by (auto simp: readAddr_def split: if_splits)
  then show ?thesis
  proof cases
    case 1
    then obtain ip where "ReadFull 4 inp = Ok (ip, r)" "h = v4Text ip"
      using assms by (auto simp: readAddr_def split: go.splits)
    then show ?thesis using 1 ReadFull_OkD [of 4 inp] by (intro exI [of _ "DstV4 ip"]) auto
  next
    case 2
    then obtain ln name r1 where "ReadFull 1 inp = Ok (ln, r1)" "ReadFull (unat (ln ! 0)) r1 = Ok (name, r)" "h = bytesStr name"
      using assms by (auto simp: readAddr_def split: go.splits)
    then have "inp = ln @ name @ r" "length ln = 1" "length name = unat (ln ! 0)" "h = bytesStr name" by (auto dest!: ReadFull_OkD)
    then show ?thesis using 2 unat_byte_lt [of "ln ! 0"]
      by (intro exI [of _ "DstName name"]) (auto simp: length_Suc_conv)
  next
    case 3
    then obtain ip where "ReadFull 16 inp = Ok (ip, r)" "h = text6 ip"
      using assms by (auto simp: readAddr_def split: go.splits)
    then show ?thesis using 3 ReadFull_OkD [of 16 inp] by (intro exI [of _ "DstV6 ip"]) auto
  qed
qed

lemma put16_be16: "length b = 2 \<Longrightarrow> put16 (be16 (b ! 0) (b ! 1)) = b"
proof -
  assume "length b = 2"
  then obtain h l where b: "b = [h, l]" by (auto simp: length_Suc_conv numeral_2_eq_2)
  have "be16 h l div 256 = unat h" "be16 h l mod 256 = unat l"
    using unat_byte_lt [of h] unat_byte_lt [of l] by (simp_all add: be16_def)
  moreover have "(of_nat (be16 h l) :: byte) = of_nat (be16 h l mod 256)"
    by (rule word_unat_eq_iff [THEN iffD2]) (simp add: unat_of_nat_byte)
  ultimately show ?thesis using b by (simp add: put16_def)
qed

lemma socksNegotiate_enc:
  assumes "length methods < 256" and "dst_ok dst" and "port < 65536"
  shows "socksNegotiate text6 (socks_greeting methods @ socks_connect rsv dst port @ rest) =
    ([SockWrite [5, 0], SockWrite (socksReply 0)], Some (dst_text text6 dst, port, rest))"
proof -
  have "be16 (put16 port ! 0) (put16 port ! 1) = port" using be16_put16_mod [of port] assms(3) by simp
  moreover have "ReadFull 2 ([5, of_nat (length methods)] @ methods @ socks_connect rsv dst port @ rest)
      = Ok ([5, of_nat (length methods)], methods @ socks_connect rsv dst port @ rest)" by (rule ReadFull_append) simp
  moreover have "ReadFull 4 ([5, 1, rsv, fst (dst_enc dst)] @ snd (dst_enc dst) @ put16 port @ rest)
      = Ok ([5, 1, rsv, fst (dst_enc dst)], snd (dst_enc dst) @ put16 port @ rest)" by (rule ReadFull_append) simp
  ultimately show ?thesis using assms(1,2)
    by (simp add: socksNegotiate_def socks_greeting_def socks_connect_def unat_length_byte readAddr_enc)
qed

lemma socksNegotiate_SomeD:
  assumes "socksNegotiate text6 inp = (acts, Some (h, port, rest))"
  shows "\<exists>methods rsv dst. length methods < 256 \<and> dst_ok dst \<and> port < 65536 \<and> h = dst_text text6 dst \<and>
    inp = socks_greeting methods @ socks_connect rsv dst port @ rest"
proof -
  obtain buf r1 methods r2 request r3 r4 portBuf where
    r: "ReadFull 2 inp = Ok (buf, r1)" "buf ! 0 = 5" "ReadFull (unat (buf ! 1)) r1 = Ok (methods, r2)"
      "ReadFull 4 r2 = Ok (request, r3)" "request ! 0 = 5" "request ! 1 = 1"
      "readAddr text6 (request ! 3) r3 = Some (Some (h, r4))" "ReadFull 2 r4 = Ok (portBuf, rest)"
      "port = be16 (portBuf ! 0) (portBuf ! 1)"
    using assms by (auto simp: socksNegotiate_def Let_def split: go.splits option.splits if_splits prod.splits)
  obtain dst where dst: "dst_ok dst" "request ! 3 = fst (dst_enc dst)" "r3 = snd (dst_enc dst) @ r4" "h = dst_text text6 dst"
    using readAddr_SomeD [OF r(7)] by blast
  have cat: "inp = buf @ methods @ request @ r3" "r4 = portBuf @ rest" "length buf = 2" "length request = 4"
    "length methods = unat (buf ! 1)" "length portBuf = 2"
    using r(1,3,4,8) by (auto dest!: ReadFull_OkD)
  have "buf = [5, of_nat (length methods)]" using cat(3,5) r(2) by (auto simp: length_Suc_conv numeral_2_eq_2)
  moreover have "request = [5, 1, request ! 2, fst (dst_enc dst)]"
    using cat(4) r(5,6) dst(2) by (auto simp: length_Suc_conv numeral_eq_Suc)
  moreover have "length methods < 256" using cat(5) unat_byte_lt [of "buf ! 1"] by simp
  ultimately have "inp = socks_greeting methods @ socks_connect (request ! 2) dst port @ rest"
    using cat(1,2) dst(3) r(9) put16_be16 [OF cat(6)] unfolding socks_greeting_def socks_connect_def by (metis append.assoc)
  then show ?thesis using \<open>length methods < 256\<close> dst(1,4) r(9) be16_bound by blast
qed

text \<open>C16: The SOCKS5 listener accepts exactly the CONNECT requests of the protocol. It reports a host, a port
  and the bytes that follow if and only if the client sent a greeting, a request for that host (a dotted
  quad, a name of up to 255 bytes or an IPv6 address) and that port, and then those bytes; it has then
  written the choice of method and the success reply.\<close>

theorem socks_requests_accepted:
  "socksNegotiate text6 inp = (acts, Some (h, port, rest)) \<longleftrightarrow>
     acts = [SockWrite [5, 0], SockWrite (socksReply 0)] \<and> port < 65536 \<and>
     (\<exists>methods rsv dst. length methods < 256 \<and> dst_ok dst \<and> h = dst_text text6 dst \<and>
        inp = socks_greeting methods @ socks_connect rsv dst port @ rest)" (is "?L \<longleftrightarrow> ?R")
proof
  assume ?L
  then obtain methods rsv dst where d: "length methods < 256" "dst_ok dst" "port < 65536" "h = dst_text text6 dst"
      "inp = socks_greeting methods @ socks_connect rsv dst port @ rest" using socksNegotiate_SomeD by blast
  with \<open>?L\<close> show ?R using socksNegotiate_enc [OF d(1-3), of text6 rsv rest] by auto
next
  assume ?R
  then show ?L using socksNegotiate_enc by blast
qed

section \<open>The client and the listener together\<close>

lemma digitVal_SomeD: "digitVal c = Some d \<Longrightarrow> d < 10 \<and> c = char_of (48 + d)"
  by (auto simp: digitVal_def Let_def split: if_splits)

lemma itoa_snoc: "0 < m \<Longrightarrow> c < 10 \<Longrightarrow> itoa (m * 10 + c) = itoa m @ [char_of (48 + c)]"
  by (simp add: itoa.simps [of "m * 10 + c"])

lemma itoa_digits:
  "a < 10 \<Longrightarrow> itoa a = [char_of (48 + a)]"
  "0 < a \<Longrightarrow> a < 10 \<Longrightarrow> b < 10 \<Longrightarrow> itoa (a * 10 + b) = [char_of (48 + a), char_of (48 + b)]"
  "0 < a \<Longrightarrow> a < 10 \<Longrightarrow> b < 10 \<Longrightarrow> c < 10 \<Longrightarrow> itoa ((a * 10 + b) * 10 + c) = [char_of (48 + a), char_of (48 + b), char_of (48 + c)]"
  using itoa_snoc [of a b] itoa_snoc [of "a * 10 + b" c] by (simp_all add: itoa.simps [of a])

text \<open>An octet has no leading zero, so its text is the text of its value.\<close>

lemma parseOctet_text:
  assumes "parseOctet s = Some n"
  shows "n < 256 \<and> itoa n = s"
proof -
  have n: "parseDigits 0 s = Some n" "n < 256" "s \<noteq> []" "length s \<le> 3" "length s > 1 \<Longrightarrow> hd s \<noteq> CHR ''0''"
    using assms by (auto simp: parseOctet_def parseNat_def split: if_splits option.splits)
  have zero: "char_of (48 :: nat) = CHR ''0''" by code_simp
  have pos: "0 < d" if "digitVal c = Some d" "c \<noteq> CHR ''0''" for c d
    using digitVal_SomeD [OF that(1)] that(2) by (cases d) (auto simp: zero)
  consider c1 where "s = [c1]" | c1 c2 where "s = [c1, c2]" | c1 c2 c3 where "s = [c1, c2, c3]"
    using n(3,4) by (cases s; cases "tl s"; cases "tl (tl s)") auto
  then show ?thesis
  proof cases
    case 1
    then show ?thesis using n digitVal_SomeD itoa_digits(1) by (auto split: option.splits)
  next
    case 2
    then show ?thesis using n digitVal_SomeD itoa_digits(2) pos by (auto split: option.splits)
  next
    case 3
    then show ?thesis using n digitVal_SomeD itoa_digits(3) pos by (auto split: option.splits)
  qed
qed

lemma parseIPv4_text:
  assumes "parseIPv4 h = Some n"
  shows "v4Text (v4Bytes n) = h"
proof -
  obtain a b c d where o: "map parseOctet (Split h CHR ''.'') = [Some a, Some b, Some c, Some d]"
    and n: "n = ((a * 256 + b) * 256 + c) * 256 + d"
    using assms by (auto simp: parseIPv4_def split: list.splits option.splits)
  then obtain sa sb sc sd where s: "Split h CHR ''.'' = [sa, sb, sc, sd]"
    "parseOctet sa = Some a" "parseOctet sb = Some b" "parseOctet sc = Some c" "parseOctet sd = Some d" by auto
  note t = s(2-5) [THEN parseOctet_text]
  have split: "(m * 256 + k) div 256 = m" "(m * 256 + k) mod 256 = k" if "k < 256" for m k :: nat using that by simp_all
  have q: "n div 256 = (a * 256 + b) * 256 + c" "n mod 256 = d" unfolding n using t by (simp_all only: split)
  have q2: "n div 256 div 256 = a * 256 + b" "n div 256 mod 256 = c" unfolding q(1) using t by (simp_all only: split)
  have "n div 256 div 256 div 256 = a" "n div 256 div 256 mod 256 = b" unfolding q2(1) using t by (simp_all only: split)
  then have "n div 16777216 = a" "n div 65536 mod 256 = b" by (simp_all flip: div_mult2_eq)
  with q(2) q2(2) have "map (\<lambda>b. itoa (unat b)) (v4Bytes n) = Split h CHR ''.''"
    using t s(1) by (simp add: v4Bytes_def unat_of_nat_byte)
  then show ?thesis using Join_Split [of h "CHR ''.''"] by (simp add: v4Text_def)
qed

lemma v2Addr_enc:
  assumes "parse6 host = None" and "length host \<le> 255"
  shows "\<exists>dst. v2Addr parse6 host = Some (dst_enc dst) \<and> dst_ok dst \<and> dst_text text6 dst = host"
proof (cases "parseIPv4 host")
  case None
  have "dst_text text6 (DstName (strBytes host)) = host" "dst_ok (DstName (strBytes host))"
    "v2Addr parse6 host = Some (dst_enc (DstName (strBytes host)))"
    using assms None by (auto simp: v2Addr_def)
  then show ?thesis by blast
next
  case (Some n)
  have "dst_text text6 (DstV4 (v4Bytes n)) = host" "dst_ok (DstV4 (v4Bytes n))" "v2Addr parse6 host = Some (dst_enc (DstV4 (v4Bytes n)))"
    using parseIPv4_text [OF Some] Some by (simp_all add: v2Addr_def v4Bytes_def)
  then show ?thesis by blast
qed

lemma v2Command_enc: "v2Command (dst_enc dst) (int port) = socks_connect 0 dst port"
  by (simp add: v2Command_def socks_connect_def put16_def flip: zdiv_int)
    (metis of_int_of_nat_eq of_nat_div of_nat_numeral)

text \<open>C17: The V2Ray client and the SOCKS5 listener fit together. For a host that is a name or a dotted quad, the
  greeting and the command that \<open>handleV2RayConnect\<close> writes are read by \<open>handleSOCKS5\<close> as that host and
  port, with nothing of the client's data taken; and from the listener's answers the client starts the
  tunnel with exactly the bytes that follow them.\<close>

theorem v2ray_meets_listener:
  assumes "SplitHostPort targetAddr = Ok (host, portText)" and "host \<noteq> []" and "Atoi portText = Ok (int port)"
    and "0 < port" and "port < 65536" and "seParse6 env host = None" and "length host \<le> 255"
    and "seDial env (''127.0.0.1:'' @ itoa v2rayPort)" and "wr 0" and "wr 1" and "ceHijack cl" and "ceWrite cl"
  shows "\<exists>cmd. handleV2RayConnect env cl wr v2rayPort ([5, 0] @ socksReply 0 @ payload) targetHost targetAddr =
      [V2Dial True, V2Write [5, 1, 0], V2Write cmd, V2Established, V2Tunnel payload, V2CloseClient, V2CloseCore] \<and>
    socksNegotiate text6 ([5, 1, 0] @ cmd @ rest) =
      ([SockWrite [5, 0], SockWrite (socksReply 0)], Some (host, port, rest))"
proof -
  obtain dst where dst: "v2Addr (seParse6 env) host = Some (dst_enc dst)" "dst_ok dst" "dst_text text6 dst = host"
    using v2Addr_enc [of "seParse6 env" host] assms(6,7) by blast
  have target: "v2Target targetHost targetAddr = (host, int port)"
    using assms(1-4) by (simp add: v2Target_def v2Port_def atoiIgnore_def)
  have reads: "ReadFull 2 (5 # 0 # r) = Ok ([5, 0], r)" "ReadFull 4 (5 # 0 # 0 # 1 # r) = Ok ([5, 0, 0, 1], r)" for r :: bytes
    by (simp_all add: ReadFull_def)
  have "handleV2RayConnect env cl wr v2rayPort ([5, 0] @ socksReply 0 @ payload) targetHost targetAddr =
      [V2Dial True, V2Write [5, 1, 0], V2Write (v2Command (dst_enc dst) (int port)), V2Established, V2Tunnel payload, V2CloseClient, V2CloseCore]"
    using assms(8-) dst(1) target by (simp add: handleV2RayConnect_def socksReply_def skipBound_def reads)
  moreover have "[5, 1, 0] = socks_greeting [0]" by (simp add: socks_greeting_def)
  ultimately show ?thesis using socksNegotiate_enc [of "[0]" dst port text6 0 rest] dst(2,3) assms(5)
    by (metis append.assoc v2Command_enc length_Cons list.size(3) one_less_numeral_iff One_nat_def semiring_norm(76))
qed

theorem v2ray_meets_listener_witness:
  "\<exists>cmd. handleV2RayConnect \<lparr>seDial = \<lambda>_. True, seGasWrite = False, seGasStatus = None, seCA = False, seCert = \<lambda>_. False,
        seClientTLS = \<lambda>r. (False, r), seText6 = \<lambda>_. [], seParse6 = \<lambda>_. None\<rparr> \<lparr>ceHijack = True, ceWrite = True\<rparr> (\<lambda>_. True) 10808
        ([5, 0] @ socksReply 0 @ [22, 3, 1]) ''example.org'' ''example.org:8443'' =
      [V2Dial True, V2Write [5, 1, 0], V2Write cmd, V2Established, V2Tunnel [22, 3, 1], V2CloseClient, V2CloseCore] \<and>
    socksNegotiate (\<lambda>_. []) ([5, 1, 0] @ cmd @ [7]) =
      ([SockWrite [5, 0], SockWrite (socksReply 0)], Some (''example.org'', 8443, [7]))"
proof -
  have split: "SplitHostPort ''example.org:8443'' = Ok (''example.org'', ''8443'')" by code_simp
  have port: "Atoi ''8443'' = Ok (int 8443)" by (simp add: Atoi_def parseNat_def digitVal_def)
  show ?thesis by (rule v2ray_meets_listener [OF split _ port]) simp_all
qed

end
