(* ===== verification/GasCache.thy ===== *)
theory GasCache
  imports GoPrelude "HOL-Library.AList"
begin

text \<open>
  The response cache of the GAS relay, \<open>src/proxy/gas_relay.go\<close>: \<open>newGASCache\<close>, \<open>get\<close>, \<open>put\<close> and
  \<open>parseTTL\<close>. The store is a map from URLs to responses with the time they expire, \<open>gcOrder\<close> the URLs in
  the order they were put, \<open>gcSize\<close> the bytes held.

  Times and sizes are unbounded integers in nanoseconds and bytes: \<open>parseTTL\<close> gives at most a day, far
  below the range of \<open>time.Duration\<close>. A slice expression out of range is \<open>Panic\<close>, on a response whose
  capacity is its length.

  The lemmas show that the bookkeeping is right in every reachable state (one order entry per stored URL,
  the size is the sum of the stored lengths and within the limit, the eviction loop never runs off the
  order list) and that the cache implements a map with expiry that may forget entries.
\<close>

section \<open>State and operations\<close>

record gasCacheEntry =
  geRaw :: bytes
  geExpires :: int

record gasResponseCache =
  gcStore :: "(str \<times> gasCacheEntry) list"
  gcOrder :: "str list"
  gcSize :: int
  gcMax :: int

definition newGASCache :: "int \<Rightarrow> gasResponseCache" where
  "newGASCache maxMB = \<lparr>gcStore = [], gcOrder = [], gcSize = 0, gcMax = maxMB * 1024 * 1024\<rparr>"

definition cacheGet :: "int \<Rightarrow> str \<Rightarrow> gasResponseCache \<Rightarrow> bytes option \<times> gasResponseCache" where
  "cacheGet now url c =
     (case map_of (gcStore c) url of
        None \<Rightarrow> (None, c)
      | Some entry \<Rightarrow>
          if now > geExpires entry then
            (None, c\<lparr>gcSize := gcSize c - int (length (geRaw entry)), gcStore := AList.delete url (gcStore c),
               gcOrder := remove1 url (gcOrder c)\<rparr>)
          else (Some (geRaw entry), c))"

text \<open>The bytes of \<open>c.store[url].raw\<close>, none for a missing key.\<close>

definition rawOf :: "(str \<times> gasCacheEntry) list \<Rightarrow> str \<Rightarrow> bytes" where
  "rawOf store url = (case map_of store url of Some e \<Rightarrow> geRaw e | None \<Rightarrow> [])"

text \<open>The eviction loop for \<open>n\<close> more bytes; \<open>c.order[0]\<close> of an empty order panics.\<close>

fun evict :: "int \<Rightarrow> int \<Rightarrow> str list \<Rightarrow> (str \<times> gasCacheEntry) list \<Rightarrow> int \<Rightarrow> (str list \<times> (str \<times> gasCacheEntry) list \<times> int) go" where
  "evict limit n [] store sz = (if sz + n > limit \<and> length store > 0 then Panic else Ok ([], store, sz))"
| "evict limit n (old # order) store sz =
     (if sz + n > limit \<and> length store > 0
      then evict limit n order (AList.delete old store) (sz - int (length (rawOf store old)))
      else Ok (old # order, store, sz))"

definition cachePut :: "int \<Rightarrow> str \<Rightarrow> bytes \<Rightarrow> int \<Rightarrow> gasResponseCache \<Rightarrow> gasResponseCache go" where
  "cachePut now url raw ttl c =
     (if length raw = 0 then Ok c
      else
        let sz = int (length raw) in
        if sz > gcMax c div 4 then Ok c
        else bind_go (evict (gcMax c) sz (gcOrder c) (gcStore c) (gcSize c)) (\<lambda>(order, store, held).
          let (order1, held1) = (case map_of store url of
                 Some old \<Rightarrow> (remove1 url order, held - int (length (geRaw old)))
               | None \<Rightarrow> (order, held))
          in Ok (c\<lparr>gcStore := AList.update url \<lparr>geRaw = raw, geExpires = now + ttl * 1000000000\<rparr> store,
                   gcOrder := order1 @ [url], gcSize := held1 + sz\<rparr>)))"

section \<open>How long a response may be kept\<close>

definition gasCacheTTLLong :: int where "gasCacheTTLLong = 3600"
definition gasCacheTTLMed :: int where "gasCacheTTLMed = 1800"
definition gasCacheTTLMax :: int where "gasCacheTTLMax = 86400"

definition gasStaticExts :: "str list" where
  "gasStaticExts = [''.css'', ''.js'', ''.mjs'', ''.woff'', ''.woff2'', ''.ttf'', ''.eot'', ''.png'', ''.jpg'', ''.jpeg'',
     ''.gif'', ''.webp'', ''.svg'', ''.ico'', ''.mp3'', ''.mp4'', ''.webm'', ''.wasm'', ''.avif'']"

definition crlf :: str where "crlf = [CHR 0x0D, CHR 0x0A]"

text \<open>The digits that follow the first \<open>max-age=\<close> that is followed by a digit: the regular expression
  \<open>max-age=(\d+)\<close>.\<close>

fun maxAgeDigits :: "str \<Rightarrow> str option" where
  "maxAgeDigits [] = None"
| "maxAgeDigits (c # s) =
     (let ds = takeWhile (\<lambda>d. digitVal d \<noteq> None) (drop 8 (c # s)) in
      if HasPrefix (c # s) ''max-age='' \<and> ds \<noteq> [] then Some ds else maxAgeDigits s)"

definition parseTTL :: "str \<Rightarrow> str \<Rightarrow> int go" where
  "parseTTL raw urlStr =
     (case Index raw (crlf @ crlf) of
        None \<Rightarrow> Ok 0
      | Some idx \<Rightarrow>
          let head = ToLower (take idx raw) in
          if length raw < 20 then Panic
          else if \<not> HasPrefix (take 20 raw) ''HTTP/1.1 200'' then Ok 0
          else if Contains head ''no-store'' \<or> Contains head ''private'' \<or> Contains head ''set-cookie:'' then Ok 0
          else case maxAgeDigits head of
            Some ds \<Rightarrow>
              (let v = (case Atoi ds of Ok n \<Rightarrow> n | _ \<Rightarrow> 2 ^ 63 - 1) in Ok (if v > gasCacheTTLMax then gasCacheTTLMax else v))
          | None \<Rightarrow>
              let path = ToLower (hd (Split urlStr CHR ''?'')) in
              if \<exists>ext \<in> set gasStaticExts. HasSuffix path ext then Ok gasCacheTTLLong
              else if Contains head ''image/'' \<or> Contains head ''font/'' then Ok gasCacheTTLLong
              else if Contains head ''text/css'' \<or> Contains head ''javascript'' then Ok gasCacheTTLMed
              else Ok 0)"

section \<open>The bookkeeping\<close>

text \<open>The bytes stored under a list of URLs.\<close>

definition held :: "(str \<times> gasCacheEntry) list \<Rightarrow> str list \<Rightarrow> int" where
  "held store order = (\<Sum>u \<leftarrow> order. int (length (rawOf store u)))"

definition book_ok :: "str list \<Rightarrow> (str \<times> gasCacheEntry) list \<Rightarrow> int \<Rightarrow> bool" where
  "book_ok order store sz = (distinct order \<and> set order = dom (map_of store) \<and> sz = held store order)"

definition cache_inv :: "gasResponseCache \<Rightarrow> bool" where
  "cache_inv c = (book_ok (gcOrder c) (gcStore c) (gcSize c) \<and> gcSize c \<le> gcMax c \<and> 0 \<le> gcMax c \<and>
     (\<forall>u \<in> set (gcOrder c). 0 < length (rawOf (gcStore c) u) \<and> int (length (rawOf (gcStore c) u)) \<le> gcMax c div 4))"

lemma rawOf_delete [simp]: "rawOf (AList.delete u store) v = (if v = u then [] else rawOf store v)"
  by (simp add: rawOf_def delete_conv)

lemma rawOf_update [simp]: "rawOf (AList.update u e store) v = (if v = u then geRaw e else rawOf store v)"
  by (simp add: rawOf_def update_conv)

lemma held_cong: "(\<And>u. u \<in> set order \<Longrightarrow> rawOf s1 u = rawOf s2 u) \<Longrightarrow> held s1 order = held s2 order"
  by (simp add: held_def cong: map_cong)

lemma held_Cons [simp]: "held store (u # order) = int (length (rawOf store u)) + held store order"
  by (simp add: held_def)

lemma held_remove1: "u \<in> set order \<Longrightarrow> held store (remove1 u order) = held store order - int (length (rawOf store u))"
  by (induction order) (auto simp: held_def)

lemma held_append [simp]: "held store (o1 @ o2) = held store o1 + held store o2"
  by (simp add: held_def)

lemma book_ok_delete:
  assumes "book_ok order store sz" and "u \<in> set order"
  shows "book_ok (remove1 u order) (AList.delete u store) (sz - int (length (rawOf store u)))"
proof -
  have o: "distinct order" "set order = dom (map_of store)" "sz = held store order" using assms(1) by (auto simp: book_ok_def)
  have "held (AList.delete u store) (remove1 u order) = held store (remove1 u order)"
    using o(1) by (intro held_cong) (auto simp: set_remove1_eq)
  then show ?thesis using o assms(2) by (auto simp: book_ok_def held_remove1 delete_conv set_remove1_eq split: if_splits)
qed

text \<open>The eviction loop keeps the books, makes room, keeps only entries that were there, and never panics.\<close>

lemma evict_ok:
  assumes "book_ok order store sz"
  shows "\<exists>order' store' sz'. evict limit n order store sz = Ok (order', store', sz') \<and> book_ok order' store' sz' \<and>
    set order' \<subseteq> set order \<and> (\<forall>u \<in> set order'. map_of store' u = map_of store u) \<and>
    (sz' + n \<le> limit \<or> order' = [])"
  using assms
proof (induction order arbitrary: store sz)
  case Nil
  then have "store = []" by (cases store) (auto simp: book_ok_def)
  then show ?case using Nil by simp
next
  case (Cons u order)
  show ?case
  proof (cases "sz + n > limit \<and> length store > 0")
    case True
    let ?s = "AList.delete u store"
    have "book_ok order ?s (sz - int (length (rawOf store u)))"
      using book_ok_delete [OF Cons.prems, of u] by simp
    from Cons.IH [OF this] obtain order' store' sz' where
      e: "evict limit n order ?s (sz - int (length (rawOf store u))) = Ok (order', store', sz')" "book_ok order' store' sz'"
        "set order' \<subseteq> set order" "\<forall>v \<in> set order'. map_of store' v = map_of ?s v" "sz' + n \<le> limit \<or> order' = []" by blast
    have "u \<notin> set order" using Cons.prems by (simp add: book_ok_def)
    then have "\<forall>v \<in> set order'. map_of store' v = map_of store v" using e(3,4) by (auto simp: delete_conv)
    then show ?thesis using True e by (intro exI [of _ order'] exI [of _ store'] exI [of _ sz']) auto
  next
    case False
    moreover have "store \<noteq> []" using Cons.prems by (auto simp: book_ok_def)
    ultimately show ?thesis using Cons.prems by auto
  qed
qed

lemma cacheGet_inv:
  assumes "cache_inv c" and "cacheGet now url c = (r, c')"
  shows "cache_inv c'"
proof (cases "c' = c")
  case False
  then obtain e where e: "map_of (gcStore c) url = Some e" and c': "c' = c\<lparr>gcSize := gcSize c - int (length (geRaw e)),
      gcStore := AList.delete url (gcStore c), gcOrder := remove1 url (gcOrder c)\<rparr>"
    using assms(2) by (auto simp: cacheGet_def split: option.splits if_splits)
  have b: "book_ok (gcOrder c) (gcStore c) (gcSize c)" using assms(1) by (simp add: cache_inv_def)
  have "url \<in> set (gcOrder c)" using b e by (auto simp: book_ok_def)
  moreover have "rawOf (gcStore c) url = geRaw e" using e by (simp add: rawOf_def)
  ultimately show ?thesis using book_ok_delete [OF b, of url] assms(1) c' b
    by (auto simp: cache_inv_def book_ok_def set_remove1_eq)
qed (use assms in simp)

text \<open>Putting a URL on books that have room for it.\<close>

lemma book_ok_put:
  assumes "book_ok order store sz"
  shows "book_ok (remove1 url order @ [url]) (AList.update url e store)
    (sz - int (length (rawOf store url)) + int (length (geRaw e)))"
proof -
  have o: "distinct order" "set order = dom (map_of store)" "sz = held store order" using assms by (auto simp: book_ok_def)
  have "held (AList.update url e store) (remove1 url order) = held store (remove1 url order)"
    using o(1) by (intro held_cong) (auto simp: set_remove1_eq)
  moreover have "held store (remove1 url order) = held store order - int (length (rawOf store url))"
  proof (cases "url \<in> set order")
    case False
    then have "rawOf store url = []" using o(2) by (auto simp: rawOf_def dom_def split: option.split)
    then show ?thesis using False by (simp add: remove1_idem)
  qed (rule held_remove1)
  moreover have "set (remove1 url order @ [url]) = dom (map_of (AList.update url e store))"
    using o(1,2) by (auto simp: update_conv set_remove1_eq)
  ultimately show ?thesis using o(1,3) by (auto simp: book_ok_def held_def)
qed

lemma put_step:
  "(case map_of store url of Some old \<Rightarrow> (remove1 url order, sz - int (length (geRaw old))) | None \<Rightarrow> (order, sz)) =
     (remove1 url order, sz - int (length (rawOf store url)))" if "book_ok order store sz"
proof (cases "map_of store url")
  case None
  then have "url \<notin> set order" using that by (auto simp: book_ok_def dom_def)
  then show ?thesis using None by (simp add: rawOf_def remove1_idem)
qed (simp add: rawOf_def)

text \<open>A put is a no-op or it evicts and stores; it never panics.\<close>

lemma cachePut_cases:
  assumes "cache_inv c"
  obtains (skip) "length raw = 0 \<or> int (length raw) > gcMax c div 4" "cachePut now url raw ttl c = Ok c"
  | (store) order store sz where "0 < length raw" "int (length raw) \<le> gcMax c div 4" "book_ok order store sz"
      "set order \<subseteq> set (gcOrder c)" "\<forall>u \<in> set order. map_of store u = map_of (gcStore c) u" "sz + int (length raw) \<le> gcMax c"
      "cachePut now url raw ttl c = Ok (c\<lparr>gcStore := AList.update url \<lparr>geRaw = raw, geExpires = now + ttl * 1000000000\<rparr> store,
         gcOrder := remove1 url order @ [url], gcSize := sz - int (length (rawOf store url)) + int (length raw)\<rparr>)"
proof (cases "length raw = 0 \<or> int (length raw) > gcMax c div 4")
  case True
  then show ?thesis using that(1) by (auto simp: cachePut_def)
next
  case False
  have b: "book_ok (gcOrder c) (gcStore c) (gcSize c)" and m: "0 \<le> gcMax c" using assms by (simp_all add: cache_inv_def)
  obtain order store sz where e: "evict (gcMax c) (int (length raw)) (gcOrder c) (gcStore c) (gcSize c) = Ok (order, store, sz)"
    "book_ok order store sz" "set order \<subseteq> set (gcOrder c)" "\<forall>u \<in> set order. map_of store u = map_of (gcStore c) u"
    "sz + int (length raw) \<le> gcMax c \<or> order = []"
    using evict_ok [OF b, of "gcMax c" "int (length raw)"] by blast
  have "sz + int (length raw) \<le> gcMax c"
  proof (cases "order = []")
    case True
    then have "sz = 0" using e(2) by (simp add: book_ok_def held_def)
    then show ?thesis using False m by linarith
  qed (use e(5) in blast)
  moreover have "cachePut now url raw ttl c = Ok (c\<lparr>gcStore := AList.update url \<lparr>geRaw = raw, geExpires = now + ttl * 1000000000\<rparr> store,
         gcOrder := remove1 url order @ [url], gcSize := sz - int (length (rawOf store url)) + int (length raw)\<rparr>)"
    using False e(1) put_step [OF e(2), of url] by (simp add: cachePut_def)
  ultimately show ?thesis using that(2) [of order store sz] False e(2-4) by auto
qed

lemma cachePut_inv:
  assumes "cache_inv c"
  shows "\<exists>c'. cachePut now url raw ttl c = Ok c' \<and> cache_inv c' \<and> gcMax c' = gcMax c"
  using assms
proof (cases rule: cachePut_cases [where url = url and raw = raw and now = now and ttl = ttl])
  case (store order store sz)
  let ?e = "\<lparr>geRaw = raw, geExpires = now + ttl * 1000000000\<rparr>"
  have same: "rawOf store u = rawOf (gcStore c) u" if "u \<in> set order" for u using store(5) that by (simp add: rawOf_def)
  have small: "0 < length (rawOf store u) \<and> int (length (rawOf store u)) \<le> gcMax c div 4" if "u \<in> set order" for u
    using assms same [OF that] store(4) that by (auto simp: cache_inv_def)
  have "book_ok (remove1 url order @ [url]) (AList.update url ?e store) (sz - int (length (rawOf store url)) + int (length raw))"
    using book_ok_put [OF store(3), of url ?e] by simp
  moreover have "\<forall>u \<in> set (remove1 url order @ [url]). 0 < length (rawOf (AList.update url ?e store) u) \<and>
      int (length (rawOf (AList.update url ?e store) u)) \<le> gcMax c div 4"
    using small store(1,2) store(3) by (auto simp: book_ok_def set_remove1_eq)
  ultimately show ?thesis using store(6,7) assms by (auto simp: cache_inv_def)
qed (use assms in auto)

section \<open>Reachable caches\<close>

inductive cache_reachable :: "gasResponseCache \<Rightarrow> bool" where
  new: "0 \<le> mb \<Longrightarrow> cache_reachable (newGASCache mb)"
| get: "cache_reachable c \<Longrightarrow> cacheGet now url c = (r, c') \<Longrightarrow> cache_reachable c'"
| put: "cache_reachable c \<Longrightarrow> cachePut now url raw ttl c = Ok c' \<Longrightarrow> cache_reachable c'"

lemma reachable_cache_inv: "cache_reachable c \<Longrightarrow> cache_inv c"
proof (induction rule: cache_reachable.induct)
  case (new mb)
  then show ?case by (simp add: newGASCache_def cache_inv_def book_ok_def held_def)
next
  case (get c now url r c')
  then show ?case using cacheGet_inv by blast
next
  case (put c now url raw ttl c')
  then show ?case using cachePut_inv [of c now url raw ttl] by auto
qed

text \<open>C18: In every reachable cache each stored URL is listed once in the order of eviction and nothing else is,
  the size is the sum of the stored lengths and at most the limit, every stored response is non-empty
  and takes at most a quarter of the limit; and no put, whatever it stores, runs off the order list.\<close>

theorem cache_reachable_bounded:
  assumes "cache_reachable c"
  shows "distinct (gcOrder c) \<and> set (gcOrder c) = dom (map_of (gcStore c)) \<and>
     gcSize c = (\<Sum>u \<leftarrow> gcOrder c. int (length (rawOf (gcStore c) u))) \<and> gcSize c \<le> gcMax c \<and>
     (\<forall>u \<in> set (gcOrder c). 0 < length (rawOf (gcStore c) u) \<and> int (length (rawOf (gcStore c) u)) \<le> gcMax c div 4) \<and>
     cachePut now url raw ttl c \<noteq> Panic"
proof -
  have inv: "cache_inv c" using reachable_cache_inv [OF assms] .
  show ?thesis using inv cachePut_inv [OF inv, of now url raw ttl] unfolding cache_inv_def book_ok_def held_def by auto
qed

theorem cache_reachable_bounded_witness:
  "\<exists>c. cachePut 0 ''u'' [1, 2] 60 (newGASCache 50) = Ok c \<and> gcOrder c = [''u''] \<and> gcSize c \<le> gcMax c"
proof -
  let ?n = "newGASCache 50"
  obtain c where c: "cachePut 0 ''u'' [1, 2] 60 ?n = Ok c" "gcOrder c = [''u'']"
    by (simp add: cachePut_def newGASCache_def)
  have "cache_reachable c" by (rule cache_reachable.put [OF cache_reachable.new c(1)]) simp
  from cache_reachable_bounded [OF this] c show ?thesis by blast
qed

section \<open>The cache as a map with expiry\<close>

text \<open>What callers rely on: the last response put for a URL with the time it expires. A put that is empty or
  too large is not accepted.\<close>

datatype cache_op = CGet int str | CPut int str bytes int

definition cache_accepts :: "int \<Rightarrow> bytes \<Rightarrow> bool" where
  "cache_accepts limit raw = (0 < length raw \<and> int (length raw) \<le> limit div 4)"

fun spec_step :: "int \<Rightarrow> cache_op \<Rightarrow> (str \<rightharpoonup> bytes \<times> int) \<Rightarrow> (str \<rightharpoonup> bytes \<times> int)" where
  "spec_step limit (CGet now url) m = m"
| "spec_step limit (CPut now url raw ttl) m =
     (if cache_accepts limit raw then m(url \<mapsto> (raw, now + ttl * 1000000000)) else m)"

fun cache_step :: "cache_op \<Rightarrow> gasResponseCache \<Rightarrow> gasResponseCache go" where
  "cache_step (CGet now url) c = Ok (snd (cacheGet now url c))"
| "cache_step (CPut now url raw ttl) c = cachePut now url raw ttl c"

definition cache_abs :: "gasResponseCache \<Rightarrow> str \<rightharpoonup> bytes \<times> int" where
  "cache_abs c u = map_option (\<lambda>e. (geRaw e, geExpires e)) (map_of (gcStore c) u)"

lemma cache_step_refines:
  assumes "cache_inv c" and "cache_abs c \<subseteq>\<^sub>m m"
  shows "\<exists>c'. cache_step op c = Ok c' \<and> cache_inv c' \<and> gcMax c' = gcMax c \<and> cache_abs c' \<subseteq>\<^sub>m spec_step (gcMax c) op m"
proof (cases op)
  case (CGet now url)
  obtain r c' where g: "cacheGet now url c = (r, c')" by fastforce
  have "cache_abs c' \<subseteq>\<^sub>m cache_abs c" "gcMax c' = gcMax c"
    using g by (auto simp: cacheGet_def map_le_def cache_abs_def delete_conv dom_def split: option.splits if_splits)
  then show ?thesis using CGet g cacheGet_inv [OF assms(1) g] map_le_trans assms(2) by auto
next
  case (CPut now url raw ttl)
  obtain c' where c': "cachePut now url raw ttl c = Ok c'" "cache_inv c'" "gcMax c' = gcMax c"
    using cachePut_inv [OF assms(1)] by blast
  from assms(1) have "cache_abs c' \<subseteq>\<^sub>m spec_step (gcMax c) op m"
  proof (cases rule: cachePut_cases [where url = url and raw = raw and now = now and ttl = ttl])
    case skip
    then show ?thesis using c'(1) assms(2) CPut by (auto simp: cache_accepts_def)
  next
    case (store order store sz)
    have "cache_abs c' u = Some x \<Longrightarrow> u \<noteq> url \<Longrightarrow> cache_abs c u = Some x" for u x
      using store(3,5,7) c'(1) by (auto simp: cache_abs_def update_conv book_ok_def dom_def)
    moreover have "cache_abs c' url = Some (raw, now + ttl * 1000000000)" using store(7) c'(1) by (simp add: cache_abs_def update_conv)
    ultimately show ?thesis using CPut store(1,2) assms(2)
      by (auto simp: map_le_def cache_accepts_def dom_def)
  qed
  then show ?thesis using c' CPut by auto
qed

interpretation cache: simulation cache_step "spec_step limit" "\<lambda>c m. cache_inv c \<and> gcMax c = limit \<and> cache_abs c \<subseteq>\<^sub>m m" for limit
  by unfold_locales (use cache_step_refines in blast)

text \<open>C19: The cache never makes up or mixes up a response. After any gets and puts on a new cache, a response it
  gives for a URL is the one that the last accepted put for that URL stored, and it has not expired; and
  a response that has just been accepted is given back until it expires.\<close>

theorem cache_coherent:
  assumes "0 \<le> mb" and "history = fold (spec_step (gcMax (newGASCache mb))) ops Map.empty"
  shows "\<exists>c. go_run cache_step ops (newGASCache mb) = Ok c \<and>
     (\<forall>now url r. fst (cacheGet now url c) = Some r \<longrightarrow> (\<exists>t. history url = Some (r, t) \<and> now \<le> t)) \<and>
     (\<forall>now url raw ttl t. cache_accepts (gcMax c) raw \<and> t \<le> now + ttl * 1000000000 \<longrightarrow>
        (\<exists>c'. cachePut now url raw ttl c = Ok c' \<and> fst (cacheGet t url c') = Some raw))"
proof -
  have inv: "cache_inv (newGASCache mb)" using reachable_cache_inv [OF cache_reachable.new [OF assms(1)]] .
  have "cache_abs (newGASCache mb) \<subseteq>\<^sub>m Map.empty" by (auto simp: cache_abs_def newGASCache_def map_le_def)
  then obtain c where
    c: "go_run cache_step ops (newGASCache mb) = Ok c" "cache_inv c" "cache_abs c \<subseteq>\<^sub>m history"
    using cache.run_related [of "newGASCache mb" "gcMax (newGASCache mb)" Map.empty ops] inv unfolding assms(2) by blast
  have "\<exists>t. history url = Some (r, t) \<and> now \<le> t" if got: "fst (cacheGet now url c) = Some r" for now url r
  proof -
    obtain e where "map_of (gcStore c) url = Some e" "geRaw e = r" "now \<le> geExpires e"
      using got by (auto simp: cacheGet_def split: option.splits if_splits)
    then have "cache_abs c url = Some (r, geExpires e)" by (simp add: cache_abs_def)
    then show ?thesis using c(3) \<open>now \<le> geExpires e\<close> by (metis domI map_le_def)
  qed
  moreover have "\<exists>c'. cachePut now url raw ttl c = Ok c' \<and> fst (cacheGet t url c') = Some raw"
    if "cache_accepts (gcMax c) raw" "t \<le> now + ttl * 1000000000" for now url raw ttl t
    using c(2) by (cases rule: cachePut_cases [where url = url and raw = raw and now = now and ttl = ttl])
      (use that in \<open>auto simp: cache_accepts_def cacheGet_def update_conv\<close>)
  ultimately show ?thesis using c(1) by blast
qed

theorem cache_coherent_witness:
  "\<exists>c. go_run cache_step [CPut 0 ''u'' [1] 60, CPut 5 ''u'' [2] 60, CGet 7 ''u''] (newGASCache 50) = Ok c \<and>
     (\<forall>now url r. fst (cacheGet now url c) = Some r \<longrightarrow> r = [2])"
proof -
  let ?ops = "[CPut 0 ''u'' [1] 60, CPut 5 ''u'' [2] 60, CGet 7 ''u'']"
  let ?h = "[''u'' \<mapsto> ([2 :: byte], 60000000005 :: int)]"
  have h: "?h = fold (spec_step (gcMax (newGASCache 50))) ?ops Map.empty" by (simp add: newGASCache_def cache_accepts_def)
  obtain c where c: "go_run cache_step ?ops (newGASCache 50) = Ok c"
    and g: "\<And>now url r. fst (cacheGet now url c) = Some r \<Longrightarrow> \<exists>t. ?h url = Some (r, t) \<and> now \<le> t"
    using cache_coherent [OF _ h] by fastforce
  have "r = [2]" if "fst (cacheGet now url c) = Some r" for now url r
    using g [OF that] by (auto split: if_splits)
  then show ?thesis using c by blast
qed

end
