(* ===== verification/GasHttp.thy ===== *)
theory GasHttp
  imports HostAddr GasCache
begin

text \<open>
  The messages of the GAS relay, \<open>src/proxy/gas_relay.go\<close> and \<open>src/proxy/gas_constants.go\<close>: reading requests
  and responses from text, printing responses, turning the answer of the Apps Script into an HTTP
  response, and the tests on hosts and URLs that pick how a request is sent.

  \<^item> Bytes of a message are characters of a string; \<open>json\<close> is a decoded JSON value. A number keeps its
    integer part and the text that \<open>%v\<close> prints.
  \<^item> \<open>relay_codec\<close> holds what the code takes from libraries: base64, JSON, the text \<open>%v\<close> prints for a
    value, content decoding, \<open>url.Parse\<close> (path, query and host name) and the order of a map.
  \<^item> A header map is an association list with distinct keys; where the code ranges over it the order is
    an argument.
\<close>

section \<open>JSON values and codecs\<close>

datatype json = JNull | JBool bool | JNum int str | JStr str | JArr "json list" | JObj "(str \<times> json) list"

type_synonym jobject = "(str \<times> json) list"

record gas_url =
  guPath :: str
  guQuery :: str
  guHostname :: str

record relay_codec =
  rcDecode64 :: "str \<Rightarrow> str go"
  rcEncode64 :: "str \<Rightarrow> str"
  rcUnmarshal :: "str \<Rightarrow> jobject go"
  rcMarshal :: "jobject \<Rightarrow> str"
  rcShow :: "json \<Rightarrow> str"
  rcDecodeContent :: "str \<Rightarrow> str \<Rightarrow> str"
  rcParseURL :: "str \<Rightarrow> gas_url option"
  rcOrder :: key_order

section \<open>Hosts and URLs\<close>

definition gasGoogleDirectExactExclude :: "str list" where
  "gasGoogleDirectExactExclude =
    [''gemini.google.com'', ''aistudio.google.com'', ''notebooklm.google.com'', ''labs.google.com'', ''meet.google.com'',
     ''accounts.google.com'', ''ogs.google.com'', ''mail.google.com'', ''calendar.google.com'', ''drive.google.com'',
     ''docs.google.com'', ''chat.google.com'', ''photos.google.com'', ''maps.google.com'', ''myaccount.google.com'',
     ''contacts.google.com'', ''classroom.google.com'', ''keep.google.com'', ''play.google.com'', ''translate.google.com'',
     ''assistant.google.com'', ''lens.google.com'']"

definition gasGoogleDirectSuffixExclude :: "str list" where
  "gasGoogleDirectSuffixExclude = [''.meet.google.com'']"

definition gasSNIRewriteSuffixes :: "str list" where
  "gasSNIRewriteSuffixes =
    [''youtube.com'', ''youtu.be'', ''youtube-nocookie.com'', ''ytimg.com'', ''ggpht.com'', ''gvt1.com'', ''gvt2.com'',
     ''doubleclick.net'', ''googlesyndication.com'', ''googleadservices.com'', ''google-analytics.com'',
     ''googletagmanager.com'', ''googletagservices.com'', ''fonts.googleapis.com'', ''script.google.com'']"

definition gasLargeFileExts :: "str list" where
  "gasLargeFileExts =
    [''.bin'', ''.zip'', ''.tar'', ''.gz'', ''.bz2'', ''.xz'', ''.7z'', ''.rar'', ''.exe'', ''.msi'', ''.dmg'', ''.deb'', ''.rpm'', ''.apk'',
     ''.iso'', ''.img'', ''.mp4'', ''.mkv'', ''.avi'', ''.mov'', ''.mp3'', ''.flac'', ''.wav'', ''.aac'',
     ''.pdf'', ''.doc'', ''.docx'', ''.ppt'', ''.pptx'']"

definition gasShouldDirectConnect :: "str \<Rightarrow> bool" where
  "gasShouldDirectConnect host0 =
     (if host0 = [] then False
      else
        let host = ToLower (TrimSuffix host0 ''.'') in
        host \<in> set gasGoogleDirectExactExclude \<or> (\<exists>suffix \<in> set gasGoogleDirectSuffixExclude. HasSuffix host suffix))"

definition gasNeedsSNIRewrite :: "str \<Rightarrow> bool" where
  "gasNeedsSNIRewrite host0 =
     (if host0 = [] then False
      else
        let host = ToLower (TrimSuffix host0 ''.'') in
        \<exists>suffix \<in> set gasSNIRewriteSuffixes. HasSuffix host suffix \<or> host = suffix)"

definition gasIsLargeFileExt :: "str \<Rightarrow> bool" where
  "gasIsLargeFileExt urlStr = (\<exists>ext \<in> set gasLargeFileExts. HasSuffix (ToLower urlStr) ext)"

definition gasExtractHost :: "relay_codec \<Rightarrow> str \<Rightarrow> str" where
  "gasExtractHost cd urlStr =
     (case (Contains urlStr ''://'', rcParseURL cd urlStr) of
        (True, Some u) \<Rightarrow> ToLower (guHostname u)
      | _ \<Rightarrow> ToLower (hd (Split urlStr CHR '':'')))"

definition gasHostKey :: "relay_codec \<Rightarrow> str \<Rightarrow> str" where
  "gasHostKey cd urlOrHost =
     (if urlOrHost = [] then []
      else case (Contains urlOrHost ''://'', rcParseURL cd urlOrHost) of
        (True, Some u) \<Rightarrow> ToLower (TrimSuffix (guHostname u) ''.'')
      | _ \<Rightarrow> ToLower (TrimSuffix urlOrHost ''.''))"

definition gasIsStaticAsset :: "relay_codec \<Rightarrow> str \<Rightarrow> bool" where
  "gasIsStaticAsset cd urlStr =
     (case rcParseURL cd urlStr of
        None \<Rightarrow> False
      | Some u \<Rightarrow> \<exists>ext \<in> set gasStaticExts. HasSuffix (ToLower (guPath u)) ext)"

definition gasNormalizeURL :: "str \<Rightarrow> int \<Rightarrow> str \<Rightarrow> str" where
  "gasNormalizeURL host port path =
     (if HasPrefix path ''http://'' \<or> HasPrefix path ''https://'' then path
      else
        let scheme = (if port = 443 then ''https'' else ''http'') in
        if port = 80 \<or> port = 443 then scheme @ ''://'' @ host @ path
        else scheme @ ''://'' @ host @ '':'' @ itoaInt port @ path)"

definition gasSplitHostPort :: "str \<Rightarrow> int \<Rightarrow> str \<times> int" where
  "gasSplitHostPort target defPort =
     (if CHR '':'' \<in> set target then
        (let parts = Split target CHR '':'' in
         if length parts \<ge> 2 then
           (Join (butlast parts) '':'',
            case Atoi (last parts) of Ok n \<Rightarrow> n
            | Err m \<Rightarrow> if m = ''value out of range'' then (if HasPrefix (last parts) ''-'' then - (2 ^ 63) else 2 ^ 63 - 1) else 0
            | Panic \<Rightarrow> 0)
         else (target, defPort))
      else (target, defPort))"

section \<open>Requests\<close>

definition gasParseRequestLine :: "str \<Rightarrow> str \<times> str" where
  "gasParseRequestLine line =
     (let parts = Split (TrimSpace line) CHR '' '' in
      if length parts < 2 then (''GET'', ''/'') else (parts ! 0, parts ! 1))"

fun gasParseHeaders :: "str list \<Rightarrow> (str \<times> str) list \<Rightarrow> (str \<times> str) list" where
  "gasParseHeaders [] h = h"
| "gasParseHeaders (ln0 # lines) h =
     (let ln = TrimRightSet ln0 crlf in
      if ln = [] then gasParseHeaders lines h
      else case SplitN2 ln CHR '':'' of
        [k, v] \<Rightarrow> gasParseHeaders lines (AList.update (TrimSpace k) (TrimSpace v) h)
      | _ \<Rightarrow> gasParseHeaders lines h)"

text \<open>\<open>headerValue\<close> ranges over the map and takes the first key that fits.\<close>

definition headerValue :: "key_order \<Rightarrow> (str \<times> str) list \<Rightarrow> str \<Rightarrow> str" where
  "headerValue ord headers name =
     (case find (\<lambda>k. ToLower k = name) (ord (map fst headers)) of
        Some k \<Rightarrow> (case map_of headers k of Some v \<Rightarrow> v | None \<Rightarrow> [])
      | None \<Rightarrow> [])"

text \<open>\<open>gasReadBody\<close>: the length the headers announce, \<open>None\<close> where one of them is not a length, and the body
  with what is left of the input. A body that is cut short is dropped.\<close>

fun announcedLength :: "int \<Rightarrow> str list \<Rightarrow> int option" where
  "announcedLength cl [] = Some cl"
| "announcedLength cl (ln # lines) =
     (if HasPrefix (ToLower ln) ''content-length:'' then
        (case Atoi (TrimSpace (TrimPrefix (ToLower ln) ''content-length:'')) of
           Ok n \<Rightarrow> if n < 0 then None else announcedLength n lines
         | _ \<Rightarrow> None)
      else announcedLength cl lines)"

definition gasReadBody :: "str \<Rightarrow> str list \<Rightarrow> str \<times> str" where
  "gasReadBody inp headers =
     (case announcedLength 0 headers of
        None \<Rightarrow> ([], inp)
      | Some cl \<Rightarrow>
          if cl > 100 * 1024 * 1024 then ([], inp)
          else if cl = 0 then ([], inp)
          else if nat cl \<le> length inp then (take (nat cl) inp, drop (nat cl) inp)
          else ([], []))"

section \<open>Responses\<close>

definition gasErrorResponse :: "int \<Rightarrow> str \<Rightarrow> str" where
  "gasErrorResponse status message =
     (let body = ''<html><body><h1>'' @ itoaInt status @ ''</h1><p>'' @ message @ ''</p></body></html>'' in
      ''HTTP/1.1 '' @ itoaInt status @ '' Error'' @ crlf @ ''Content-Type: text/html'' @ crlf @
      ''Content-Length: '' @ itoa (length body) @ crlf @ crlf @ body)"

definition gasTruncate :: "str \<Rightarrow> nat \<Rightarrow> str" where
  "gasTruncate s n = (if length s \<le> n then s else take n s)"

definition gasIntVal :: "json option \<Rightarrow> int \<Rightarrow> int" where
  "gasIntVal v def =
     (case v of
        Some (JNum n _) \<Rightarrow> n
      | Some (JStr s) \<Rightarrow> (case Atoi s of Ok i \<Rightarrow> i | _ \<Rightarrow> def)
      | _ \<Rightarrow> def)"

text \<open>\<open>humanSize\<close>: the unit is a power of two, so the quotient is exact and \<open>%.1f\<close> rounds it to the nearest
  tenth, ties to even.\<close>

fun unitExp :: "nat \<Rightarrow> nat \<Rightarrow> nat" where
  "unitExp n e = (if n \<ge> 1024 then unitExp (n div 1024) (Suc e) else e)"

declare unitExp.simps [simp del]

definition tenths :: "nat \<Rightarrow> nat \<Rightarrow> nat" where
  "tenths a d = (let q = a * 10 div d; r = a * 10 mod d in if 2 * r > d \<or> (2 * r = d \<and> odd q) then q + 1 else q)"

definition humanSize :: "nat \<Rightarrow> str" where
  "humanSize n =
     (if n < 1024 then itoa n @ '' B''
      else
        let e = unitExp (n div 1024) 0; t = tenths n (1024 ^ Suc e) in
        itoa (t div 10) @ ''.'' @ itoa (t mod 10) @ '' '' @ [''KMGTPE'' ! e] @ ''B'')"

definition statusText :: "int \<Rightarrow> str" where
  "statusText status =
     (if status = 206 then ''Partial Content'' else if status = 301 then ''Moved'' else if status = 302 then ''Found''
      else if status = 304 then ''Not Modified'' else if status = 400 then ''Bad Request'' else if status = 403 then ''Forbidden''
      else if status = 404 then ''Not Found'' else if status = 500 then ''Internal Server Error'' else ''OK'')"

definition skippedHeaders :: "str list" where
  "skippedHeaders = [''transfer-encoding'', ''connection'', ''keep-alive'', ''content-length'', ''content-encoding'']"

definition headerLines :: "relay_codec \<Rightarrow> str \<times> json \<Rightarrow> str" where
  "headerLines cd h =
     (if ToLower (fst h) \<in> set skippedHeaders then []
      else case snd h of
        JArr items \<Rightarrow> concat (map (\<lambda>item. fst h @ '': '' @ rcShow cd item @ crlf) items)
      | v \<Rightarrow> fst h @ '': '' @ rcShow cd v @ crlf)"

definition inOrder :: "key_order \<Rightarrow> (str \<times> 'v) list \<Rightarrow> (str \<times> 'v) list" where
  "inOrder ord m = map (\<lambda>k. (k, the (map_of m k))) (ord (map fst m))"

definition parseRelayJSON :: "relay_codec \<Rightarrow> nat \<Rightarrow> jobject \<Rightarrow> str" where
  "parseRelayJSON cd maxRespBody data =
     (case map_of data ''e'' of
        Some e \<Rightarrow> gasErrorResponse 502 (''Relay error: '' @ rcShow cd e)
      | None \<Rightarrow>
          let status = gasIntVal (map_of data ''s'') 200;
              headers = (case map_of data ''h'' of Some (JObj h) \<Rightarrow> h | _ \<Rightarrow> []);
              bodyRaw = (case map_of data ''b'' of Some (JStr b) \<Rightarrow> b | _ \<Rightarrow> [])
          in case rcDecode64 cd bodyRaw of
               Ok decodedBody \<Rightarrow>
                 if length decodedBody > maxRespBody
                 then gasErrorResponse 502 (''Relay response exceeds cap ('' @ humanSize maxRespBody @ '')'')
                 else ''HTTP/1.1 '' @ itoaInt status @ '' '' @ statusText status @ crlf @
                   concat (map (headerLines cd) (inOrder (rcOrder cd) headers)) @
                   ''Content-Length: '' @ itoa (length decodedBody) @ crlf @ crlf @ decodedBody
             | Err m \<Rightarrow> gasErrorResponse 502 (''Relay base64 decode error: '' @ m)
             | Panic \<Rightarrow> [])"

definition gasLooksLikeHTMLError :: "str \<Rightarrow> bool" where
  "gasLooksLikeHTMLError body =
     (if length body < 50 then False
      else
        let t = TrimSpace (ToLower body) in
        Contains t ''<html'' \<and> (Contains t ''error'' \<or> Contains t ''try again'' \<or> Contains t ''timeout'' \<or> Contains t ''unavailable''))"

definition gasResponseBytesIsError :: "str \<Rightarrow> bool" where
  "gasResponseBytesIsError resp = (length resp > 0 \<and> (HasPrefix resp ''HTTP/1.1 502'' \<or> HasPrefix resp ''HTTP/1.1 503''))"

text \<open>The leftmost longest match of \<open>\{.*\}\<close>; the dot stops at the end of a line.\<close>

fun findBraces :: "str \<Rightarrow> str" where
  "findBraces [] = []"
| "findBraces (c # s) =
     (let line = takeWhile (\<lambda>x. x \<noteq> CHR 0x0A) s in
      if c = CHR ''{'' \<and> CHR ''}'' \<in> set line then c # rev (dropWhile (\<lambda>x. x \<noteq> CHR ''}'') (rev line))
      else findBraces s)"

definition parseRelayResponse :: "relay_codec \<Rightarrow> nat \<Rightarrow> str \<Rightarrow> str" where
  "parseRelayResponse cd maxRespBody body =
     (let text = TrimSpace body in
      if text = [] then gasErrorResponse 502 ''Empty response from relay''
      else if gasLooksLikeHTMLError body then gasErrorResponse 502 (''GAS HTML error: '' @ gasTruncate text 200)
      else case rcUnmarshal cd text of
        Ok data \<Rightarrow> parseRelayJSON cd maxRespBody data
      | _ \<Rightarrow>
          let m = findBraces text in
          if m = [] then gasErrorResponse 502 (''No JSON: '' @ gasTruncate text 200)
          else case rcUnmarshal cd m of
            Ok data \<Rightarrow> parseRelayJSON cd maxRespBody data
          | _ \<Rightarrow> gasErrorResponse 502 (''Bad JSON: '' @ gasTruncate text 200))"

text \<open>Splitting at a line break of two characters, \<open>strings.Split(s, "\r\n")\<close>.\<close>

fun SplitLines :: "str \<Rightarrow> str list" where
  "SplitLines [] = [[]]"
| "SplitLines [c] = [[c]]"
| "SplitLines (c # d # s) =
     (if c = CHR 0x0D \<and> d = CHR 0x0A then [] # SplitLines s
      else (case SplitLines (d # s) of [] \<Rightarrow> [[c]] | p # ps \<Rightarrow> (c # p) # ps))"

text \<open>\<open>gasParseContentLength\<close>: \<open>line[16:]\<close> of a line of fifteen characters panics. \<open>strconv.ParseInt\<close> with
  its error ignored is \<open>parseInt0\<close>.\<close>

definition parseInt0 :: "str \<Rightarrow> int" where
  "parseInt0 s =
     (case Atoi s of Ok n \<Rightarrow> n
      | Err m \<Rightarrow> if m = ''value out of range'' then (if HasPrefix s ''-'' then - (2 ^ 63) else 2 ^ 63 - 1) else 0
      | Panic \<Rightarrow> 0)"

fun contentLengthOf :: "str list \<Rightarrow> int go" where
  "contentLengthOf [] = Ok 0"
| "contentLengthOf (line # lines) =
     (if HasPrefix (ToLower line) ''content-length:'' then
        (if length line < 16 then Panic
         else Ok (parseInt0 (TrimSpace (TrimPrefix (drop 16 line) '' ''))))
      else contentLengthOf lines)"

definition gasParseContentLength :: "str \<Rightarrow> int go" where
  "gasParseContentLength resp = contentLengthOf (SplitLines resp)"

definition gasExtractBody :: "str \<Rightarrow> str" where
  "gasExtractBody resp = (case Index resp (crlf @ crlf) of None \<Rightarrow> [] | Some idx \<Rightarrow> drop (idx + 4) resp)"

definition gasCORSPreflight :: "str \<Rightarrow> str \<Rightarrow> str \<Rightarrow> str" where
  "gasCORSPreflight origin acrMethod acrHeaders =
     (let allowOrigin = (if origin = [] then ''*'' else origin);
          methods = ''GET, POST, PUT, DELETE, PATCH, OPTIONS'';
          allowMethods = (if acrMethod \<noteq> [] then acrMethod @ '', '' @ methods else methods);
          allowHeaders = (if acrHeaders = [] then ''*'' else acrHeaders)
      in ''HTTP/1.1 204 No Content'' @ crlf @
         ''Access-Control-Allow-Origin: '' @ allowOrigin @ crlf @
         ''Access-Control-Allow-Methods: '' @ allowMethods @ crlf @
         ''Access-Control-Allow-Headers: '' @ allowHeaders @ crlf @
         ''Access-Control-Allow-Credentials: true'' @ crlf @
         ''Access-Control-Max-Age: 86400'' @ crlf @
         ''Vary: Origin'' @ crlf @
         ''Content-Length: 0'' @ crlf @ crlf)"

definition corsLines :: "str \<Rightarrow> str list" where
  "corsLines origin =
     [''Access-Control-Allow-Origin: '' @ (if origin = [] then ''*'' else origin),
      ''Access-Control-Allow-Credentials: true'',
      ''Access-Control-Allow-Methods: GET, POST, PUT, DELETE, PATCH, OPTIONS'',
      ''Access-Control-Allow-Headers: *'',
      ''Access-Control-Expose-Headers: *'',
      ''Vary: Origin'']"

definition gasInjectCORS :: "str \<Rightarrow> str \<Rightarrow> str" where
  "gasInjectCORS response origin =
     (case Index response (crlf @ crlf) of
        None \<Rightarrow> response
      | Some idx \<Rightarrow>
          let head = take idx response; body = drop (idx + 4) response;
              filtered = filter (\<lambda>ln. \<not> HasPrefix (ToLower ln) ''access-control-'') (SplitLines head)
          in Join (filtered @ corsLines origin) crlf @ crlf @ crlf @ body)"

section \<open>Responses from a connection\<close>

text \<open>\<open>ReadString\<close> up to a line feed: the line with it and the rest, \<open>None\<close> at the end of the input.\<close>

definition readLine :: "str \<Rightarrow> (str \<times> str) option" where
  "readLine inp =
     (case IndexByte inp CHR 0x0A of None \<Rightarrow> None | Some i \<Rightarrow> Some (take (Suc i) inp, drop (Suc i) inp))"

lemma readLine_shorter: "readLine inp = Some (line, rest) \<Longrightarrow> length rest < length inp"
  by (auto simp: readLine_def split: option.splits dest!: IndexByte_SomeD)

text \<open>The first three digits in a row, the regular expression \<open>\d{3}\<close>.\<close>

fun threeDigits :: "str \<Rightarrow> str" where
  "threeDigits (a # b # c # s) =
     (if digitVal a \<noteq> None \<and> digitVal b \<noteq> None \<and> digitVal c \<noteq> None then [a, b, c] else threeDigits (b # c # s))"
| "threeDigits s = []"

definition addHeader :: "str \<Rightarrow> (str \<times> str) list \<Rightarrow> (str \<times> str) list" where
  "addHeader line headers =
     (case SplitN2 line CHR '':'' of
        [k, v] \<Rightarrow> AList.update (ToLower (TrimSpace k)) (TrimSpace v) headers
      | _ \<Rightarrow> headers)"

function readHeaders :: "str \<Rightarrow> (str \<times> str) list \<Rightarrow> ((str \<times> str) list \<times> str) option" where
  "readHeaders inp headers =
     (case readLine inp of
        None \<Rightarrow> None
      | Some (line0, rest) \<Rightarrow>
          let line = TrimRightSet line0 crlf in
          if line = [] then Some (headers, rest) else readHeaders rest (addHeader line headers))"
  by pat_completeness auto
termination
  by (relation "measure (\<lambda>(inp, _). length inp)") (auto dest: readLine_shorter)

declare readHeaders.simps [simp del]

definition gasReadHTTPResponse :: "relay_codec \<Rightarrow> int \<Rightarrow> str \<Rightarrow> (int \<times> (str \<times> str) list \<times> str) go" where
  "gasReadHTTPResponse cd maxBody inp =
     (case readLine inp of
        None \<Rightarrow> Err ''EOF''
      | Some (statusLine, rest) \<Rightarrow>
          let m = threeDigits statusLine; status = (if m = [] then 0 else parseInt0 m) in
          (case readHeaders rest [] of
             None \<Rightarrow> Err ''EOF''
           | Some (headers, rest2) \<Rightarrow>
               let v = (case map_of headers ''content-length'' of Some v \<Rightarrow> v | None \<Rightarrow> []);
                   cl = (if v = [] then 0 else parseInt0 v);
                   enc = (case map_of headers ''content-encoding'' of Some e \<Rightarrow> e | None \<Rightarrow> []);
                   finish = (\<lambda>body. Ok (status, headers, if enc = [] then body else rcDecodeContent cd body enc))
               in if cl > 0 then
                    (if cl > maxBody then Err (''response exceeds cap: '' @ itoaInt cl)
                     else if nat cl \<le> length rest2 then finish (take (nat cl) rest2)
                     else Err ''unexpected EOF'')
                  else finish rest2))"

section \<open>The length a response announces\<close>

lemma digitVal_char_of: "d < 10 \<Longrightarrow> digitVal (char_of (48 + d)) = Some d"
  by (simp add: digitVal_def)

lemma parseDigits_snoc:
  "parseDigits acc (s @ [c]) = (case parseDigits acc s of None \<Rightarrow> None | Some n \<Rightarrow> (case digitVal c of None \<Rightarrow> None | Some d \<Rightarrow> Some (n * 10 + d)))"
  by (induction s arbitrary: acc) (auto split: option.split)

lemma parseDigits_itoa: "parseDigits 0 (itoa n) = Some n"
proof (induction n rule: itoa.induct)
  case (1 n)
  show ?case
  proof (cases "n < 10")
    case True
    then show ?thesis by (simp add: itoa.simps [of n] digitVal_char_of)
  next
    case False
    then show ?thesis using 1 by (simp add: itoa.simps [of n] parseDigits_snoc digitVal_char_of)
  qed
qed

lemma itoa_chars: "set (itoa n) \<subseteq> {c. 48 \<le> (of_char c :: nat) \<and> (of_char c :: nat) \<le> 57}" and itoa_not_Nil [simp]: "itoa n \<noteq> []"
proof -
  show "set (itoa n) \<subseteq> {c. 48 \<le> (of_char c :: nat) \<and> (of_char c :: nat) \<le> 57}"
  proof (induction n rule: itoa.induct)
    case (1 n)
    then show ?case by (cases "n < 10") (auto simp: itoa.simps [of n])
  qed
  show "itoa n \<noteq> []" by (simp add: itoa.simps [of n])
qed

lemma itoa_no: "(of_char c :: nat) < 48 \<or> 57 < (of_char c :: nat) \<Longrightarrow> c \<notin> set (itoa n)"
  using itoa_chars [of n] by auto

lemma Atoi_itoa:
  assumes "n < 2 ^ 63"
  shows "Atoi (itoa n) = Ok (int n)"
proof -
  obtain c s where cs: "itoa n = c # s" by (cases "itoa n") auto
  have "c \<noteq> CHR ''-''" "c \<noteq> CHR ''+''" using itoa_no [of "CHR ''-''" n] itoa_no [of "CHR ''+''" n] cs by auto
  then show ?thesis using parseDigits_itoa [of n] assms cs by (simp add: Atoi_def parseNat_def)
qed

lemma trimmed_itoa: "trimmed (itoa n)"
proof -
  have "\<not> isSpace c" if "c \<in> set (itoa n)" for c
    using that itoa_chars [of n] by (auto simp: isSpace_def)
  then show ?thesis by (simp add: trimmed_def)
qed

lemma SplitLines_line: "CHR 0x0D \<notin> set l \<Longrightarrow> SplitLines (l @ crlf @ s) = l # SplitLines s"
proof (induction l)
  case Nil
  then show ?case by (simp add: crlf_def)
next
  case (Cons c l)
  have "\<exists>d t. l @ crlf @ s = d # t" by (cases l) (auto simp: crlf_def)
  then obtain d t where d: "l @ crlf @ s = d # t" by blast
  have "c \<noteq> CHR 0x0D" using Cons.prems by auto
  then show ?case using Cons by (simp add: d)
qed

text \<open>The header of a response as lines without a carriage return.\<close>

definition headOf :: "str list \<Rightarrow> str" where
  "headOf ls = concat (map (\<lambda>l. l @ crlf) ls)"

definition plain_line :: "str \<Rightarrow> bool" where
  "plain_line l = (l \<noteq> [] \<and> CHR 0x0D \<notin> set l)"

lemma headOf_simps [simp]: "headOf [] = []" "headOf (l # ls) = l @ crlf @ headOf ls" "headOf (ls @ ms) = headOf ls @ headOf ms"
  by (simp_all add: headOf_def)

lemma SplitLines_headOf: "\<forall>l \<in> set ls. plain_line l \<Longrightarrow> SplitLines (headOf ls @ s) = ls @ SplitLines s"
  by (induction ls) (simp_all add: SplitLines_line plain_line_def)

lemma Index_crlf: "Index (crlf @ s) (crlf @ crlf) = (if HasPrefix s crlf then Some 0 else map_option (\<lambda>i. i + 2) (Index s (crlf @ crlf)))"
  by (auto simp: crlf_def HasPrefix_def option.map_comp comp_def)

lemma Index_line: "CHR 0x0D \<notin> set l \<Longrightarrow> Index (l @ s) (crlf @ crlf) = map_option (\<lambda>i. i + length l) (Index s (crlf @ crlf))"
proof (induction l)
  case (Cons c l)
  then have "\<not> HasPrefix (c # l @ s) (crlf @ crlf)" by (auto simp: HasPrefix_def crlf_def)
  then show ?case using Cons by (simp add: option.map_comp comp_def)
qed (simp add: option.map_ident)

lemma plain_line_no_crlf: "plain_line l \<Longrightarrow> \<not> HasPrefix (l @ s) crlf"
  by (cases l) (auto simp: plain_line_def HasPrefix_def crlf_def)

lemma Index_headOf:
  "\<forall>l \<in> set ls. plain_line l \<Longrightarrow> ls \<noteq> [] \<Longrightarrow>
   Index (headOf ls @ crlf @ body) (crlf @ crlf) = Some (length (headOf ls) - 2)"
proof (induction ls)
  case (Cons l ls)
  have two: "length crlf = 2" by (simp add: crlf_def)
  show ?case
  proof (cases ls)
    case Nil
    then show ?thesis using Cons.prems two by (simp add: Index_line Index_crlf plain_line_def)
  next
    case (Cons l2 ls2)
    then have ih: "Index (headOf ls @ crlf @ body) (crlf @ crlf) = Some (length (headOf ls) - 2)"
      using Cons.IH Cons.prems by simp
    have "\<not> HasPrefix (headOf ls @ crlf @ body) crlf"
      using Cons Cons.prems plain_line_no_crlf [of l2] by simp
    moreover have "2 \<le> length (headOf ls)" using Cons two by simp
    ultimately show ?thesis using ih Cons.prems two by (simp add: Index_line Index_crlf plain_line_def)
  qed
qed simp

lemma gasExtractBody_headOf:
  assumes "\<forall>l \<in> set ls. plain_line l" and "ls \<noteq> []"
  shows "gasExtractBody (headOf ls @ crlf @ body) = body"
proof -
  have "2 \<le> length (headOf ls)" using assms(2) by (cases ls) (simp_all add: crlf_def)
  moreover have "length crlf = 2" by (simp add: crlf_def)
  ultimately show ?thesis using Index_headOf [OF assms, of body] by (simp add: gasExtractBody_def)
qed

lemma contentLengthOf_skip:
  "\<forall>l \<in> set ls. \<not> HasPrefix (ToLower l) ''content-length:'' \<Longrightarrow> contentLengthOf (ls @ ms) = contentLengthOf ms"
  by (induction ls) auto

text \<open>The lines a header entry is printed as.\<close>

definition json_items :: "json \<Rightarrow> json list" where
  "json_items v = (case v of JArr items \<Rightarrow> items | _ \<Rightarrow> [v])"

definition entryLines :: "relay_codec \<Rightarrow> str \<times> json \<Rightarrow> str list" where
  "entryLines cd h = (if ToLower (fst h) \<in> set skippedHeaders then [] else map (\<lambda>i. fst h @ '': '' @ rcShow cd i) (json_items (snd h)))"

lemma headerLines_entry: "headerLines cd h = headOf (entryLines cd h)"
  by (auto simp: headerLines_def entryLines_def json_items_def headOf_def comp_def split: json.split)

text \<open>A header entry that cannot break the framing: no colon or line break in its name, no line break in its
  values.\<close>

definition clean_entry :: "relay_codec \<Rightarrow> str \<times> json \<Rightarrow> bool" where
  "clean_entry cd h = (CHR '':'' \<notin> set (fst h) \<and> CHR 0x0D \<notin> set (fst h) \<and> (\<forall>i \<in> set (json_items (snd h)). CHR 0x0D \<notin> set (rcShow cd i)))"

lemma split_at_unique: "x \<notin> set a \<Longrightarrow> x \<notin> set b \<Longrightarrow> a @ x # c = b @ x # d \<Longrightarrow> a = b"
  by (induction a arbitrary: b) (auto simp: Cons_eq_append_conv)

lemma colon_ToLower [simp]: "CHR '':'' \<in> set (ToLower s) \<longleftrightarrow> CHR '':'' \<in> set s"
proof -
  have "lowerChar c = CHR '':'' \<longleftrightarrow> c = CHR '':''" for c using lowerChar_nonletter [of "CHR '':''" c] by simp
  then show ?thesis unfolding ToLower_def set_map image_iff by metis
qed

lemma entryLines_plain:
  assumes "clean_entry cd h" and "l \<in> set (entryLines cd h)"
  shows "plain_line l \<and> \<not> HasPrefix (ToLower l) ''content-length:''"
proof -
  obtain i where l: "l = fst h @ '': '' @ rcShow cd i" "i \<in> set (json_items (snd h))" and k: "ToLower (fst h) \<notin> set skippedHeaders"
    using assms(2) by (auto simp: entryLines_def split: if_splits)
  have "False" if pre: "HasPrefix (ToLower l) ''content-length:''"
  proof -
    obtain t where "ToLower l = ''content-length'' @ CHR '':'' # t" using pre by (auto simp: HasPrefix_iff)
    moreover have "ToLower l = ToLower (fst h) @ CHR '':'' # ToLower ('' '' @ rcShow cd i)" using l by (simp add: ToLower_def lowerChar_def)
    moreover have "CHR '':'' \<notin> set (ToLower (fst h))" using assms(1) by (simp add: clean_entry_def)
    moreover have "CHR '':'' \<notin> set ''content-length''" by simp
    ultimately have "ToLower (fst h) = ''content-length''" using split_at_unique [of "CHR '':''"] by metis
    then show False using k by (simp add: skippedHeaders_def)
  qed
  moreover have "plain_line l" using l assms(1) by (auto simp: plain_line_def clean_entry_def)
  ultimately show ?thesis by blast
qed

lemma CR_not_statusText: "CHR 0x0D \<notin> set (statusText s)"
  by (simp add: statusText_def)

lemma itoaInt_no: "(of_char c :: nat) < 48 \<or> 57 < (of_char c :: nat) \<Longrightarrow> c \<noteq> CHR ''-'' \<Longrightarrow> c \<notin> set (itoaInt z)"
  by (simp add: itoaInt_def itoa_no)

lemma status_line:
  "plain_line (''HTTP/1.1 '' @ itoaInt s @ '' '' @ statusText s)"
  "\<not> HasPrefix (ToLower (''HTTP/1.1 '' @ r)) ''content-length:''"
  using itoaInt_no [of "CHR 0x0D" s] CR_not_statusText [of s] by (auto simp: plain_line_def HasPrefix_iff ToLower_def lowerChar_def)

lemma length_line:
  assumes "n < 2 ^ 63"
  shows "plain_line (''Content-Length: '' @ itoa n)" and "contentLengthOf ((''Content-Length: '' @ itoa n) # ls) = Ok (int n)"
proof -
  show "plain_line (''Content-Length: '' @ itoa n)" using itoa_no [of "CHR 0x0D" n] by (simp add: plain_line_def)
  have "ToLower ''Content-Length: '' = ''content-length: ''" by code_simp
  then have "HasPrefix (ToLower (''Content-Length: '' @ itoa n)) ''content-length:''" by (simp only: ToLower_append) (simp add: HasPrefix_def)
  moreover have "TrimPrefix (itoa n) '' '' = itoa n"
    using itoa_no [of "CHR '' ''" n] by (cases "itoa n") (auto simp: TrimPrefix_def HasPrefix_def)
  ultimately show "contentLengthOf ((''Content-Length: '' @ itoa n) # ls) = Ok (int n)"
    using Atoi_itoa [OF assms] by (simp add: parseInt0_def TrimSpace_trimmed trimmed_itoa)
qed

lemma inOrder_set:
  assumes "order_ok ord" and "distinct (map fst m)"
  shows "set (inOrder ord m) = set m"
proof -
  have "set (inOrder ord m) = (\<lambda>k. (k, the (map_of m k))) ` set (map fst m)"
    using order_ok_keys [OF assms] by (simp add: inOrder_def)
  also have "\<dots> = set m" using assms(2) by (force simp: image_iff)
  finally show ?thesis .
qed

text \<open>A response made from the script's answer frames exactly the body that was decoded: its header ends
  where the body begins, and the length read back from it is the length of that body, whatever length
  the origin had announced.\<close>

theorem relay_response_framed:
  assumes "map_of data ''e'' = None" and "map_of data ''b'' = Some (JStr b)" and "rcDecode64 cd b = Ok body"
    and "length body \<le> cap" and "cap < 2 ^ 63" and "map_of data ''h'' = Some (JObj h)" and "distinct (map fst h)"
    and "order_ok (rcOrder cd)" and "\<forall>e \<in> set h. clean_entry cd e"
  shows "gasExtractBody (parseRelayJSON cd cap data) = body \<and>
     gasParseContentLength (parseRelayJSON cd cap data) = Ok (int (length body))"
proof -
  let ?s = "gasIntVal (map_of data ''s'') 200"
  let ?st = "''HTTP/1.1 '' @ itoaInt ?s @ '' '' @ statusText ?s"
  let ?es = "concat (map (entryLines cd) (inOrder (rcOrder cd) h))"
  let ?cl = "''Content-Length: '' @ itoa (length body)"
  have small: "length body < 2 ^ 63" using assms(4,5) by linarith
  have "concat (map (headerLines cd) es) = headOf (concat (map (entryLines cd) es))" for es
    by (induction es) (simp_all add: headerLines_entry)
  then have resp: "parseRelayJSON cd cap data = headOf (?st # ?es @ [?cl]) @ crlf @ body"
    using assms(1-4,6) by (simp add: parseRelayJSON_def Let_def)
  have ent: "plain_line l \<and> \<not> HasPrefix (ToLower l) ''content-length:''" if "l \<in> set ?es" for l
    using that entryLines_plain assms(9) inOrder_set [OF assms(8,7)] by auto
  have plain: "\<forall>l \<in> set (?st # ?es @ [?cl]). plain_line l" using ent status_line(1) length_line(1) [OF small] by auto
  have "gasParseContentLength (parseRelayJSON cd cap data) = contentLengthOf ((?st # ?es) @ ?cl # SplitLines (crlf @ body))"
    unfolding resp gasParseContentLength_def SplitLines_headOf [OF plain] by simp
  also have "\<dots> = Ok (int (length body))"
    using ent status_line(2) length_line(2) [OF small] by (subst contentLengthOf_skip) auto
  finally show ?thesis using gasExtractBody_headOf [OF plain, of body] resp by simp
qed

text \<open>A HEAD request for a file of eight megabytes: the script passes the origin's headers and no body.\<close>

definition sampleCodec :: relay_codec where
  "sampleCodec = \<lparr>rcDecode64 = \<lambda>s. Ok s, rcEncode64 = \<lambda>s. s, rcUnmarshal = \<lambda>_. Err [], rcMarshal = \<lambda>_. [],
     rcShow = \<lambda>v. (case v of JStr s \<Rightarrow> s | _ \<Rightarrow> []), rcDecodeContent = \<lambda>b _. b, rcParseURL = \<lambda>_. None, rcOrder = \<lambda>ks. ks\<rparr>"

definition sampleHead :: jobject where
  "sampleHead = [(''s'', JNum 200 ''200''), (''h'', JObj [(''Content-Length'', JStr ''8388608''), (''Content-Type'', JStr ''application/zip'')]), (''b'', JStr [])]"

theorem relay_response_framed_witness:
  "gasParseContentLength (parseRelayJSON sampleCodec 1000 sampleHead) = Ok 0"
proof -
  let ?h = "[(''Content-Length'', JStr ''8388608''), (''Content-Type'', JStr ''application/zip'')]"
  have "map_of sampleHead ''e'' = None" "map_of sampleHead ''b'' = Some (JStr [])" "map_of sampleHead ''h'' = Some (JObj ?h)"
    "rcDecode64 sampleCodec [] = Ok []" "distinct (map fst ?h)" "\<forall>e \<in> set ?h. clean_entry sampleCodec e" "order_ok (rcOrder sampleCodec)"
    by (simp_all add: sampleHead_def sampleCodec_def clean_entry_def json_items_def order_ok_id)
  from relay_response_framed [OF this(1,2,4) _ _ this(3,5,7,6), of 1000] show ?thesis by simp
qed

end
