(* ===== verification/GasRelay.thy ===== *)
theory GasRelay
  imports GasHttp
begin

text \<open>
  The GAS relay engine, \<open>src/proxy/gas_relay.go\<close>: the choice of front name and script, the HTTP/2 circuit
  breaker, the pool of HTTP/1.1 connections, single, parallel, batched and chunked requests.

  \<^item> \<open>gasRelay\<close> is the engine's state. Its connections are numbers; \<open>NilConn\<close> is Go's nil connection, and
    \<open>grClosed\<close> the connections that were closed.
  \<^item> \<open>relay_env\<close> is the outside world: the clock, dials, TLS handshakes, what each connection does with
    a write and what it sends back to a request, the outcome of an HTTP/2 request. Every interaction advances
    \<open>grTick\<close>, so that the same action may end differently the next time.
  \<^item> A result \<open>Panic\<close> is a crash: a nil connection that is used, an index out of range, or the mutex of the
    pool unlocked twice, which Go makes fatal.
  \<^item> A redirect makes \<open>relayHTTP1\<close> call itself without a bound; \<open>None\<close> means the fuel was used up.
\<close>

section \<open>Configuration, state and environment\<close>

record GASConfig =
  gaScriptID :: str
  gaScriptIDs :: "str list"
  gaAuthKey :: str
  gaGoogleIP :: str
  gaFrontDomain :: str
  gaFrontDomains :: "str list"
  gaListenPort :: int
  gaListenHost :: str
  gaLANSharing :: bool
  gaVerifySSL :: bool
  gaLogLevel :: str
  gaRelayTimeout :: int
  gaTLSConnectTimeout :: int
  gaMaxResponseBody :: int
  gaEnabled :: bool
  gaRunning :: bool
  gaLastGoogleIP :: str
  gaConnectionLatency :: int
  gaRequestCount :: int
  gaBandwidthBytes :: int
  gaCacheHits :: int
  gaCacheMisses :: int
  gaCurrentScriptID :: str
  gaExcludeGoogleServices :: bool
  gaSNIRewrite :: bool
  gaTraceMode :: bool
  gaLanIPs :: "str list"
  gaAutoFailoverEnabled :: bool
  gaFailoverThreshold :: int
  gaFailoverInterval :: int
  gaRotateFrontDomain :: bool
  gaRotateInterval :: int
  gaProxyAppsEnabled :: bool
  gaProxyAppList :: "str list"
  gaHealth :: str
  gaRelayFailures :: int

datatype pconn = NilConn | Conn nat

record gasHostStat =
  hsRequests :: int
  hsCacheHits :: int
  hsBytes :: int
  hsTotalLatencyNs :: int
  hsErrors :: int

record gasRelay =
  grConnectHost :: str
  grSniHost :: str
  grSniHosts :: "str list"
  grSniIdx :: "32 word"
  grHttpHost :: str
  grScriptIDs :: "str list"
  grScriptIdx :: nat
  grParallelNum :: nat
  grAuthKey :: str
  grRelayTO :: int
  grTlsTO :: int
  grMaxRespBody :: nat
  grH2Up :: bool
  grH2FailCount :: nat
  grH2BackoffUntil :: int
  grPool :: "(pconn \<times> int) list"
  grClosed :: "nat list"
  grNextConn :: nat
  grBatchPending :: "(nat \<times> jobject) list"
  grBatchTimer :: bool
  grCoalesce :: "(str \<times> nat list) list"
  grCache :: gasResponseCache
  grPerSite :: "(str \<times> gasHostStat) list"
  grReqCount :: int
  grBwBytes :: int
  grCacheHits :: int
  grCacheMisses :: int
  grLatencyAvg :: int
  grLastLatency :: int
  grLastRelayOK :: bool
  grRelayFail :: nat
  grBlacklist :: "(str \<times> int) list"
  grDevAvail :: bool
  grClosedDown :: bool
  grTick :: nat

datatype h2_out = H2Body str | H2Failed str | H2ReadFailed str

record relay_env =
  reCodec :: relay_codec
  reNow :: "nat \<Rightarrow> int"
  reSha :: "str \<Rightarrow> nat"
  reH2Do :: "nat \<Rightarrow> str \<Rightarrow> str \<Rightarrow> h2_out"
  reDial :: "nat \<Rightarrow> str option"
  reTLS :: "nat \<Rightarrow> str option"
  rePeek :: "nat \<Rightarrow> nat \<Rightarrow> bool"
  reWrite :: "nat \<Rightarrow> nat \<Rightarrow> str option"
  reReply :: "nat \<Rightarrow> nat \<Rightarrow> str \<Rightarrow> str"

definition clock :: "relay_env \<Rightarrow> gasRelay \<Rightarrow> int" where
  "clock env r = reNow env (grTick r)"

definition tick :: "gasRelay \<Rightarrow> gasRelay" where
  "tick r = r\<lparr>grTick := Suc (grTick r)\<rparr>"

section \<open>Front names\<close>

definition buildGASSNIPool :: "str \<Rightarrow> str list \<Rightarrow> str list" where
  "buildGASSNIPool frontDomain overrides =
     (let out = dedupSeen {} (map (\<lambda>item. ToLower (TrimSuffix (TrimSpace item) ''.'')) overrides) in
      if length out > 0 then out
      else
        let fd = ToLower (TrimSuffix frontDomain ''.'') in
        if fd = [] then [''www.google.com'']
        else fd # filter (\<lambda>h. h \<noteq> fd) [''www.google.com'', ''mail.google.com'', ''accounts.google.com''])"

definition newGASRelay :: "GASConfig \<Rightarrow> gasRelay" where
  "newGASRelay cfg =
     \<lparr>grConnectHost = gaGoogleIP cfg, grSniHost = gaFrontDomain cfg,
      grSniHosts = buildGASSNIPool (gaFrontDomain cfg) (gaFrontDomains cfg), grSniIdx = 0, grHttpHost = ''script.google.com'',
      grScriptIDs = (if length (gaScriptIDs cfg) = 0 \<and> gaScriptID cfg \<noteq> [] then [gaScriptID cfg] else gaScriptIDs cfg),
      grScriptIdx = 0, grParallelNum = 3, grAuthKey = gaAuthKey cfg,
      grRelayTO = (if gaRelayTimeout cfg \<le> 0 then 25 else gaRelayTimeout cfg) * 1000000000,
      grTlsTO = (if gaTLSConnectTimeout cfg \<le> 0 then 15 else gaTLSConnectTimeout cfg) * 1000000000,
      grMaxRespBody = (if gaMaxResponseBody cfg > 0 then nat (gaMaxResponseBody cfg) else 200 * 1024 * 1024),
      grH2Up = False, grH2FailCount = 0, grH2BackoffUntil = 0, grPool = [], grClosed = [], grNextConn = 0,
      grBatchPending = [], grBatchTimer = False, grCoalesce = [], grCache = newGASCache 50, grPerSite = [], grReqCount = 0, grBwBytes = 0, grCacheHits = 0, grCacheMisses = 0,
      grLatencyAvg = 0, grLastLatency = 0, grLastRelayOK = False, grRelayFail = 0, grBlacklist = [], grDevAvail = False,
      grClosedDown = False, grTick = 0\<rparr>"

text \<open>\<open>nextSNI\<close>: the index is an unsigned 32-bit counter that wraps.\<close>

definition nextSNI :: "gasRelay \<Rightarrow> str \<times> gasRelay" where
  "nextSNI r =
     (let idx = grSniIdx r + 1; r1 = r\<lparr>grSniIdx := idx\<rparr> in
      if length (grSniHosts r) = 0 then (''www.google.com'', r1)
      else (grSniHosts r ! (unat idx mod length (grSniHosts r)), r1))"

section \<open>The HTTP/2 circuit breaker\<close>

definition h2BackoffLeft :: "relay_env \<Rightarrow> gasRelay \<Rightarrow> int" where
  "h2BackoffLeft env r =
     (if grH2Up r then 0 else let left = grH2BackoffUntil r - clock env r in if left < 0 then 0 else left)"

definition ensureH2 :: "relay_env \<Rightarrow> gasRelay \<Rightarrow> gasRelay" where
  "ensureH2 env r = (if grH2Up r then r else if clock env r < grH2BackoffUntil r then r else r\<lparr>grH2Up := True\<rparr>)"

definition h2Backoff :: "nat \<Rightarrow> int" where
  "h2Backoff failCount = min (2 ^ min failCount 5) 30 * 1000000000"

definition resetH2 :: "relay_env \<Rightarrow> gasRelay \<Rightarrow> gasRelay" where
  "resetH2 env r =
     r\<lparr>grH2Up := False, grH2FailCount := Suc (grH2FailCount r),
       grH2BackoffUntil := clock env r + h2Backoff (Suc (grH2FailCount r))\<rparr>"

definition h2Request :: "relay_env \<Rightarrow> str \<Rightarrow> str \<Rightarrow> gasRelay \<Rightarrow> str go \<times> gasRelay" where
  "h2Request env path0 body r =
     (if h2BackoffLeft env r > 0 then (Err ''H2 circuit breaker open'', r)
      else
        let r1 = ensureH2 env r in
        if \<not> grH2Up r1 then (Err ''H2 client not available (circuit breaker)'', r1)
        else
          let path = (if HasPrefix path0 ''/'' then path0 else ''/'' @ path0); r2 = tick r1 in
          case reH2Do env (grTick r1) path body of
            H2Failed e \<Rightarrow> (Err e, resetH2 env r2)
          | H2ReadFailed e \<Rightarrow> (Err e, r2\<lparr>grH2FailCount := 0, grH2BackoffUntil := 0\<rparr>)
          | H2Body data \<Rightarrow> (Ok data, r2\<lparr>grH2FailCount := 0, grH2BackoffUntil := 0\<rparr>))"

section \<open>Scripts\<close>

text \<open>The loop of \<open>scriptIDForKey\<close>, \<open>n\<close> rounds left. With a key every round looks at the same script.\<close>

fun scriptLoop :: "relay_env \<Rightarrow> str \<Rightarrow> nat \<Rightarrow> gasRelay \<Rightarrow> str \<times> gasRelay" where
  "scriptLoop env key 0 r = (grScriptIDs r ! 0, r)"
| "scriptLoop env key (Suc n) r =
     (let len = length (grScriptIDs r);
          r1 = (if key = [] then r\<lparr>grScriptIdx := (grScriptIdx r + 1) mod len\<rparr> else r);
          sid = (if key = [] then grScriptIDs r ! grScriptIdx r1 else grScriptIDs r ! (reSha env key mod len))
      in case map_of (grBlacklist r1) sid of
           None \<Rightarrow> (sid, r1)
         | Some expiry \<Rightarrow>
             if clock env r1 > expiry then (sid, r1\<lparr>grBlacklist := AList.delete sid (grBlacklist r1)\<rparr>)
             else scriptLoop env key n r1)"

definition scriptIDForKey :: "relay_env \<Rightarrow> str \<Rightarrow> gasRelay \<Rightarrow> str \<times> gasRelay" where
  "scriptIDForKey env key r =
     (if length (grScriptIDs r) \<le> 1 then (if length (grScriptIDs r) = 1 then grScriptIDs r ! 0 else [], r)
      else scriptLoop env key (length (grScriptIDs r)) r)"

definition execPath :: "relay_env \<Rightarrow> str \<Rightarrow> gasRelay \<Rightarrow> str \<times> gasRelay" where
  "execPath env urlOrHost r =
     (let (sid, r1) = scriptIDForKey env (gasHostKey (reCodec env) urlOrHost) r in
      (if sid = [] then ''/macros/s/dev''
       else if grDevAvail r1 then ''/macros/s/'' @ sid @ ''/dev''
       else ''/macros/s/'' @ sid @ ''/exec'', r1))"

definition retryWithNextScript :: "str \<Rightarrow> gasRelay \<Rightarrow> str \<times> gasRelay" where
  "retryWithNextScript path r =
     (if length (grScriptIDs r) \<le> 1 then (path, r)
      else
        let idx = (grScriptIdx r + 1) mod length (grScriptIDs r) in
        (''/macros/s/'' @ (grScriptIDs r ! idx) @ ''/exec'', r\<lparr>grScriptIdx := idx\<rparr>))"

definition blacklistSID :: "relay_env \<Rightarrow> str \<Rightarrow> gasRelay \<Rightarrow> gasRelay" where
  "blacklistSID env path r =
     (if length (grScriptIDs r) \<le> 1 then r
      else case find (\<lambda>sid. Contains path sid) (grScriptIDs r) of
        None \<Rightarrow> r
      | Some sid \<Rightarrow> r\<lparr>grBlacklist := AList.update sid (clock env r + 600 * 1000000000) (grBlacklist r)\<rparr>)"

section \<open>The pool of connections\<close>

definition gasConnTTL :: int where "gasConnTTL = 45 * 1000000000"

definition closeConn :: "pconn \<Rightarrow> gasRelay \<Rightarrow> gasRelay go" where
  "closeConn c r = (case c of NilConn \<Rightarrow> Panic | Conn n \<Rightarrow> Ok (r\<lparr>grClosed := n # grClosed r\<rparr>))"

text \<open>A new connection: dial, then the TLS handshake with the next front name.\<close>

definition dialConn :: "relay_env \<Rightarrow> gasRelay \<Rightarrow> pconn go \<times> gasRelay" where
  "dialConn env r =
     (let r1 = tick r in
      case reDial env (grTick r) of
        Some e \<Rightarrow> (Err e, r1)
      | None \<Rightarrow>
          let (_, r2) = nextSNI r1; n = grNextConn r2; r3 = tick (r2\<lparr>grNextConn := Suc n\<rparr>) in
          case reTLS env (grTick r2) of
            Some e \<Rightarrow> (Err e, r3\<lparr>grClosed := n # grClosed r3\<rparr>)
          | None \<Rightarrow> (Ok (Conn n), r3))"

text \<open>The loop of \<open>acquireConn\<close> over the pool, last entry first. A fresh entry is taken with the mutex already
  unlocked; if a byte arrives on it, it is closed, the loop is left and the mutex unlocked again.\<close>

fun acquireLoop :: "relay_env \<Rightarrow> (pconn \<times> int) list \<Rightarrow> gasRelay \<Rightarrow> pconn go \<times> gasRelay" where
  "acquireLoop env [] r = dialConn env (r\<lparr>grPool := []\<rparr>)"
| "acquireLoop env ((c, created) # rest) r =
     (let r1 = r\<lparr>grPool := rev rest\<rparr> in
      if clock env r - created < gasConnTTL then
        (case c of
           NilConn \<Rightarrow> (Panic, r1)
         | Conn n \<Rightarrow>
             if n \<notin> set (grClosed r) \<and> rePeek env (grTick r) n then (Panic, r1)
             else (Ok (Conn n), tick r1))
      else case closeConn c r1 of
        Ok r2 \<Rightarrow> acquireLoop env rest r2
      | _ \<Rightarrow> (Panic, r1))"

definition acquireConn :: "relay_env \<Rightarrow> gasRelay \<Rightarrow> pconn go \<times> gasRelay" where
  "acquireConn env r = acquireLoop env (rev (grPool r)) r"

definition releaseConn :: "relay_env \<Rightarrow> pconn \<Rightarrow> gasRelay \<Rightarrow> gasRelay go" where
  "releaseConn env c r =
     (if length (grPool r) \<ge> 50 then closeConn c r else Ok (r\<lparr>grPool := grPool r @ [(c, clock env r)]\<rparr>))"

definition writeConn :: "relay_env \<Rightarrow> pconn \<Rightarrow> gasRelay \<Rightarrow> unit go \<times> gasRelay" where
  "writeConn env c r =
     (case c of
        NilConn \<Rightarrow> (Panic, r)
      | Conn n \<Rightarrow>
          if n \<in> set (grClosed r) then (Err ''use of closed network connection'', tick r)
          else (case reWrite env (grTick r) n of Some e \<Rightarrow> (Err e, tick r) | None \<Rightarrow> (Ok (), tick r)))"

definition readConn :: "relay_env \<Rightarrow> str \<Rightarrow> pconn \<Rightarrow> gasRelay \<Rightarrow> (int \<times> (str \<times> str) list \<times> str) go \<times> gasRelay" where
  "readConn env req c r =
     (case c of
        NilConn \<Rightarrow> (Panic, r)
      | Conn n \<Rightarrow> (gasReadHTTPResponse (reCodec env) (int (grMaxRespBody r)) (reReply env (grTick r) n req), tick r))"

text \<open>Closing a connection in the middle of \<open>relayHTTP1\<close>, and its return with an error, after which the
  deferred call puts the connection that \<open>conn\<close> holds back into the pool.\<close>

definition closing :: "pconn \<Rightarrow> gasRelay \<Rightarrow> gasRelay" where
  "closing c r = (case closeConn c r of Ok r1 \<Rightarrow> r1 | _ \<Rightarrow> r)"

definition failReleasing :: "relay_env \<Rightarrow> str \<Rightarrow> pconn \<Rightarrow> gasRelay \<Rightarrow> 'a go \<times> gasRelay" where
  "failReleasing env e c r = (case releaseConn env c r of Ok r1 \<Rightarrow> (Err e, r1) | _ \<Rightarrow> (Panic, r))"

section \<open>One HTTP/1.1 request\<close>

definition gasPost :: "str \<Rightarrow> str \<Rightarrow> str \<Rightarrow> str" where
  "gasPost path host body =
     ''POST '' @ path @ '' HTTP/1.1'' @ crlf @ ''Host: '' @ host @ crlf @ ''Content-Type: application/json'' @ crlf @
     ''Content-Length: '' @ itoa (length body) @ crlf @ ''Accept-Encoding: gzip'' @ crlf @ ''Connection: keep-alive'' @ crlf @ crlf @ body"

text \<open>Getting the request onto a connection: the first connection, or a second one when the write fails. The
  result is the connection that \<open>conn\<close> holds; every error return releases it.\<close>

definition sendRequest :: "relay_env \<Rightarrow> gasRelay \<Rightarrow> pconn go \<times> gasRelay" where
  "sendRequest env r =
     (case acquireConn env r of
        (Ok c, r1) \<Rightarrow>
          (case writeConn env c r1 of
             (Ok _, r2) \<Rightarrow> (Ok c, r2)
           | (Err e, r2) \<Rightarrow>
               (case acquireConn env (closing c r2) of
                  (Ok c2, r3) \<Rightarrow>
                    (case writeConn env c2 r3 of
                       (Ok _, r4) \<Rightarrow> (Ok c2, r4)
                     | (Err e2, r4) \<Rightarrow> failReleasing env e2 c2 (closing c2 r4)
                     | (Panic, r4) \<Rightarrow> (Panic, r4))
                | (Err e2, r3) \<Rightarrow> failReleasing env e2 NilConn r3
                | (Panic, r3) \<Rightarrow> (Panic, r3))
           | (Panic, r2) \<Rightarrow> (Panic, r2))
      | (Err e, r1) \<Rightarrow> (Err e, r1)
      | (Panic, r1) \<Rightarrow> (Panic, r1))"

text \<open>Reading the answer, on a second connection when the first fails; the second one, once read, takes the
  place of the first, which otherwise is the one that is released.\<close>

definition readAnswer :: "relay_env \<Rightarrow> str \<Rightarrow> pconn \<Rightarrow> gasRelay \<Rightarrow> (int \<times> (str \<times> str) list \<times> str \<times> pconn) go \<times> gasRelay" where
  "readAnswer env req c r =
     (case readConn env req c r of
        (Ok (status, hs, body), r1) \<Rightarrow> (Ok (status, hs, body, c), r1)
      | (Err e, r1) \<Rightarrow>
          (case acquireConn env (closing c r1) of
             (Ok c2, r2) \<Rightarrow>
               (case writeConn env c2 r2 of
                  (Ok _, r3) \<Rightarrow>
                    (case readConn env req c2 r3 of
                       (Ok (status, hs, body), r4) \<Rightarrow> (Ok (status, hs, body, c2), r4)
                     | (Err e2, r4) \<Rightarrow> failReleasing env e2 c (closing c2 r4)
                     | (Panic, r4) \<Rightarrow> (Panic, r4))
                | (Err e2, r3) \<Rightarrow> failReleasing env e2 c (closing c2 r3)
                | (Panic, r3) \<Rightarrow> (Panic, r3))
           | (Err e2, r2) \<Rightarrow> failReleasing env e2 c r2
           | (Panic, r2) \<Rightarrow> (Panic, r2))
      | (Panic, r1) \<Rightarrow> (Panic, r1))"

fun relayHTTP1 :: "relay_env \<Rightarrow> nat \<Rightarrow> str \<Rightarrow> str \<Rightarrow> gasRelay \<Rightarrow> (str go \<times> gasRelay) option" where
  "relayHTTP1 env 0 path body r = None"
| "relayHTTP1 env (Suc fuel) path body r =
     (case sendRequest env r of
        (Ok c, r1) \<Rightarrow>
          (case readAnswer env (gasPost path (grHttpHost r1) body) c r1 of
             (Ok (status, hs, respBody, c2), r2) \<Rightarrow>
               (case releaseConn env c2 r2 of
                  Ok r3 \<Rightarrow>
                    if status \<ge> 300 \<and> status < 400 then
                      (let loc = (case map_of hs ''location'' of Some l \<Rightarrow> l | None \<Rightarrow> []) in
                       case (loc \<noteq> [], rcParseURL (reCodec env) loc) of
                         (True, Some u) \<Rightarrow>
                           relayHTTP1 env fuel (guPath u @ (if guQuery u \<noteq> [] then ''?'' @ guQuery u else [])) body r3
                       | _ \<Rightarrow> Some (Err (''unexpected redirect: '' @ itoaInt status), r3))
                    else Some (Ok respBody, r3)
                | _ \<Rightarrow> Some (Panic, r2))
           | (Err e, r2) \<Rightarrow> Some (Err e, r2)
           | (Panic, r2) \<Rightarrow> Some (Panic, r2))
      | (Err e, r1) \<Rightarrow> Some (Err e, r1)
      | (Panic, r1) \<Rightarrow> Some (Panic, r1))"

section \<open>Requests to the script\<close>

definition buildPayload :: "relay_codec \<Rightarrow> str \<Rightarrow> str \<Rightarrow> (str \<times> str) list \<Rightarrow> str \<Rightarrow> jobject" where
  "buildPayload cd method urlStr headers body =
     (let p = [(''m'', JStr method), (''u'', JStr urlStr), (''r'', JBool False), (''h'', JObj (map (\<lambda>(k, v). (k, JStr v)) headers))] in
      if length body > 0 then
        (let ct = headerValue (rcOrder cd) headers ''content-type'' in
         p @ [(''b'', JStr (rcEncode64 cd body))] @ (if ct \<noteq> [] then [(''ct'', JStr ct)] else []))
      else p)"

text \<open>\<open>fmt.Sprint(payload["u"])\<close>.\<close>

definition urlOf :: "relay_codec \<Rightarrow> jobject \<Rightarrow> str" where
  "urlOf cd payload = (case map_of payload ''u'' of Some (JStr u) \<Rightarrow> u | Some v \<Rightarrow> rcShow cd v | None \<Rightarrow> ''<nil>'')"

definition withKey :: "relay_env \<Rightarrow> gasRelay \<Rightarrow> jobject \<Rightarrow> str" where
  "withKey env r payload = rcMarshal (reCodec env) (AList.update ''k'' (JStr (grAuthKey r)) payload)"

definition parsed :: "relay_env \<Rightarrow> gasRelay \<Rightarrow> str \<Rightarrow> str" where
  "parsed env r body = parseRelayResponse (reCodec env) (grMaxRespBody r) body"

text \<open>The HTTP/1.1 part of \<open>relaySingle\<close>.\<close>

definition singleHTTP1 :: "relay_env \<Rightarrow> nat \<Rightarrow> str \<Rightarrow> str \<Rightarrow> gasRelay \<Rightarrow> (str go \<times> gasRelay) option" where
  "singleHTTP1 env fuel path jsonBody r =
     (case relayHTTP1 env fuel path jsonBody r of
        None \<Rightarrow> None
      | Some (Err e, r1) \<Rightarrow> Some (Err e, blacklistSID env path r1)
      | Some (Panic, r1) \<Rightarrow> Some (Panic, r1)
      | Some (Ok resp, r1) \<Rightarrow>
          if gasResponseBytesIsError (parsed env r1 resp) then
            (let (path2, r2) = retryWithNextScript path (blacklistSID env path r1) in
             case relayHTTP1 env fuel path2 jsonBody r2 of
               None \<Rightarrow> None
             | Some (Ok resp2, r3) \<Rightarrow> Some (Ok (parsed env r3 resp2), r3)
             | Some (e, r3) \<Rightarrow> Some (e, r3))
          else Some (Ok (parsed env r1 resp), r1))"

definition relaySingle :: "relay_env \<Rightarrow> nat \<Rightarrow> jobject \<Rightarrow> gasRelay \<Rightarrow> (str go \<times> gasRelay) option" where
  "relaySingle env fuel payload r =
     (let jsonBody = withKey env r payload; (path, r1) = execPath env (urlOf (reCodec env) payload) r in
      case h2Request env path jsonBody r1 of
        (Ok body, r2) \<Rightarrow>
          let resp = parsed env r2 body in
          if \<not> gasResponseBytesIsError resp then Some (Ok resp, r2)
          else
            let (path2, r3) = retryWithNextScript path (blacklistSID env path r2) in
            (case h2Request env path2 jsonBody (resetH2 env r3) of
               (Ok body2, r4) \<Rightarrow> Some (Ok (parsed env r4 body2), r4)
             | (_, r4) \<Rightarrow> singleHTTP1 env fuel path2 jsonBody r4)
      | (_, r2) \<Rightarrow> singleHTTP1 env fuel path jsonBody r2)"

section \<open>Batches\<close>

definition gasBatchMax :: nat where "gasBatchMax = 50"

text \<open>\<open>batchSubmit\<close>: the caller \<open>id\<close> waits for the answer on its channel. The result is the batch that is
  flushed at once, if the batch is full. \<open>batchFire\<close> is the timer.\<close>

definition batchSubmit :: "nat \<Rightarrow> jobject \<Rightarrow> gasRelay \<Rightarrow> (nat \<times> jobject) list \<times> gasRelay" where
  "batchSubmit caller payload r =
     (let pending = grBatchPending r @ [(caller, payload)] in
      if length pending \<ge> gasBatchMax then (pending, r\<lparr>grBatchPending := [], grBatchTimer := False\<rparr>)
      else ([], r\<lparr>grBatchPending := pending, grBatchTimer := True\<rparr>))"

definition batchFire :: "gasRelay \<Rightarrow> (nat \<times> jobject) list \<times> gasRelay" where
  "batchFire r = (grBatchPending r, r\<lparr>grBatchPending := [], grBatchTimer := False\<rparr>)"

definition parseBatchBody :: "relay_codec \<Rightarrow> nat \<Rightarrow> str \<Rightarrow> nat \<Rightarrow> str list go" where
  "parseBatchBody cd maxRespBody body expected =
     (let text = TrimSpace body in
      if gasLooksLikeHTMLError body then Err (''batch HTML error: '' @ gasTruncate text 200)
      else bind_go (rcUnmarshal cd text) (\<lambda>data.
        case map_of data ''e'' of
          Some e \<Rightarrow> Err (''batch error: '' @ rcShow cd e)
        | None \<Rightarrow>
            let mismatch = (\<lambda>n. Err (''batch size mismatch: got '' @ itoa n @ '', expected '' @ itoa expected)) in
            (case map_of data ''q'' of
               Some (JArr arr) \<Rightarrow>
                 if length arr \<noteq> expected then mismatch (length arr)
                 else Ok (concat (map (\<lambda>item. case item of JObj obj \<Rightarrow> [parseRelayJSON cd maxRespBody obj] | _ \<Rightarrow> []) arr))
             | _ \<Rightarrow> mismatch 0)))"

definition relayBatch :: "relay_env \<Rightarrow> nat \<Rightarrow> (nat \<times> jobject) list \<Rightarrow> gasRelay \<Rightarrow> (str list go \<times> gasRelay) option" where
  "relayBatch env fuel batch r =
     (let cd = reCodec env;
          jsonBody = rcMarshal cd [(''k'', JStr (grAuthKey r)), (''q'', JArr (map (\<lambda>(_, p). JObj p) batch))];
          (path, r1) = execPath env (case batch of [] \<Rightarrow> ''<nil>'' | (_, p) # _ \<Rightarrow> urlOf cd p) r;
          parse = (\<lambda>q body. parseBatchBody cd (grMaxRespBody q) body (length batch));
          http1 = (\<lambda>path q. case relayHTTP1 env fuel path jsonBody q of
             None \<Rightarrow> None
           | Some (Ok resp, q1) \<Rightarrow> Some (parse q1 resp, q1)
           | Some (Err e, q1) \<Rightarrow> Some (Err e, q1)
           | Some (Panic, q1) \<Rightarrow> Some (Panic, q1))
      in case h2Request env path jsonBody r1 of
           (Ok body, r2) \<Rightarrow>
             (case parse r2 body of
                Ok results \<Rightarrow> Some (Ok results, r2)
              | _ \<Rightarrow>
                  let (path2, r3) = retryWithNextScript path r2 in
                  (case h2Request env path2 jsonBody r3 of
                     (Ok body2, r4) \<Rightarrow> Some (parse r4 body2, r4)
                   | (_, r4) \<Rightarrow> http1 path2 r4))
         | (_, r2) \<Rightarrow> http1 path r2)"

text \<open>What \<open>flushBatch\<close> sends to the waiting callers, in order; \<open>True\<close> when it then panics on an index out of
  range of the results.\<close>

definition deliver :: "(nat \<times> jobject) list \<Rightarrow> str list \<Rightarrow> (nat \<times> str) list \<times> bool" where
  "deliver batch results = (zip (map fst batch) results, length results < length batch)"

definition flushBatch :: "relay_env \<Rightarrow> nat \<Rightarrow> (nat \<times> jobject) list \<Rightarrow> gasRelay \<Rightarrow> (((nat \<times> str) list \<times> bool) \<times> gasRelay) option" where
  "flushBatch env fuel batch r =
     (case batch of
        [(caller, payload)] \<Rightarrow>
          (case relaySingle env fuel payload r of
             None \<Rightarrow> None
           | Some (Ok resp, r1) \<Rightarrow> Some (([(caller, resp)], False), r1)
           | Some (Err e, r1) \<Rightarrow> Some (([(caller, gasErrorResponse 502 e)], False), r1)
           | Some (Panic, r1) \<Rightarrow> Some (([], True), r1))
      | _ \<Rightarrow>
          (case relayBatch env fuel batch r of
             None \<Rightarrow> None
           | Some (Ok results, r1) \<Rightarrow> Some (deliver batch results, r1)
           | Some (Err e, r1) \<Rightarrow> Some ((map (\<lambda>(caller, _). (caller, gasErrorResponse 502 e)) batch, False), r1)
           | Some (Panic, r1) \<Rightarrow> Some (([], True), r1)))"

section \<open>Equal requests\<close>

definition coalesceKey :: "relay_codec \<Rightarrow> str \<Rightarrow> (str \<times> str) list \<Rightarrow> str" where
  "coalesceKey cd urlStr headers =
     Join (urlStr # concat (map (\<lambda>name. let v = headerValue (rcOrder cd) headers name in if v \<noteq> [] then [name @ ''='' @ v] else [])
        [''accept'', ''accept-language'', ''user-agent'', ''sec-fetch-dest'', ''sec-fetch-mode'', ''sec-fetch-site''])) [CHR 0x0A]"

text \<open>\<open>tryCoalesce\<close> up to the point where the caller waits (\<open>True\<close>) or goes on to send the request, and the end
  of the call that sent it: its answer goes to everyone who waited.\<close>

definition coalesceEnter :: "str \<Rightarrow> nat \<Rightarrow> gasRelay \<Rightarrow> bool \<times> gasRelay" where
  "coalesceEnter key caller r =
     (case map_of (grCoalesce r) key of
        Some waiters \<Rightarrow> (True, r\<lparr>grCoalesce := AList.update key (waiters @ [caller]) (grCoalesce r)\<rparr>)
      | None \<Rightarrow> (False, r\<lparr>grCoalesce := AList.update key [] (grCoalesce r)\<rparr>))"

definition coalesceFinish :: "str \<Rightarrow> str \<Rightarrow> gasRelay \<Rightarrow> (nat \<times> str) list \<times> gasRelay" where
  "coalesceFinish key resp r =
     (map (\<lambda>caller. (caller, resp)) (case map_of (grCoalesce r) key of Some ws \<Rightarrow> ws | None \<Rightarrow> []),
      r\<lparr>grCoalesce := AList.delete key (grCoalesce r)\<rparr>)"

section \<open>How a request is sent\<close>

definition gasMaxPayloadSize :: nat where "gasMaxPayloadSize = 512 * 1024"

definition statefulHeaders :: "str list" where
  "statefulHeaders = [''cookie'', ''authorization'', ''proxy-authorization'', ''origin'', ''referer'', ''if-none-match'',
     ''if-modified-since'', ''cache-control'', ''pragma'']"

definition isStatefulRequest :: "relay_codec \<Rightarrow> str \<Rightarrow> str \<Rightarrow> (str \<times> str) list \<Rightarrow> str \<Rightarrow> bool" where
  "isStatefulRequest cd method0 urlStr headers body =
     (let method = ToUpper method0; hv = headerValue (rcOrder cd) headers in
      if method \<noteq> ''GET'' \<and> method \<noteq> ''HEAD'' then True
      else if length body > 0 then True
      else if \<exists>name \<in> set statefulHeaders. hv name \<noteq> [] then True
      else
        let accept = ToLower (hv ''accept'') in
        if Contains accept ''text/html'' \<or> Contains accept ''application/json'' then True
        else
          let fetchMode = ToLower (hv ''sec-fetch-mode'') in
          if fetchMode = ''navigate'' \<or> fetchMode = ''cors'' then True
          else \<not> gasIsStaticAsset cd urlStr)"

text \<open>The strategies of \<open>relayRequest\<close> in the order it tries them: a single request, a chunked download, merging
  with an equal request, a parallel request, a batch.\<close>

datatype send_how = SendSingle | SendChunked | SendMerged str | SendParallel | SendBatch

definition relayPlan :: "relay_codec \<Rightarrow> str \<Rightarrow> str \<Rightarrow> (str \<times> str) list \<Rightarrow> str \<Rightarrow> gasRelay \<Rightarrow> send_how list" where
  "relayPlan cd method urlStr headers body r =
     (if isStatefulRequest cd method urlStr headers body then [SendSingle]
      else if length body > gasMaxPayloadSize div 4 then [SendSingle]
      else
        let plainGet = (ToUpper method = ''GET'' \<and> length body = 0);
            range = headerValue (rcOrder cd) headers ''range'';
            key = coalesceKey cd urlStr headers;
            chunked = (if plainGet \<and> length (grScriptIDs r) > 1 \<and> range = [] \<and> gasIsLargeFileExt urlStr then [SendChunked] else []);
            useParallel = (plainGet \<and> grParallelNum r > 1 \<and> length (grScriptIDs r) > 1)
        in chunked @
           (if \<not> useParallel then (if plainGet \<and> range = [] then [SendMerged key] else []) @ [SendBatch]
            else [SendMerged key, SendParallel, SendBatch]))"

section \<open>Chunked downloads\<close>

definition chunkedMinSize :: int where "chunkedMinSize = 5 * 1024 * 1024"
definition chunkedMaxParallel :: int where "chunkedMaxParallel = 3"
definition chunkedChunkSize :: int where "chunkedChunkSize = 2 * 1024 * 1024"

definition chunkPlan :: "int \<Rightarrow> int \<times> int" where
  "chunkPlan cl =
     (let n0 = (cl + chunkedChunkSize - 1) div chunkedChunkSize;
          n1 = (if n0 > chunkedMaxParallel then chunkedMaxParallel else n0);
          s1 = cl div n1
      in if s1 < chunkedChunkSize then
           (let s2 = chunkedChunkSize; n2 = (cl + s2 - 1) div s2 in
            if n2 > chunkedMaxParallel then (chunkedMaxParallel, cl div chunkedMaxParallel) else (n2, s2))
         else (n1, s1))"

definition chunkRanges :: "int \<Rightarrow> (int \<times> int) list" where
  "chunkRanges cl =
     (let (n, sz) = chunkPlan cl in
      map (\<lambda>i. (i * sz, if i = n - 1 then cl - 1 else i * sz + sz - 1)) (map int [0..<nat n]))"

text \<open>The downloads of the chunks run as goroutines; here they run one after another, which decides nothing but
  the order in which they meet the outside world: the answer needs all of them. \<open>n\<close> is the number of
  scripts, \<open>base\<close> the index of the script that takes the first chunk.\<close>

fun fetchChunks ::
  "relay_env \<Rightarrow> nat \<Rightarrow> str \<Rightarrow> (str \<times> str) list \<Rightarrow> nat \<Rightarrow> (int \<times> int) list \<Rightarrow> gasRelay \<Rightarrow> (str list option go \<times> gasRelay) option" where
  "fetchChunks env fuel urlStr headers base [] r = Some (Ok (Some []), r)"
| "fetchChunks env fuel urlStr headers base ((start, stop) # ranges) r =
     (let sid = grScriptIDs r ! (base mod length (grScriptIDs r));
          hdrs = AList.update ''range'' (''bytes='' @ itoaInt start @ ''-'' @ itoaInt stop) headers;
          jsonBody = withKey env r (buildPayload (reCodec env) ''GET'' urlStr hdrs [])
      in case relayHTTP1 env fuel (''/macros/s/'' @ sid @ ''/exec'') jsonBody r of
           None \<Rightarrow> None
         | Some (Panic, r1) \<Rightarrow> Some (Panic, r1)
         | Some (res, r1) \<Rightarrow>
             (case fetchChunks env fuel urlStr headers (Suc base) ranges r1 of
                Some (Ok tail, r2) \<Rightarrow>
                  (case res of
                     Ok resp \<Rightarrow>
                       let p = parsed env r1 resp in
                       Some (Ok (if gasResponseBytesIsError p then None else map_option (\<lambda>ms. gasExtractBody p # ms) tail), r2)
                   | _ \<Rightarrow> Some (Ok None, r2))
              | other \<Rightarrow> other))"

text \<open>The result is \<open>Ok None\<close> where the code returns nil and the caller goes on to other strategies.\<close>

definition relayChunked ::
  "relay_env \<Rightarrow> nat \<Rightarrow> str \<Rightarrow> (str \<times> str) list \<Rightarrow> gasRelay \<Rightarrow> (str option go \<times> gasRelay) option" where
  "relayChunked env fuel urlStr headers r =
     (let cd = reCodec env; n = length (grScriptIDs r) in
      if n \<le> 1 then Some (Ok None, r)
      else case relaySingle env fuel (buildPayload cd ''HEAD'' urlStr headers []) r of
        None \<Rightarrow> None
      | Some (Err _, r1) \<Rightarrow> Some (Ok None, r1)
      | Some (Panic, r1) \<Rightarrow> Some (Panic, r1)
      | Some (Ok headResp, r1) \<Rightarrow>
          (case gasParseContentLength headResp of
             Ok cl \<Rightarrow>
               if cl \<le> chunkedMinSize then Some (Ok None, r1)
               else if headerValue (rcOrder cd) headers ''range'' \<noteq> [] then Some (Ok None, r1)
               else
                 let ranges = chunkRanges cl; base = grScriptIdx r1;
                     r2 = r1\<lparr>grScriptIdx := (base + length ranges) mod n\<rparr>
                 in (case fetchChunks env fuel urlStr headers base ranges r2 of
                       None \<Rightarrow> None
                     | Some (Ok None, r3) \<Rightarrow> Some (Ok None, r3)
                     | Some (Ok (Some chunks), r3) \<Rightarrow>
                         let full = concat chunks; ct = headerValue (rcOrder cd) headers ''content-type'' in
                         Some (Ok (Some (''HTTP/1.1 200 OK'' @ crlf @ ''Content-Length: '' @ itoa (length full) @ crlf @
                            (if ct \<noteq> [] then ''Content-Type: '' @ ct @ crlf else []) @ crlf @ full)), r3)
                     | Some (Err e, r3) \<Rightarrow> Some (Err e, r3)
                     | Some (Panic, r3) \<Rightarrow> Some (Panic, r3))
           | _ \<Rightarrow> Some (Panic, r1)))"

section \<open>The parallel relay\<close>

text \<open>One goroutine of \<open>relaySingleParallel\<close>.\<close>

definition parallelOne :: "relay_env \<Rightarrow> nat \<Rightarrow> str \<Rightarrow> str \<Rightarrow> gasRelay \<Rightarrow> (str go \<times> gasRelay) option" where
  "parallelOne env fuel jsonBody path r =
     (case relayHTTP1 env fuel path jsonBody r of
        None \<Rightarrow> None
      | Some (Ok resp, r1) \<Rightarrow>
          if gasResponseBytesIsError (parsed env r1 resp) then
            (let (path2, r2) = retryWithNextScript path r1 in
             case relayHTTP1 env fuel path2 jsonBody r2 of
               None \<Rightarrow> None
             | Some (Ok resp2, r3) \<Rightarrow> Some (Ok (parsed env r3 resp2), r3)
             | Some (e, r3) \<Rightarrow> Some (e, r3))
          else Some (Ok (parsed env r1 resp), r1)
      | Some (e, r1) \<Rightarrow> Some (e, r1))"

fun parallelAll :: "relay_env \<Rightarrow> nat \<Rightarrow> str \<Rightarrow> str list \<Rightarrow> gasRelay \<Rightarrow> (str go list \<times> gasRelay) option" where
  "parallelAll env fuel jsonBody [] r = Some ([], r)"
| "parallelAll env fuel jsonBody (path # paths) r =
     (case parallelOne env fuel jsonBody path r of
        None \<Rightarrow> None
      | Some (res, r1) \<Rightarrow> map_option (\<lambda>(rest, r2). (res # rest, r2)) (parallelAll env fuel jsonBody paths r1))"

text \<open>The loop that takes the results as they arrive.\<close>

fun firstSuccess :: "str \<Rightarrow> str go list \<Rightarrow> str go" where
  "firstSuccess lastErr [] = Err lastErr"
| "firstSuccess lastErr (Ok resp # _) = Ok resp"
| "firstSuccess lastErr (Err e # rest) = firstSuccess e rest"
| "firstSuccess lastErr (Panic # _) = Panic"

text \<open>\<open>arrival\<close> lists the goroutines in the order in which their results arrive; a crash in one of them is a crash
  of the program.\<close>

definition relaySingleParallel ::
  "relay_env \<Rightarrow> nat \<Rightarrow> nat list \<Rightarrow> jobject \<Rightarrow> nat \<Rightarrow> gasRelay \<Rightarrow> (str go \<times> gasRelay) option" where
  "relaySingleParallel env fuel arrival payload numParallel0 r =
     (let n = length (grScriptIDs r) in
      if n \<le> 1 \<or> numParallel0 \<le> 1 then relaySingle env fuel payload r
      else
        let numParallel = (if numParallel0 > n then n else numParallel0);
            jsonBody = withKey env r payload;
            base = (grScriptIdx r + 1) mod n;
            paths = map (\<lambda>i. ''/macros/s/'' @ (grScriptIDs r ! ((base + i) mod n)) @ ''/exec'') [0..<numParallel]
        in case parallelAll env fuel jsonBody paths (r\<lparr>grScriptIdx := (base + numParallel) mod n\<rparr>) of
             None \<Rightarrow> None
           | Some (results, r1) \<Rightarrow>
               if Panic \<in> set results then Some (Panic, r1)
               else Some (firstSuccess [] (map (\<lambda>i. results ! i) (filter (\<lambda>i. i < length results) arrival)), r1))"

section \<open>Statistics and life cycle\<close>

definition zeroStat :: gasHostStat where
  "zeroStat = \<lparr>hsRequests = 0, hsCacheHits = 0, hsBytes = 0, hsTotalLatencyNs = 0, hsErrors = 0\<rparr>"

text \<open>\<open>recordStats\<close>; Go's integer division truncates, latencies are not negative.\<close>

definition recordStats :: "relay_codec \<Rightarrow> str \<Rightarrow> int \<Rightarrow> int \<Rightarrow> bool \<Rightarrow> gasRelay \<Rightarrow> gasRelay" where
  "recordStats cd urlStr bodyLen latency errored r =
     (let ms = latency div 1000000;
          r1 = r\<lparr>grReqCount := grReqCount r + 1, grBwBytes := grBwBytes r + bodyLen, grLastLatency := ms\<rparr>;
          host = gasHostKey cd urlStr
      in if host = [] then r1
         else
           let s = (case map_of (grPerSite r1) host of Some s \<Rightarrow> s | None \<Rightarrow> zeroStat);
               s1 = s\<lparr>hsRequests := hsRequests s + 1, hsBytes := hsBytes s + bodyLen,
                      hsTotalLatencyNs := hsTotalLatencyNs s + latency, hsErrors := hsErrors s + (if errored then 1 else 0)\<rparr>
           in r1\<lparr>grPerSite := AList.update host s1 (grPerSite r1),
                 grLatencyAvg := (if grLatencyAvg r1 = 0 then ms else (grLatencyAvg r1 + ms) div 2)\<rparr>)"

definition closeAll :: "gasRelay \<Rightarrow> gasRelay go" where
  "closeAll r =
     (if NilConn \<in> fst ` set (grPool r) then Panic
      else Ok (r\<lparr>grClosed := [n. (Conn n, _) \<leftarrow> grPool r] @ grClosed r, grPool := []\<rparr>))"

definition closeRelay :: "gasRelay \<Rightarrow> gasRelay go" where
  "closeRelay r =
     (if grClosedDown r then Ok r
      else bind_go (closeAll (r\<lparr>grClosedDown := True\<rparr>)) (\<lambda>r1. Ok (r1\<lparr>grBlacklist := []\<rparr>)))"

definition restartRelay :: "gasRelay \<Rightarrow> gasRelay go" where
  "restartRelay r =
     bind_go (closeAll (r\<lparr>grH2Up := False, grH2FailCount := 0, grH2BackoffUntil := 0\<rparr>)) (\<lambda>r1.
       Ok (r1\<lparr>grBatchPending := [], grBatchTimer := False, grRelayFail := 0, grLastRelayOK := False, grBlacklist := []\<rparr>))"

definition pingRelay :: "relay_env \<Rightarrow> nat \<Rightarrow> gasRelay \<Rightarrow> gasRelay go option" where
  "pingRelay env fuel r =
     (let (path, r1) = execPath env ''ping'' r;
          jsonBody = rcMarshal (reCodec env) [(''k'', JStr (grAuthKey r)), (''m'', JStr ''GET''), (''u'', JStr ''https://ping/''), (''r'', JBool False)];
          good = (\<lambda>q. Some (Ok (q\<lparr>grLastRelayOK := True, grRelayFail := 0\<rparr>)));
          bad = (\<lambda>q. let q1 = q\<lparr>grRelayFail := Suc (grRelayFail q), grLastRelayOK := False\<rparr> in
             if grRelayFail q1 \<ge> 5 then Some (restartRelay q1) else Some (Ok (resetH2 env q1)))
      in case h2Request env path jsonBody r1 of
           (Ok _, r2) \<Rightarrow> good r2
         | (_, r2) \<Rightarrow>
             (case relayHTTP1 env fuel path jsonBody r2 of
                None \<Rightarrow> None
              | Some (Ok _, r3) \<Rightarrow> good r3
              | Some (Err _, r3) \<Rightarrow> bad r3
              | Some (Panic, r3) \<Rightarrow> Some Panic))"

section \<open>A whole request\<close>

text \<open>
  \<open>relayRequest\<close> runs the strategies of its plan until one of them answers or waits: \<open>Submitted\<close> with the batch it
  flushes, for the answer of its batch, \<open>Waiting\<close> for the answer to an equal request. \<open>timedOut\<close> says
  whether that second wait lasts thirty seconds. The flag is the code's \<open>errored\<close>.
\<close>

datatype relay_end = Replied str bool | Submitted "(nat \<times> jobject) list" bool | Waiting str

fun runPlan ::
  "relay_env \<Rightarrow> nat \<Rightarrow> nat list \<Rightarrow> bool \<Rightarrow> nat \<Rightarrow> jobject \<Rightarrow> str \<Rightarrow> (str \<times> str) list \<Rightarrow> bool \<Rightarrow> send_how list \<Rightarrow> gasRelay \<Rightarrow>
   (relay_end go \<times> gasRelay) option" where
  "runPlan env fuel arrival timedOut caller payload urlStr headers errored [] r = None"
| "runPlan env fuel arrival timedOut caller payload urlStr headers errored (SendSingle # _) r =
     (case relaySingle env fuel payload r of
        None \<Rightarrow> None
      | Some (Ok resp, r1) \<Rightarrow> Some (Ok (Replied resp False), r1)
      | Some (Err e, r1) \<Rightarrow> Some (Ok (Replied (gasErrorResponse 502 e) True), r1)
      | Some (Panic, r1) \<Rightarrow> Some (Panic, r1))"
| "runPlan env fuel arrival timedOut caller payload urlStr headers errored (SendChunked # plan) r =
     (case relayChunked env fuel urlStr headers r of
        None \<Rightarrow> None
      | Some (Ok (Some resp), r1) \<Rightarrow> Some (Ok (Replied resp False), r1)
      | Some (Panic, r1) \<Rightarrow> Some (Panic, r1)
      | Some (_, r1) \<Rightarrow> runPlan env fuel arrival timedOut caller payload urlStr headers errored plan r1)"
| "runPlan env fuel arrival timedOut caller payload urlStr headers errored (SendMerged key # plan) r =
     (case coalesceEnter key caller r of
        (True, r1) \<Rightarrow>
          if timedOut then runPlan env fuel arrival timedOut caller payload urlStr headers errored plan r1
          else Some (Ok (Waiting key), r1)
      | (False, r1) \<Rightarrow> let (flushed, r2) = batchSubmit caller payload r1 in Some (Ok (Submitted flushed errored), r2))"
| "runPlan env fuel arrival timedOut caller payload urlStr headers errored (SendParallel # plan) r =
     (case relaySingleParallel env fuel arrival payload (grParallelNum r) r of
        None \<Rightarrow> None
      | Some (Ok resp, r1) \<Rightarrow> Some (Ok (Replied resp False), r1)
      | Some (Err _, r1) \<Rightarrow> runPlan env fuel arrival timedOut caller payload urlStr headers True plan r1
      | Some (Panic, r1) \<Rightarrow> Some (Panic, r1))"
| "runPlan env fuel arrival timedOut caller payload urlStr headers errored (SendBatch # _) r =
     (let (flushed, r1) = batchSubmit caller payload r in Some (Ok (Submitted flushed errored), r1))"

text \<open>The deferred \<open>recordStats\<close> runs when the call returns: at once after \<open>Replied\<close>, with \<open>requestAnswered\<close> after a
  wait. The number it counts as bytes is the number of keys of the payload.\<close>

definition requestAnswered :: "relay_codec \<Rightarrow> jobject \<Rightarrow> str \<Rightarrow> int \<Rightarrow> bool \<Rightarrow> gasRelay \<Rightarrow> gasRelay" where
  "requestAnswered cd payload urlStr latency errored r = recordStats cd urlStr (int (length payload)) latency errored r"

definition relayRequest ::
  "relay_env \<Rightarrow> nat \<Rightarrow> nat list \<Rightarrow> bool \<Rightarrow> int \<Rightarrow> nat \<Rightarrow> str \<Rightarrow> str \<Rightarrow> (str \<times> str) list \<Rightarrow> str \<Rightarrow> gasRelay \<Rightarrow>
   (relay_end go \<times> gasRelay) option" where
  "relayRequest env fuel arrival timedOut latency caller method urlStr headers body r =
     (let cd = reCodec env; payload = buildPayload cd method urlStr headers body in
      case runPlan env fuel arrival timedOut caller payload urlStr headers False (relayPlan cd method urlStr headers body r) r of
        Some (Ok (Replied resp errored), r1) \<Rightarrow>
          Some (Ok (Replied resp errored), requestAnswered cd payload urlStr latency errored r1)
      | other \<Rightarrow> other)"

definition recordCacheHit :: "gasRelay \<Rightarrow> gasRelay" where
  "recordCacheHit r = r\<lparr>grCacheHits := grCacheHits r + 1\<rparr>"

definition recordCacheMiss :: "gasRelay \<Rightarrow> gasRelay" where
  "recordCacheMiss r = r\<lparr>grCacheMisses := grCacheMisses r + 1\<rparr>"

end
