(* ===== verification/GasTheorems.thy ===== *)
theory GasTheorems
  imports GasRelay
begin

text \<open>
  Properties of the GAS relay engine: the ranges of a chunked download make up the file, batches lose and
  reorder nothing, a failed redial leaves a nil connection in the pool that every later request trips over,
  requests for different ranges of a file are merged, and a keyed request falls back to a blacklisted script.
\<close>

section \<open>Chunks\<close>

lemma chunkPlan_large:
  assumes "chunkedMinSize < cl"
  shows "\<exists>sz. chunkPlan cl = (3, sz) \<and> 0 < sz \<and> 2 * sz < cl"
proof -
  have n: "(cl + 2097151) div 2097152 \<ge> 3" using assms by (simp add: chunkedMinSize_def)
  show ?thesis
  proof (cases "cl div 3 < 2097152")
    case True
    then have "(cl + 2097151) div 2097152 = 3" "(2097151 + cl) div 2097152 = 3" using n by linarith+
    then show ?thesis using True assms
      by (auto simp: chunkPlan_def chunkedMinSize_def chunkedChunkSize_def chunkedMaxParallel_def Let_def)
  next
    case False
    have "(2097151 + cl) div 2097152 = 3 \<or> 3 < (2097151 + cl) div 2097152" using n by (simp add: add.commute) linarith
    then show ?thesis using False assms
      by (auto simp: chunkPlan_def chunkedMinSize_def chunkedChunkSize_def chunkedMaxParallel_def Let_def)
  qed
qed

lemma chunkRanges_large:
  assumes "chunkedMinSize < cl"
  obtains sz where "0 < sz" "2 * sz < cl" "chunkRanges cl = [(0, sz - 1), (sz, 2 * sz - 1), (2 * sz, cl - 1)]"
proof -
  obtain sz where sz: "chunkPlan cl = (3, sz)" "0 < sz" "2 * sz < cl" using chunkPlan_large [OF assms] by blast
  have "chunkRanges cl = [(0, sz - 1), (sz, 2 * sz - 1), (2 * sz, cl - 1)]"
    by (simp add: chunkRanges_def sz(1) upt_rec numeral_eq_Suc)
  then show thesis using that sz(2,3) by blast
qed

definition rangeOf :: "'a list \<Rightarrow> int \<times> int \<Rightarrow> 'a list" where
  "rangeOf content ab = take (nat (snd ab - fst ab + 1)) (drop (nat (fst ab)) content)"

text \<open>C20: A chunked download covers its file. For every length above five megabytes the ranges asked for are
  three, each is non-empty and within the file, and the bytes at those ranges, joined in the order of
  the chunks, are the file.\<close>

theorem chunks_cover_file:
  assumes "chunkedMinSize < int (length content)"
  shows "concat (map (rangeOf content) (chunkRanges (int (length content)))) = content \<and>
     length (chunkRanges (int (length content))) = 3 \<and>
     (\<forall>(a, b) \<in> set (chunkRanges (int (length content))). 0 \<le> a \<and> a \<le> b \<and> b < int (length content))"
proof -
  let ?cl = "int (length content)"
  obtain sz where sz: "0 < sz" "2 * sz < ?cl" and r: "chunkRanges ?cl = [(0, sz - 1), (sz, 2 * sz - 1), (2 * sz, ?cl - 1)]"
    using chunkRanges_large [OF assms] by blast
  define k where "k = nat sz"
  have n: "nat sz = k" "nat (2 * sz) = k + k" "nat (?cl - 1 - 2 * sz + 1) = length content - (k + k)" using sz by (simp_all add: k_def nat_diff_distrib)
  have "take k content @ take k (drop k content) @ take (length content - (k + k)) (drop (k + k) content) = content"
    using append_take_drop_id [of k content] append_take_drop_id [of k "drop k content"] by simp
  then show ?thesis unfolding r using sz n by (simp add: rangeOf_def)
qed

theorem chunks_cover_file_witness:
  "concat (map (rangeOf (replicate 6000000 CHR ''x'')) (chunkRanges 6000000)) = replicate 6000000 CHR ''x''"
  using chunks_cover_file [of "replicate 6000000 CHR ''x''"] by (simp add: chunkedMinSize_def)

section \<open>Batches\<close>

datatype batch_op = BSubmit nat jobject | BFire

fun batch_step :: "batch_op \<Rightarrow> gasRelay \<Rightarrow> (nat \<times> jobject) list \<times> gasRelay" where
  "batch_step (BSubmit caller payload) r = batchSubmit caller payload r"
| "batch_step BFire r = batchFire r"

fun batch_run :: "batch_op list \<Rightarrow> gasRelay \<Rightarrow> (nat \<times> jobject) list list \<times> gasRelay" where
  "batch_run [] r = ([], r)"
| "batch_run (op # ops) r =
     (let (b, r1) = batch_step op r; (bs, r2) = batch_run ops r1 in (if b = [] then bs else b # bs, r2))"

fun submitted :: "batch_op list \<Rightarrow> (nat \<times> jobject) list" where
  "submitted [] = []"
| "submitted (BSubmit caller payload # ops) = (caller, payload) # submitted ops"
| "submitted (BFire # ops) = submitted ops"

lemma batch_run_accounts:
  "length (grBatchPending r) < gasBatchMax \<Longrightarrow> grBatchTimer r = (grBatchPending r \<noteq> []) \<Longrightarrow> batch_run ops r = (bs, r') \<Longrightarrow>
   concat bs @ grBatchPending r' = grBatchPending r @ submitted ops \<and> (\<forall>b \<in> set bs. 0 < length b \<and> length b \<le> gasBatchMax) \<and>
   length (grBatchPending r') < gasBatchMax \<and> grBatchTimer r' = (grBatchPending r' \<noteq> [])"
proof (induction ops arbitrary: r bs r')
  case (Cons op ops)
  obtain b r1 where s: "batch_step op r = (b, r1)" by fastforce
  obtain bs1 r2 where t: "batch_run ops r1 = (bs1, r2)" by fastforce
  have res: "bs = (if b = [] then bs1 else b # bs1)" "r' = r2" using Cons.prems(3) s t by auto
  have here: "b @ grBatchPending r1 = grBatchPending r @ submitted [op]" "length b \<le> gasBatchMax"
    "length (grBatchPending r1) < gasBatchMax" "grBatchTimer r1 = (grBatchPending r1 \<noteq> [])"
    using s Cons.prems(1,2) by (cases op; auto simp: batchSubmit_def batchFire_def gasBatchMax_def Let_def split: if_splits)+
  have sub: "submitted (op # ops) = submitted [op] @ submitted ops" by (cases op) auto
  have ih: "concat bs1 @ grBatchPending r2 = grBatchPending r1 @ submitted ops" "\<forall>b \<in> set bs1. 0 < length b \<and> length b \<le> gasBatchMax"
    "length (grBatchPending r2) < gasBatchMax" "grBatchTimer r2 = (grBatchPending r2 \<noteq> [])"
    using Cons.IH [OF here(3,4) t] by blast+
  have "concat bs @ grBatchPending r' = b @ grBatchPending r1 @ submitted ops" using res ih(1) by auto
  also have "\<dots> = grBatchPending r @ submitted (op # ops)" using here(1) sub by (metis append.assoc)
  finally show ?case using res here(2) ih by auto
qed simp

text \<open>Batching loses, repeats and reorders nothing. Whatever the sequence of submissions and timer runs from an
  engine with nothing pending, the flushed batches joined with what is still pending are the submissions
  in their order, every batch has one to fifty requests, and the timer runs exactly while something is
  pending.\<close>

theorem batches_partition_requests:
  assumes "grBatchPending r = []" and "\<not> grBatchTimer r" and "batch_run ops r = (bs, r')"
  shows "concat bs @ grBatchPending r' = submitted ops \<and> (\<forall>b \<in> set bs. 1 \<le> length b \<and> length b \<le> 50) \<and>
     (grBatchTimer r' \<longleftrightarrow> grBatchPending r' \<noteq> [])"
  using batch_run_accounts [OF _ _ assms(3)] assms(1,2) by (auto simp: gasBatchMax_def Suc_le_eq)

definition sampleGAS :: GASConfig where
  "sampleGAS = \<lparr>gaScriptID = [], gaScriptIDs = [''a'', ''b''], gaAuthKey = ''k'', gaGoogleIP = ''216.239.38.120'', gaFrontDomain = ''www.google.com'',
     gaFrontDomains = [], gaListenPort = 8085, gaListenHost = [], gaLANSharing = False, gaVerifySSL = True, gaLogLevel = ''INFO'', gaRelayTimeout = 25,
     gaTLSConnectTimeout = 15, gaMaxResponseBody = 0, gaEnabled = True, gaRunning = True, gaLastGoogleIP = [], gaConnectionLatency = 0,
     gaRequestCount = 0, gaBandwidthBytes = 0, gaCacheHits = 0, gaCacheMisses = 0, gaCurrentScriptID = [], gaExcludeGoogleServices = False,
     gaSNIRewrite = False, gaTraceMode = False, gaLanIPs = [], gaAutoFailoverEnabled = True, gaFailoverThreshold = 3, gaFailoverInterval = 60,
     gaRotateFrontDomain = False, gaRotateInterval = 300, gaProxyAppsEnabled = False, gaProxyAppList = [], gaHealth = [], gaRelayFailures = 0\<rparr>"

theorem batches_partition_requests_witness:
  "\<exists>bs r'. batch_run [BSubmit 1 [], BSubmit 2 [], BFire, BSubmit 3 []] (newGASRelay sampleGAS) = (bs, r') \<and>
     concat bs @ grBatchPending r' = [(1, []), (2, []), (3, [])]"
proof -
  obtain bs r' where run: "batch_run [BSubmit 1 [], BSubmit 2 [], BFire, BSubmit 3 []] (newGASRelay sampleGAS) = (bs, r')" by fastforce
  have "grBatchPending (newGASRelay sampleGAS) = []" "\<not> grBatchTimer (newGASRelay sampleGAS)" by (simp_all add: newGASRelay_def)
  from batches_partition_requests [OF this run] run show ?thesis by simp
qed

definition json_object :: "json \<Rightarrow> bool" where
  "json_object j = (case j of JObj _ \<Rightarrow> True | _ \<Rightarrow> False)"

definition answerOf :: "relay_codec \<Rightarrow> nat \<Rightarrow> json \<Rightarrow> str" where
  "answerOf cd cap item = (case item of JObj obj \<Rightarrow> parseRelayJSON cd cap obj | _ \<Rightarrow> [])"

lemma parseBatchBody_OkD:
  assumes "parseBatchBody cd cap body n = Ok results"
  shows "\<exists>arr. length arr = n \<and> results = map (answerOf cd cap) (filter json_object arr)"
proof -
  have "concat (map (\<lambda>item. case item of JObj obj \<Rightarrow> [parseRelayJSON cd cap obj] | _ \<Rightarrow> []) arr) =
      map (answerOf cd cap) (filter json_object arr)" for arr
    by (induction arr) (auto simp: json_object_def answerOf_def split: json.splits)
  then show ?thesis using assms
    by (auto simp: parseBatchBody_def bind_go_Ok_iff Let_def split: if_splits option.splits json.splits)
qed

lemma h2Request_cap [simp]: "grMaxRespBody (snd (h2Request env path body r)) = grMaxRespBody r"
  by (auto simp: h2Request_def ensureH2_def resetH2_def tick_def Let_def split: h2_out.split)

text \<open>Every result of a batch request was read from an answer with one item per request.\<close>

lemma relayBatch_OkD:
  assumes "relayBatch env fuel batch r = Some (Ok results, r1)"
  shows "\<exists>arr cap. length arr = length batch \<and> results = map (answerOf (reCodec env) cap) (filter json_object arr)"
proof -
  have "\<exists>cap body. parseBatchBody (reCodec env) cap body (length batch) = Ok results"
    using assms by (auto simp: relayBatch_def Let_def split: prod.splits go.splits option.splits)
  then show ?thesis using parseBatchBody_OkD by blast
qed

text \<open>When a batch of two or more requests is answered with a list of as many items, every caller gets exactly
  one response, made from the item at its own position, provided all items are objects; if one of them is
  not, the process panics before every caller has an answer.\<close>

theorem flushBatch_answers:
  assumes "2 \<le> length batch" and "relayBatch env fuel batch r = Some (Ok results, r1)"
  shows "\<exists>arr cap. length arr = length batch \<and>
     (if \<forall>item \<in> set arr. json_object item
      then flushBatch env fuel batch r = Some ((zip (map fst batch) (map (answerOf (reCodec env) cap) arr), False), r1)
      else \<exists>acts. flushBatch env fuel batch r = Some ((acts, True), r1) \<and> length acts < length batch)"
proof -
  obtain arr cap where arr: "length arr = length batch" "results = map (answerOf (reCodec env) cap) (filter json_object arr)"
    using relayBatch_OkD [OF assms(2)] by blast
  have run: "flushBatch env fuel batch r = Some (deliver batch results, r1)"
    using assms by (auto simp: flushBatch_def split: list.splits)
  show ?thesis
  proof (cases "\<forall>item \<in> set arr. json_object item")
    case True
    then have "results = map (answerOf (reCodec env) cap) arr" using arr(2) by (simp add: filter_True)
    then show ?thesis using True run arr(1) by (intro exI [of _ arr] exI [of _ cap]) (simp add: deliver_def)
  next
    case False
    then have "length (filter json_object arr) < length arr" by (auto intro: length_filter_less)
    then have "length results < length batch" using arr by simp
    then show ?thesis using False run arr(1) by (intro exI [of _ arr] exI [of _ cap]) (auto simp: deliver_def)
  qed
qed

section \<open>The pool of connections\<close>

lemma nil_in_pool:
  assumes "grPool r = es @ [(NilConn, t)]"
  shows "fst (acquireConn env r) = Panic" and "restartRelay r = Panic"
  using assms by (auto simp: acquireConn_def closeConn_def restartRelay_def closeAll_def Let_def)

lemma acquire_empty: "grPool r = [] \<Longrightarrow> acquireConn env r = dialConn env r"
proof -
  assume "grPool r = []"
  moreover from this have "r\<lparr>grPool := []\<rparr> = r" by simp
  ultimately show ?thesis by (simp only: acquireConn_def rev.simps acquireLoop.simps)
qed

lemma dialConn_ok:
  assumes "reDial env (grTick r) = None" and "reTLS env (Suc (grTick r)) = None"
  shows "\<exists>r1. dialConn env r = (Ok (Conn (grNextConn r)), r1) \<and> grTick r1 = grTick r + 2 \<and> grPool r1 = grPool r \<and> grClosed r1 = grClosed r"
  using assms by (auto simp: dialConn_def nextSNI_def tick_def Let_def)

text \<open>An HTTP/1.1 request that dials a connection, cannot write on it and then cannot dial a second one returns
  the error, and leaves a nil connection in the pool: from then on every request that looks for a
  connection panics, and so does the restart that the failing heartbeat would do.\<close>

theorem failed_redial_poisons_pool:
  assumes "grPool r = []" and "grNextConn r \<notin> set (grClosed r)"
    and "reDial env (grTick r) = None" and "reTLS env (Suc (grTick r)) = None"
    and "reWrite env (grTick r + 2) (grNextConn r) = Some e1" and "reDial env (grTick r + 3) = Some e2"
  shows "\<exists>r'. relayHTTP1 env (Suc fuel) path body r = Some (Err e2, r') \<and>
     (\<forall>env'. fst (acquireConn env' r') = Panic) \<and> restartRelay r' = Panic"
proof -
  let ?n = "grNextConn r"
  obtain r1 where d: "dialConn env r = (Ok (Conn ?n), r1)" "grTick r1 = grTick r + 2" "grPool r1 = []" "grClosed r1 = grClosed r"
    using dialConn_ok [OF assms(3,4)] assms(1) by auto
  have a1: "acquireConn env r = (Ok (Conn ?n), r1)" using assms(1) d(1) by (simp add: acquire_empty)
  have w: "writeConn env (Conn ?n) r1 = (Err e1, tick r1)" using assms(2,5) d(2,4) by (simp add: writeConn_def)
  let ?r2 = "closing (Conn ?n) (tick r1)"
  have r2: "grTick ?r2 = grTick r + 3" "grPool ?r2 = []" using d by (simp_all add: closing_def closeConn_def tick_def)
  have a2: "acquireConn env ?r2 = (Err e2, tick ?r2)"
    using assms(6) r2 by (simp add: acquire_empty dialConn_def Let_def)
  let ?r3 = "tick ?r2\<lparr>grPool := [(NilConn, clock env (tick ?r2))]\<rparr>"
  have "sendRequest env r = (Err e2, ?r3)"
    using a1 w a2 r2(2) by (simp add: sendRequest_def failReleasing_def releaseConn_def tick_def)
  then have "relayHTTP1 env (Suc fuel) path body r = Some (Err e2, ?r3)" by simp
  moreover have "grPool ?r3 = [] @ [(NilConn, clock env (tick ?r2))]" by simp
  ultimately show ?thesis using nil_in_pool [of ?r3 "[]"] by blast
qed

text \<open>A world in which the first write fails and the network then goes down.\<close>

definition sampleRelayEnv :: relay_env where
  "sampleRelayEnv = \<lparr>reCodec = sampleCodec, reNow = \<lambda>t. int t, reSha = \<lambda>_. 1, reH2Do = \<lambda>_ _ _. H2Failed [],
     reDial = \<lambda>t. if t = 0 then None else Some ''no route'', reTLS = \<lambda>_. None, rePeek = \<lambda>_ _. False,
     reWrite = \<lambda>_ _. Some ''broken pipe'', reReply = \<lambda>_ _ _. []\<rparr>"

theorem failed_redial_poisons_pool_witness:
  "\<exists>r'. relayHTTP1 sampleRelayEnv 1 ''/p'' [] (newGASRelay sampleGAS) = Some (Err ''no route'', r') \<and>
     fst (acquireConn sampleRelayEnv r') = Panic"
proof -
  have "\<exists>r'. relayHTTP1 sampleRelayEnv (Suc 0) ''/p'' [] (newGASRelay sampleGAS) = Some (Err ''no route'', r') \<and>
      (\<forall>env'. fst (acquireConn env' r') = Panic) \<and> restartRelay r' = Panic"
    by (rule failed_redial_poisons_pool [where ?e1.0 = "''broken pipe''"]) (simp_all add: newGASRelay_def sampleRelayEnv_def)
  then show ?thesis by auto
qed

section \<open>Merged requests\<close>

definition withRange :: "str \<Rightarrow> (str \<times> str) list \<Rightarrow> (str \<times> str) list" where
  "withRange v headers = AList.update ''range'' v headers"

lemma withRange_keys: "map fst (withRange v headers) = map fst (withRange w headers)"
  unfolding withRange_def by (induction headers) auto

lemma headerValue_range:
  assumes "name \<noteq> ''range''"
  shows "headerValue ord (withRange v headers) name = headerValue ord (withRange w headers) name"
proof -
  have lower: "ToLower ''range'' = ''range''" by code_simp
  have same: "map_of (withRange v headers) k = map_of (withRange w headers) k" if "ToLower k = name" for k
    using that assms lower by (auto simp: withRange_def update_conv)
  show ?thesis
  proof (cases "find (\<lambda>k. ToLower k = name) (ord (map fst (withRange w headers)))")
    case (Some k)
    then have "ToLower k = name" by (auto simp: find_Some_iff)
    then show ?thesis using Some same unfolding headerValue_def withRange_keys [of v headers w] by simp
  qed (simp add: headerValue_def withRange_keys [of v headers w])
qed

lemma same_key:
  "coalesceKey cd url (withRange v headers) = coalesceKey cd url (withRange w headers)"
proof -
  let ?names = "[''accept'', ''accept-language'', ''user-agent'', ''sec-fetch-dest'', ''sec-fetch-mode'', ''sec-fetch-site'']"
  have "\<forall>name \<in> set ?names. headerValue (rcOrder cd) (withRange v headers) name = headerValue (rcOrder cd) (withRange w headers) name"
    by (intro ballI headerValue_range) auto
  then have "map (\<lambda>name. let x = headerValue (rcOrder cd) (withRange v headers) name in if x \<noteq> [] then [name @ ''='' @ x] else []) ?names =
      map (\<lambda>name. let x = headerValue (rcOrder cd) (withRange w headers) name in if x \<noteq> [] then [name @ ''='' @ x] else []) ?names"
    by (intro map_cong refl) (simp only:)
  then show ?thesis unfolding coalesceKey_def by (simp only:)
qed

lemma same_state:
  "isStatefulRequest cd m url (withRange v headers) body = isStatefulRequest cd m url (withRange w headers) body"
proof -
  have "\<forall>name \<in> set statefulHeaders. headerValue (rcOrder cd) (withRange v headers) name = headerValue (rcOrder cd) (withRange w headers) name"
    by (intro ballI headerValue_range) (auto simp: statefulHeaders_def)
  moreover have "headerValue (rcOrder cd) (withRange v headers) ''accept'' = headerValue (rcOrder cd) (withRange w headers) ''accept''"
    "headerValue (rcOrder cd) (withRange v headers) ''sec-fetch-mode'' = headerValue (rcOrder cd) (withRange w headers) ''sec-fetch-mode''"
    by (intro headerValue_range; simp)+
  ultimately show ?thesis by (simp add: isStatefulRequest_def Let_def)
qed

text \<open>The strategies for a request that carries a range.\<close>

lemma ranged_plan:
  assumes "1 < length (grScriptIDs r)" and "1 < grParallelNum r" and "\<not> isStatefulRequest cd ''GET'' url headers []"
    and "headerValue (rcOrder cd) headers ''range'' \<noteq> []"
  shows "relayPlan cd ''GET'' url headers [] r = [SendMerged (coalesceKey cd url headers), SendParallel, SendBatch]"
proof -
  have "ToUpper ''GET'' = ''GET''" by code_simp
  then show ?thesis using assms by (simp add: relayPlan_def Let_def)
qed

text \<open>With two or more scripts, two requests for different ranges of the same static file are merged: the first
  is queued for a batch and never reaches the parallel relay, the second finds the key of the first,
  waits, and is given the first one's response, the bytes of another range.\<close>

theorem different_ranges_merged:
  assumes "1 < length (grScriptIDs r)" and "1 < grParallelNum r" and "map_of (grCoalesce r) key = None"
    and "\<not> isStatefulRequest (reCodec env) ''GET'' url (withRange v headers) []" and "key = coalesceKey (reCodec env) url (withRange v headers)"
    and "headerValue (rcOrder (reCodec env)) (withRange v headers) ''range'' \<noteq> []"
    and "headerValue (rcOrder (reCodec env)) (withRange w headers) ''range'' \<noteq> []"
  shows "\<exists>flushed r1 r2.
     relayRequest env fuel arrival False latency a ''GET'' url (withRange v headers) [] r = Some (Ok (Submitted flushed False), r1) \<and>
     relayRequest env fuel arrival False latency b ''GET'' url (withRange w headers) [] r1 = Some (Ok (Waiting key), r2) \<and>
     fst (coalesceFinish key resp r2) = [(b, resp)]"
proof -
  let ?cd = "reCodec env"
  have "\<not> isStatefulRequest ?cd ''GET'' url (withRange w headers) []" using assms(4) same_state by blast
  moreover have "key = coalesceKey ?cd url (withRange w headers)" using assms(5) same_key by blast
  ultimately have second: "relayPlan ?cd ''GET'' url (withRange w headers) [] q = [SendMerged key, SendParallel, SendBatch]"
    if "1 < length (grScriptIDs q)" "1 < grParallelNum q" for q using ranged_plan [OF that] assms(7) by simp
  have first: "relayPlan ?cd ''GET'' url (withRange v headers) [] r = [SendMerged key, SendParallel, SendBatch]"
    using ranged_plan [OF assms(1,2,4,6)] assms(5) by simp
  let ?p = "buildPayload ?cd ''GET'' url (withRange v headers) []"
  obtain r0 where r0: "coalesceEnter key a r = (False, r0)" "map_of (grCoalesce r0) key = Some []"
    "grScriptIDs r0 = grScriptIDs r" "grParallelNum r0 = grParallelNum r"
    using assms(3) by (simp add: coalesceEnter_def update_conv)
  obtain flushed r1 where r1: "batchSubmit a ?p r0 = (flushed, r1)" by fastforce
  then have keep: "grCoalesce r1 = grCoalesce r0" "grScriptIDs r1 = grScriptIDs r0" "grParallelNum r1 = grParallelNum r0"
    by (auto simp: batchSubmit_def Let_def split: if_splits)
  have "relayRequest env fuel arrival False latency a ''GET'' url (withRange v headers) [] r = Some (Ok (Submitted flushed False), r1)"
    using first r0(1) r1 by (simp add: relayRequest_def Let_def)
  moreover obtain r2 where r2: "coalesceEnter key b r1 = (True, r2)" "map_of (grCoalesce r2) key = Some [b]"
    using keep(1) r0(2) by (simp add: coalesceEnter_def update_conv)
  moreover have "relayRequest env fuel arrival False latency b ''GET'' url (withRange w headers) [] r1 = Some (Ok (Waiting key), r2)"
    using second [of r1] keep r0 assms(1,2) r2(1) by (simp add: relayRequest_def Let_def)
  moreover have "fst (coalesceFinish key resp r2) = [(b, resp)]" using r2(2) by (simp add: coalesceFinish_def)
  ultimately show ?thesis by blast
qed

theorem different_ranges_merged_witness:
  "\<exists>env flushed r1 r2.
     relayRequest env 1 [0, 1] False 5 1 ''GET'' ''https://v/a.mp4'' (withRange ''bytes=0-9'' []) [] (newGASRelay sampleGAS)
       = Some (Ok (Submitted flushed False), r1) \<and>
     relayRequest env 1 [0, 1] False 5 2 ''GET'' ''https://v/a.mp4'' (withRange ''bytes=10-19'' []) [] r1
       = Some (Ok (Waiting ''https://v/a.mp4''), r2) \<and> fst (coalesceFinish ''https://v/a.mp4'' ''bytes 0-9'' r2) = [(2, ''bytes 0-9'')]"
proof -
  let ?cd = "sampleCodec\<lparr>rcParseURL := \<lambda>_. Some \<lparr>guPath = ''/a.mp4'', guQuery = [], guHostname = ''v''\<rparr>\<rparr>"
  let ?env = "sampleRelayEnv\<lparr>reCodec := ?cd\<rparr>"
  have cd: "reCodec ?env = ?cd" by simp
  have scripts: "1 < length (grScriptIDs (newGASRelay sampleGAS))" "1 < grParallelNum (newGASRelay sampleGAS)"
    "map_of (grCoalesce (newGASRelay sampleGAS)) ''https://v/a.mp4'' = None" by (simp_all add: newGASRelay_def sampleGAS_def)
  have state: "\<not> isStatefulRequest (reCodec ?env) ''GET'' ''https://v/a.mp4'' (withRange ''bytes=0-9'' []) []"
    unfolding cd by code_simp
  have key: "''https://v/a.mp4'' = coalesceKey (reCodec ?env) ''https://v/a.mp4'' (withRange ''bytes=0-9'' [])" unfolding cd by code_simp
  have ranges: "headerValue (rcOrder (reCodec ?env)) (withRange ''bytes=0-9'' []) ''range'' \<noteq> []"
    "headerValue (rcOrder (reCodec ?env)) (withRange ''bytes=10-19'' []) ''range'' \<noteq> []" unfolding cd by code_simp+
  show ?thesis using different_ranges_merged [OF scripts state key ranges] by blast
qed

section \<open>Blacklisted scripts\<close>

lemma scriptLoop_keyed:
  assumes "key \<noteq> []" and "map_of (grBlacklist r) (grScriptIDs r ! (reSha env key mod length (grScriptIDs r))) = Some t" and "clock env r \<le> t"
  shows "scriptLoop env key n r = (grScriptIDs r ! 0, r)"
  using assms by (induction n) (simp_all add: Let_def)

text \<open>The choice of a script by host looks at one script only. Once the script that a host hashes to is
  blacklisted, every request for that host goes to the first script until the entry expires, also when
  that one is blacklisted too and another script is not.\<close>

theorem keyed_script_ignores_blacklist:
  assumes "1 < length (grScriptIDs r)" and "key \<noteq> []"
    and "map_of (grBlacklist r) (grScriptIDs r ! (reSha env key mod length (grScriptIDs r))) = Some t1" and "clock env r \<le> t1"
    and "map_of (grBlacklist r) (grScriptIDs r ! 0) = Some t0" and "clock env r \<le> t0"
  shows "\<exists>sid t. scriptIDForKey env key r = (sid, r) \<and> map_of (grBlacklist r) sid = Some t \<and> clock env r \<le> t"
  using assms scriptLoop_keyed [OF assms(2,3,4)] by (simp add: scriptIDForKey_def)

theorem keyed_script_ignores_blacklist_witness:
  "\<exists>sid t. scriptIDForKey (sampleRelayEnv\<lparr>reSha := \<lambda>_. 0\<rparr>) ''example.org'' (newGASRelay sampleGAS\<lparr>grBlacklist := [(''a'', 600)]\<rparr>)
      = (sid, newGASRelay sampleGAS\<lparr>grBlacklist := [(''a'', 600)]\<rparr>) \<and> sid = ''a''"
proof -
  let ?r = "newGASRelay sampleGAS\<lparr>grBlacklist := [(''a'', 600)]\<rparr>" and ?env = "sampleRelayEnv\<lparr>reSha := \<lambda>_. 0\<rparr>"
  have f: "1 < length (grScriptIDs ?r)" "map_of (grBlacklist ?r) (grScriptIDs ?r ! (reSha ?env ''example.org'' mod length (grScriptIDs ?r))) = Some 600"
    "clock ?env ?r \<le> 600" "map_of (grBlacklist ?r) (grScriptIDs ?r ! 0) = Some 600"
    by (simp_all add: newGASRelay_def sampleGAS_def sampleRelayEnv_def clock_def)
  obtain sid t where "scriptIDForKey ?env ''example.org'' ?r = (sid, ?r)" "map_of (grBlacklist ?r) sid = Some t"
    using keyed_script_ignores_blacklist [OF f(1) _ f(2,3,4,3)] by auto
  then show ?thesis by (auto split: if_splits)
qed

definition batchEnv :: "json list \<Rightarrow> relay_env" where
  "batchEnv arr = sampleRelayEnv\<lparr>reH2Do := \<lambda>_ _ _. H2Body ''{}'', reCodec := sampleCodec\<lparr>rcUnmarshal := \<lambda>_. Ok [(''q'', JArr arr)]\<rparr>\<rparr>"

text \<open>Two requests, of which the script answers the second with null.\<close>

theorem flushBatch_answers_witness:
  "\<exists>acts crash r1. flushBatch (batchEnv [JObj [], JNull]) 1 [(7, []), (8, [])] (newGASRelay sampleGAS) = Some ((acts, crash), r1) \<and>
     length acts \<le> 2"
proof -
  let ?env = "batchEnv [JObj [], JNull]" and ?b = "[(7 :: nat, [] :: jobject), (8, [])]" and ?r = "newGASRelay sampleGAS"
  obtain path r1 where e: "execPath ?env ''<nil>'' ?r = (path, r1)" by fastforce
  have r1: "\<not> grH2Up r1" "grH2BackoffUntil r1 = 0" "grTick r1 = 0"
    using e by (auto simp: execPath_def scriptIDForKey_def newGASRelay_def sampleGAS_def batchEnv_def sampleRelayEnv_def Let_def
        split: prod.splits option.splits if_splits)
  have "h2Request ?env path body r1 = (Ok ''{}'', tick (r1\<lparr>grH2Up := True\<rparr>)\<lparr>grH2FailCount := 0, grH2BackoffUntil := 0\<rparr>)" for body
    using r1 by (simp add: h2Request_def h2BackoffLeft_def ensureH2_def clock_def batchEnv_def sampleRelayEnv_def tick_def Let_def)
  moreover have "parseBatchBody (reCodec ?env) cap ''{}'' (Suc (Suc 0)) = Ok [parseRelayJSON (reCodec ?env) cap []]" for cap
    by (simp add: parseBatchBody_def gasLooksLikeHTMLError_def batchEnv_def)
  ultimately obtain results r2 where "relayBatch ?env 1 ?b ?r = Some (Ok results, r2)"
    using e by (auto simp: relayBatch_def urlOf_def Let_def)
  moreover have "2 \<le> length ?b" by simp
  ultimately obtain arr cap where "length arr = length ?b"
    "if \<forall>item \<in> set arr. json_object item
     then flushBatch ?env 1 ?b ?r = Some ((zip (map fst ?b) (map (answerOf (reCodec ?env) cap) arr), False), r2)
     else \<exists>acts. flushBatch ?env 1 ?b ?r = Some ((acts, True), r2) \<and> length acts < length ?b"
    using flushBatch_answers [of ?b ?env 1 ?r results r2] by blast
  then show ?thesis
    by (cases "\<forall>item \<in> set arr. json_object item") (auto intro: order.strict_implies_order)
qed

end
