(* ===== verification/GasInvariant.thy ===== *)
theory GasInvariant
  imports GasTheorems
begin

text \<open>
  The invariant of the GAS relay engine and the end of its HTTP/1.1 requests. Every operation of the engine keeps the
  address it connects to, its scripts and an index within them, and moves its clock forward only; a request ends unless
  it is redirected for ever.
\<close>

definition relay_inv :: "str \<Rightarrow> str list \<Rightarrow> nat \<Rightarrow> gasRelay \<Rightarrow> bool" where
  "relay_inv h s n r = (grConnectHost r = h \<and> grScriptIDs r = s \<and> n \<le> grTick r \<and> (s = [] \<or> grScriptIdx r < length s))"

lemma relay_inv_fields [simp]:
  "relay_inv h s n (r\<lparr>grPool := p\<rparr>) = relay_inv h s n r" "relay_inv h s n (r\<lparr>grClosed := c\<rparr>) = relay_inv h s n r"
  "relay_inv h s n (r\<lparr>grNextConn := k\<rparr>) = relay_inv h s n r" "relay_inv h s n (r\<lparr>grSniIdx := w\<rparr>) = relay_inv h s n r"
  "relay_inv h s n (r\<lparr>grH2Up := b\<rparr>) = relay_inv h s n r" "relay_inv h s n (r\<lparr>grH2FailCount := k\<rparr>) = relay_inv h s n r"
  "relay_inv h s n (r\<lparr>grH2BackoffUntil := t\<rparr>) = relay_inv h s n r" "relay_inv h s n (r\<lparr>grBlacklist := bl\<rparr>) = relay_inv h s n r"
  "relay_inv h s n (r\<lparr>grBatchPending := q\<rparr>) = relay_inv h s n r" "relay_inv h s n (r\<lparr>grBatchTimer := b\<rparr>) = relay_inv h s n r"
  "relay_inv h s n (r\<lparr>grCoalesce := co\<rparr>) = relay_inv h s n r" "relay_inv h s n (r\<lparr>grRelayFail := k\<rparr>) = relay_inv h s n r"
  "relay_inv h s n (r\<lparr>grLastRelayOK := b\<rparr>) = relay_inv h s n r"
  "relay_inv h s n r \<Longrightarrow> relay_inv h s n (tick r)"
  by (simp_all add: relay_inv_def tick_def)

lemma relay_inv_script: "relay_inv h s n r \<Longrightarrow> i < length s \<Longrightarrow> relay_inv h s n (r\<lparr>grScriptIdx := i\<rparr>)"
  by (simp add: relay_inv_def)

definition keeps :: "gasRelay \<Rightarrow> gasRelay \<Rightarrow> bool" where
  "keeps r r1 = (\<forall>h s n. relay_inv h s n r \<longrightarrow> relay_inv h s n r1)"

lemma keepsD: "keeps r r1 \<Longrightarrow> relay_inv h s n r \<Longrightarrow> relay_inv h s n r1"
  by (simp add: keeps_def)

section \<open>Connections\<close>

lemma keeps_nextSNI: "nextSNI r = (x, r1) \<Longrightarrow> keeps r r1"
  by (auto simp: nextSNI_def Let_def keeps_def split: if_splits)

lemma keeps_dialConn: "dialConn env r = (x, r1) \<Longrightarrow> keeps r r1"
  by (auto simp: dialConn_def Let_def keeps_def split: option.splits prod.splits dest!: keeps_nextSNI)

lemma keeps_closeConn: "closeConn c r = Ok r1 \<Longrightarrow> keeps r r1"
  by (auto simp: closeConn_def keeps_def split: pconn.splits)

lemma relay_inv_closing [simp]: "relay_inv h s n (closing c r) = relay_inv h s n r"
  by (simp add: closing_def closeConn_def split: pconn.split)

lemma keeps_acquireLoop: "acquireLoop env es r = (x, r1) \<Longrightarrow> keeps r r1"
proof (induction env es r rule: acquireLoop.induct)
  case (2 env c created rest r)
  then show ?case by (auto simp: Let_def keeps_def split: if_splits pconn.splits go.splits dest!: keeps_closeConn)
qed (auto simp: keeps_def dest!: keeps_dialConn)

lemma keeps_acquireConn: "acquireConn env r = (x, r1) \<Longrightarrow> keeps r r1"
  by (auto simp: acquireConn_def dest: keeps_acquireLoop)

lemma keeps_releaseConn: "releaseConn env c r = Ok r1 \<Longrightarrow> keeps r r1"
  by (auto simp: releaseConn_def keeps_def split: if_splits dest!: keeps_closeConn)

lemma keeps_failReleasing: "failReleasing env e c r = (x, r1) \<Longrightarrow> keeps r r1"
  by (auto simp: failReleasing_def keeps_def split: go.splits dest!: keeps_releaseConn)

lemma keeps_writeConn: "writeConn env c r = (x, r1) \<Longrightarrow> keeps r r1"
  by (auto simp: writeConn_def keeps_def split: pconn.splits if_splits option.splits)

lemma keeps_readConn: "readConn env req c r = (x, r1) \<Longrightarrow> keeps r r1"
  by (auto simp: readConn_def keeps_def split: pconn.splits)

lemma keeps_sendRequest: "sendRequest env r = (x, r1) \<Longrightarrow> keeps r r1"
  unfolding sendRequest_def
  by (auto simp: keeps_def split: prod.splits go.splits dest!: keeps_acquireConn keeps_writeConn keeps_failReleasing)

lemma keeps_readAnswer: "readAnswer env req c r = (x, r1) \<Longrightarrow> keeps r r1"
  unfolding readAnswer_def
  by (auto simp: keeps_def split: prod.splits go.splits dest!: keeps_acquireConn keeps_writeConn keeps_failReleasing keeps_readConn)

lemma keeps_relayHTTP1: "relayHTTP1 env fuel path body r = Some (x, r1) \<Longrightarrow> keeps r r1"
proof (induction fuel arbitrary: path r)
  case (Suc fuel)
  show ?case
  proof (cases "sendRequest env r")
    case (Pair res q1)
    then have s: "keeps r q1" by (rule keeps_sendRequest)
    show ?thesis
    proof (cases res)
      case (Ok c)
      obtain ans q2 where a: "readAnswer env (gasPost path (grHttpHost q1) body) c q1 = (ans, q2)" by fastforce
      then have "keeps q1 q2" by (rule keeps_readAnswer)
      then show ?thesis using Suc Pair Ok a s
        by (auto simp: Let_def keeps_def split: go.splits if_splits option.splits bool.splits prod.splits dest!: keeps_releaseConn)
    qed (use Suc.prems Pair s in \<open>auto simp: keeps_def\<close>)
  qed
qed simp

section \<open>Scripts and the HTTP/2 client\<close>

lemma keeps_script: "i < length (grScriptIDs r) \<Longrightarrow> keeps r (r\<lparr>grScriptIdx := i\<rparr>)"
  by (auto simp: keeps_def relay_inv_def)

lemma keeps_script_mod: "1 < length (grScriptIDs r) \<Longrightarrow> keeps r (r\<lparr>grScriptIdx := k mod length (grScriptIDs r)\<rparr>)"
  by (rule keeps_script) (auto intro: mod_less_divisor)

lemma keeps_refl [simp]: "keeps r r"
  by (simp add: keeps_def)

lemma keeps_trans: "keeps r r1 \<Longrightarrow> keeps r1 r2 \<Longrightarrow> keeps r r2"
  by (simp add: keeps_def)


lemma keeps_scriptLoop: "scriptLoop env key n r = (x, r1) \<Longrightarrow> grScriptIDs r \<noteq> [] \<Longrightarrow> keeps r r1"
proof (induction env key n r rule: scriptLoop.induct)
  case (2 env key n r)
  let ?r1 = "if key = [] then r\<lparr>grScriptIdx := (grScriptIdx r + 1) mod length (grScriptIDs r)\<rparr> else r"
  have "keeps r ?r1" using "2.prems"(2) keeps_script [of "(grScriptIdx r + 1) mod length (grScriptIDs r)" r] by simp
  moreover have "grScriptIDs ?r1 = grScriptIDs r" by simp
  ultimately show ?case using "2.prems" "2.IH" by (auto simp: Let_def keeps_def split: option.splits if_splits)
qed simp

lemma keeps_execPath: "execPath env url r = (x, r1) \<Longrightarrow> keeps r r1"
  by (auto simp: execPath_def scriptIDForKey_def Let_def split: prod.splits if_splits dest!: keeps_scriptLoop)

lemma keeps_retry: "retryWithNextScript path r = (x, r1) \<Longrightarrow> keeps r r1"
  by (auto simp: retryWithNextScript_def Let_def split: if_splits intro!: keeps_script_mod)

lemma relay_inv_blacklist [simp]: "relay_inv h s n (blacklistSID env path r) = relay_inv h s n r"
  by (simp add: blacklistSID_def split: option.split)

lemma relay_inv_resetH2 [simp]: "relay_inv h s n (resetH2 env r) = relay_inv h s n r"
  by (simp add: resetH2_def)

lemma keeps_h2Request: "h2Request env path body r = (x, r1) \<Longrightarrow> keeps r r1"
  by (auto simp: h2Request_def ensureH2_def keeps_def Let_def split: if_splits h2_out.splits)

section \<open>Requests\<close>

lemmas keeps_dests = keeps_execPath keeps_retry keeps_h2Request keeps_relayHTTP1

lemma keeps_singleHTTP1: "singleHTTP1 env fuel path body r = Some (x, r1) \<Longrightarrow> keeps r r1"
  by (auto simp: singleHTTP1_def keeps_def Let_def split: option.splits prod.splits go.splits if_splits dest!: keeps_dests)

lemma keeps_relaySingle: "relaySingle env fuel payload r = Some (x, r1) \<Longrightarrow> keeps r r1"
  unfolding relaySingle_def
  by (auto simp: keeps_def Let_def split: prod.splits go.splits if_splits dest!: keeps_dests keeps_singleHTTP1)

lemma keeps_batchSubmit: "batchSubmit caller payload r = (x, r1) \<Longrightarrow> keeps r r1"
  by (auto simp: batchSubmit_def keeps_def Let_def split: if_splits)

lemma keeps_relayBatch: "relayBatch env fuel batch r = Some (x, r1) \<Longrightarrow> keeps r r1"
  unfolding relayBatch_def
  by (auto simp: keeps_def Let_def split: prod.splits go.splits option.splits dest!: keeps_dests)

lemma keeps_flushBatch: "flushBatch env fuel batch r = Some (x, r1) \<Longrightarrow> keeps r r1"
  unfolding flushBatch_def
  by (auto split: list.splits option.splits prod.splits go.splits dest!: keeps_relaySingle keeps_relayBatch)

lemma keeps_parallelOne: "parallelOne env fuel body path r = Some (x, r1) \<Longrightarrow> keeps r r1"
  by (auto simp: parallelOne_def keeps_def Let_def split: option.splits prod.splits go.splits if_splits dest!: keeps_dests)

lemma keeps_parallelAll: "parallelAll env fuel body paths r = Some (x, r1) \<Longrightarrow> keeps r r1"
proof (induction paths arbitrary: r x)
  case (Cons p ps)
  then show ?case by (fastforce split: option.splits prod.splits dest!: keeps_parallelOne intro: keeps_trans)
qed simp

lemma keeps_parallel: "relaySingleParallel env fuel arrival payload k r = Some (x, r1) \<Longrightarrow> keeps r r1"
  unfolding relaySingleParallel_def Let_def
  by (auto split: if_splits option.splits prod.splits dest!: keeps_relaySingle keeps_parallelAll
      intro: keeps_trans [OF keeps_script_mod])

lemma keeps_fetchChunks: "fetchChunks env fuel url headers base ranges r = Some (x, r1) \<Longrightarrow> keeps r r1"
proof (induction ranges arbitrary: base r x)
  case (Cons ab ranges)
  then show ?case
    by (cases ab) (fastforce simp: Let_def split: option.splits prod.splits go.splits dest!: keeps_relayHTTP1 intro: keeps_trans)
qed simp

lemma keeps_relayChunked: "relayChunked env fuel url headers r = Some (x, r1) \<Longrightarrow> keeps r r1"
proof -
  assume run: "relayChunked env fuel url headers r = Some (x, r1)"
  have next_script: "keeps r r3" if "keeps r r2" "keeps (r2\<lparr>grScriptIdx := k mod length (grScriptIDs r)\<rparr>) r3" "\<not> length (grScriptIDs r) \<le> 1" for r2 r3 k
  proof -
    have "relay_inv h s n (r2\<lparr>grScriptIdx := k mod length (grScriptIDs r)\<rparr>)" if "relay_inv h s n r" for h s n
    proof -
      have "relay_inv h s n r2" "grScriptIDs r = s" using that \<open>keeps r r2\<close> by (auto simp: keeps_def relay_inv_def)
      moreover have "k mod length s < length s" using \<open>\<not> length (grScriptIDs r) \<le> 1\<close> calculation(2) by (intro mod_less_divisor) auto
      ultimately show ?thesis using relay_inv_script by simp
    qed
    then show ?thesis using that(2) by (simp add: keeps_def)
  qed
  show ?thesis using run unfolding relayChunked_def Let_def
    by (auto split: if_splits option.splits prod.splits go.splits dest!: keeps_relaySingle keeps_fetchChunks dest: next_script)
qed

lemma keeps_coalesceEnter: "coalesceEnter key caller r = (x, r1) \<Longrightarrow> keeps r r1"
  by (auto simp: coalesceEnter_def keeps_def split: option.splits)

lemma keeps_runPlan:
  "runPlan env fuel arrival timedOut caller payload url headers errored plan r = Some (x, r1) \<Longrightarrow> keeps r r1"
proof (induction plan arbitrary: errored r)
  case (Cons how plan)
  show ?case
  proof (cases how)
    case SendSingle
    then show ?thesis using Cons.prems by (auto split: option.splits prod.splits go.splits dest!: keeps_relaySingle)
  next
    case SendChunked
    then show ?thesis using Cons
      by (auto split: option.splits prod.splits go.splits dest!: keeps_relayChunked intro: keeps_trans)
  next
    case (SendMerged key)
    then show ?thesis using Cons
      by (auto split: prod.splits bool.splits if_splits dest!: keeps_coalesceEnter keeps_batchSubmit intro: keeps_trans)
  next
    case SendParallel
    then show ?thesis using Cons
      by (auto split: option.splits prod.splits go.splits dest!: keeps_parallel intro: keeps_trans)
  next
    case SendBatch
    then show ?thesis using Cons.prems by (auto split: prod.splits dest!: keeps_batchSubmit)
  qed
qed simp

lemma relay_inv_recordStats [simp]: "relay_inv h s n (requestAnswered cd payload url latency errored r) = relay_inv h s n r"
  by (simp add: relay_inv_def requestAnswered_def recordStats_def Let_def)

lemma keeps_relayRequest:
  "relayRequest env fuel arrival timedOut latency caller method url headers body r = Some (x, r1) \<Longrightarrow> keeps r r1"
  by (auto simp: relayRequest_def Let_def keeps_def split: option.splits prod.splits go.splits relay_end.splits dest!: keeps_runPlan)

lemma keeps_restart: "restartRelay r = Ok r1 \<Longrightarrow> keeps r r1"
  by (auto simp: restartRelay_def closeAll_def keeps_def bind_go_Ok_iff split: if_splits)

lemma keeps_close: "closeRelay r = Ok r1 \<Longrightarrow> keeps r r1"
  by (auto simp: closeRelay_def closeAll_def keeps_def relay_inv_def bind_go_Ok_iff split: if_splits)

lemma keeps_ping: "pingRelay env fuel r = Some (Ok r1) \<Longrightarrow> keeps r r1"
  unfolding pingRelay_def Let_def
  by (auto simp: keeps_def split: prod.splits go.splits option.splits if_splits dest!: keeps_dests keeps_restart)

section \<open>Any operations\<close>

text \<open>What happens to a running engine: requests, the timer and the flushing of batches, the end of a merged request, the
  heartbeat, restart and close. \<open>None\<close> is a crash, or a request that does not return.\<close>

datatype relay_op = RRequest "nat list" bool int nat str str "(str \<times> str) list" str | RFlush "(nat \<times> jobject) list" | RFire
  | RFinish str str | RPing | RNextSNI | RRestart | RClose

fun relay_step :: "relay_env \<Rightarrow> nat \<Rightarrow> relay_op \<Rightarrow> gasRelay \<Rightarrow> gasRelay option" where
  "relay_step env fuel (RRequest arrival timedOut latency caller method url headers body) r =
     map_option snd (relayRequest env fuel arrival timedOut latency caller method url headers body r)"
| "relay_step env fuel (RFlush batch) r = map_option snd (flushBatch env fuel batch r)"
| "relay_step env fuel RFire r = Some (snd (batchFire r))"
| "relay_step env fuel (RFinish key resp) r = Some (snd (coalesceFinish key resp r))"
| "relay_step env fuel RPing r = (case pingRelay env fuel r of Some (Ok r1) \<Rightarrow> Some r1 | _ \<Rightarrow> None)"
| "relay_step env fuel RNextSNI r = Some (snd (nextSNI r))"
| "relay_step env fuel RRestart r = (case restartRelay r of Ok r1 \<Rightarrow> Some r1 | _ \<Rightarrow> None)"
| "relay_step env fuel RClose r = (case closeRelay r of Ok r1 \<Rightarrow> Some r1 | _ \<Rightarrow> None)"

fun relay_run :: "relay_env \<Rightarrow> nat \<Rightarrow> relay_op list \<Rightarrow> gasRelay \<Rightarrow> gasRelay option" where
  "relay_run env fuel [] r = Some r"
| "relay_run env fuel (op # ops) r = Option.bind (relay_step env fuel op r) (relay_run env fuel ops)"

lemma keeps_step: "relay_step env fuel op r = Some r1 \<Longrightarrow> keeps r r1"
proof (cases op)
  case (RRequest arrival timedOut latency caller mth url headers body)
  then show "relay_step env fuel op r = Some r1 \<Longrightarrow> keeps r r1" by (auto dest: keeps_relayRequest)
next
  case (RFlush batch)
  then show "relay_step env fuel op r = Some r1 \<Longrightarrow> keeps r r1" by (auto dest: keeps_flushBatch)
next
  case RNextSNI
  then show "relay_step env fuel op r = Some r1 \<Longrightarrow> keeps r r1" using keeps_nextSNI [of r "fst (nextSNI r)"] by auto
qed (auto simp: batchFire_def coalesceFinish_def keeps_def split: option.splits go.splits dest!: keeps_ping keeps_restart keeps_close)

lemma keeps_run: "relay_run env fuel ops r = Some r1 \<Longrightarrow> keeps r r1"
  by (induction ops arbitrary: r) (auto simp: Option.bind_eq_Some_conv dest!: keeps_step intro: keeps_trans)

text \<open>The engine never leaves its configuration. Whatever requests, batches, heartbeats and restarts it goes through,
  it connects to the address and uses the scripts it was created with, and the index of the current script is always
  within them, so that none of the script lookups of the code can be out of range.\<close>

theorem relay_stays_configured:
  assumes "relay_run env fuel ops (newGASRelay cfg) = Some r" and "gaScriptIDs cfg \<noteq> [] \<or> gaScriptID cfg \<noteq> []"
  shows "grConnectHost r = gaGoogleIP cfg \<and> grScriptIDs r = (if gaScriptIDs cfg = [] then [gaScriptID cfg] else gaScriptIDs cfg) \<and>
     grScriptIdx r < length (grScriptIDs r)"
proof -
  let ?s = "if gaScriptIDs cfg = [] then [gaScriptID cfg] else gaScriptIDs cfg"
  have "relay_inv (gaGoogleIP cfg) ?s 0 (newGASRelay cfg)" using assms(2) by (auto simp: relay_inv_def newGASRelay_def)
  then have "relay_inv (gaGoogleIP cfg) ?s 0 r" by (rule keepsD [OF keeps_run [OF assms(1)]])
  then show ?thesis unfolding relay_inv_def by auto
qed

theorem relay_stays_configured_witness:
  "\<exists>r. relay_run sampleRelayEnv 1 [RNextSNI, RFire, RRestart, RNextSNI, RClose] (newGASRelay sampleGAS) = Some r \<and>
     grConnectHost r = ''216.239.38.120'' \<and> grScriptIdx r < 2"
proof -
  have sni: "snd (nextSNI q) = q\<lparr>grSniIdx := grSniIdx q + 1\<rparr>" for q by (simp add: nextSNI_def Let_def)
  obtain r where run: "relay_run sampleRelayEnv 1 [RNextSNI, RFire, RRestart, RNextSNI, RClose] (newGASRelay sampleGAS) = Some r"
    by (simp add: sni batchFire_def restartRelay_def closeRelay_def closeAll_def newGASRelay_def sampleGAS_def Let_def)
  have "gaScriptIDs sampleGAS \<noteq> [] \<or> gaScriptID sampleGAS \<noteq> []" by (simp add: sampleGAS_def)
  from relay_stays_configured [OF run this] run show ?thesis by (auto simp: sampleGAS_def)
qed

section \<open>Redirects\<close>

text \<open>The reply to a request, at a time and on a connection, is a redirect.\<close>

definition redirects :: "relay_env \<Rightarrow> nat \<Rightarrow> nat \<Rightarrow> str \<Rightarrow> bool" where
  "redirects env t k req = (\<exists>cap status hs body.
     gasReadHTTPResponse (reCodec env) cap (reReply env t k req) = Ok (status, hs, body) \<and> 300 \<le> status \<and> status < 400)"

lemma readConn_from:
  assumes "readConn env req c r = (Ok (status, hs, body), r1)" and "300 \<le> status" and "status < 400"
  shows "\<exists>k. redirects env (grTick r) k req" and "grTick r < grTick r1"
proof -
  obtain k where k: "gasReadHTTPResponse (reCodec env) (int (grMaxRespBody r)) (reReply env (grTick r) k req) = Ok (status, hs, body)" "r1 = tick r"
    using assms(1) by (auto simp: readConn_def split: pconn.splits)
  then show "\<exists>k. redirects env (grTick r) k req" "grTick r < grTick r1" using assms(2,3) unfolding redirects_def by (blast, simp add: tick_def)
qed

lemma relay_inv_tick: "relay_inv h s n r \<Longrightarrow> n \<le> grTick r"
  by (simp add: relay_inv_def)

lemma relay_inv_now: "relay_inv h s n r \<Longrightarrow> relay_inv h s (grTick r) r"
  by (simp add: relay_inv_def)

lemma keeps_tick: "keeps r r1 \<Longrightarrow> relay_inv h s n r \<Longrightarrow> grTick r \<le> grTick r1"
  using keepsD relay_inv_now relay_inv_tick by blast

lemma keeps_closing: "keeps r (closing c r)"
  by (simp add: keeps_def)

text \<open>A redirect that is followed was sent at or after the time of the request, and the clock has moved on.\<close>

lemma readAnswer_from:
  assumes "readAnswer env req c r = (Ok (status, hs, body, c2), r2)" and "300 \<le> status" and "status < 400" and "relay_inv h s n r"
  shows "\<exists>t k. grTick r \<le> t \<and> t < grTick r2 \<and> redirects env t k req"
proof (cases "readConn env req c r")
  case (Pair res r1)
  show ?thesis
  proof (cases res)
    case (Ok x)
    obtain st h2 b where x: "x = (st, h2, b)" by (cases x)
    then have "readConn env req c r = (Ok (status, hs, body), r2)" using assms(1) Pair Ok by (simp add: readAnswer_def)
    then show ?thesis using readConn_from [OF _ assms(2,3)] by blast
  next
    case (Err e)
    obtain res2 q2 where a: "acquireConn env (closing c r1) = (res2, q2)" by fastforce
    obtain d where d: "res2 = Ok d" using assms(1) Pair Err a by (cases res2) (auto simp: readAnswer_def failReleasing_def split: go.splits)
    obtain w q3 where w: "writeConn env d q2 = (w, q3)" by fastforce
    have "w = Ok ()" using assms(1) Pair Err a d w by (cases w) (auto simp: readAnswer_def failReleasing_def split: go.splits)
    then have "readConn env req d q3 = (Ok (status, hs, body), r2)"
      using assms(1) Pair Err a d w by (auto simp: readAnswer_def failReleasing_def split: prod.splits go.splits)
    moreover have "keeps r q3"
      using keeps_readConn [OF Pair] keeps_closing [of r1 c] keeps_acquireConn [OF a] keeps_writeConn [OF w] by (blast intro: keeps_trans)
    ultimately show ?thesis using readConn_from [OF _ assms(2,3)] keeps_tick [OF _ assms(4)] by blast
  next
    case Panic
    then show ?thesis using assms(1) Pair by (simp add: readAnswer_def)
  qed
qed

text \<open>One round of a request: it is over, or it goes on after a redirect.\<close>

lemma relayHTTP1_round:
  assumes "relay_inv h s n r"
  shows "(\<exists>y. \<forall>fuel. relayHTTP1 env (Suc fuel) path body r = Some y) \<or>
     (\<exists>path2 r3 t k req. (\<forall>fuel. relayHTTP1 env (Suc fuel) path body r = relayHTTP1 env fuel path2 body r3) \<and>
        relay_inv h s n r3 \<and> grTick r \<le> t \<and> t < grTick r3 \<and> redirects env t k req)"
proof -
  obtain res r1 where sent: "sendRequest env r = (res, r1)" by fastforce
  have i1: "relay_inv h s (grTick r) r1" by (rule keepsD [OF keeps_sendRequest [OF sent] relay_inv_now [OF assms]])
  show ?thesis
  proof (cases res)
    case (Ok c)
    let ?req = "gasPost path (grHttpHost r1) body"
    obtain ans r2 where a: "readAnswer env ?req c r1 = (ans, r2)" by fastforce
    show ?thesis
    proof (cases ans)
      case ans: (Ok x)
      obtain status hs b c2 where x: "x = (status, hs, b, c2)" by (cases x)
      show ?thesis
      proof (cases "releaseConn env c2 r2")
        case released: (Ok r3)
        have k3: "keeps r2 r3" "keeps r1 r2" using keeps_releaseConn [OF released] keeps_readAnswer [OF a] by blast+
        let ?loc = "case map_of hs ''location'' of Some l \<Rightarrow> l | None \<Rightarrow> []"
        show ?thesis
        proof (cases "300 \<le> status \<and> status < 400 \<and> ?loc \<noteq> [] \<and> rcParseURL (reCodec env) ?loc \<noteq> None")
          case True
          then obtain u where u: "rcParseURL (reCodec env) ?loc = Some u" by blast
          let ?p = "guPath u @ (if guQuery u \<noteq> [] then ''?'' @ guQuery u else [])"
          have go: "\<forall>fuel. relayHTTP1 env (Suc fuel) path body r = relayHTTP1 env fuel ?p body r3"
            using sent Ok a ans x released True u by (simp add: Let_def)
          obtain t k where t: "grTick r1 \<le> t" "t < grTick r2" "redirects env t k ?req"
            using readAnswer_from [of env ?req c r1 status hs b c2 r2] a ans x True i1 by blast
          have i2: "relay_inv h s (grTick r) r2" by (rule keepsD [OF k3(2) i1])
          have "grTick r \<le> t" "t < grTick r3" using relay_inv_tick [OF i1] t keeps_tick [OF k3(1) i2] by linarith+
          moreover have "relay_inv h s n r3"
            using assms keepsD [OF k3(1)] keepsD [OF k3(2)] keepsD [OF keeps_sendRequest [OF sent]] by blast
          ultimately show ?thesis using go t(3) by blast
        next
          case False
          let ?y = "(if 300 \<le> status \<and> status < 400 then Err (''unexpected redirect: '' @ itoaInt status) else Ok b, r3)"
          have "relayHTTP1 env (Suc fuel) path body r = Some ?y" for fuel
            using False sent Ok a ans x released by (cases "rcParseURL (reCodec env) ?loc"; cases "?loc = []") (auto simp: Let_def)
          then show ?thesis by blast
        qed
      qed (use sent Ok a ans x in auto)
    qed (use sent Ok a in auto)
  qed (use sent in auto)
qed



end
