(* ===== verification/GasServer.thy ===== *)
theory GasServer
  imports GasTheorems
begin

text \<open>
  The stand-alone GAS proxy of \<open>src/proxy/gas_relay.go\<close>: its certificates (\<open>gasMITMManager\<close>), the handlers of plain
  requests and of CONNECT, and the loop that serves the requests of a decrypted connection.

  \<^item> The client is the bytes it sends. A handler gives the actions it takes: what it writes to the client, and the raw
    connections it opens, with the bytes of the client that reach them.
  \<^item> \<open>buffered\<close> is how many bytes behind the request head the reader had already taken from the socket when a handler
    hands the socket itself on; those bytes are not forwarded.
  \<^item> The relay engine is \<open>relaySync\<close>, a request of the only client, whose batch is flushed when the timer runs out.
\<close>

section \<open>Certificates\<close>

record gas_leaf =
  glCommonName :: str
  glIPAddresses :: "str list"
  glDNSNames :: "str list"
  glIssuer :: str

record gasMITMManager =
  mmCaCert :: str
  mmCache :: "str \<rightharpoonup> gas_leaf"

definition newGASMITMManager :: gasMITMManager where
  "newGASMITMManager = \<lparr>mmCaCert = ''nova-gas'', mmCache = Map.empty\<rparr>"

definition useCA :: "str \<Rightarrow> gasMITMManager \<Rightarrow> gasMITMManager" where
  "useCA caCert m = m\<lparr>mmCaCert := caCert, mmCache := Map.empty\<rparr>"

text \<open>\<open>isIP\<close> is \<open>net.ParseIP\<close> succeeding, \<open>sign\<close> the outcome of creating and pairing the certificate.\<close>

definition getCert :: "(str \<Rightarrow> bool) \<Rightarrow> (gas_leaf \<Rightarrow> str option) \<Rightarrow> str \<Rightarrow> gasMITMManager \<Rightarrow> gas_leaf go \<times> gasMITMManager" where
  "getCert isIP sign domain m =
     (case mmCache m domain of
        Some cert \<Rightarrow> (Ok cert, m)
      | None \<Rightarrow>
          let tmpl = \<lparr>glCommonName = domain, glIPAddresses = (if isIP domain then [domain] else []),
                      glDNSNames = (if isIP domain then [] else [domain]), glIssuer = mmCaCert m\<rparr> in
          (case sign tmpl of
             Some e \<Rightarrow> (Err e, m)
           | None \<Rightarrow> (Ok tmpl, m\<lparr>mmCache := (mmCache m)(domain \<mapsto> tmpl)\<rparr>)))"

section \<open>The server\<close>

record gasProxyServer =
  gsRelay :: gasRelay
  gsHost :: str
  gsPort :: int
  gsMitm :: gasMITMManager
  gsListening :: bool

text \<open>\<open>certGen\<close> is the CA of the generator, \<open>None\<close> without a generator, without a CA or with a key that cannot sign.\<close>

definition newGASProxyServer :: "GASConfig \<Rightarrow> gasRelay \<Rightarrow> str option \<Rightarrow> gasProxyServer" where
  "newGASProxyServer cfg relay certGen =
     (let host = (if gaListenHost cfg = [] then ''127.0.0.1'' else gaListenHost cfg);
          host2 = (if gaLANSharing cfg \<and> host = ''127.0.0.1'' then ''0.0.0.0'' else host);
          mitm = newGASMITMManager
      in \<lparr>gsRelay = relay, gsHost = host2, gsPort = gaListenPort cfg,
          gsMitm = (case certGen of Some ca \<Rightarrow> useCA ca mitm | None \<Rightarrow> mitm), gsListening = False\<rparr>)"

text \<open>\<open>start\<close> up to the point where it is ready, with the error of \<open>net.Listen\<close>, and the end of it after \<open>stop\<close>.\<close>

definition startGASServer :: "str option \<Rightarrow> gasProxyServer \<Rightarrow> gasProxyServer go" where
  "startGASServer listenErr s =
     (case listenErr of Some e \<Rightarrow> Err (''gas listen failed: '' @ e) | None \<Rightarrow> Ok (s\<lparr>gsListening := True\<rparr>))"

definition stopGASServer :: "gasProxyServer \<Rightarrow> gasProxyServer" where
  "stopGASServer s = s\<lparr>gsListening := False\<rparr>"

datatype srv_act = SWrite str | SRaw str int str

section \<open>A request of one client\<close>

definition relaySync ::
  "relay_env \<Rightarrow> nat \<Rightarrow> int \<Rightarrow> str \<Rightarrow> str \<Rightarrow> (str \<times> str) list \<Rightarrow> str \<Rightarrow> gasRelay \<Rightarrow> (str go \<times> gasRelay) option" where
  "relaySync env fuel latency method urlStr headers body r =
     (let cd = reCodec env; payload = buildPayload cd method urlStr headers body; key = coalesceKey cd urlStr headers in
      case relayRequest env fuel [] False latency 0 method urlStr headers body r of
        None \<Rightarrow> None
      | Some (Ok (Replied resp _), r1) \<Rightarrow> Some (Ok resp, r1)
      | Some (Ok (Waiting _), _) \<Rightarrow> None
      | Some (Ok (Submitted flushed errored), r1) \<Rightarrow>
          let (batch, r2) = (if flushed = [] then batchFire r1 else (flushed, r1)) in
          (case flushBatch env fuel batch r2 of
             None \<Rightarrow> None
           | Some ((acts, crash), r3) \<Rightarrow>
               (case map_of acts 0 of
                  None \<Rightarrow> Some (Panic, r3)
                | Some resp \<Rightarrow>
                    let merged = (map_of (grCoalesce r) key = None \<and> map_of (grCoalesce r1) key \<noteq> None);
                        r4 = (if merged then snd (coalesceFinish key resp r3) else r3)
                    in if crash then Some (Panic, r4) else Some (Ok resp, requestAnswered cd payload urlStr latency errored r4)))
      | Some (Err e, r1) \<Rightarrow> Some (Err e, r1)
      | Some (Panic, r1) \<Rightarrow> Some (Panic, r1))"

section \<open>Request heads\<close>

datatype head_end = HeadEOF | HeadTooLong | HeadDone "str list" str

abbreviation blank :: "str \<Rightarrow> bool" where "blank ln \<equiv> ln = crlf \<or> ln = [CHR 0x0A]"

function readHead :: "nat \<Rightarrow> str list \<Rightarrow> str \<Rightarrow> head_end" where
  "readHead totalLen headers inp =
     (case readLine inp of
        None \<Rightarrow> HeadEOF
      | Some (ln, rest) \<Rightarrow>
          if totalLen + length ln > 65536 then HeadTooLong
          else if blank ln then HeadDone (headers @ [ln]) rest
          else readHead (totalLen + length ln) (headers @ [ln]) rest)"
  by pat_completeness auto
termination
  by (relation "measure (\<lambda>(_, _, inp). length inp)") (auto dest: readLine_shorter)

declare readHead.simps [simp del]

lemma readHead_shorter: "readHead n hs inp = HeadDone hs' rest \<Longrightarrow> length rest < length inp"
proof (induction n hs inp rule: readHead.induct)
  case (1 n hs inp)
  show ?case
  proof (cases "readLine inp")
    case None
    then show ?thesis using "1.prems" by (simp add: readHead.simps)
  next
    case (Some lr)
    obtain ln r where lr: "lr = (ln, r)" by fastforce
    have "length r < length inp" using Some lr readLine_shorter by blast
    moreover have "length rest < length r" if "\<not> blank ln" "n + length ln \<le> 65536"
      using "1.IH" [OF Some lr [symmetric]] "1.prems" that Some lr by (simp add: readHead.simps [of n])
    ultimately show ?thesis using "1.prems" Some lr by (cases "blank ln") (auto simp: readHead.simps [of n] split: if_splits)
  qed
qed

lemma gasReadBody_shorter: "length (snd (gasReadBody inp headers)) \<le> length inp"
  by (auto simp: gasReadBody_def split: option.split)

section \<open>Requests of a decrypted connection\<close>

type_synonym asker = "str \<Rightarrow> str \<Rightarrow> (str \<times> str) list \<Rightarrow> str \<Rightarrow> gasRelay \<Rightarrow> (str go \<times> gasRelay) option"

text \<open>A served request: the preflight answer, or what the engine says with the CORS headers put in.\<close>

definition serveOne :: "asker \<Rightarrow> key_order \<Rightarrow> str \<Rightarrow> str \<Rightarrow> (str \<times> str) list \<Rightarrow> str \<Rightarrow> gasRelay \<Rightarrow> (str go \<times> gasRelay) option" where
  "serveOne ask ord method urlStr headerMap body r =
     (let hv = headerValue ord headerMap; origin = hv ''origin''; acrMethod = hv ''access-control-request-method'' in
      if ToUpper method = ''OPTIONS'' \<and> acrMethod \<noteq> [] then
        Some (Ok (gasCORSPreflight origin acrMethod (hv ''access-control-request-headers'')), r)
      else case ask method urlStr headerMap body r of
        None \<Rightarrow> None
      | Some (Ok resp, r1) \<Rightarrow> Some (Ok (if origin \<noteq> [] then gasInjectCORS resp origin else resp), r1)
      | Some (e, r1) \<Rightarrow> Some (e, r1))"

text \<open>The loop; \<open>True\<close> in the result is a panic.\<close>

function relayHTTPOverTLS ::
  "asker \<Rightarrow> key_order \<Rightarrow> str \<Rightarrow> int \<Rightarrow> str \<Rightarrow> gasRelay \<Rightarrow> (str list \<times> bool \<times> gasRelay) option" where
  "relayHTTPOverTLS ask ord host port inp r =
     (case readLine inp of
        None \<Rightarrow> Some ([], False, r)
      | Some (line, rest) \<Rightarrow>
          if blank line then relayHTTPOverTLS ask ord host port rest r
          else case readHead (length line) [line] rest of
            HeadDone reqHeaders rest2 \<Rightarrow>
              let (method, path) = gasParseRequestLine line;
                  body = fst (gasReadBody rest2 reqHeaders);
                  headerMap = gasParseHeaders (tl reqHeaders) []
              in (case serveOne ask ord method (gasNormalizeURL host port path) headerMap body r of
                    None \<Rightarrow> None
                  | Some (Ok resp, r1) \<Rightarrow>
                      map_option (\<lambda>(ws, e). (resp # ws, e)) (relayHTTPOverTLS ask ord host port (snd (gasReadBody rest2 reqHeaders)) r1)
                  | Some (_, r1) \<Rightarrow> Some ([], True, r1))
          | _ \<Rightarrow> Some ([], False, r))"
  by pat_completeness auto
termination
proof (relation "measure (\<lambda>(_, _, _, _, inp, _). length inp)", goal_cases)
  case 1
  show ?case by simp
next
  case 2
  then show ?case by (auto dest: readLine_shorter)
next
  case (3 ask ord host port inp r lr line rest hs rest2)
  then have "length rest < length inp" "length rest2 < length rest" by (auto dest: readLine_shorter readHead_shorter)
  then show ?case using gasReadBody_shorter [of rest2 hs] by simp
qed

declare relayHTTPOverTLS.simps [simp del]

section \<open>Handlers\<close>

text \<open>\<open>relayRawTCP\<close>: the bytes of the client that are still in its socket.\<close>

definition relayRawTCP :: "(str \<Rightarrow> int \<Rightarrow> bool) \<Rightarrow> str \<Rightarrow> int \<Rightarrow> str \<Rightarrow> srv_act list" where
  "relayRawTCP dialOK host port inSocket = (if dialOK host port then [SRaw host port inSocket] else [])"

text \<open>\<open>handleCONNECT\<close>; \<open>handshake\<close> is the outcome of the TLS handshake with the client under the certificate: the bytes
  of its requests, or \<open>None\<close> if it fails. \<open>inSocket\<close> is what the socket holds.\<close>

definition handleCONNECT ::
  "(str \<Rightarrow> int \<Rightarrow> bool) \<Rightarrow> (str \<Rightarrow> bool) \<Rightarrow> (gas_leaf \<Rightarrow> str option) \<Rightarrow> (gas_leaf \<Rightarrow> str option) \<Rightarrow> asker \<Rightarrow> key_order \<Rightarrow> str \<Rightarrow> str \<Rightarrow>
   gasProxyServer \<Rightarrow> (srv_act list \<times> bool \<times> gasProxyServer) option" where
  "handleCONNECT dialOK isIP sign handshake ask ord inSocket target s =
     (let (host, port) = gasSplitHostPort target 443;
          established = SWrite (''HTTP/1.1 200 Connection Established'' @ crlf @ crlf)
      in if gasShouldDirectConnect host then Some (established # relayRawTCP dialOK host port inSocket, False, s)
         else if port = 443 then
           (case getCert isIP sign host (gsMitm s) of
              (Ok cert, m1) \<Rightarrow>
                let s1 = s\<lparr>gsMitm := m1\<rparr> in
                (case handshake cert of
                   None \<Rightarrow> Some (established # relayRawTCP dialOK host port inSocket, False, s1)
                 | Some requests \<Rightarrow>
                     map_option (\<lambda>(ws, crash, r). (established # map SWrite ws, crash, s1\<lparr>gsRelay := r\<rparr>))
                       (relayHTTPOverTLS ask ord host port requests (gsRelay s1)))
            | (_, m1) \<Rightarrow> Some ([SWrite (''HTTP/1.1 502 Bad Gateway'' @ crlf @ crlf)], False, s\<lparr>gsMitm := m1\<rparr>))
         else Some (established # relayRawTCP dialOK host port inSocket, False, s))"

definition badRequest :: srv_act where
  "badRequest = SWrite (''HTTP/1.1 400 Bad Request'' @ crlf @ crlf)"

text \<open>\<open>handleHTTP\<close>: the whole handler of a new connection. \<open>SplitN(s, " ", 3)\<close> gives two or more parts exactly when
  there is a space, and the second part ends at the next one.\<close>

definition handleHTTP ::
  "(str \<Rightarrow> int \<Rightarrow> bool) \<Rightarrow> (str \<Rightarrow> bool) \<Rightarrow> (gas_leaf \<Rightarrow> str option) \<Rightarrow> (gas_leaf \<Rightarrow> str option) \<Rightarrow> relay_codec \<Rightarrow> asker \<Rightarrow> nat \<Rightarrow> str \<Rightarrow>
   gasProxyServer \<Rightarrow> (srv_act list \<times> bool \<times> gasProxyServer) option" where
  "handleHTTP dialOK isIP sign handshake cd ask buffered inp s =
     (case readLine inp of
        None \<Rightarrow> Some ([badRequest], False, s)
      | Some (line, rest) \<Rightarrow>
          (case readHead (length line) [line] rest of
             HeadEOF \<Rightarrow> Some ([badRequest], False, s)
           | HeadTooLong \<Rightarrow> Some ([SWrite (''HTTP/1.1 413 Request Entity Too Large'' @ crlf @ crlf)], False, s)
           | HeadDone headers rest2 \<Rightarrow>
               let parts = Split (TrimSpace line) CHR '' '' in
               if length parts < 2 then Some ([badRequest], False, s)
               else
                 let method = ToUpper (parts ! 0) in
                 if method = ''CONNECT'' then
                   handleCONNECT dialOK isIP sign handshake ask (rcOrder cd) (drop buffered rest2) (parts ! 1) s
                 else
                   let urlStr = (if \<not> HasPrefix (parts ! 1) ''http://'' \<and> \<not> HasPrefix (parts ! 1) ''https://''
                                 then ''http://'' @ parts ! 1 else parts ! 1);
                       host = gasExtractHost cd urlStr
                   in if gasShouldDirectConnect host then Some (relayRawTCP dialOK host 80 (drop buffered rest2), False, s)
                      else
                        let headerMap = gasParseHeaders (tl headers) []; body = fst (gasReadBody rest2 headers) in
                        (case serveOne ask (rcOrder cd) method urlStr headerMap body (gsRelay s) of
                           None \<Rightarrow> None
                         | Some (Ok resp, r1) \<Rightarrow> Some ([SWrite resp], False, s\<lparr>gsRelay := r1\<rparr>)
                         | Some (_, r1) \<Rightarrow> Some ([], True, s\<lparr>gsRelay := r1\<rparr>))))"

section \<open>Requests in a row\<close>

record client_req =
  cqMethod :: str
  cqPath :: str
  cqHeaders :: "(str \<times> str) list"
  cqBody :: str

definition hline :: "str \<times> str \<Rightarrow> str" where
  "hline h = fst h @ '': '' @ snd h"

definition allHeaders :: "client_req \<Rightarrow> (str \<times> str) list" where
  "allHeaders q = cqHeaders q @ [(''Content-Length'', itoa (length (cqBody q)))]"

definition requestLine :: "client_req \<Rightarrow> str" where
  "requestLine q = cqMethod q @ '' '' @ cqPath q @ '' HTTP/1.1''"

definition encodeReq :: "client_req \<Rightarrow> str" where
  "encodeReq q = headOf (requestLine q # map hline (allHeaders q)) @ crlf @ cqBody q"

definition one_line :: "str \<Rightarrow> bool" where
  "one_line s = (CHR 0x0D \<notin> set s \<and> CHR 0x0A \<notin> set s)"

definition clean_header :: "str \<times> str \<Rightarrow> bool" where
  "clean_header h = (one_line (fst h) \<and> one_line (snd h) \<and> CHR '':'' \<notin> set (fst h) \<and> trimmed (fst h) \<and> trimmed (snd h) \<and>
     ToLower (fst h) \<noteq> ''content-length'')"

text \<open>A request as a client writes it: one header per name, a head within the limit, a body of at most 100 MB whose
  length is announced.\<close>

definition clean_req :: "client_req \<Rightarrow> bool" where
  "clean_req q = (cqMethod q \<noteq> [] \<and> (\<forall>c \<in> set (cqMethod q @ cqPath q). \<not> isSpace c) \<and> CHR '':'' \<notin> set (cqMethod q) \<and>
     (\<forall>h \<in> set (cqHeaders q). clean_header h) \<and> distinct (map fst (cqHeaders q)) \<and>
     length (headOf (requestLine q # map hline (allHeaders q))) + 2 \<le> 65536 \<and> length (cqBody q) \<le> 100 * 1024 * 1024)"

lemma not_space_one_line: "\<forall>c \<in> set s. \<not> isSpace c \<Longrightarrow> one_line s \<and> CHR '' '' \<notin> set s"
proof -
  have "isSpace CHR 0x0D" "isSpace CHR 0x0A" "isSpace CHR '' ''" by (simp_all add: isSpace_def)
  then show "\<forall>c \<in> set s. \<not> isSpace c \<Longrightarrow> one_line s \<and> CHR '' '' \<notin> set s" unfolding one_line_def by blast
qed

lemma readLine_crlf: "CHR 0x0A \<notin> set l \<Longrightarrow> readLine (l @ crlf @ s) = Some (l @ crlf, s)"
proof -
  assume "CHR 0x0A \<notin> set l"
  then have "IndexByte ((l @ [CHR 0x0D]) @ CHR 0x0A # s) CHR 0x0A = Some (length (l @ [CHR 0x0D]))" by (intro IndexByte_append) simp
  then show ?thesis by (simp add: readLine_def crlf_def)
qed

lemma line_not_blank: "l \<noteq> [] \<Longrightarrow> \<not> blank (l @ crlf)"
  by (cases l) (auto simp: crlf_def)

lemma readHead_lines:
  assumes "\<forall>l \<in> set ls. l \<noteq> [] \<and> one_line l" and "n + length (headOf ls) + 2 \<le> 65536"
  shows "readHead n hs (headOf ls @ crlf @ s) = HeadDone (hs @ map (\<lambda>l. l @ crlf) ls @ [crlf]) s"
  using assms
proof (induction ls arbitrary: n hs)
  case Nil
  then show ?case using readLine_crlf [of "[]" s] by (simp add: readHead.simps [of n] crlf_def)
next
  case (Cons l ls)
  have "readLine (l @ crlf @ headOf ls @ crlf @ s) = Some (l @ crlf, headOf ls @ crlf @ s)"
    using Cons.prems(1) readLine_crlf by (simp add: one_line_def)
  moreover have "\<not> blank (l @ crlf)" using Cons.prems(1) line_not_blank by simp
  ultimately have "readHead n hs (headOf (l # ls) @ crlf @ s) = readHead (n + length (l @ crlf)) (hs @ [l @ crlf]) (headOf ls @ crlf @ s)"
    using Cons.prems(2) by (simp add: readHead.simps [of n])
  then show ?case using Cons.IH [of "n + length (l @ crlf)" "hs @ [l @ crlf]"] Cons.prems by simp
qed

lemma TrimRightSet_line:
  assumes "one_line l"
  shows "TrimRightSet (l @ crlf) crlf = l"
proof -
  have "dropWhile (\<lambda>c. c \<in> set crlf) (rev l) = rev l"
    using assms by (cases "rev l") (auto simp: one_line_def crlf_def simp flip: set_rev [of l])
  then show ?thesis by (simp add: TrimRightSet_def crlf_def)
qed

lemma gasParseHeaders_lines:
  assumes "\<forall>h \<in> set hs. one_line (hline h) \<and> CHR '':'' \<notin> set (fst h) \<and> trimmed (fst h) \<and> trimmed (snd h)"
    and "distinct (map fst (acc @ hs))"
  shows "gasParseHeaders (map (\<lambda>l. l @ crlf) (map hline hs) @ [crlf]) acc = acc @ hs"
  using assms
proof (induction hs arbitrary: acc)
  case Nil
  then show ?case by (simp add: TrimRightSet_def)
next
  case (Cons h hs)
  obtain k v where h: "h = (k, v)" by fastforce
  have "SplitN2 (hline h) CHR '':'' = [k, CHR '' '' # v]"
    using Cons.prems(1) IndexByte_append [of "CHR '':''" k] by (simp add: SplitN2_def hline_def h)
  moreover have "TrimSpace (CHR '' '' # v) = v" "TrimSpace k = k"
    using Cons.prems(1) TrimSpace_trimmed [of v] TrimSpace_trimmed [of k] by (simp_all add: TrimSpace_def isSpace_def h)
  moreover have "AList.update k v acc = acc @ [(k, v)]" using Cons.prems(2) h by (induction acc) auto
  moreover have "hline h \<noteq> []" by (simp add: hline_def)
  ultimately have "gasParseHeaders (map (\<lambda>l. l @ crlf) (map hline (h # hs)) @ [crlf]) acc
      = gasParseHeaders (map (\<lambda>l. l @ crlf) (map hline hs) @ [crlf]) (acc @ [h])"
    using Cons.prems(1) TrimRightSet_line [of "hline h"] h by simp
  then show ?case using Cons by simp
qed

text \<open>A line that is not a content length.\<close>

lemma prefix_before_colon:
  assumes "HasPrefix (ToLower (k @ CHR '':'' # v)) ''content-length:''" and "CHR '':'' \<notin> set k"
  shows "ToLower k = ''content-length''"
proof -
  obtain t where "ToLower (k @ CHR '':'' # v) = ''content-length'' @ CHR '':'' # t" using assms(1) by (auto simp: HasPrefix_iff)
  moreover have "ToLower (k @ CHR '':'' # v) = ToLower k @ CHR '':'' # ToLower v" by (simp add: ToLower_def lowerChar_def)
  moreover have "CHR '':'' \<notin> set (ToLower k)" "CHR '':'' \<notin> set ''content-length''" using assms(2) by simp_all
  ultimately show ?thesis using split_at_unique [of "CHR '':''"] by metis
qed

lemma hline_no_length:
  assumes "clean_header h"
  shows "\<not> HasPrefix (ToLower (hline h @ crlf)) ''content-length:''"
proof -
  have "hline h @ crlf = fst h @ CHR '':'' # (CHR '' '' # snd h @ crlf)" by (simp add: hline_def)
  then show ?thesis using prefix_before_colon [of "fst h"] assms by (auto simp: clean_header_def)
qed

lemma prefix_within: "a @ x # b = p @ t \<Longrightarrow> x \<notin> set p \<Longrightarrow> \<exists>u. a = p @ u"
  by (induction p arbitrary: a) (auto simp: append_eq_Cons_conv)

lemma requestLine_no_length:
  assumes "clean_req q"
  shows "\<not> HasPrefix (ToLower (requestLine q @ crlf)) ''content-length:''"
proof
  assume "HasPrefix (ToLower (requestLine q @ crlf)) ''content-length:''"
  then obtain t where t: "ToLower (requestLine q @ crlf) = ''content-length:'' @ t" by (auto simp: HasPrefix_iff)
  have "ToLower (requestLine q @ crlf) = ToLower (cqMethod q) @ CHR '' '' # ToLower (cqPath q @ '' HTTP/1.1'' @ crlf)"
    by (simp add: requestLine_def ToLower_def lowerChar_def)
  then have "ToLower (cqMethod q) @ CHR '' '' # ToLower (cqPath q @ '' HTTP/1.1'' @ crlf) = ''content-length:'' @ t" using t by simp
  moreover have "CHR '' '' \<notin> set ''content-length:''" by simp
  ultimately have "\<exists>u. ToLower (cqMethod q) = ''content-length:'' @ u"
    by (rule prefix_within)
  then obtain u where "ToLower (cqMethod q) = ''content-length:'' @ u" by blast
  then have "CHR '':'' \<in> set (ToLower (cqMethod q))" by (simp del: colon_ToLower)
  then show False using assms by (simp add: clean_req_def)
qed

lemma announcedLength_skip:
  "\<forall>l \<in> set ls. \<not> HasPrefix (ToLower l) ''content-length:'' \<Longrightarrow> announcedLength n (ls @ ms) = announcedLength n ms"
  by (induction ls) auto

lemma TrimSpace_crlf: "TrimSpace (s @ crlf) = TrimSpace s"
proof -
  have sp: "isSpace CHR 0x0D" "isSpace CHR 0x0A" by (simp_all add: isSpace_def)
  show ?thesis
  proof (cases "\<forall>c \<in> set s. isSpace c")
    case True
    then have "dropWhile isSpace (s @ crlf) = []" "dropWhile isSpace s = []" using sp by (auto simp: crlf_def)
    then show ?thesis by (simp only: TrimSpace_def)
  next
    case False
    then have "dropWhile isSpace (s @ crlf) = dropWhile isSpace s @ crlf" by (auto intro: dropWhile_append1)
    then show ?thesis using sp by (simp add: TrimSpace_def crlf_def)
  qed
qed

lemma announcedLength_last:
  assumes "n < 2 ^ 63"
  shows "announcedLength 0 [hline (''Content-Length'', itoa n) @ crlf, crlf] = Some (int n)"
proof -
  have low: "ToLower ''Content-Length: '' = ''content-length:'' @ '' ''" by code_simp
  have "ToLower (itoa n) = itoa n"
  proof -
    have "lowerChar c = c" if "c \<in> set (itoa n)" for c using itoa_chars [of n] that by (auto simp: lowerChar_def Let_def)
    then show ?thesis by (simp add: ToLower_def map_idI)
  qed
  moreover have "ToLower crlf = crlf" by code_simp
  ultimately have line: "ToLower (hline (''Content-Length'', itoa n) @ crlf) = ''content-length:'' @ ('' '' @ itoa n @ crlf)"
    using low by (simp add: hline_def ToLower_def)
  have "TrimSpace ('' '' @ itoa n @ crlf) = TrimSpace (itoa n @ crlf)" by (simp add: TrimSpace_def isSpace_def)
  then have "TrimSpace ('' '' @ itoa n @ crlf) = itoa n" using trimmed_itoa by (simp add: TrimSpace_crlf TrimSpace_trimmed)
  moreover have "\<not> HasPrefix (ToLower crlf) ''content-length:''" by code_simp
  ultimately show ?thesis using line Atoi_itoa [OF assms] TrimPrefix_append HasPrefix_append by (simp del: append.simps)
qed

lemma gasReadBody_request:
  assumes "clean_req q"
  shows "gasReadBody (cqBody q @ rest) ((requestLine q @ crlf) # map (\<lambda>l. l @ crlf) (map hline (allHeaders q)) @ [crlf]) = (cqBody q, rest)"
proof -
  let ?n = "length (cqBody q)"
  have small: "?n \<le> 100 * 1024 * 1024" "?n < 2 ^ 63" using assms by (simp_all add: clean_req_def)
  let ?ls = "(requestLine q @ crlf) # map (\<lambda>l. l @ crlf) (map hline (cqHeaders q))"
  let ?ms = "[hline (''Content-Length'', itoa ?n) @ crlf, crlf]"
  have split: "(requestLine q @ crlf) # map (\<lambda>l. l @ crlf) (map hline (allHeaders q)) @ [crlf] = ?ls @ ?ms"
    by (simp add: allHeaders_def)
  have "\<forall>h \<in> set (cqHeaders q). \<not> HasPrefix (ToLower (hline h @ crlf)) ''content-length:''"
    using hline_no_length assms unfolding clean_req_def by blast
  then have "\<forall>l \<in> set ?ls. \<not> HasPrefix (ToLower l) ''content-length:''"
    using requestLine_no_length [OF assms] by (simp del: ToLower_append)
  then have "announcedLength 0 (?ls @ ?ms) = announcedLength 0 ?ms" by (rule announcedLength_skip)
  also have "\<dots> = Some (int ?n)" by (rule announcedLength_last [OF small(2)])
  finally have "announcedLength 0 (?ls @ ?ms) = Some (int ?n)" .
  then have "announcedLength 0 ((requestLine q @ crlf) # map (\<lambda>l. l @ crlf) (map hline (allHeaders q)) @ [crlf]) = Some (int ?n)"
    unfolding split .
  then show ?thesis using small(1) by (auto simp: gasReadBody_def)
qed

lemma Split_requestLine:
  assumes "clean_req q"
  shows "Split (TrimSpace (requestLine q @ crlf)) CHR '' '' = [cqMethod q, cqPath q, ''HTTP/1.1'']"
proof -
  have ns: "\<forall>c \<in> set (cqMethod q). \<not> isSpace c" "\<forall>c \<in> set (cqPath q). \<not> isSpace c" "cqMethod q \<noteq> []"
    using assms by (auto simp: clean_req_def)
  have sp: "CHR '' '' \<notin> set (cqMethod q)" "CHR '' '' \<notin> set (cqPath q)" using ns not_space_one_line by blast+
  have "\<not> isSpace CHR ''1''" by (simp add: isSpace_def)
  then have "trimmed (requestLine q)" using ns by (simp add: trimmed_def requestLine_def)
  then have "TrimSpace (requestLine q @ crlf) = requestLine q" by (simp add: TrimSpace_crlf TrimSpace_trimmed)
  then show ?thesis
    using Split_append_sep [of "cqMethod q" "CHR '' ''" "cqPath q @ CHR '' '' # ''HTTP/1.1''"]
      Split_append_sep [of "cqPath q" "CHR '' ''" "''HTTP/1.1''"] sp by (simp add: requestLine_def Split_no_occ)
qed

lemma gasParseRequestLine_request: "clean_req q \<Longrightarrow> gasParseRequestLine (requestLine q @ crlf) = (cqMethod q, cqPath q)"
  by (simp add: gasParseRequestLine_def Split_requestLine)

definition header_line :: "str \<times> str \<Rightarrow> bool" where
  "header_line h = (one_line (hline h) \<and> CHR '':'' \<notin> set (fst h) \<and> trimmed (fst h) \<and> trimmed (snd h))"

lemma clean_header_line: "clean_header h \<Longrightarrow> header_line h"
  by (simp add: clean_header_def header_line_def one_line_def hline_def)

lemma length_header_line: "header_line (''Content-Length'', itoa n)"
proof -
  have "CHR 0x0D \<notin> set (itoa n)" "CHR 0x0A \<notin> set (itoa n)" using itoa_no by simp_all
  moreover have "trimmed ''Content-Length''" by code_simp
  ultimately show ?thesis by (simp add: header_line_def one_line_def hline_def trimmed_itoa)
qed

lemma hline_one_line: "clean_req q \<Longrightarrow> \<forall>h \<in> set (allHeaders q). header_line h"
  by (simp add: clean_req_def allHeaders_def clean_header_line length_header_line)

lemma requestLine_one_line: "clean_req q \<Longrightarrow> requestLine q \<noteq> [] \<and> one_line (requestLine q)"
  using not_space_one_line [of "cqMethod q"] not_space_one_line [of "cqPath q"]
  by (simp add: clean_req_def requestLine_def one_line_def)

lemma distinct_headers:
  assumes "clean_req q"
  shows "distinct (map fst ([] @ allHeaders q))"
proof -
  have "ToLower ''Content-Length'' = ''content-length''" by code_simp
  then have "''Content-Length'' \<notin> fst ` set (cqHeaders q)" using assms by (force simp: clean_req_def clean_header_def)
  then show ?thesis using assms by (simp add: allHeaders_def clean_req_def)
qed

text \<open>The specification: the requests one by one.\<close>

fun serveAll :: "asker \<Rightarrow> key_order \<Rightarrow> str \<Rightarrow> int \<Rightarrow> client_req list \<Rightarrow> gasRelay \<Rightarrow> (str list \<times> bool \<times> gasRelay) option" where
  "serveAll ask ord host port [] r = Some ([], False, r)"
| "serveAll ask ord host port (q # qs) r =
     (case serveOne ask ord (cqMethod q) (gasNormalizeURL host port (cqPath q)) (allHeaders q) (cqBody q) r of
        None \<Rightarrow> None
      | Some (Ok resp, r1) \<Rightarrow> map_option (\<lambda>(ws, e). (resp # ws, e)) (serveAll ask ord host port qs r1)
      | Some (_, r1) \<Rightarrow> Some ([], True, r1))"

text \<open>What the reader makes of an encoded request.\<close>

definition sentHead :: "client_req \<Rightarrow> str list" where
  "sentHead q = (requestLine q @ crlf) # map (\<lambda>l. l @ crlf) (map hline (allHeaders q)) @ [crlf]"

lemma read_request:
  assumes "clean_req q"
  obtains rest2 where "readLine (encodeReq q @ rest) = Some (requestLine q @ crlf, rest2)" "\<not> blank (requestLine q @ crlf)"
    "readHead (length (requestLine q @ crlf)) [requestLine q @ crlf] rest2 = HeadDone (sentHead q) (cqBody q @ rest)"
    "gasParseHeaders (tl (sentHead q)) [] = allHeaders q" "gasReadBody (cqBody q @ rest) (sentHead q) = (cqBody q, rest)"
proof -
  let ?line = "requestLine q @ crlf" and ?ls = "map hline (allHeaders q)"
  have inp: "encodeReq q @ rest = requestLine q @ crlf @ (headOf ?ls @ crlf @ (cqBody q @ rest))" by (simp add: encodeReq_def)
  have first: "readLine (encodeReq q @ rest) = Some (?line, headOf ?ls @ crlf @ (cqBody q @ rest))"
    unfolding inp using requestLine_one_line [OF assms] by (intro readLine_crlf) (simp add: one_line_def)
  have not_blank: "\<not> blank ?line" using requestLine_one_line [OF assms] line_not_blank by blast
  have "\<forall>l \<in> set ?ls. l \<noteq> [] \<and> one_line l" using hline_one_line [OF assms] by (simp add: hline_def header_line_def)
  moreover have "length ?line + length (headOf ?ls) + 2 \<le> 65536" using assms by (simp add: clean_req_def)
  ultimately have "readHead (length ?line) [?line] (headOf ?ls @ crlf @ (cqBody q @ rest)) = HeadDone (sentHead q) (cqBody q @ rest)"
    by (simp only: readHead_lines append.simps sentHead_def)
  moreover have "gasParseHeaders (tl (sentHead q)) [] = allHeaders q"
    using gasParseHeaders_lines [OF hline_one_line [OF assms, unfolded header_line_def] distinct_headers [OF assms]] by (simp add: sentHead_def)
  moreover have "gasReadBody (cqBody q @ rest) (sentHead q) = (cqBody q, rest)"
    unfolding sentHead_def by (rule gasReadBody_request [OF assms])
  ultimately show thesis using that [OF first not_blank] by blast
qed

lemma relayHTTPOverTLS_request:
  assumes "clean_req q"
  shows "relayHTTPOverTLS ask ord host port (encodeReq q @ rest) r =
     (case serveOne ask ord (cqMethod q) (gasNormalizeURL host port (cqPath q)) (allHeaders q) (cqBody q) r of
        None \<Rightarrow> None
      | Some (Ok resp, r1) \<Rightarrow> map_option (\<lambda>(ws, e). (resp # ws, e)) (relayHTTPOverTLS ask ord host port rest r1)
      | Some (_, r1) \<Rightarrow> Some ([], True, r1))"
proof -
  obtain rest2 where facts: "readLine (encodeReq q @ rest) = Some (requestLine q @ crlf, rest2)" "\<not> blank (requestLine q @ crlf)"
    "readHead (length (requestLine q @ crlf)) [requestLine q @ crlf] rest2 = HeadDone (sentHead q) (cqBody q @ rest)"
    "gasParseHeaders (tl (sentHead q)) [] = allHeaders q" "gasReadBody (cqBody q @ rest) (sentHead q) = (cqBody q, rest)"
    using read_request [OF assms] by blast
  show ?thesis
    by (subst relayHTTPOverTLS.simps)
      (simp only: facts gasParseRequestLine_request [OF assms] option.case prod.case head_end.case if_False Let_def fst_conv snd_conv)
qed

text \<open>C22: Requests in a row on one decrypted connection are served one by one. For any requests that announce the
  length of their bodies, sent back to back, the loop hands exactly these requests to the relay, each with its own
  method, URL, headers and body, in the order of their sending, and writes their answers in that order: no byte of a
  body is taken for a request and none is lost.\<close>

theorem pipelined_requests_served:
  assumes "\<forall>q \<in> set qs. clean_req q"
  shows "relayHTTPOverTLS ask ord host port (concat (map encodeReq qs)) r = serveAll ask ord host port qs r"
  using assms
proof (induction qs arbitrary: r)
  case Nil
  then show ?case by (simp add: relayHTTPOverTLS.simps readLine_def)
next
  case (Cons q qs)
  then show ?case using relayHTTPOverTLS_request [of q ask ord host port "concat (map encodeReq qs)" r]
    by (simp split: option.split go.split prod.split)
qed

definition twoReqs :: "client_req list" where
  "twoReqs = [\<lparr>cqMethod = ''POST'', cqPath = ''/a'', cqHeaders = [(''Host'', ''x.org'')], cqBody = ''GET /evil''\<rparr>,
     \<lparr>cqMethod = ''GET'', cqPath = ''/b'', cqHeaders = [], cqBody = []\<rparr>]"

theorem pipelined_requests_served_witness:
  "relayHTTPOverTLS (\<lambda>m u h b r. Some (Ok (m @ u @ b), r)) (\<lambda>ks. ks) ''x.org'' 443 (concat (map encodeReq twoReqs)) (newGASRelay sampleGAS)
     = Some ([''POSThttps://x.org/aGET /evil'', ''GEThttps://x.org/b''], False, newGASRelay sampleGAS)"
proof -
  have len: "itoa (Suc (Suc (Suc (Suc (Suc (Suc (Suc (Suc (Suc 0))))))))) = ''9''" "itoa 0 = ''0''" by code_simp+
  have "clean_req q" if "q \<in> set twoReqs" for q
    using that unfolding twoReqs_def list.set insert_iff
    by (elim disjE) (simp_all add: clean_req_def clean_header_def one_line_def trimmed_def isSpace_def requestLine_def allHeaders_def
        hline_def len crlf_def ToLower_def lowerChar_def)
  then have "relayHTTPOverTLS (\<lambda>m u h b r. Some (Ok (m @ u @ b), r)) (\<lambda>ks. ks) ''x.org'' 443 (concat (map encodeReq twoReqs)) (newGASRelay sampleGAS)
     = serveAll (\<lambda>m u h b r. Some (Ok (m @ u @ b), r)) (\<lambda>ks. ks) ''x.org'' 443 twoReqs (newGASRelay sampleGAS)"
    by (intro pipelined_requests_served) simp
  also have "\<dots> = Some ([''POSThttps://x.org/aGET /evil'', ''GEThttps://x.org/b''], False, newGASRelay sampleGAS)"
    by (simp add: twoReqs_def serveOne_def headerValue_def allHeaders_def gasNormalizeURL_def HasPrefix_def ToLower_def lowerChar_def)
  finally show ?thesis .
qed

section \<open>Plain requests to direct hosts\<close>

text \<open>A plain request for a host that is served directly never arrives. The handler has read the head from the
  socket to find the host, and the raw connection it opens gets only what the socket still holds, at most the
  body: the origin sees no request line and no header.\<close>

theorem direct_request_head_lost:
  assumes "clean_req q" and "ToUpper (cqMethod q) \<noteq> ''CONNECT''" and "HasPrefix (cqPath q) ''http://''"
    and "host = gasExtractHost cd (cqPath q)" and "gasShouldDirectConnect host" and "dialOK host 80"
  shows "handleHTTP dialOK isIP sign handshake cd ask buffered (encodeReq q) s = Some ([SRaw host 80 (drop buffered (cqBody q))], False, s)"
proof -
  obtain rest2 where facts: "readLine (encodeReq q @ []) = Some (requestLine q @ crlf, rest2)"
    "readHead (length (requestLine q @ crlf)) [requestLine q @ crlf] rest2 = HeadDone (sentHead q) (cqBody q @ [])"
    using read_request [OF assms(1), of "[]"] by blast
  have parts: "Split (TrimSpace (requestLine q @ crlf)) CHR '' '' = [cqMethod q, cqPath q, ''HTTP/1.1'']" by (rule Split_requestLine [OF assms(1)])
  show ?thesis unfolding handleHTTP_def facts [unfolded append_Nil2] option.case prod.case head_end.case parts Let_def
    using assms(2-6) by (simp add: relayRawTCP_def)
qed

theorem direct_request_head_lost_witness:
  "\<exists>host cd. handleHTTP (\<lambda>_ _. True) (\<lambda>_. False) (\<lambda>_. None) (\<lambda>_. None) cd (\<lambda>_ _ _ _ _. None) 0
     (encodeReq \<lparr>cqMethod = ''GET'', cqPath = ''http://gemini.google.com/'', cqHeaders = [], cqBody = []\<rparr>)
     (newGASProxyServer sampleGAS (newGASRelay sampleGAS) None)
   = Some ([SRaw host 80 []], False, newGASProxyServer sampleGAS (newGASRelay sampleGAS) None)"
proof -
  let ?q = "\<lparr>cqMethod = ''GET'', cqPath = ''http://gemini.google.com/'', cqHeaders = [], cqBody = []\<rparr>"
  let ?cd = "sampleCodec\<lparr>rcParseURL := \<lambda>_. Some \<lparr>guPath = ''/'', guQuery = [], guHostname = ''gemini.google.com''\<rparr>\<rparr>"
  have len: "itoa 0 = ''0''" by code_simp
  have q: "clean_req ?q" "ToUpper (cqMethod ?q) \<noteq> ''CONNECT''" "HasPrefix (cqPath ?q) ''http://''"
    by (simp_all add: clean_req_def isSpace_def requestLine_def allHeaders_def hline_def len crlf_def ToUpper_def upperChar_def HasPrefix_def)
  have h: "gasShouldDirectConnect (gasExtractHost ?cd (cqPath ?q))" by code_simp
  show ?thesis
    using direct_request_head_lost [OF q refl h TrueI, of "\<lambda>_. False" "\<lambda>_. None" "\<lambda>_. None" "\<lambda>_ _ _ _ _. None" 0
        "newGASProxyServer sampleGAS (newGASRelay sampleGAS) None"]
    unfolding client_req.select_convs drop_Nil by (intro exI)
qed

end
