(* ===== verification/GasManager.thy ===== *)
theory GasManager
  imports GasServer AutoRouting "HOL-Library.Multiset"
begin

text \<open>
  The manager of the GAS relay, \<open>src/proxy/gas.go\<close>: its configuration and file, start and stop, the periodic tasks
  (statistics, failover, rotation of the front domain) and the search for Google addresses; and the addresses of the
  local network, \<open>src/proxy/gas_lan.go\<close>.

  The file holds the decoded configuration. Probes of addresses, the listener and the CA on disk are arguments.
  The goroutines are flags, a run of one of them is a step. The context, ticker and wait group only end them.
\<close>

section \<open>State and configuration\<close>

record GASManager =
  gmConfig :: GASConfig
  gmFile :: "GASConfig option"
  gmRelay :: "gasRelay option"
  gmServer :: "gasProxyServer option"
  gmStopCh :: "bool option"
  gmStats :: bool
  gmFailover :: bool
  gmRotate :: bool
  gmCertGen :: "str option"
  gmStandalone :: bool

definition defaultGASConfig :: GASConfig where
  "defaultGASConfig =
     \<lparr>gaScriptID = ''changeme'', gaScriptIDs = [], gaAuthKey = ''changeme'', gaGoogleIP = ''216.239.38.120'',
      gaFrontDomain = ''www.google.com'', gaFrontDomains = [''www.google.com'', ''mail.google.com'', ''accounts.google.com'', ''gstatic.com''],
      gaListenPort = 8085, gaListenHost = ''127.0.0.1'', gaLANSharing = False, gaVerifySSL = True, gaLogLevel = ''INFO'',
      gaRelayTimeout = 25, gaTLSConnectTimeout = 15, gaMaxResponseBody = 209715200, gaEnabled = False, gaRunning = False,
      gaLastGoogleIP = [], gaConnectionLatency = 0, gaRequestCount = 0, gaBandwidthBytes = 0, gaCacheHits = 0, gaCacheMisses = 0,
      gaCurrentScriptID = [], gaExcludeGoogleServices = False, gaSNIRewrite = False, gaTraceMode = False, gaLanIPs = [],
      gaAutoFailoverEnabled = True, gaFailoverThreshold = 3, gaFailoverInterval = 60, gaRotateFrontDomain = False, gaRotateInterval = 300,
      gaProxyAppsEnabled = False, gaProxyAppList = [], gaHealth = [], gaRelayFailures = 0\<rparr>"

definition NewGASManager :: "GASConfig option \<Rightarrow> GASManager" where
  "NewGASManager onDisk =
     \<lparr>gmConfig = defaultGASConfig, gmFile = onDisk, gmRelay = None, gmServer = None, gmStopCh = None, gmStats = False, gmFailover = False,
      gmRotate = False, gmCertGen = None, gmStandalone = False\<rparr>"

definition SetStandaloneProxy :: "bool \<Rightarrow> GASManager \<Rightarrow> GASManager" where
  "SetStandaloneProxy enabled m = m\<lparr>gmStandalone := enabled\<rparr>"

definition SetCertGenerator :: "str option \<Rightarrow> GASManager \<Rightarrow> GASManager" where
  "SetCertGenerator cg m = m\<lparr>gmCertGen := cg\<rparr>"

text \<open>\<open>werr\<close> is the error of creating the directory or writing the file; the error that is returned comes first.\<close>

definition saveConfigLocked :: "str option \<Rightarrow> GASManager \<Rightarrow> str option \<times> GASManager" where
  "saveConfigLocked werr m = (case werr of Some e \<Rightarrow> (Some e, m) | None \<Rightarrow> (None, m\<lparr>gmFile := Some (gmConfig m)\<rparr>))"

text \<open>\<open>LoadConfig\<close>; \<open>bad\<close> is an error of reading or decoding an existing file.\<close>

definition LoadGASConfig :: "str option \<Rightarrow> str option \<Rightarrow> GASManager \<Rightarrow> str option \<times> GASManager" where
  "LoadGASConfig bad werr m =
     (case gmFile m of
        None \<Rightarrow> saveConfigLocked werr m
      | Some cfg \<Rightarrow>
          (case bad of
             Some e \<Rightarrow> (Some e, m)
           | None \<Rightarrow> (None, m\<lparr>gmConfig := cfg\<lparr>gaRunning := gaRunning (gmConfig m)\<rparr>\<rparr>)))"

definition UpdateGASConfig :: "str option \<Rightarrow> GASConfig \<Rightarrow> GASManager \<Rightarrow> str option \<times> GASManager" where
  "UpdateGASConfig werr cfg m = saveConfigLocked werr (m\<lparr>gmConfig := cfg\<lparr>gaRunning := gaRunning (gmConfig m)\<rparr>\<rparr>)"

section \<open>The CA on disk\<close>

text \<open>\<open>loadFallbackCertGenerator\<close>: the subject of the CA if the certificate and the key can be read and decoded. PEM and
  X.509 decoding are arguments; a key is tried in both formats.\<close>

definition loadFallbackCertGenerator ::
  "(str \<Rightarrow> str option) \<Rightarrow> (str \<Rightarrow> str option) \<Rightarrow> (str \<Rightarrow> str option) \<Rightarrow> (str \<Rightarrow> bool) \<Rightarrow> (str \<Rightarrow> bool) \<Rightarrow> str \<Rightarrow> str option" where
  "loadFallbackCertGenerator readFile pemDecode parseCert isPKCS1 isPKCS8 certDir =
     (case readFile (certDir @ ''/ca.crt'') of
        None \<Rightarrow> None
      | Some certData \<Rightarrow>
          (case pemDecode certData of
             None \<Rightarrow> None
           | Some block \<Rightarrow>
               (case parseCert block of
                  None \<Rightarrow> None
                | Some caCert \<Rightarrow>
                    (case readFile (certDir @ ''/ca.key'') of
                       None \<Rightarrow> None
                     | Some keyData \<Rightarrow>
                         (case pemDecode keyData of
                            None \<Rightarrow> None
                          | Some keyBlock \<Rightarrow> if isPKCS1 keyBlock \<or> isPKCS8 keyBlock then Some caCert else None)))))"

section \<open>Start and stop\<close>

datatype start_out = StartReady | StartFailed str | StartTimeout

definition setNotRunning :: "GASManager \<Rightarrow> GASManager" where
  "setNotRunning m = m\<lparr>gmConfig := (gmConfig m)\<lparr>gaRunning := False\<rparr>\<rparr>"

text \<open>The checks of \<open>Start\<close>: the script identifiers, or the error.\<close>

definition dash :: str where "dash = [CHR '' '', CHR 0xE2, CHR 0x80, CHR 0x94, CHR '' '']"

definition startChecks :: "GASConfig \<Rightarrow> str list go" where
  "startChecks c =
     (if gaAuthKey c = [] \<or> gaAuthKey c = ''changeme'' then
        Err (''auth_key is not set'' @ dash @ ''please enter a valid Auth Key in the Security section'')
      else if gaGoogleIP c = [] then Err (''google_ip is not set'' @ dash @ ''please scan or enter a Google IP address'')
      else if gaFrontDomain c = [] then Err (''front_domain is not set'' @ dash @ ''please enter a front domain (e.g. www.google.com)'')
      else if length (gaScriptIDs c) = 0 then
        (if gaScriptID c = [] \<or> gaScriptID c = ''changeme''
         then Err (''script_id is not set'' @ dash @ ''please enter a valid Script ID in the Script section'')
         else Ok [gaScriptID c])
      else Ok (gaScriptIDs c))"

definition startedConfig :: "str list \<Rightarrow> GASConfig \<Rightarrow> GASConfig" where
  "startedConfig ids c =
     c\<lparr>gaRunning := True, gaLastGoogleIP := gaGoogleIP c, gaRequestCount := 0, gaBandwidthBytes := 0, gaCacheHits := 0,
       gaCacheMisses := 0, gaConnectionLatency := 0, gaCurrentScriptID := (if length ids > 0 then ids ! 0 else gaCurrentScriptID c)\<rparr>"

text \<open>What \<open>Start\<close> does once its state is saved; \<open>fallbackCA\<close> is the CA found on disk, \<open>ready\<close> what the server reports.\<close>

definition launch :: "str option \<Rightarrow> start_out \<Rightarrow> GASManager \<Rightarrow> str option \<times> GASManager" where
  "launch fallbackCA ready m =
     (let cfg = gmConfig m; relay = newGASRelay cfg;
          ca = (if gmCertGen m = None then fallbackCA else gmCertGen m);
          m1 = m\<lparr>gmRelay := Some relay, gmCertGen := ca\<rparr>;
          failed = setNotRunning (m1\<lparr>gmRelay := None, gmServer := None, gmStopCh := None\<rparr>);
          tasks = (\<lambda>q. q\<lparr>gmStats := True, gmFailover := gaAutoFailoverEnabled cfg,
             gmRotate := (gaRotateFrontDomain cfg \<and> length (gaFrontDomains cfg) > 0)\<rparr>)
      in if gmStandalone m then
           (case ready of
              StartFailed e \<Rightarrow> (Some (''gas proxy start failed: '' @ e), failed)
            | StartTimeout \<Rightarrow> (Some ''gas proxy did not become ready within 5 seconds'', failed)
            | StartReady \<Rightarrow>
                (None, tasks (m1\<lparr>gmServer := Some ((newGASProxyServer cfg relay ca)\<lparr>gsListening := True\<rparr>), gmStopCh := Some False\<rparr>)))
         else (None, tasks (m1\<lparr>gmServer := None, gmStopCh := Some True\<rparr>)))"

definition StartGAS :: "str option \<Rightarrow> str option \<Rightarrow> start_out \<Rightarrow> GASManager \<Rightarrow> str option \<times> GASManager" where
  "StartGAS werr fallbackCA ready m =
     (if gaRunning (gmConfig m) then (None, m)
      else case startChecks (gmConfig m) of
        Ok ids \<Rightarrow>
          (case saveConfigLocked werr (m\<lparr>gmConfig := startedConfig ids (gmConfig m), gmStopCh := Some False\<rparr>) of
             (Some e, m1) \<Rightarrow> (Some e, setNotRunning m1)
           | (None, m1) \<Rightarrow> launch fallbackCA ready m1)
      | Err e \<Rightarrow> (Some e, m)
      | Panic \<Rightarrow> (None, m))"

text \<open>\<open>Stop\<close>; the relay's \<open>close\<close> panics on a nil connection of its pool.\<close>

definition StopGAS :: "str option \<Rightarrow> GASManager \<Rightarrow> (str option \<times> GASManager) go" where
  "StopGAS werr m =
     (if \<not> gaRunning (gmConfig m) then Ok (None, m)
      else
        let (err, m1) = saveConfigLocked werr (m\<lparr>gmConfig := (gmConfig m)\<lparr>gaRunning := False, gaHealth := ''red''\<rparr>\<rparr>);
            m2 = m1\<lparr>gmRelay := None, gmServer := None, gmStats := False, gmFailover := False, gmRotate := False, gmStopCh := None\<rparr>
        in case gmRelay m1 of
             None \<Rightarrow> Ok (err, m2)
           | Some relay \<Rightarrow> bind_go (closeRelay relay) (\<lambda>_. Ok (err, m2)))"

section \<open>Periodic tasks\<close>

text \<open>Go's division truncates; latencies are not negative.\<close>

definition collectStats :: "GASManager \<Rightarrow> GASManager" where
  "collectStats m =
     (case gmRelay m of
        None \<Rightarrow> m\<lparr>gmConfig := (gmConfig m)\<lparr>gaHealth := ''red''\<rparr>\<rparr>
      | Some r \<Rightarrow>
          if \<not> gaRunning (gmConfig m) then m\<lparr>gmConfig := (gmConfig m)\<lparr>gaHealth := ''red''\<rparr>\<rparr>
          else
            let c = gmConfig m; latency = grLastLatency r in
            m\<lparr>gmConfig := c\<lparr>gaRequestCount := grReqCount r, gaBandwidthBytes := grBwBytes r, gaCacheHits := grCacheHits r,
               gaCacheMisses := grCacheMisses r, gaConnectionLatency := (if latency > 0 then latency div 1000000 else gaConnectionLatency c),
               gaLastGoogleIP := grConnectHost r, gaRelayFailures := int (grRelayFail r),
               gaHealth := (if grLastRelayOK r \<and> grRelayFail r = 0 then
                              (if latency div 1000000 < 800 then ''green'' else ''yellow'')
                            else if grRelayFail r < 3 then ''yellow'' else ''red'')\<rparr>\<rparr>)"

text \<open>One run of the rotation: the domain after the current one, or the first.\<close>

fun nextDomain :: "str \<Rightarrow> str list \<Rightarrow> str option" where
  "nextDomain current (d # e # ds) = (if d = current then Some e else nextDomain current (e # ds))"
| "nextDomain current _ = None"

definition rotateTick :: "str option \<Rightarrow> GASManager \<Rightarrow> GASManager" where
  "rotateTick werr m =
     (let domains = gaFrontDomains (gmConfig m); current = gaFrontDomain (gmConfig m) in
      if length domains > 0 then
        (let next = (case nextDomain current domains of Some d \<Rightarrow> d | None \<Rightarrow> domains ! 0) in
         if next \<noteq> current then snd (saveConfigLocked werr (m\<lparr>gmConfig := (gmConfig m)\<lparr>gaFrontDomain := next\<rparr>\<rparr>)) else m)
      else m)"

section \<open>Google addresses\<close>

record GoogleIPResult =
  giIP :: str
  giLatency :: int
  giDomain :: str

text \<open>\<open>gasProbeIP\<close>: the latency in milliseconds, \<open>None\<close> where the dial, the handshake, the write or the answer fails. The
  network says which of these steps fail, what the first read gives and how long it all took.\<close>

record probe_net =
  pnDial :: "str \<Rightarrow> bool"
  pnHandshake :: "str \<Rightarrow> str \<Rightarrow> bool"
  pnWrite :: "str \<Rightarrow> str \<Rightarrow> bool"
  pnRead :: "str \<Rightarrow> str option"
  pnMillis :: "str \<Rightarrow> int"

definition gasProbeIP :: "probe_net \<Rightarrow> str \<Rightarrow> str \<Rightarrow> int option" where
  "gasProbeIP net ipStr frontDomain =
     (let addr = JoinHostPort ipStr ''443'';
          req = ''HEAD / HTTP/1.1'' @ crlf @ ''Host: '' @ frontDomain @ crlf @ ''Connection: close'' @ crlf @ crlf
      in if \<not> pnDial net addr then None
         else if \<not> pnHandshake net addr frontDomain then None
         else if \<not> pnWrite net addr req then None
         else case pnRead net addr of
           None \<Rightarrow> None
         | Some buf \<Rightarrow> if length buf = 0 \<or> \<not> HasPrefix (take 256 buf) ''HTTP/'' then None else Some (pnMillis net addr))"

text \<open>The candidates are probed at once; \<open>arrival\<close> gives the order in which their results are received.\<close>

type_synonym prober = "str \<Rightarrow> str \<Rightarrow> int option"

definition gasCandidateIPs :: "str list" where
  "gasCandidateIPs = [''216.239.32.120'', ''216.239.34.120'', ''216.239.36.120'', ''216.239.38.120'', ''142.250.80.142'',
     ''142.250.80.138'', ''142.250.179.110'', ''142.250.185.110'', ''142.250.184.206'', ''142.250.190.238'',
     ''142.250.191.78'', ''172.217.1.206'', ''172.217.14.206'', ''172.217.16.142'', ''172.217.22.174'', ''172.217.164.110'',
     ''172.217.168.206'', ''172.217.169.206'', ''34.107.221.82'', ''142.251.32.110'', ''142.251.33.110'',
     ''142.251.46.206'', ''142.251.46.238'', ''142.250.80.170'', ''142.250.72.206'', ''142.250.64.206'', ''142.250.72.110'']"

definition probeAll :: "prober \<Rightarrow> str \<Rightarrow> str list \<Rightarrow> GoogleIPResult list" where
  "probeAll probe frontDomain ips =
     concat (map (\<lambda>ip. case probe ip frontDomain of None \<Rightarrow> [] | Some l \<Rightarrow> [\<lparr>giIP = ip, giLatency = l, giDomain = frontDomain\<rparr>]) ips)"

definition gasProbeCandidateIPs :: "prober \<Rightarrow> key_order \<Rightarrow> str \<Rightarrow> GoogleIPResult list" where
  "gasProbeCandidateIPs probe arrival frontDomain = probeAll probe frontDomain (arrival gasCandidateIPs)"

text \<open>The addresses of a domain, \<open>None\<close> where the lookup fails; \<open>seen\<close> are the addresses probed before.\<close>

fun probeDomain :: "prober \<Rightarrow> str \<Rightarrow> str \<Rightarrow> str list \<Rightarrow> str set \<Rightarrow> GoogleIPResult list \<times> str set" where
  "probeDomain probe frontDomain domain [] seen = ([], seen)"
| "probeDomain probe frontDomain domain (ip # ips) seen =
     (if ip \<in> seen then probeDomain probe frontDomain domain ips seen
      else
        let (rest, seen2) = probeDomain probe frontDomain domain ips (insert ip seen) in
        (case probe ip frontDomain of None \<Rightarrow> rest | Some l \<Rightarrow> \<lparr>giIP = ip, giLatency = l, giDomain = domain\<rparr> # rest, seen2))"

fun gasProbeDNSIPs :: "prober \<Rightarrow> (str \<Rightarrow> str list option) \<Rightarrow> str \<Rightarrow> str list \<Rightarrow> str set \<Rightarrow> GoogleIPResult list" where
  "gasProbeDNSIPs probe lookup frontDomain [] seen = []"
| "gasProbeDNSIPs probe lookup frontDomain (domain # domains) seen =
     (case lookup domain of
        None \<Rightarrow> gasProbeDNSIPs probe lookup frontDomain domains seen
      | Some ips \<Rightarrow>
          let (found, seen2) = probeDomain probe frontDomain domain ips seen in
          found @ gasProbeDNSIPs probe lookup frontDomain domains seen2)"

text \<open>\<open>sortResults\<close>: the two loops over the indices.\<close>

definition swapAt :: "nat \<Rightarrow> nat \<Rightarrow> 'a list \<Rightarrow> 'a list" where
  "swapAt i j xs = xs[i := xs ! j, j := xs ! i]"

function sortInner :: "nat \<Rightarrow> nat \<Rightarrow> GoogleIPResult list \<Rightarrow> GoogleIPResult list" where
  "sortInner i j results =
     (if j < length results
      then sortInner i (Suc j) (if giLatency (results ! j) < giLatency (results ! i) then swapAt i j results else results)
      else results)"
  by pat_completeness auto
termination
  by (relation "measure (\<lambda>(i, j, results). length results - j)") (auto simp: swapAt_def)

declare sortInner.simps [simp del]

lemma length_swapAt [simp]: "length (swapAt i j xs) = length xs"
  by (simp add: swapAt_def)

lemma length_sortInner [simp]: "length (sortInner i j results) = length results"
  by (induction i j results rule: sortInner.induct) (subst sortInner.simps, simp)

function sortOuter :: "nat \<Rightarrow> GoogleIPResult list \<Rightarrow> GoogleIPResult list" where
  "sortOuter i results = (if i < length results then sortOuter (Suc i) (sortInner i (Suc i) results) else results)"
  by pat_completeness auto
termination
  by (relation "measure (\<lambda>(i, results). length results - i)") auto

declare sortOuter.simps [simp del]

definition sortResults :: "GoogleIPResult list \<Rightarrow> GoogleIPResult list" where
  "sortResults results = sortOuter 0 results"

definition googleScanDomains :: "str list" where
  "googleScanDomains = [''google.com'', ''youtube.com'', ''gmail.com'', ''drive.google.com'', ''docs.google.com'', ''play.google.com'', ''googleapis.com'']"

definition adoptBest :: "str option \<Rightarrow> GoogleIPResult list \<Rightarrow> GASManager \<Rightarrow> GASManager" where
  "adoptBest werr results m =
     (case results of
        [] \<Rightarrow> m
      | best # _ \<Rightarrow> snd (saveConfigLocked werr (m\<lparr>gmConfig := (gmConfig m)\<lparr>gaGoogleIP := giIP best, gaLastGoogleIP := giIP best\<rparr>\<rparr>)))"

definition ScanGoogleIPs ::
  "prober \<Rightarrow> key_order \<Rightarrow> (str \<Rightarrow> str list option) \<Rightarrow> str option \<Rightarrow> GASManager \<Rightarrow> GoogleIPResult list \<times> GASManager" where
  "ScanGoogleIPs probe arrival lookup werr m =
     (let frontDomain = (if gaFrontDomain (gmConfig m) = [] then ''www.google.com'' else gaFrontDomain (gmConfig m));
          results = sortResults (gasProbeCandidateIPs probe arrival frontDomain @ gasProbeDNSIPs probe lookup frontDomain googleScanDomains {})
      in (results, adoptBest werr results m))"

text \<open>One run of the failover task.\<close>

definition failoverTick :: "prober \<Rightarrow> key_order \<Rightarrow> (str \<Rightarrow> str list option) \<Rightarrow> str option \<Rightarrow> GASManager \<Rightarrow> GASManager go" where
  "failoverTick probe arrival lookup werr m =
     (if \<not> gaRunning (gmConfig m) then Ok m
      else case gmRelay m of
        None \<Rightarrow> Ok m
      | Some r \<Rightarrow>
          if int (grRelayFail r) \<ge> gaFailoverThreshold (gmConfig m) then
            bind_go (restartRelay r) (\<lambda>r1. Ok ((snd (ScanGoogleIPs probe arrival lookup werr m))\<lparr>gmRelay := Some r1\<rparr>))
          else Ok m)"

section \<open>Applications and tests\<close>

definition IsAppProxied :: "str \<Rightarrow> GASManager \<Rightarrow> bool" where
  "IsAppProxied appName m =
     (if \<not> gaProxyAppsEnabled (gmConfig m) \<or> length (gaProxyAppList (gmConfig m)) = 0 then True
      else \<exists>name \<in> set (gaProxyAppList (gmConfig m)). EqualFold name appName)"

definition SetProxyApps :: "str option \<Rightarrow> str list \<Rightarrow> GASManager \<Rightarrow> GASManager" where
  "SetProxyApps werr apps m = snd (saveConfigLocked werr (m\<lparr>gmConfig := (gmConfig m)\<lparr>gaProxyAppList := apps\<rparr>\<rparr>))"

record GASTestResult =
  gtSuccess :: bool
  gtError :: str
  gtTCPLatency :: int
  gtTLSLatency :: int
  gtGoogleIP :: str
  gtFrontDomain :: str

text \<open>\<open>TestRelay\<close>; the dial and the handshake give their latency or an error.\<close>

definition TestRelay :: "(str \<Rightarrow> int go) \<Rightarrow> (str \<Rightarrow> bool \<Rightarrow> int go) \<Rightarrow> GASConfig \<Rightarrow> GASTestResult" where
  "TestRelay dial handshake cfg =
     (let googleIP = (if gaGoogleIP cfg = [] then ''216.239.38.120'' else gaGoogleIP cfg);
          frontDomain = (if gaFrontDomain cfg = [] then ''www.google.com'' else gaFrontDomain cfg);
          zero = \<lparr>gtSuccess = False, gtError = [], gtTCPLatency = 0, gtTLSLatency = 0, gtGoogleIP = [], gtFrontDomain = []\<rparr>
      in case dial (JoinHostPort googleIP ''443'') of
           Ok tcp \<Rightarrow>
             (case handshake frontDomain (\<not> gaVerifySSL cfg) of
                Ok tls \<Rightarrow> zero\<lparr>gtTCPLatency := tcp, gtTLSLatency := tls, gtSuccess := True, gtGoogleIP := googleIP, gtFrontDomain := frontDomain\<rparr>
              | Err e \<Rightarrow> zero\<lparr>gtTCPLatency := tcp,
                  gtError := ''TLS handshake with '' @ googleIP @ '' (SNI: '' @ frontDomain @ '') failed: '' @ e\<rparr>
              | Panic \<Rightarrow> zero)
         | Err e \<Rightarrow> zero\<lparr>gtError := ''TCP connect to '' @ googleIP @ '':443 failed: '' @ e\<rparr>
         | Panic \<Rightarrow> zero)"

section \<open>Addresses of the local network\<close>

text \<open>\<open>isPrivateIPv4\<close>: the networks 10/8, 172.16/12, 192.168/16 and the link-local 169.254/16.\<close>

definition isPrivateIPv4 :: "str \<Rightarrow> bool" where
  "isPrivateIPv4 ipStr =
     (case parseIPv4 ipStr of
        None \<Rightarrow> False
      | Some n \<Rightarrow> n div 2 ^ 24 = 10 \<or> n div 2 ^ 20 = 172 * 16 + 1 \<or> n div 2 ^ 16 = 192 * 256 + 168 \<or> n div 2 ^ 16 = 169 * 256 + 254)"

fun lanStep :: "str \<Rightarrow> str set \<times> str list \<Rightarrow> str set \<times> str list" where
  "lanStep ip (seen, ips) = (if ip \<notin> seen \<and> isPrivateIPv4 ip then (insert ip seen, ips @ [ip]) else (seen, ips))"

text \<open>\<open>gasGetLANIPs\<close>: the address of the default route, those of the host's name, those of the interfaces (up flag,
  loopback flag, IPv4 addresses).\<close>

definition gasGetLANIPs :: "str \<Rightarrow> str list \<Rightarrow> (bool \<times> bool \<times> str list) list \<Rightarrow> str list" where
  "gasGetLANIPs primary hostAddrs ifaces =
     (let start = (if primary \<noteq> [] then ({primary}, if isPrivateIPv4 primary then [primary] else []) else ({}, []));
          ifaceAddrs = concat (map (\<lambda>(up, loopback, addrs). if up \<and> \<not> loopback then addrs else []) ifaces)
      in snd (fold lanStep (hostAddrs @ ifaceAddrs) start))"

section \<open>The results are sorted\<close>

lemma mset_swapAt: "i < length xs \<Longrightarrow> j < length xs \<Longrightarrow> mset (swapAt i j xs) = mset xs"
  by (simp add: swapAt_def mset_swap)

lemma take_swapAt: "k \<le> i \<Longrightarrow> k \<le> j \<Longrightarrow> take k (swapAt i j xs) = take k xs"
  by (simp add: swapAt_def)

text \<open>The inner loop leaves what is before \<open>i\<close> and puts a least element at \<open>i\<close>.\<close>

lemma sortInner_correct:
  assumes "i < j" and "j \<le> length xs" and "\<forall>k. i < k \<and> k < j \<longrightarrow> giLatency (xs ! i) \<le> giLatency (xs ! k)"
  shows "mset (sortInner i j xs) = mset xs \<and> take i (sortInner i j xs) = take i xs \<and>
     (\<forall>k. i < k \<and> k < length xs \<longrightarrow> giLatency (sortInner i j xs ! i) \<le> giLatency (sortInner i j xs ! k))"
  using assms
proof (induction i j xs rule: sortInner.induct)
  case (1 i j xs)
  show ?case
  proof (cases "j < length xs")
    case False
    then show ?thesis using "1.prems" by (subst (1 2 3 4) sortInner.simps) auto
  next
    case True
    let ?ys = "if giLatency (xs ! j) < giLatency (xs ! i) then swapAt i j xs else xs"
    have step: "sortInner i j xs = sortInner i (Suc j) ?ys" using True by (simp add: sortInner.simps)
    have "\<forall>k. i < k \<and> k < Suc j \<longrightarrow> giLatency (?ys ! i) \<le> giLatency (?ys ! k)"
      using "1.prems" True by (auto simp: swapAt_def nth_list_update less_Suc_eq)
    moreover have "mset ?ys = mset xs" "take i ?ys = take i xs" "length ?ys = length xs"
      using "1.prems"(1) True by (simp_all add: mset_swapAt take_swapAt)
    ultimately show ?thesis using "1.IH" [OF True] "1.prems"(1) True unfolding step by simp
  qed
qed

definition sorted_upto :: "nat \<Rightarrow> GoogleIPResult list \<Rightarrow> bool" where
  "sorted_upto i xs = (sorted (map giLatency (take i xs)) \<and>
     (\<forall>x \<in> set (take i xs). \<forall>y \<in> set (drop i xs). giLatency x \<le> giLatency y))"

lemma sorted_upto_step:
  assumes "sorted_upto i xs" and "i < length xs"
  shows "sorted_upto (Suc i) (sortInner i (Suc i) xs)"
proof -
  let ?ys = "sortInner i (Suc i) xs"
  have ys: "mset ?ys = mset xs" "take i ?ys = take i xs" "\<forall>k. i < k \<and> k < length xs \<longrightarrow> giLatency (?ys ! i) \<le> giLatency (?ys ! k)"
    using sortInner_correct [of i "Suc i" xs] assms(2) by auto
  have "mset (take i ?ys) + mset (drop i ?ys) = mset (take i xs) + mset (drop i xs)"
    using ys(1) by (metis append_take_drop_id mset_append)
  then have rest: "set (drop i ?ys) = set (drop i xs)" using ys(2) by (metis add_left_cancel set_mset_mset)
  have at: "drop i ?ys = ?ys ! i # drop (Suc i) ?ys" "take (Suc i) ?ys = take i ?ys @ [?ys ! i]"
    using assms(2) by (simp_all add: Cons_nth_drop_Suc take_Suc_conv_app_nth)
  have "giLatency (?ys ! i) \<le> giLatency y" if "y \<in> set (drop (Suc i) ?ys)" for y
    using that ys(3) by (fastforce simp: in_set_conv_nth)
  moreover have "giLatency x \<le> giLatency y" if "x \<in> set (take i xs)" "y \<in> set (drop i ?ys)" for x y
    using that rest assms(1) by (auto simp: sorted_upto_def)
  ultimately show ?thesis
    using assms(1) ys(2) at unfolding sorted_upto_def by (auto simp: sorted_append)
qed

lemma sortOuter_correct:
  "sorted_upto i xs \<Longrightarrow> i \<le> length xs \<Longrightarrow> mset (sortOuter i xs) = mset xs \<and> sorted (map giLatency (sortOuter i xs))"
proof (induction i xs rule: sortOuter.induct)
  case (1 i xs)
  show ?case
  proof (cases "i < length xs")
    case True
    have "sortOuter i xs = sortOuter (Suc i) (sortInner i (Suc i) xs)" using True by (simp add: sortOuter.simps)
    moreover have "mset (sortInner i (Suc i) xs) = mset xs" using sortInner_correct [of i "Suc i" xs] True by simp
    ultimately show ?thesis using "1.IH" [OF True] sorted_upto_step [OF "1.prems"(1) True] True by simp
  next
    case False
    then show ?thesis using "1.prems" by (simp add: sortOuter.simps sorted_upto_def)
  qed
qed

text \<open>The scan sorts: its results are the reachable addresses it found, each as often as it was found, by rising
  latency, and the first of them, the fastest, becomes the address of the configuration.\<close>

theorem ScanGoogleIPs_fastest:
  assumes "ScanGoogleIPs probe arrival lookup None m = (results, m1)" and "results \<noteq> []"
  shows "sorted (map giLatency results) \<and>
     (let front = (if gaFrontDomain (gmConfig m) = [] then ''www.google.com'' else gaFrontDomain (gmConfig m)) in
      mset results = mset (gasProbeCandidateIPs probe arrival front) + mset (gasProbeDNSIPs probe lookup front googleScanDomains {})) \<and>
     (\<forall>r \<in> set results. giLatency (hd results) \<le> giLatency r) \<and>
     gaGoogleIP (gmConfig m1) = giIP (hd results) \<and> gmFile m1 = Some (gmConfig m1)"
proof -
  have ok: "mset (sortResults xs) = mset xs \<and> sorted (map giLatency (sortResults xs))" for xs
    unfolding sortResults_def by (rule sortOuter_correct) (simp_all add: sorted_upto_def)
  let ?front = "if gaFrontDomain (gmConfig m) = [] then ''www.google.com'' else gaFrontDomain (gmConfig m)"
  let ?found = "gasProbeCandidateIPs probe arrival ?front @ gasProbeDNSIPs probe lookup ?front googleScanDomains {}"
  obtain best rest where r: "results = best # rest" using assms(2) by (cases results) auto
  have run: "results = sortResults ?found"
    "m1 = adoptBest None results m"
    using assms(1) unfolding ScanGoogleIPs_def Let_def by blast+
  have sorted: "sorted (map giLatency results)" "mset results = mset ?found" using ok run(1) by simp_all
  moreover have "\<forall>x \<in> set results. giLatency (hd results) \<le> giLatency x" using sorted(1) r by auto
  moreover have "gaGoogleIP (gmConfig m1) = giIP (hd results)" "gmFile m1 = Some (gmConfig m1)"
    using run(2) r by (simp_all add: adoptBest_def saveConfigLocked_def)
  ultimately show ?thesis by (simp only: Let_def mset_append simp_thms)
qed

theorem ScanGoogleIPs_fastest_witness:
  "\<exists>m1. ScanGoogleIPs (\<lambda>ip _. if ip = ''216.239.32.120'' then Some 40 else if ip = ''34.107.221.82'' then Some 7 else None)
       (\<lambda>ks. ks) (\<lambda>_. None) None (NewGASManager None)
     = ([\<lparr>giIP = ''34.107.221.82'', giLatency = 7, giDomain = ''www.google.com''\<rparr>,
         \<lparr>giIP = ''216.239.32.120'', giLatency = 40, giDomain = ''www.google.com''\<rparr>], m1) \<and>
     gaGoogleIP (gmConfig m1) = ''34.107.221.82''"
proof -
  let ?probe = "\<lambda>ip _ :: str. if ip = ''216.239.32.120'' then Some (40 :: int) else if ip = ''34.107.221.82'' then Some 7 else None"
  let ?slow = "\<lparr>giIP = ''216.239.32.120'', giLatency = 40, giDomain = ''www.google.com''\<rparr>"
  let ?fast = "\<lparr>giIP = ''34.107.221.82'', giLatency = 7, giDomain = ''www.google.com''\<rparr>"
  have "gasProbeCandidateIPs ?probe (\<lambda>ks. ks) ''www.google.com'' = [?slow, ?fast]"
    by (simp add: gasProbeCandidateIPs_def probeAll_def gasCandidateIPs_def)
  moreover have "gasProbeDNSIPs ?probe (\<lambda>_. None) ''www.google.com'' googleScanDomains {} = []" by (simp add: googleScanDomains_def)
  moreover have "sortResults [?slow, ?fast] = [?fast, ?slow]"
    by (simp add: sortResults_def sortOuter.simps sortInner.simps swapAt_def)
  moreover have "gaFrontDomain (gmConfig (NewGASManager None)) = ''www.google.com''" by (simp add: NewGASManager_def defaultGASConfig_def)
  ultimately obtain m1 where run: "ScanGoogleIPs ?probe (\<lambda>ks. ks) (\<lambda>_. None) None (NewGASManager None) = ([?fast, ?slow], m1)"
    by (simp add: ScanGoogleIPs_def Let_def adoptBest_def)
  from ScanGoogleIPs_fastest [OF this] run show ?thesis by simp
qed

section \<open>Running\<close>

text \<open>The operations of a manager. \<open>GRelay\<close> is whatever the engine does to itself.\<close>

datatype gas_op = GLoad "str option" "str option" | GUpdate "str option" GASConfig | GStandalone bool | GCertGen "str option"
  | GStart "str option" "str option" start_out | GStop "str option" | GStats | GRotate "str option"
  | GFailover prober key_order "str \<Rightarrow> str list option" "str option" | GScan prober key_order "str \<Rightarrow> str list option" "str option"
  | GApps "str option" "str list" | GRelay "gasRelay \<Rightarrow> gasRelay"

fun gas_step :: "gas_op \<Rightarrow> GASManager \<Rightarrow> GASManager go" where
  "gas_step (GLoad bad werr) m = Ok (snd (LoadGASConfig bad werr m))"
| "gas_step (GUpdate werr cfg) m = Ok (snd (UpdateGASConfig werr cfg m))"
| "gas_step (GStandalone b) m = Ok (SetStandaloneProxy b m)"
| "gas_step (GCertGen cg) m = Ok (SetCertGenerator cg m)"
| "gas_step (GStart werr ca ready) m = Ok (snd (StartGAS werr ca ready m))"
| "gas_step (GStop werr) m = bind_go (StopGAS werr m) (\<lambda>(_, m1). Ok m1)"
| "gas_step GStats m = Ok (collectStats m)"
| "gas_step (GRotate werr) m = Ok (rotateTick werr m)"
| "gas_step (GFailover probe arrival lookup werr) m = failoverTick probe arrival lookup werr m"
| "gas_step (GScan probe arrival lookup werr) m = Ok (snd (ScanGoogleIPs probe arrival lookup werr m))"
| "gas_step (GApps werr apps) m = Ok (SetProxyApps werr apps m)"
| "gas_step (GRelay f) m = Ok (m\<lparr>gmRelay := map_option f (gmRelay m)\<rparr>)"

definition running_ok :: "GASManager \<Rightarrow> bool" where
  "running_ok m = ((gaRunning (gmConfig m) \<longleftrightarrow> gmRelay m \<noteq> None) \<and>
     (gmServer m \<noteq> None \<or> gmStats m \<or> gmFailover m \<or> gmRotate m \<longrightarrow> gaRunning (gmConfig m)))"

lemma saveConfigLocked_fields [simp]:
  "gmConfig (snd (saveConfigLocked werr m)) = gmConfig m" "gmRelay (snd (saveConfigLocked werr m)) = gmRelay m"
  "gmServer (snd (saveConfigLocked werr m)) = gmServer m" "gmStats (snd (saveConfigLocked werr m)) = gmStats m"
  "gmFailover (snd (saveConfigLocked werr m)) = gmFailover m" "gmRotate (snd (saveConfigLocked werr m)) = gmRotate m"
  by (simp_all add: saveConfigLocked_def split: option.split)

lemma running_ok_save [simp]: "running_ok (snd (saveConfigLocked werr m)) = running_ok m"
  by (simp add: running_ok_def)

text \<open>An operation that keeps what the invariant speaks of.\<close>

lemma running_ok_cong:
  assumes "gaRunning (gmConfig m1) = gaRunning (gmConfig m)" and "(gmRelay m1 = None) = (gmRelay m = None)" and "gmServer m1 = gmServer m"
    and "gmStats m1 = gmStats m" and "gmFailover m1 = gmFailover m" and "gmRotate m1 = gmRotate m"
  shows "running_ok m1 = running_ok m"
  using assms by (simp add: running_ok_def)

lemma ScanGoogleIPs_keeps:
  "running_ok (snd (ScanGoogleIPs probe arrival lookup werr m)) = running_ok m"
  "gmRelay (snd (ScanGoogleIPs probe arrival lookup werr m)) = gmRelay m"
proof -
  obtain results where scan: "snd (ScanGoogleIPs probe arrival lookup werr m) = adoptBest werr results m" by (simp add: ScanGoogleIPs_def Let_def)
  show "running_ok (snd (ScanGoogleIPs probe arrival lookup werr m)) = running_ok m"
    "gmRelay (snd (ScanGoogleIPs probe arrival lookup werr m)) = gmRelay m"
    unfolding scan by (rule running_ok_cong; cases results; simp add: adoptBest_def) (cases results; simp add: adoptBest_def)
qed

lemma running_ok_launch:
  assumes "gmRelay m = None" and "gmServer m = None" and "\<not> gmStats m" and "\<not> gmFailover m" and "\<not> gmRotate m" and "gaRunning (gmConfig m)"
  shows "running_ok (snd (launch ca ready m))"
  using assms by (cases ready) (simp_all add: launch_def running_ok_def setNotRunning_def Let_def)

lemma running_ok_Start:
  assumes "running_ok m"
  shows "running_ok (snd (StartGAS werr ca ready m))"
proof (cases "gaRunning (gmConfig m)")
  case True
  then show ?thesis using assms by (simp add: StartGAS_def)
next
  case False
  then have off: "gmRelay m = None" "gmServer m = None" "\<not> gmStats m" "\<not> gmFailover m" "\<not> gmRotate m"
    using assms by (auto simp: running_ok_def)
  show ?thesis
  proof (cases "startChecks (gmConfig m)")
    case (Ok ids)
    let ?m = "m\<lparr>gmConfig := startedConfig ids (gmConfig m), gmStopCh := Some False\<rparr>"
    show ?thesis
    proof (cases werr)
      case None
      then show ?thesis using False Ok off running_ok_launch [of "?m\<lparr>gmFile := Some (gmConfig ?m)\<rparr>"]
        by (simp add: StartGAS_def saveConfigLocked_def startedConfig_def)
    next
      case (Some e)
      then show ?thesis using False Ok off by (simp add: StartGAS_def saveConfigLocked_def setNotRunning_def running_ok_def)
    qed
  qed (use assms False in \<open>simp_all add: StartGAS_def\<close>)
qed

lemma running_ok_Stop: "StopGAS werr m = Ok (err, m1) \<Longrightarrow> running_ok m \<Longrightarrow> running_ok m1"
  by (auto simp: StopGAS_def running_ok_def bind_go_Ok_iff saveConfigLocked_def Let_def split: if_splits option.splits prod.splits)

lemma running_ok_step: "running_ok m \<Longrightarrow> gas_step op m = Ok m1 \<Longrightarrow> running_ok m1"
proof (induction op)
  case (GLoad bad werr)
  moreover have "running_ok (snd (LoadGASConfig bad werr m)) = running_ok m"
    by (rule running_ok_cong) (simp_all add: LoadGASConfig_def split: option.split)
  ultimately show ?case by simp
next
  case (GUpdate werr cfg)
  moreover have "running_ok (snd (UpdateGASConfig werr cfg m)) = running_ok m"
    by (rule running_ok_cong) (simp_all add: UpdateGASConfig_def)
  ultimately show ?case by simp
next
  case (GStop werr)
  then show ?case by (auto simp: bind_go_Ok_iff dest: running_ok_Stop)
next
  case GStats
  moreover have "running_ok (collectStats m) = running_ok m"
    by (rule running_ok_cong) (simp_all add: collectStats_def Let_def split: option.split)
  ultimately show ?case by simp
next
  case (GRotate werr)
  moreover have "running_ok (rotateTick werr m) = running_ok m"
    by (rule running_ok_cong) (simp_all add: rotateTick_def Let_def)
  ultimately show ?case by simp
next
  case (GFailover probe arrival lookup werr)
  then show ?case
  proof (cases "gmRelay m")
    case (Some r)
    have "running_ok (q\<lparr>gmRelay := Some r1\<rparr>)" if "running_ok q" "gmRelay q = Some r" for q r1
      using that by (simp add: running_ok_def)
    then show ?thesis using GFailover Some ScanGoogleIPs_keeps [of probe arrival lookup werr m]
      by (auto simp: failoverTick_def bind_go_Ok_iff split: if_splits)
  qed (auto simp: failoverTick_def split: if_splits)
next
  case (GStandalone b)
  then show ?case by (auto simp: SetStandaloneProxy_def running_ok_def)
next
  case (GCertGen cg)
  then show ?case by (auto simp: SetCertGenerator_def running_ok_def)
next
  case (GApps werr apps)
  moreover have "running_ok (SetProxyApps werr apps m) = running_ok m" by (rule running_ok_cong) (simp_all add: SetProxyApps_def)
  ultimately show ?case by simp
next
  case (GRelay f)
  then show ?case by (auto simp: running_ok_def)
qed (auto simp: running_ok_Start ScanGoogleIPs_keeps)

lemma running_ok_run: "running_ok m \<Longrightarrow> go_run gas_step ops m = Ok m1 \<Longrightarrow> running_ok m1"
  by (induction ops arbitrary: m) (auto simp: bind_go_Ok_iff dest: running_ok_step)

text \<open>The manager is running exactly while it holds an engine: after any sequence of its operations, failed starts
  and failed saves included, the configuration says running if and only if there is a relay, and no proxy server and
  no periodic task is left over in a stopped manager.\<close>

theorem running_iff_relay:
  assumes "go_run gas_step ops (NewGASManager onDisk) = Ok m"
  shows "(gaRunning (gmConfig m) \<longleftrightarrow> gmRelay m \<noteq> None) \<and>
     (gmServer m \<noteq> None \<or> gmStats m \<or> gmFailover m \<or> gmRotate m \<longrightarrow> gaRunning (gmConfig m))"
proof -
  have "running_ok (NewGASManager onDisk)" by (simp add: running_ok_def NewGASManager_def defaultGASConfig_def)
  then show ?thesis using running_ok_run [OF _ assms] unfolding running_ok_def by blast
qed

theorem running_iff_relay_witness:
  "\<exists>m. go_run gas_step [GUpdate None sampleGAS, GStandalone True, GStart None None StartTimeout, GStart None None StartReady] (NewGASManager None) = Ok m
     \<and> gmRelay m \<noteq> None"
proof -
  obtain m where run: "go_run gas_step [GUpdate None sampleGAS, GStandalone True, GStart None None StartTimeout, GStart None None StartReady] (NewGASManager None) = Ok m"
    by simp
  moreover have "gaRunning (gmConfig m)"
    using run by (auto simp: UpdateGASConfig_def saveConfigLocked_def SetStandaloneProxy_def StartGAS_def startChecks_def sampleGAS_def
        NewGASManager_def defaultGASConfig_def launch_def setNotRunning_def startedConfig_def Let_def)
  ultimately show ?thesis using running_iff_relay [OF run] by blast
qed

section \<open>Rotation\<close>

lemma nextDomain_nth:
  assumes "distinct ds" and "i < length ds"
  shows "nextDomain (ds ! i) ds = (if Suc i < length ds then Some (ds ! Suc i) else None)"
  using assms
proof (induction "ds ! i" ds arbitrary: i rule: nextDomain.induct)
  case (1 d e ds)
  show ?case
  proof (cases i)
    case (Suc j)
    then have "(d # e # ds) ! i = (e # ds) ! j" "d \<noteq> (e # ds) ! j" using "1.prems" by (auto simp: nth_Cons split: nat.splits)
    then show ?thesis using "1.hyps" [of j] "1.prems" Suc by simp
  qed simp
qed auto

lemma rotateTick_next:
  assumes "distinct (gaFrontDomains (gmConfig m))" and "i < length (gaFrontDomains (gmConfig m))"
    and "gaFrontDomain (gmConfig m) = gaFrontDomains (gmConfig m) ! i"
  shows "gaFrontDomain (gmConfig (rotateTick werr m)) = gaFrontDomains (gmConfig m) ! (Suc i mod length (gaFrontDomains (gmConfig m)))"
    and "gaFrontDomains (gmConfig (rotateTick werr m)) = gaFrontDomains (gmConfig m)"
proof -
  let ?ds = "gaFrontDomains (gmConfig m)"
  have "Suc i mod length ?ds = (if Suc i < length ?ds then Suc i else 0)" using assms(2) by (auto simp: mod_if)
  then show "gaFrontDomain (gmConfig (rotateTick werr m)) = ?ds ! (Suc i mod length ?ds)"
    "gaFrontDomains (gmConfig (rotateTick werr m)) = ?ds"
    using nextDomain_nth [OF assms(1,2)] assms(2,3) by (auto simp: rotateTick_def Let_def)
qed

lemma rotate_many:
  assumes "distinct (gaFrontDomains (gmConfig m))" and "i < length (gaFrontDomains (gmConfig m))"
    and "gaFrontDomain (gmConfig m) = gaFrontDomains (gmConfig m) ! i"
  shows "gaFrontDomains (gmConfig ((rotateTick werr ^^ n) m)) = gaFrontDomains (gmConfig m) \<and>
     gaFrontDomain (gmConfig ((rotateTick werr ^^ n) m)) = gaFrontDomains (gmConfig m) ! ((i + n) mod length (gaFrontDomains (gmConfig m)))"
proof (induction n)
  case 0
  then show ?case using assms by simp
next
  case (Suc n)
  let ?ds = "gaFrontDomains (gmConfig m)" and ?m = "(rotateTick werr ^^ n) m"
  have "(i + n) mod length ?ds < length ?ds" using assms(2) by (intro mod_less_divisor) auto
  then show ?case using rotateTick_next [of ?m "(i + n) mod length ?ds" werr] assms(1) Suc by (simp add: mod_Suc_eq)
qed

lemma mod_shift: "(a + b mod l) mod l = (a mod l + b) mod (l :: nat)"
  by (simp add: mod_simps)

text \<open>The rotation reaches every front domain: with distinct domains, one of them current, the domain after \<open>n\<close> runs
  of the task is the one \<open>n\<close> places further round the list, so each domain is current again and again.\<close>

theorem rotation_cycles:
  assumes "distinct (gaFrontDomains (gmConfig m))" and "gaFrontDomain (gmConfig m) = gaFrontDomains (gmConfig m) ! i"
    and "i < length (gaFrontDomains (gmConfig m))" and "d \<in> set (gaFrontDomains (gmConfig m))"
  shows "gaFrontDomain (gmConfig ((rotateTick werr ^^ n) m)) = gaFrontDomains (gmConfig m) ! ((i + n) mod length (gaFrontDomains (gmConfig m))) \<and>
     (\<exists>k < length (gaFrontDomains (gmConfig m)). gaFrontDomain (gmConfig ((rotateTick werr ^^ (n + k)) m)) = d)"
proof -
  let ?ds = "gaFrontDomains (gmConfig m)" and ?l = "length (gaFrontDomains (gmConfig m))"
  obtain j where j: "j < ?l" "?ds ! j = d" using assms(4) by (auto simp: in_set_conv_nth)
  let ?k = "(j + (?l - (i + n) mod ?l)) mod ?l"
  have pos: "0 < ?l" using assms(3) by linarith
  have "(i + (n + ?k)) mod ?l = ((i + n) + ?k) mod ?l" by (simp only: add.assoc)
  also have "\<dots> = ((i + n) mod ?l + (j + (?l - (i + n) mod ?l))) mod ?l" by (rule mod_shift)
  also have "\<dots> = (j + ?l) mod ?l" using mod_less_divisor [OF pos, of "i + n"] by (simp add: add.commute add.left_commute)
  also have "\<dots> = j" using j(1) by simp
  finally have "gaFrontDomain (gmConfig ((rotateTick werr ^^ (n + ?k)) m)) = d"
    using rotate_many [OF assms(1,3,2), of "n + ?k" werr] j(2) by simp
  moreover have "?k < ?l" using pos by simp
  ultimately show ?thesis using rotate_many [OF assms(1,3,2), of n werr] by blast
qed

theorem rotation_cycles_witness:
  "gaFrontDomain (gmConfig ((rotateTick None ^^ 6) (NewGASManager None))) = ''accounts.google.com''"
proof -
  let ?m = "NewGASManager None"
  have "distinct (gaFrontDomains (gmConfig ?m))" "gaFrontDomain (gmConfig ?m) = gaFrontDomains (gmConfig ?m) ! 0"
    "0 < length (gaFrontDomains (gmConfig ?m))" "''gstatic.com'' \<in> set (gaFrontDomains (gmConfig ?m))"
    by (simp_all add: NewGASManager_def defaultGASConfig_def)
  from rotation_cycles [OF this, of 6 None] show ?thesis by (simp add: NewGASManager_def defaultGASConfig_def)
qed

section \<open>What the running engine gets to know\<close>

lemma restartRelay_fields: "restartRelay r = Ok r1 \<Longrightarrow> grConnectHost r1 = grConnectHost r \<and> grSniHosts r1 = grSniHosts r \<and> grSniHost r1 = grSniHost r"
  by (auto simp: restartRelay_def closeAll_def bind_go_Ok_iff split: if_splits)

text \<open>Failover does not switch the address. The task finds the fastest address and writes it to the configuration,
  but the engine it then restarts keeps the address it was created with, and the next collection of statistics reports
  the old address again; the same engine never learns of a rotated front domain or an updated configuration.\<close>

theorem failover_keeps_address:
  assumes "gmRelay m = Some r" and "failoverTick probe arrival lookup werr m = Ok m1"
    and "gmConfig m2 = cfg" and "gmRelay m2 = gmRelay m1" and "gaRunning cfg"
  shows "(\<exists>r1. gmRelay m1 = Some r1 \<and> grConnectHost r1 = grConnectHost r) \<and>
     gaLastGoogleIP (gmConfig (collectStats m2)) = grConnectHost r \<and>
     gmRelay (rotateTick werr m) = Some r \<and> gmRelay (snd (UpdateGASConfig werr cfg m)) = Some r"
proof -
  obtain r1 where r1: "gmRelay m1 = Some r1" "grConnectHost r1 = grConnectHost r"
    using assms(1,2) restartRelay_fields by (auto simp: failoverTick_def bind_go_Ok_iff split: if_splits)
  then have "gaLastGoogleIP (gmConfig (collectStats m2)) = grConnectHost r" using assms(3-5) by (simp add: collectStats_def Let_def)
  moreover have "gmRelay (rotateTick werr m) = Some r" "gmRelay (snd (UpdateGASConfig werr cfg m)) = Some r"
    using assms(1) by (simp_all add: rotateTick_def UpdateGASConfig_def Let_def)
  ultimately show ?thesis using r1 by blast
qed

definition failingRelay :: gasRelay where
  "failingRelay = (newGASRelay sampleGAS)\<lparr>grRelayFail := 4\<rparr>"

theorem failover_keeps_address_witness:
  "\<exists>m1 r1. failoverTick (\<lambda>ip _. if ip = ''34.107.221.82'' then Some 7 else None) (\<lambda>ks. ks) (\<lambda>_. None) None
       ((NewGASManager None)\<lparr>gmConfig := sampleGAS, gmRelay := Some failingRelay\<rparr>) = Ok m1 \<and>
     gaGoogleIP (gmConfig m1) = ''34.107.221.82'' \<and> gmRelay m1 = Some r1 \<and> grConnectHost r1 = ''216.239.38.120''"
proof -
  let ?probe = "\<lambda>ip _ :: str. if ip = ''34.107.221.82'' then Some (7 :: int) else None"
  let ?m = "(NewGASManager None)\<lparr>gmConfig := sampleGAS, gmRelay := Some failingRelay\<rparr>"
  have "gasProbeCandidateIPs ?probe (\<lambda>ks. ks) ''www.google.com'' = [\<lparr>giIP = ''34.107.221.82'', giLatency = 7, giDomain = ''www.google.com''\<rparr>]"
    by (simp add: gasProbeCandidateIPs_def probeAll_def gasCandidateIPs_def)
  moreover have "gasProbeDNSIPs ?probe (\<lambda>_. None) ''www.google.com'' googleScanDomains {} = []" by (simp add: googleScanDomains_def)
  ultimately have scan: "ScanGoogleIPs ?probe (\<lambda>ks. ks) (\<lambda>_. None) None ?m
      = ([\<lparr>giIP = ''34.107.221.82'', giLatency = 7, giDomain = ''www.google.com''\<rparr>],
         adoptBest None [\<lparr>giIP = ''34.107.221.82'', giLatency = 7, giDomain = ''www.google.com''\<rparr>] ?m)"
    by (simp add: ScanGoogleIPs_def Let_def sampleGAS_def sortResults_def sortOuter.simps sortInner.simps)
  obtain m1 where m1: "failoverTick ?probe (\<lambda>ks. ks) (\<lambda>_. None) None ?m = Ok m1" "gaGoogleIP (gmConfig m1) = ''34.107.221.82''" "gaRunning (gmConfig m1)"
    using scan by (simp add: failoverTick_def failingRelay_def newGASRelay_def sampleGAS_def restartRelay_def closeAll_def adoptBest_def saveConfigLocked_def)
  have "gmRelay ?m = Some failingRelay" by simp
  from failover_keeps_address [OF this m1(1) refl refl m1(3)] m1 show ?thesis by (auto simp: failingRelay_def newGASRelay_def sampleGAS_def)
qed

text \<open>The latency the user sees is always zero. The engine stores the latency of a request in milliseconds, the
  manager divides it by a million once more: whatever a request took, up to a quarter of an hour, the reported latency
  is zero, and a relay that answers is called stable however slow it is.\<close>

theorem reported_latency_zero:
  assumes "gmRelay m = Some (recordStats cd url n latency errored r)" and "gaRunning (gmConfig m)" and "1000000 \<le> latency"
    and "latency < 15 * 60 * 1000000000" and "grLastRelayOK r" and "grRelayFail r = 0"
  shows "gaConnectionLatency (gmConfig (collectStats m)) = 0 \<and> gaHealth (gmConfig (collectStats m)) = ''green''"
proof -
  let ?r = "recordStats cd url n latency errored r"
  have "grLastLatency ?r = latency div 1000000" "grLastRelayOK ?r" "grRelayFail ?r = 0"
    using assms(5,6) by (simp_all add: recordStats_def Let_def)
  moreover have "0 < latency div 1000000" "latency div 1000000 div 1000000 = 0" using assms(3,4) by linarith+
  ultimately show ?thesis using assms(1,2) by (simp add: collectStats_def Let_def)
qed

theorem reported_latency_zero_witness:
  "gaHealth (gmConfig (collectStats ((NewGASManager None)\<lparr>gmConfig := sampleGAS,
     gmRelay := Some (recordStats sampleCodec ''x.org'' 4 60000000000 False ((newGASRelay sampleGAS)\<lparr>grLastRelayOK := True\<rparr>))\<rparr>))) = ''green''"
proof -
  let ?m = "(NewGASManager None)\<lparr>gmConfig := sampleGAS,
     gmRelay := Some (recordStats sampleCodec ''x.org'' 4 60000000000 False ((newGASRelay sampleGAS)\<lparr>grLastRelayOK := True\<rparr>))\<rparr>"
  have "gmRelay ?m = Some (recordStats sampleCodec ''x.org'' 4 60000000000 False ((newGASRelay sampleGAS)\<lparr>grLastRelayOK := True\<rparr>))" by simp
  moreover have "gaRunning (gmConfig ?m)" "grRelayFail ((newGASRelay sampleGAS)\<lparr>grLastRelayOK := True\<rparr>) = 0"
    by (simp_all add: sampleGAS_def newGASRelay_def)
  ultimately show ?thesis using reported_latency_zero [of ?m] by simp
qed

end
