(* ===== verification/GasTests.thy ===== *)
theory GasTests
  imports GasManager
begin

text \<open>
  The tests that the GAS manager offers, \<open>TestConnection\<close> and \<open>RunSpeedTest\<close> of \<open>src/proxy/gas.go\<close>.

  A download is an argument: by the client that is used (through the proxy or not) and the URL, an error, or the time in nanoseconds with the length
  of the body or the error of reading it. The speed, a \<open>float64\<close> in the code, is kept exactly as the bits and the nanoseconds it is the quotient of;
  \<open>None\<close> is the zero of a download that took no time.
\<close>

definition TestConnection :: "(str \<Rightarrow> int go) \<Rightarrow> GASManager \<Rightarrow> int go" where
  "TestConnection dial m =
     (let addr = JoinHostPort (gaListenHost (gmConfig m)) (itoaInt (gaListenPort (gmConfig m))) in
      case dial addr of Ok ns \<Rightarrow> Ok (ns div 1000000) | Err e \<Rightarrow> Err (''gas not reachable at '' @ addr @ '': '' @ e) | Panic \<Rightarrow> Panic)"

record SpeedTestResult =
  spSuccess :: bool
  spError :: str
  spSpeed :: "(nat \<times> int) option"
  spLatencyMs :: int
  spBytesDown :: nat
  spDurationMs :: int

type_synonym download = "bool \<Rightarrow> str \<Rightarrow> (nat go \<times> int) go"

definition latencyURL :: str where "latencyURL = ''http://www.gstatic.com/generate_204''"
definition speedURL :: str where "speedURL = ''https://www.google.com/images/phd/px.gif''"
definition speedFallbackURL :: str where "speedFallbackURL = ''https://www.google.com/''"

text \<open>The client for the downloads, the one through the proxy if it works, and the latency that was measured with it.\<close>

definition chooseClient :: "download \<Rightarrow> (bool \<times> int) option" where
  "chooseClient get =
     (case get True latencyURL of
        Ok (_, ns) \<Rightarrow> Some (True, ns div 1000000)
      | _ \<Rightarrow> (case get False latencyURL of Ok (_, ns) \<Rightarrow> Some (False, ns div 1000000) | _ \<Rightarrow> None))"

definition speedOf :: "nat \<Rightarrow> int \<Rightarrow> (nat \<times> int) option" where
  "speedOf n ns = (if ns > 0 then Some (8 * n, ns) else None)"

text \<open>Less than 0.01 megabits per second.\<close>

definition tooSlow :: "(nat \<times> int) option \<Rightarrow> bool" where
  "tooSlow s = (case s of None \<Rightarrow> True | Some (bits, ns) \<Rightarrow> int bits * 100000 < ns)"

definition RunSpeedTest :: "download \<Rightarrow> GASManager \<Rightarrow> SpeedTestResult" where
  "RunSpeedTest get m =
     (let zero = \<lparr>spSuccess = False, spError = [], spSpeed = None, spLatencyMs = 0, spBytesDown = 0, spDurationMs = 0\<rparr> in
      if \<not> gaRunning (gmConfig m) then zero\<lparr>spError := ''GAS proxy is not running''\<rparr>
      else case chooseClient get of
        None \<Rightarrow> zero\<lparr>spError := ''Speed test failed: no transport available (proxy and direct both unreachable)''\<rparr>
      | Some (proxied, measured) \<Rightarrow>
          let r0 = zero\<lparr>spLatencyMs := (if measured > 0 then measured else gaConnectionLatency (gmConfig m))\<rparr> in
          (case get proxied speedURL of
             Ok (Ok n, ns) \<Rightarrow>
               let speed = speedOf n ns; r1 = r0\<lparr>spSuccess := True, spSpeed := speed, spBytesDown := n, spDurationMs := ns div 1000000\<rparr> in
               if tooSlow speed then
                 (case get proxied speedFallbackURL of
                    Ok (Ok n2, ns2) \<Rightarrow>
                      r1\<lparr>spSpeed := (case speedOf n2 ns2 of None \<Rightarrow> speed | s \<Rightarrow> s), spBytesDown := n2, spDurationMs := ns2 div 1000000, spLatencyMs := measured\<rparr>
                  | _ \<Rightarrow> r1)
               else r1
           | Ok (Err e, ns) \<Rightarrow> r0\<lparr>spError := ''Speed test read failed: '' @ e\<rparr>
           | Err e \<Rightarrow> r0\<lparr>spError := ''Speed test download failed: '' @ e\<rparr>
           | _ \<Rightarrow> r0))"

text \<open>The test succeeds exactly when the relay runs and the client that answered first also delivers the file.\<close>

theorem RunSpeedTest_success:
  "spSuccess (RunSpeedTest get m) \<longleftrightarrow>
     gaRunning (gmConfig m) \<and> (\<exists>proxied lat n ns. chooseClient get = Some (proxied, lat) \<and> get proxied speedURL = Ok (Ok n, ns))"
proof (cases "gaRunning (gmConfig m)")
  case running: True
  show ?thesis
  proof (cases "chooseClient get")
    case (Some c)
    obtain p l where c: "c = (p, l)" by fastforce
    show ?thesis
    proof (cases "get p speedURL")
      case (Ok x)
      obtain r ns where x: "x = (r, ns)" by fastforce
      show ?thesis using running Some c Ok x by (cases r) (auto simp: RunSpeedTest_def Let_def split: go.splits option.split)
    qed (use running Some c in \<open>simp_all add: RunSpeedTest_def Let_def\<close>)
  qed (use running in \<open>simp add: RunSpeedTest_def Let_def\<close>)
qed (simp add: RunSpeedTest_def Let_def)

text \<open>A tunnel that answers nothing is reported as working when the machine has a direct connection.\<close>

theorem speed_test_without_tunnel:
  assumes "gaRunning (gmConfig m)" and "\<And>u. get True u = Err e" and "\<And>u. \<exists>n ns. get False u = Ok (Ok n, ns)"
  shows "spSuccess (RunSpeedTest get m)"
proof -
  obtain n ns where l: "get False latencyURL = Ok (Ok n, ns)" using assms(3) by blast
  have "chooseClient get = Some (False, ns div 1000000)" using assms(2) l by (simp add: chooseClient_def)
  then show ?thesis using RunSpeedTest_success assms(1,3) by blast
qed

end
