(* ===== verification/V2RayLinks.thy ===== *)
theory V2RayLinks
  imports GasHttp
begin

text \<open>
  The V2Ray configurations and the links they are read from, \<open>src/proxy/v2ray_config.go\<close>: one parser per scheme.

  \<open>link_codec\<close> collects what the parsers use of other packages: the four base64 alphabets, JSON, \<open>url.Parse\<close>,
  \<open>url.QueryUnescape\<close> (whose error the code drops) and \<open>url.ParseQuery\<close>. A URL without user information has a nil
  \<open>User\<close>: \<open>Username\<close> and \<open>Password\<close> accept it, \<open>String\<close> dereferences it.
\<close>

section \<open>Configurations\<close>

record V2RayConfig =
  vcID :: str
  vcName :: str
  vcProtocol :: str
  vcServer :: str
  vcPort :: str
  vcLink :: str
  vcRawJSON :: str
  vcIsJSON :: bool
  vcIsSub :: bool
  vcSubURL :: str
  vcUUID :: str
  vcEncryption :: str
  vcSecurity :: str
  vcPassword :: str
  vcMethod :: str
  vcType :: str
  vcHost :: str
  vcPath :: str
  vcTLS :: str
  vcFlow :: str
  vcSni :: str
  vcAlpn :: str
  vcFingerprint :: str
  vcPublicKey :: str
  vcShortID :: str
  vcUpMbps :: str
  vcDownMbps :: str
  vcInsecure :: str
  vcObfsType :: str
  vcGroup :: str

definition zeroV2 :: V2RayConfig where
  "zeroV2 = \<lparr>vcID = [], vcName = [], vcProtocol = [], vcServer = [], vcPort = [], vcLink = [], vcRawJSON = [], vcIsJSON = False,
     vcIsSub = False, vcSubURL = [], vcUUID = [], vcEncryption = [], vcSecurity = [], vcPassword = [], vcMethod = [], vcType = [],
     vcHost = [], vcPath = [], vcTLS = [], vcFlow = [], vcSni = [], vcAlpn = [], vcFingerprint = [], vcPublicKey = [], vcShortID = [],
     vcUpMbps = [], vcDownMbps = [], vcInsecure = [], vcObfsType = [], vcGroup = []\<rparr>"

record url_parts =
  luUser :: "(str \<times> str option) option"
  luUserString :: str
  luHostname :: str
  luPort :: str
  luFragment :: str
  luQuery :: "(str \<times> str) list"

record link_codec =
  lcStd :: "str \<Rightarrow> str go"
  lcRawStd :: "str \<Rightarrow> str go"
  lcURL :: "str \<Rightarrow> str go"
  lcRawURL :: "str \<Rightarrow> str go"
  lcUnmarshal :: "str \<Rightarrow> jobject go"
  lcShow :: "json \<Rightarrow> str"
  lcParseURL :: "str \<Rightarrow> url_parts go"
  lcUnescape :: "str \<Rightarrow> str"
  lcParseQuery :: "str \<Rightarrow> (str \<times> str) list"

section \<open>Shared steps\<close>

text \<open>The next decoder is tried where one fails.\<close>

fun orElse :: "'a go \<Rightarrow> 'a go \<Rightarrow> 'a go" where
  "orElse (Ok x) r = Ok x"
| "orElse e r = r"

definition qget :: "(str \<times> str) list \<Rightarrow> str \<Rightarrow> str" where
  "qget q k = (case map_of q k of Some v \<Rightarrow> v | None \<Rightarrow> [])"

text \<open>A text cut at the first occurrence of a byte.\<close>

definition cutAt :: "str \<Rightarrow> char \<Rightarrow> str \<times> str option" where
  "cutAt s c = (case IndexByte s c of None \<Rightarrow> (s, None) | Some i \<Rightarrow> (take i s, Some (drop (Suc i) s)))"

text \<open>\<open>if cfg.Name == "" { cfg.Name = server:port }\<close>.\<close>

definition withName :: "V2RayConfig \<Rightarrow> V2RayConfig" where
  "withName cfg = (if vcName cfg = [] then cfg\<lparr>vcName := vcServer cfg @ '':'' @ vcPort cfg\<rparr> else cfg)"

definition netSplitHostPort :: "str \<Rightarrow> (str \<times> str) go" where
  "netSplitHostPort hostport0 =
     (let hostport = TrimSpace hostport0 in
      if hostport = [] then Err ''empty hostport''
      else if Contains hostport ''['' then
        (case IndexByte hostport CHR '']'' of
           None \<Rightarrow> Err ''invalid IPv6 address''
         | Some e \<Rightarrow>
             Ok (take (e + 1) hostport,
                 if e + 1 < length hostport \<and> hostport ! (e + 1) = CHR '':'' then drop (e + 2) hostport else []))
      else case LastIndexByte hostport CHR '':'' of
        None \<Rightarrow> Ok (hostport, [])
      | Some i \<Rightarrow> Ok (take i hostport, drop (Suc i) hostport))"

definition setServer :: "str \<Rightarrow> V2RayConfig \<Rightarrow> V2RayConfig" where
  "setServer hostport cfg =
     (case netSplitHostPort hostport of Ok (host, port) \<Rightarrow> cfg\<lparr>vcServer := host, vcPort := port\<rparr> | _ \<Rightarrow> cfg)"

text \<open>The name after the hash sign, unescaped, and what is before it.\<close>

definition cutName :: "link_codec \<Rightarrow> str \<Rightarrow> str \<times> str" where
  "cutName lc rest0 = (case cutAt rest0 CHR ''#'' of (rest, Some n) \<Rightarrow> (rest, lcUnescape lc n) | (rest, None) \<Rightarrow> (rest, []))"

section \<open>VMess\<close>

definition jstr :: "jobject \<Rightarrow> str \<Rightarrow> str option" where
  "jstr d k = (case map_of d k of Some (JStr s) \<Rightarrow> Some s | _ \<Rightarrow> None)"

definition jstrOr :: "jobject \<Rightarrow> str \<Rightarrow> str \<Rightarrow> str" where
  "jstrOr d k old = (case jstr d k of Some s \<Rightarrow> s | None \<Rightarrow> old)"

definition jshown :: "link_codec \<Rightarrow> jobject \<Rightarrow> str \<Rightarrow> str" where
  "jshown lc d k = (case map_of d k of Some v \<Rightarrow> lcShow lc v | None \<Rightarrow> [])"

definition decodeStd :: "link_codec \<Rightarrow> str \<Rightarrow> str go" where
  "decodeStd lc s = orElse (lcStd lc s) (orElse (lcRawStd lc s) (lcRawURL lc s))"

definition prefixErr :: "str \<Rightarrow> 'a go \<Rightarrow> ('a \<Rightarrow> 'b go) \<Rightarrow> 'b go" where
  "prefixErr msg r k = (case r of Ok x \<Rightarrow> k x | Err e \<Rightarrow> Err (msg @ e) | Panic \<Rightarrow> Panic)"

definition parseVMess :: "link_codec \<Rightarrow> str \<Rightarrow> V2RayConfig go" where
  "parseVMess lc link =
     prefixErr ''failed to decode vmess config: '' (decodeStd lc (TrimPrefix link ''vmess://'')) (\<lambda>decoded.
     prefixErr ''failed to parse vmess JSON: '' (lcUnmarshal lc decoded) (\<lambda>d.
       let s = (\<lambda>k. jstrOr d k []) in
       Ok (withName (zeroV2\<lparr>vcProtocol := ''vmess'', vcLink := link, vcIsJSON := True, vcRawJSON := decoded,
         vcName := s ''ps'', vcServer := s ''add'', vcPort := jshown lc d ''port'', vcUUID := s ''id'', vcEncryption := s ''aid'',
         vcSecurity := (case jstr d ''scy'' of Some v \<Rightarrow> v | None \<Rightarrow> s ''security''), vcType := s ''net'', vcHost := s ''host'',
         vcPath := s ''path'', vcTLS := s ''tls'', vcSni := s ''sni'', vcAlpn := s ''alpn'', vcFingerprint := s ''fp'',
         vcGroup := s ''group''\<rparr>))))"

section \<open>VLESS, Trojan, Shadowsocks\<close>

text \<open>\<open>u.User.String()\<close> panics on a nil user.\<close>

definition userString :: "url_parts \<Rightarrow> str go" where
  "userString u = (case luUser u of None \<Rightarrow> Panic | Some _ \<Rightarrow> Ok (luUserString u))"

definition parseVLESS :: "link_codec \<Rightarrow> str \<Rightarrow> V2RayConfig go" where
  "parseVLESS lc link =
     prefixErr ''failed to parse vless link: '' (lcParseURL lc link) (\<lambda>u.
     bind_go (userString u) (\<lambda>user.
       let q = qget (luQuery u) in
       Ok (withName (zeroV2\<lparr>vcProtocol := ''vless'', vcLink := link, vcUUID := user, vcServer := luHostname u, vcPort := luPort u,
         vcName := luFragment u, vcEncryption := q ''encryption'', vcSecurity := q ''security'', vcType := q ''type'', vcHost := q ''host'',
         vcPath := q ''path'', vcTLS := q ''tls'', vcFlow := q ''flow'', vcSni := q ''sni'', vcAlpn := q ''alpn'', vcFingerprint := q ''fp'',
         vcPublicKey := q ''pbk'', vcShortID := q ''sid'', vcGroup := q ''group''\<rparr>))))"

definition parseTrojan :: "link_codec \<Rightarrow> str \<Rightarrow> V2RayConfig go" where
  "parseTrojan lc link =
     (case lcParseURL lc link of
        Err e \<Rightarrow>
          (case cutAt (TrimPrefix link ''trojan://'') CHR ''@'' of
             (_, None) \<Rightarrow> Err (''failed to parse trojan link: '' @ e)
           | (password, Some hostPort0) \<Rightarrow>
               let (hostPort, name) = cutAt hostPort0 CHR ''#'' in
               (case netSplitHostPort hostPort of
                  Ok (host, port) \<Rightarrow>
                    Ok (withName (zeroV2\<lparr>vcProtocol := ''trojan'', vcLink := link, vcPassword := password, vcServer := host,
                      vcPort := port, vcName := (case name of Some n \<Rightarrow> n | None \<Rightarrow> [])\<rparr>))
                | _ \<Rightarrow> Err (''failed to parse trojan host:port: '' @ e)))
      | Panic \<Rightarrow> Panic
      | Ok u \<Rightarrow>
          bind_go (userString u) (\<lambda>user.
            let q = qget (luQuery u) in
            Ok (withName (zeroV2\<lparr>vcProtocol := ''trojan'', vcLink := link, vcPassword := user, vcServer := luHostname u, vcPort := luPort u,
              vcName := luFragment u, vcSecurity := q ''security'', vcType := q ''type'', vcHost := q ''host'', vcPath := q ''path'',
              vcTLS := q ''tls'', vcSni := q ''sni'', vcAlpn := q ''alpn'', vcFingerprint := q ''fp'', vcGroup := q ''group''\<rparr>))))"

text \<open>The form with a base64 part before the at sign, \<open>None\<close> where it does not apply.\<close>

definition parseSSUser :: "link_codec \<Rightarrow> str \<Rightarrow> str \<Rightarrow> str \<Rightarrow> V2RayConfig option" where
  "parseSSUser lc link name rest =
     (case cutAt rest CHR ''@'' of
        (_, None) \<Rightarrow> None
      | (b64part, Some hostPort) \<Rightarrow>
          (case orElse (lcURL lc b64part) (orElse (lcRawURL lc b64part) (orElse (lcStd lc b64part) (lcRawStd lc b64part))) of
             Ok methodPass \<Rightarrow>
               (case cutAt methodPass CHR '':'' of
                  (_, None) \<Rightarrow> None
                | (meth, Some password) \<Rightarrow>
                    Some (withName (setServer hostPort
                      (zeroV2\<lparr>vcProtocol := ''shadowsocks'', vcLink := link, vcMethod := meth, vcPassword := password, vcName := name\<rparr>))))
           | _ \<Rightarrow> None))"

definition userPass :: "url_parts \<Rightarrow> V2RayConfig \<Rightarrow> V2RayConfig" where
  "userPass u cfg =
     (case luUser u of
        None \<Rightarrow> cfg
      | Some (name, pass) \<Rightarrow> cfg\<lparr>vcMethod := name, vcPassword := (case pass of Some p \<Rightarrow> p | None \<Rightarrow> [])\<rparr>)"

definition parseShadowsocks :: "link_codec \<Rightarrow> str \<Rightarrow> V2RayConfig go" where
  "parseShadowsocks lc link =
     (let (rest, name) = cutName lc (TrimPrefix link ''ss://'') in
      case parseSSUser lc link name rest of
        Some cfg \<Rightarrow> Ok cfg
      | None \<Rightarrow>
          (case lcParseURL lc link of
             Ok u \<Rightarrow> Ok (withName (userPass u (zeroV2\<lparr>vcProtocol := ''shadowsocks'', vcLink := link, vcServer := luHostname u,
                           vcPort := luPort u, vcName := luFragment u\<rparr>)))
           | _ \<Rightarrow> Err ''failed to parse shadowsocks link''))"

section \<open>SOCKS, HTTP, Hysteria 2, Shadowsocks 2022\<close>

definition dropUser :: "str \<Rightarrow> str" where
  "dropUser rest = (case cutAt rest CHR ''@'' of (_, Some r) \<Rightarrow> r | (r, None) \<Rightarrow> r)"

definition parseSocks :: "link_codec \<Rightarrow> str \<Rightarrow> V2RayConfig go" where
  "parseSocks lc link =
     (let rest0 = (if HasPrefix link ''socks5://'' then TrimPrefix link ''socks5://'' else TrimPrefix link ''socks://'');
          (rest, name) = cutName lc rest0
      in Ok (withName (setServer (dropUser rest) (zeroV2\<lparr>vcProtocol := ''socks'', vcLink := link, vcName := name\<rparr>))))"

definition parseHTTP :: "link_codec \<Rightarrow> str \<Rightarrow> V2RayConfig go" where
  "parseHTTP lc link =
     (let (rest, name) = cutName lc (TrimPrefix (TrimPrefix link ''https://'') ''http://'') in
      Ok (withName (setServer (dropUser rest) (zeroV2\<lparr>vcProtocol := ''http'', vcLink := link, vcName := name\<rparr>))))"

definition parseHysteria2 :: "link_codec \<Rightarrow> str \<Rightarrow> V2RayConfig go" where
  "parseHysteria2 lc link =
     (let rest0 = (if HasPrefix link ''hysteria2://'' then TrimPrefix link ''hysteria2://'' else TrimPrefix link ''hy2://'');
          (rest1, name) = cutName lc rest0;
          (password, rest2) = (case cutAt rest1 CHR ''@'' of (p, Some r) \<Rightarrow> (p, r) | (r, None) \<Rightarrow> ([], r));
          (hostPort, query) = cutAt rest2 CHR ''?'';
          queryStr = (case query of Some q \<Rightarrow> q | None \<Rightarrow> []);
          cfg = setServer hostPort (zeroV2\<lparr>vcProtocol := ''hysteria2'', vcLink := link, vcType := ''udp'', vcTLS := ''tls'', vcName := name,
                  vcPassword := password\<rparr>);
          q = qget (lcParseQuery lc queryStr);
          cfg1 = (if queryStr \<noteq> [] then
                    cfg\<lparr>vcSni := (if q ''sni'' = [] then q ''peer'' else q ''sni''), vcHost := q ''host'', vcInsecure := q ''insecure'',
                        vcUpMbps := q ''up'', vcDownMbps := q ''down'', vcAlpn := q ''alpn'', vcObfsType := q ''obfs''\<rparr>
                  else cfg);
          cfg2 = withName cfg1
      in Ok (if vcSni cfg2 = [] then cfg2\<lparr>vcSni := vcServer cfg2\<rparr> else cfg2))"

text \<open>The direct reading of the link, for a URL without a host.\<close>

definition ss2022Direct :: "link_codec \<Rightarrow> str \<Rightarrow> V2RayConfig \<Rightarrow> V2RayConfig" where
  "ss2022Direct lc rest0 cfg =
     (let (rest, name) = cutName lc rest0 in
      (case SplitN2 rest CHR ''@'' of
         [userpart, hostpart] \<Rightarrow>
           let c1 = (case SplitN2 userpart CHR '':'' of [mt, pw] \<Rightarrow> cfg\<lparr>vcMethod := mt, vcPassword := pw\<rparr> | _ \<Rightarrow> cfg);
               (host, port) = (case netSplitHostPort hostpart of Ok hp \<Rightarrow> hp | _ \<Rightarrow> ([], []))
           in c1\<lparr>vcServer := host, vcPort := port\<rparr>
       | _ \<Rightarrow> cfg)\<lparr>vcName := name\<rparr>)"

text \<open>Method and password from the query where the URL has none, then the name from the fragment.\<close>

definition ss2022Query :: "link_codec \<Rightarrow> url_parts \<Rightarrow> V2RayConfig \<Rightarrow> V2RayConfig" where
  "ss2022Query lc u c0 =
     c0\<lparr>vcMethod := (if vcMethod c0 = [] then qget (luQuery u) ''method'' else vcMethod c0),
        vcPassword := (if vcPassword c0 = [] then qget (luQuery u) ''password'' else vcPassword c0),
        vcName := (if luFragment u \<noteq> [] then lcUnescape lc (luFragment u) else vcName c0)\<rparr>"

definition parseSS2022 :: "link_codec \<Rightarrow> str \<Rightarrow> V2RayConfig go" where
  "parseSS2022 lc link =
     prefixErr ''failed to parse ss2022 link: '' (lcParseURL lc link) (\<lambda>u.
       let c0 = (userPass u (zeroV2\<lparr>vcProtocol := ''shadowsocks2022'', vcLink := link\<rparr>))\<lparr>vcServer := luHostname u, vcPort := luPort u\<rparr>;
           c3 = withName (ss2022Query lc u c0);
           c4 = (if vcServer c3 = [] then ss2022Direct lc (TrimPrefix link ''ss2022://'') c3 else c3)
       in Ok (withName c4))"

section \<open>Any link\<close>

definition ParseV2RayLink :: "link_codec \<Rightarrow> str \<Rightarrow> V2RayConfig go" where
  "ParseV2RayLink lc link0 =
     (let link = TrimSpace link0; p = HasPrefix link in
      if p ''vmess://'' then parseVMess lc link
      else if p ''vless://'' then parseVLESS lc link
      else if p ''trojan://'' then parseTrojan lc link
      else if p ''ss://'' then parseShadowsocks lc link
      else if p ''socks://'' \<or> p ''socks5://'' then parseSocks lc link
      else if (p ''http://'' \<or> p ''https://'') \<and> Contains link ''@'' then parseHTTP lc link
      else if p ''hy2://'' \<or> p ''hysteria2://'' then parseHysteria2 lc link
      else if p ''ss2022://'' then parseSS2022 lc link
      else Err (''unsupported link format: '' @ take 20 link))"

definition ParseJSONConfig :: "link_codec \<Rightarrow> str \<Rightarrow> V2RayConfig go" where
  "ParseJSONConfig lc jsonStr =
     prefixErr ''invalid JSON config: '' (lcUnmarshal lc jsonStr) (\<lambda>d.
       Ok (zeroV2\<lparr>vcLink := jsonStr, vcIsJSON := True, vcRawJSON := jsonStr, vcProtocol := jstrOr d ''protocol'' [],
         vcName := jstrOr d ''name'' [], vcServer := jstrOr d ''server'' [], vcPort := jshown lc d ''port''\<rparr>))"

section \<open>What every parser delivers\<close>

text \<open>The libraries return values or errors; they do not panic.\<close>

definition codec_total :: "link_codec \<Rightarrow> bool" where
  "codec_total lc = (\<forall>s. lcStd lc s \<noteq> Panic \<and> lcRawStd lc s \<noteq> Panic \<and> lcURL lc s \<noteq> Panic \<and> lcRawURL lc s \<noteq> Panic \<and>
     lcUnmarshal lc s \<noteq> Panic \<and> lcParseURL lc s \<noteq> Panic)"

definition named_by :: "str \<Rightarrow> str \<Rightarrow> V2RayConfig \<Rightarrow> bool" where
  "named_by proto link cfg = (vcProtocol cfg = proto \<and> vcLink cfg = link \<and> vcName cfg \<noteq> [] \<and> vcID cfg = [] \<and> \<not> vcIsSub cfg)"

lemma withName_fields [simp]:
  "vcProtocol (withName c) = vcProtocol c" "vcLink (withName c) = vcLink c" "vcID (withName c) = vcID c" "vcIsSub (withName c) = vcIsSub c"
  "vcServer (withName c) = vcServer c" "vcPort (withName c) = vcPort c" "vcSni (withName c) = vcSni c" "vcName (withName c) \<noteq> []"
  by (simp_all add: withName_def)

lemma setServer_fields [simp]:
  "vcProtocol (setServer hp c) = vcProtocol c" "vcLink (setServer hp c) = vcLink c" "vcID (setServer hp c) = vcID c"
  "vcIsSub (setServer hp c) = vcIsSub c" "vcName (setServer hp c) = vcName c"
  by (simp_all add: setServer_def split: go.split)

lemma userPass_fields [simp]:
  "vcProtocol (userPass u c) = vcProtocol c" "vcLink (userPass u c) = vcLink c" "vcID (userPass u c) = vcID c" "vcIsSub (userPass u c) = vcIsSub c"
  by (simp_all add: userPass_def split: option.split)

lemma zeroV2_fields [simp]: "vcID zeroV2 = []" "\<not> vcIsSub zeroV2"
  by (simp_all add: zeroV2_def)

lemma prefixErr_Ok_iff: "prefixErr msg r k = Ok y \<longleftrightarrow> (\<exists>x. r = Ok x \<and> k x = Ok y)"
  by (simp add: prefixErr_def split: go.split)

lemma prefixErr_Panic_iff: "prefixErr msg r k = Panic \<longleftrightarrow> r = Panic \<or> (\<exists>x. r = Ok x \<and> k x = Panic)"
  by (simp add: prefixErr_def split: go.split)

lemma orElse_not_Panic: "b \<noteq> Panic \<Longrightarrow> orElse a b \<noteq> Panic"
  by (cases a) auto

lemma named_parseVMess: "parseVMess lc link = Ok cfg \<Longrightarrow> named_by ''vmess'' link cfg"
  by (auto simp: parseVMess_def prefixErr_Ok_iff named_by_def Let_def)

lemma named_parseVLESS: "parseVLESS lc link = Ok cfg \<Longrightarrow> named_by ''vless'' link cfg"
  by (auto simp: parseVLESS_def prefixErr_Ok_iff bind_go_Ok_iff named_by_def Let_def)

lemma named_parseTrojan: "parseTrojan lc link = Ok cfg \<Longrightarrow> named_by ''trojan'' link cfg"
  by (auto simp: parseTrojan_def bind_go_Ok_iff named_by_def Let_def split: go.splits option.splits prod.splits)

lemma named_parseShadowsocks: "parseShadowsocks lc link = Ok cfg \<Longrightarrow> named_by ''shadowsocks'' link cfg"
  by (auto simp: parseShadowsocks_def parseSSUser_def named_by_def Let_def split: go.splits option.splits prod.splits)

lemma named_parseSocks: "parseSocks lc link = Ok cfg \<Longrightarrow> named_by ''socks'' link cfg"
  by (auto simp: parseSocks_def named_by_def Let_def split: prod.splits)

lemma named_parseHTTP: "parseHTTP lc link = Ok cfg \<Longrightarrow> named_by ''http'' link cfg"
  by (auto simp: parseHTTP_def named_by_def Let_def split: prod.splits)

lemma named_parseHysteria2: "parseHysteria2 lc link = Ok cfg \<Longrightarrow> named_by ''hysteria2'' link cfg"
  by (auto simp: parseHysteria2_def named_by_def Let_def split: prod.splits if_splits)

lemma ss2022Direct_fields [simp]:
  "vcProtocol (ss2022Direct lc rest c) = vcProtocol c" "vcLink (ss2022Direct lc rest c) = vcLink c"
  "vcID (ss2022Direct lc rest c) = vcID c" "vcIsSub (ss2022Direct lc rest c) = vcIsSub c"
  by (simp_all add: ss2022Direct_def Let_def split: prod.split list.split)

lemma ss2022Query_fields [simp]:
  "vcProtocol (ss2022Query lc u c) = vcProtocol c" "vcLink (ss2022Query lc u c) = vcLink c"
  "vcID (ss2022Query lc u c) = vcID c" "vcIsSub (ss2022Query lc u c) = vcIsSub c"
  by (simp_all add: ss2022Query_def)

lemma named_parseSS2022: "parseSS2022 lc link = Ok cfg \<Longrightarrow> named_by ''shadowsocks2022'' link cfg"
  by (auto simp: parseSS2022_def prefixErr_Ok_iff named_by_def Let_def split: if_splits)

lemmas named_parsers = named_parseVMess named_parseVLESS named_parseTrojan named_parseShadowsocks named_parseSocks named_parseHTTP
  named_parseHysteria2 named_parseSS2022

text \<open>The parsers that cannot panic.\<close>

lemma safe_parsers:
  assumes "codec_total lc"
  shows "parseVMess lc link \<noteq> Panic" "parseShadowsocks lc link \<noteq> Panic" "parseSocks lc link \<noteq> Panic" "parseHTTP lc link \<noteq> Panic"
    "parseHysteria2 lc link \<noteq> Panic" "parseSS2022 lc link \<noteq> Panic"
proof -
  show "parseVMess lc link \<noteq> Panic"
  proof -
    have "decodeStd lc s \<noteq> Panic" for s using assms unfolding decodeStd_def codec_total_def by (intro orElse_not_Panic) simp
    then show ?thesis using assms by (simp add: codec_total_def parseVMess_def prefixErr_Panic_iff Let_def)
  qed
  show "parseSS2022 lc link \<noteq> Panic" using assms by (auto simp: codec_total_def parseSS2022_def prefixErr_Panic_iff Let_def)
qed (auto simp: parseShadowsocks_def parseSocks_def parseHTTP_def parseHysteria2_def Let_def split: prod.split option.split go.split)

definition no_user :: "link_codec \<Rightarrow> str \<Rightarrow> bool" where
  "no_user lc link = (case lcParseURL lc link of Ok u \<Rightarrow> luUser u = None | _ \<Rightarrow> False)"

lemma panic_parsers:
  assumes "codec_total lc"
  shows "parseVLESS lc link = Panic \<longleftrightarrow> no_user lc link" and "parseTrojan lc link = Panic \<longleftrightarrow> no_user lc link"
proof -
  have np: "lcParseURL lc link \<noteq> Panic" using assms by (simp add: codec_total_def)
  show "parseVLESS lc link = Panic \<longleftrightarrow> no_user lc link"
    using np by (cases "lcParseURL lc link") (auto simp: parseVLESS_def prefixErr_def bind_go_Panic_iff userString_def no_user_def Let_def split: option.splits)
  show "parseTrojan lc link = Panic \<longleftrightarrow> no_user lc link"
    using np by (cases "lcParseURL lc link")
      (auto simp: parseTrojan_def bind_go_Panic_iff userString_def no_user_def Let_def split: option.splits prod.splits go.splits)
qed

text \<open>The scheme of a link and the protocol of its configuration.\<close>

definition scheme_of :: "str \<Rightarrow> str \<Rightarrow> bool" where
  "scheme_of link proto = (let p = HasPrefix link in
     proto = ''vmess'' \<and> p ''vmess://'' \<or> proto = ''vless'' \<and> p ''vless://'' \<or> proto = ''trojan'' \<and> p ''trojan://'' \<or>
     proto = ''shadowsocks'' \<and> p ''ss://'' \<or> proto = ''socks'' \<and> (p ''socks://'' \<or> p ''socks5://'') \<or>
     proto = ''http'' \<and> (p ''http://'' \<or> p ''https://'') \<or> proto = ''hysteria2'' \<and> (p ''hy2://'' \<or> p ''hysteria2://'') \<or>
     proto = ''shadowsocks2022'' \<and> p ''ss2022://'')"

lemma ParseV2RayLink_named:
  assumes "ParseV2RayLink lc link = Ok cfg"
  shows "named_by (vcProtocol cfg) (TrimSpace link) cfg \<and> scheme_of (TrimSpace link) (vcProtocol cfg)"
proof -
  have "\<exists>proto. named_by proto (TrimSpace link) cfg \<and> scheme_of (TrimSpace link) proto"
    using assms unfolding ParseV2RayLink_def Let_def scheme_of_def by (fastforce split: if_splits dest: named_parsers)
  then show ?thesis by (auto simp: named_by_def)
qed

text \<open>C26: Whatever link is accepted, its configuration has the protocol of the link's scheme, keeps the trimmed link, has a
  name, and no identifier yet; and the parser panics for exactly those VLESS and Trojan links that parse as a URL
  without user information.\<close>

theorem ParseV2RayLink_well_formed:
  assumes "codec_total lc"
  shows "(case ParseV2RayLink lc link of
      Ok cfg \<Rightarrow> scheme_of (TrimSpace link) (vcProtocol cfg) \<and> vcLink cfg = TrimSpace link \<and> vcName cfg \<noteq> [] \<and> vcID cfg = []
    | Err e \<Rightarrow> True
    | Panic \<Rightarrow> True) \<and>
    (ParseV2RayLink lc link = Panic \<longleftrightarrow>
       (HasPrefix (TrimSpace link) ''vless://'' \<or> HasPrefix (TrimSpace link) ''trojan://'') \<and> no_user lc (TrimSpace link))"
proof
  let ?l = "TrimSpace link"
  show "case ParseV2RayLink lc link of
      Ok cfg \<Rightarrow> scheme_of ?l (vcProtocol cfg) \<and> vcLink cfg = ?l \<and> vcName cfg \<noteq> [] \<and> vcID cfg = [] | Err e \<Rightarrow> True | Panic \<Rightarrow> True"
  proof (cases "ParseV2RayLink lc link")
    case (Ok cfg)
    then show ?thesis using ParseV2RayLink_named [OF Ok] by (simp add: named_by_def)
  qed simp_all
  have "\<not> (HasPrefix ?l ''vmess://'' \<and> (HasPrefix ?l ''vless://'' \<or> HasPrefix ?l ''trojan://''))"
    by (auto simp: HasPrefix_iff)
  moreover have "\<not> (HasPrefix ?l ''vless://'' \<and> HasPrefix ?l ''trojan://'')" by (auto simp: HasPrefix_iff)
  ultimately show "ParseV2RayLink lc link = Panic \<longleftrightarrow> (HasPrefix ?l ''vless://'' \<or> HasPrefix ?l ''trojan://'') \<and> no_user lc ?l"
    using safe_parsers [OF assms, of ?l] panic_parsers [OF assms, of ?l] unfolding ParseV2RayLink_def Let_def by auto
qed

text \<open>A codec in which nothing is encoded, no text is JSON and every URL has no user.\<close>

definition plainCodec :: link_codec where
  "plainCodec = \<lparr>lcStd = \<lambda>s. Ok s, lcRawStd = \<lambda>s. Ok s, lcURL = \<lambda>s. Ok s, lcRawURL = \<lambda>s. Ok s, lcUnmarshal = \<lambda>_. Err [], lcShow = \<lambda>_. [],
     lcParseURL = \<lambda>_. Ok \<lparr>luUser = None, luUserString = [], luHostname = ''h'', luPort = ''1'', luFragment = [], luQuery = []\<rparr>,
     lcUnescape = \<lambda>s. s, lcParseQuery = \<lambda>_. []\<rparr>"

theorem ParseV2RayLink_well_formed_witness: "ParseV2RayLink plainCodec ''vless://h:1'' = Panic"
proof -
  have "codec_total plainCodec" by (simp add: codec_total_def plainCodec_def)
  from ParseV2RayLink_well_formed [OF this, of "''vless://h:1''"] show ?thesis
    by (simp add: TrimSpace_def isSpace_def HasPrefix_def no_user_def plainCodec_def)
qed

section \<open>Reading back a link\<close>

lemma cutAt_first: "c \<notin> set a \<Longrightarrow> cutAt (a @ c # b) c = (a, Some b)"
  by (simp add: cutAt_def IndexByte_append)

lemma cutAt_none: "c \<notin> set a \<Longrightarrow> cutAt a c = (a, None)"
  using IndexByte_None [of a c] by (simp add: cutAt_def del: IndexByte_None)

lemma netSplitHostPort_plain:
  assumes "trimmed (host @ CHR '':'' # port)" and "CHR ''['' \<notin> set (host @ port)" and "CHR '':'' \<notin> set port"
  shows "netSplitHostPort (host @ CHR '':'' # port) = Ok (host, port)"
proof -
  have "\<not> Contains (host @ CHR '':'' # port) ''[''" using assms(2) unfolding Contains_iff by (auto simp: append_eq_append_conv2 append_eq_Cons_conv Cons_eq_append_conv)
  then show ?thesis using assms LastIndexByte_append [of "CHR '':''" port host] by (simp add: netSplitHostPort_def TrimSpace_trimmed)
qed

text \<open>Brackets stay on an IPv6 host.\<close>

lemma netSplitHostPort_IPv6:
  assumes "CHR '']'' \<notin> set a" and "trimmed (''['' @ a @ '']:'' @ port)"
  shows "netSplitHostPort (''['' @ a @ '']:'' @ port) = Ok (''['' @ a @ '']'', port)"
proof -
  have "Contains (''['' @ a @ '']:'' @ port) ''[''" by (simp add: HasPrefix_def)
  moreover have "IndexByte (''['' @ a @ '']:'' @ port) CHR '']'' = Some (Suc (length a))"
    using IndexByte_append [of "CHR '']''" "CHR ''['' # a"] assms(1) by simp
  ultimately show ?thesis using assms(2) by (simp add: netSplitHostPort_def TrimSpace_trimmed nth_append del: Contains.simps)
qed

text \<open>A Shadowsocks link as a client exports it.\<close>

definition ssLink :: "(str \<Rightarrow> str) \<Rightarrow> (str \<Rightarrow> str) \<Rightarrow> str \<Rightarrow> str \<Rightarrow> str \<Rightarrow> str \<Rightarrow> str \<Rightarrow> str" where
  "ssLink encode escape meth password host port name =
     ''ss://'' @ encode (meth @ CHR '':'' # password) @ CHR ''@'' # host @ CHR '':'' # port @ CHR ''#'' # escape name"

text \<open>A Shadowsocks link read back: for any encoder that the decoder inverts and whose output is free of the
  separators, the parser recovers method, password, host, port and name, whatever colons the password contains.\<close>

theorem ss_link_roundtrip:
  assumes "lcURL lc (encode (meth @ CHR '':'' # password)) = Ok (meth @ CHR '':'' # password)"
    and "CHR ''@'' \<notin> set (encode (meth @ CHR '':'' # password))" and "CHR ''#'' \<notin> set (encode (meth @ CHR '':'' # password))"
    and "CHR '':'' \<notin> set meth" and "\<forall>c \<in> set (host @ port). c \<noteq> CHR ''#'' \<and> c \<noteq> CHR ''['' \<and> \<not> isSpace c" and "CHR '':'' \<notin> set port"
    and "host \<noteq> []" and "lcUnescape lc (escape name) = name" and "name \<noteq> []" and "trimmed (CHR ''#'' # escape name)"
  shows "ParseV2RayLink lc (ssLink encode escape meth password host port name) =
     Ok (zeroV2\<lparr>vcProtocol := ''shadowsocks'', vcLink := ssLink encode escape meth password host port name, vcMethod := meth,
       vcPassword := password, vcServer := host, vcPort := port, vcName := name\<rparr>)"
proof -
  let ?e = "encode (meth @ CHR '':'' # password)" and ?hp = "host @ CHR '':'' # port"
  let ?l = "ssLink encode escape meth password host port name"
  have "trimmed ?l" using assms(10) by (simp add: trimmed_def ssLink_def isSpace_def)
  then have tl: "TrimSpace ?l = ?l" by (rule TrimSpace_trimmed)
  have body: "TrimPrefix ?l ''ss://'' = (?e @ CHR ''@'' # ?hp) @ CHR ''#'' # escape name"
    unfolding ssLink_def TrimPrefix_append by simp
  have "CHR ''#'' \<notin> set (?e @ CHR ''@'' # ?hp)" using assms(3,5) by auto
  then have "cutAt ((?e @ CHR ''@'' # ?hp) @ CHR ''#'' # escape name) CHR ''#'' = (?e @ CHR ''@'' # ?hp, Some (escape name))"
    by (rule cutAt_first)
  then have name: "cutName lc (TrimPrefix ?l ''ss://'') = (?e @ CHR ''@'' # ?hp, name)"
    unfolding body cutName_def using assms(8) by simp
  have "\<not> isSpace (hd ?hp)" "\<not> isSpace (last ?hp)" using assms(5,7) by (auto simp: isSpace_def hd_append)
  then have "trimmed ?hp" by (simp add: trimmed_def)
  moreover have "CHR ''['' \<notin> set (host @ port)" using assms(5) by blast
  ultimately have hp: "netSplitHostPort ?hp = Ok (host, port)" using netSplitHostPort_plain assms(6) by blast
  have "parseSSUser lc ?l name (?e @ CHR ''@'' # ?hp) =
      Some (zeroV2\<lparr>vcProtocol := ''shadowsocks'', vcLink := ?l, vcMethod := meth, vcPassword := password, vcName := name,
        vcServer := host, vcPort := port\<rparr>)"
    using assms(1,2,4,9) hp by (simp add: parseSSUser_def cutAt_first setServer_def withName_def)
  then have "parseShadowsocks lc ?l = Ok (zeroV2\<lparr>vcProtocol := ''shadowsocks'', vcLink := ?l, vcMethod := meth, vcPassword := password,
      vcServer := host, vcPort := port, vcName := name\<rparr>)"
    by (simp add: parseShadowsocks_def name)
  moreover have "HasPrefix ?l ''ss://''" "\<not> HasPrefix ?l ''vmess://''" "\<not> HasPrefix ?l ''vless://''" "\<not> HasPrefix ?l ''trojan://''"
    by (simp_all add: ssLink_def HasPrefix_def)
  ultimately show ?thesis by (simp add: ParseV2RayLink_def tl)
qed

theorem ss_link_roundtrip_witness:
  "ParseV2RayLink plainCodec (ssLink (\<lambda>s. s) (\<lambda>s. s) ''aes'' ''p:w'' ''10.0.0.1'' ''8388'' ''home'') =
     Ok (zeroV2\<lparr>vcProtocol := ''shadowsocks'', vcLink := ssLink (\<lambda>s. s) (\<lambda>s. s) ''aes'' ''p:w'' ''10.0.0.1'' ''8388'' ''home'', vcMethod := ''aes'',
       vcPassword := ''p:w'', vcServer := ''10.0.0.1'', vcPort := ''8388'', vcName := ''home''\<rparr>)"
  by (rule ss_link_roundtrip) (simp_all add: plainCodec_def isSpace_def trimmed_def)

end
