(* ===== verification/V2RayManager.thy ===== *)
theory V2RayManager
  imports V2RayLinks IdStore
begin

text \<open>
  The V2Ray manager, \<open>src/proxy/v2ray_manager.go\<close>: the stored configurations and the selected one, settings, subscriptions,
  the configuration generated for the V2Ray core, and the life cycle of the core.

  \<^item> The mutex is \<open>vmLocked\<close>; an operation that finds it held is \<open>Blocked\<close>. Operations that return release it, so
    it is held between operations only by one that never returns.
  \<^item> The files hold the decoded structures; \<open>werr\<close> is the error of a write.
  \<^item> Identifiers are times; \<open>clk\<close> gives the time at each reading, counted by \<open>vmTick\<close>.
  \<^item> The V2Ray library (\<open>core_env\<close>), HTTP exchanges and dials are arguments.
\<close>

section \<open>State\<close>

record V2RaySettings =
  vtCorePort :: int
  vtCoreHTTPPort :: int
  vtSocksPort :: int
  vtHTTPPort :: int
  vtSelectedID :: str
  vtAutoConnect :: bool
  vtRoutingMode :: str
  vtDNSLeak :: bool
  vtFragment :: bool
  vtIPv6 :: bool
  vtProxyAll :: bool
  vtDOH :: bool
  vtDOHURL :: str
  vtSNIOverride :: str

record V2RayConfigStore =
  vsConfigs :: "V2RayConfig list"
  vsSelectedID :: str
  vsCoreRunning :: bool
  vsCorePort :: int
  vsCoreActive :: bool

definition DefaultConfigStore :: V2RayConfigStore where
  "DefaultConfigStore = \<lparr>vsConfigs = [], vsSelectedID = [], vsCoreRunning = False, vsCorePort = 11808, vsCoreActive = False\<rparr>"

record V2RayManager =
  vmLocked :: bool
  vmStore :: V2RayConfigStore
  vmStoreFile :: "V2RayConfigStore option"
  vmSettings :: V2RaySettings
  vmSettingsFile :: "V2RaySettings option"
  vmCorePort :: int
  vmInstance :: "jobject option"
  vmTick :: nat

definition initialSettings :: V2RaySettings where
  "initialSettings = \<lparr>vtCorePort = 11808, vtCoreHTTPPort = 11809, vtSocksPort = 11808, vtHTTPPort = 11809, vtSelectedID = [], vtAutoConnect = False,
     vtRoutingMode = ''rule'', vtDNSLeak = False, vtFragment = False, vtIPv6 = False, vtProxyAll = False, vtDOH = False, vtDOHURL = [],
     vtSNIOverride = []\<rparr>"

definition loadSettings :: "V2RayManager \<Rightarrow> V2RayManager" where
  "loadSettings m =
     (case vmSettingsFile m of
        None \<Rightarrow> m
      | Some s \<Rightarrow> m\<lparr>vmSettings := s, vmCorePort := (if vtCorePort s \<noteq> 0 then vtCorePort s else vmCorePort m)\<rparr>)"

definition NewV2RayManager :: "V2RayConfigStore option \<Rightarrow> V2RaySettings option \<Rightarrow> V2RayManager" where
  "NewV2RayManager storeFile settingsFile =
     (let store = (case storeFile of Some s \<Rightarrow> s | None \<Rightarrow> DefaultConfigStore) in
      loadSettings \<lparr>vmLocked = False, vmStore = store, vmStoreFile = storeFile, vmSettings = initialSettings, vmSettingsFile = settingsFile,
        vmCorePort = (if vsCorePort store = 0 then 11808 else vsCorePort store), vmInstance = None, vmTick = 0\<rparr>)"

text \<open>An operation under the mutex.\<close>

definition locked_op :: "V2RayManager \<Rightarrow> 'a \<Rightarrow> 'a blk" where
  "locked_op m r = (if vmLocked m then Blocked else Done r)"

definition SaveSettings :: "str option \<Rightarrow> V2RaySettings \<Rightarrow> V2RayManager \<Rightarrow> (str option \<times> V2RayManager) blk" where
  "SaveSettings werr s m = locked_op m
     (let m1 = m\<lparr>vmSettings := s, vmCorePort := (if vtCorePort s \<noteq> 0 then vtCorePort s else vmCorePort m)\<rparr> in
      case werr of Some e \<Rightarrow> (Some e, m1) | None \<Rightarrow> (None, m1\<lparr>vmSettingsFile := Some s\<rparr>))"

definition saveStore :: "str option \<Rightarrow> V2RayManager \<Rightarrow> str option \<times> V2RayManager" where
  "saveStore werr m = (case werr of Some e \<Rightarrow> (Some e, m) | None \<Rightarrow> (None, m\<lparr>vmStoreFile := Some (vmStore m)\<rparr>))"

definition setStore :: "(V2RayConfigStore \<Rightarrow> V2RayConfigStore) \<Rightarrow> V2RayManager \<Rightarrow> V2RayManager" where
  "setStore f m = m\<lparr>vmStore := f (vmStore m)\<rparr>"

definition getSelectedConfigLocked :: "V2RayManager \<Rightarrow> V2RayConfig option" where
  "getSelectedConfigLocked m =
     (if vsSelectedID (vmStore m) = [] then None else findById vcID (vsSelectedID (vmStore m)) (vsConfigs (vmStore m)))"

definition GetSelectedConfig :: "V2RayManager \<Rightarrow> V2RayConfig option blk" where
  "GetSelectedConfig m = locked_op m (getSelectedConfigLocked m)"

section \<open>Adding configurations\<close>

text \<open>\<open>fmt.Sprintf("%x", n)\<close>.\<close>

fun hexOf :: "nat \<Rightarrow> str" where
  "hexOf n = (if n < 16 then [''0123456789abcdef'' ! n] else hexOf (n div 16) @ [''0123456789abcdef'' ! (n mod 16)])"

declare hexOf.simps [simp del]

definition parseAndAdd :: "link_codec \<Rightarrow> str \<Rightarrow> V2RayConfig go" where
  "parseAndAdd lc link0 =
     (let link = TrimSpace link0; p = HasPrefix link in
      if link = [] then Err ''empty link''
      else if p ''vmess://'' \<or> p ''vless://'' \<or> p ''trojan://'' \<or> p ''ss://'' \<or> p ''ss2022://'' \<or> p ''hy2://'' \<or> p ''hysteria2://'' \<or>
        p ''socks://'' \<or> p ''socks5://'' then ParseV2RayLink lc link
      else if p ''http://'' \<or> p ''https://'' then ParseV2RayLink lc link
      else if p ''{'' \<or> p ''['' then ParseJSONConfig lc link
      else Err ''unknown config format'')"

text \<open>The loop over the lines, shared by \<open>AddConfig\<close>, \<open>AddConfigsFromSub\<close> and \<open>AddSubWithInfo\<close>: the configurations that
  are appended, the messages for the lines that fail, whether a parser panicked, and the number of identifiers made.
  \<open>mark\<close> is what the caller does to a new configuration.\<close>

fun addLines :: "link_codec \<Rightarrow> (nat \<Rightarrow> nat) \<Rightarrow> (V2RayConfig \<Rightarrow> V2RayConfig) \<Rightarrow> str list \<Rightarrow> nat \<Rightarrow> V2RayConfig list \<times> str list \<times> bool \<times> nat" where
  "addLines lc clk mark [] t = ([], [], False, t)"
| "addLines lc clk mark (l0 # ls) t =
     (let l = TrimSpace l0 in
      if l = [] then addLines lc clk mark ls t
      else case parseAndAdd lc l of
        Err e \<Rightarrow> let (cs, msgs, crash, t2) = addLines lc clk mark ls t in (cs, (''failed: '' @ take 50 l @ '' - '' @ e) # msgs, crash, t2)
      | Panic \<Rightarrow> ([], [], True, t)
      | Ok cfg \<Rightarrow>
          let (cs, msgs, crash, t2) = addLines lc clk mark ls (Suc t) in
          ((mark (cfg\<lparr>vcID := hexOf (clk t)\<rparr>)) # cs, msgs, crash, t2))"

definition appendConfigs :: "V2RayConfig list \<Rightarrow> nat \<Rightarrow> V2RayManager \<Rightarrow> V2RayManager" where
  "appendConfigs cs t m = (setStore (\<lambda>s. s\<lparr>vsConfigs := vsConfigs s @ cs\<rparr>) m)\<lparr>vmTick := t\<rparr>"

definition AddConfig :: "link_codec \<Rightarrow> (nat \<Rightarrow> nat) \<Rightarrow> str option \<Rightarrow> str \<Rightarrow> V2RayManager \<Rightarrow> (V2RayConfig go \<times> V2RayManager) blk" where
  "AddConfig lc clk werr link m = locked_op m
     (let (cs, msgs, crash, t) = addLines lc clk (\<lambda>c. c) (Split link CHR 0x0A) (vmTick m); m1 = appendConfigs cs t m in
      if crash then (Panic, m1)
      else
        (if cs \<noteq> [] then Ok (last cs) else if length msgs > 0 then Err (Join msgs ''; '') else Err ''no valid configs found'',
         snd (saveStore werr m1)))"

definition fromSub :: "str \<Rightarrow> V2RayConfig \<Rightarrow> V2RayConfig" where
  "fromSub subURL c = c\<lparr>vcIsSub := True, vcSubURL := subURL\<rparr>"

text \<open>\<open>fetch\<close> is the exchange with the subscription's server, its errors already worded as the code words them.\<close>

definition AddConfigsFromSub ::
  "link_codec \<Rightarrow> (nat \<Rightarrow> nat) \<Rightarrow> (str \<Rightarrow> str go) \<Rightarrow> str option \<Rightarrow> str \<Rightarrow> V2RayManager \<Rightarrow> (nat go \<times> V2RayManager) blk" where
  "AddConfigsFromSub lc clk fetch werr subURL m = locked_op m
     (case fetch subURL of
        Ok body \<Rightarrow>
          (case decodeStd lc (TrimSpace body) of
             Ok decoded \<Rightarrow>
               let (cs, _, crash, t) = addLines lc clk (fromSub subURL) (Split decoded CHR 0x0A) (vmTick m); m1 = appendConfigs cs t m in
               if crash then (Panic, m1) else (Ok (length cs), snd (saveStore werr m1))
           | Err e \<Rightarrow> (Err (''failed to decode subscription data: '' @ e), m)
           | Panic \<Rightarrow> (Panic, m))
      | Err e \<Rightarrow> (Err e, m)
      | Panic \<Rightarrow> (Panic, m))"

section \<open>Changing configurations\<close>

definition notFound :: str where "notFound = ''config not found''"

definition DeleteConfig :: "str option \<Rightarrow> str \<Rightarrow> V2RayManager \<Rightarrow> (str option \<times> V2RayManager) blk" where
  "DeleteConfig werr i m = locked_op m
     (if findById vcID i (vsConfigs (vmStore m)) = None then (Some notFound, m)
      else saveStore werr (setStore (\<lambda>s. s\<lparr>vsConfigs := deleteFirst vcID i (vsConfigs s),
             vsSelectedID := (if vsSelectedID s = i then [] else vsSelectedID s)\<rparr>) m))"

definition SelectConfig :: "str option \<Rightarrow> str \<Rightarrow> V2RayManager \<Rightarrow> (str option \<times> V2RayManager) blk" where
  "SelectConfig werr i m = locked_op m
     (if findById vcID i (vsConfigs (vmStore m)) = None then (Some notFound, m)
      else saveStore werr (setStore (\<lambda>s. s\<lparr>vsSelectedID := i\<rparr>) m))"

definition UpdateV2Config :: "str option \<Rightarrow> str \<Rightarrow> V2RayConfig \<Rightarrow> V2RayManager \<Rightarrow> (str option \<times> V2RayManager) blk" where
  "UpdateV2Config werr i cfg m = locked_op m
     (if findById vcID i (vsConfigs (vmStore m)) = None then (Some (notFound @ '': '' @ i), m)
      else saveStore werr (setStore (\<lambda>s. s\<lparr>vsConfigs := replaceFirst vcID (cfg\<lparr>vcID := i\<rparr>) (vsConfigs s)\<rparr>) m))"

definition setField :: "str \<Rightarrow> str \<Rightarrow> V2RayConfig \<Rightarrow> V2RayConfig" where
  "setField field v c =
     (if field = ''name'' then c\<lparr>vcName := v\<rparr> else if field = ''server'' then c\<lparr>vcServer := v\<rparr>
      else if field = ''port'' then c\<lparr>vcPort := v\<rparr> else if field = ''uuid'' then c\<lparr>vcUUID := v\<rparr>
      else if field = ''password'' then c\<lparr>vcPassword := v\<rparr> else if field = ''method'' then c\<lparr>vcMethod := v\<rparr>
      else if field = ''encryption'' then c\<lparr>vcEncryption := v\<rparr> else if field = ''security'' then c\<lparr>vcSecurity := v\<rparr>
      else if field = ''transport'' then c\<lparr>vcType := v\<rparr> else if field = ''host'' then c\<lparr>vcHost := v\<rparr>
      else if field = ''path'' then c\<lparr>vcPath := v\<rparr> else if field = ''tls'' then c\<lparr>vcTLS := v\<rparr>
      else if field = ''flow'' then c\<lparr>vcFlow := v\<rparr> else if field = ''sni'' then c\<lparr>vcSni := v\<rparr>
      else if field = ''alpn'' then c\<lparr>vcAlpn := v\<rparr> else if field = ''fingerprint'' then c\<lparr>vcFingerprint := v\<rparr>
      else if field = ''public_key'' then c\<lparr>vcPublicKey := v\<rparr> else if field = ''short_id'' then c\<lparr>vcShortID := v\<rparr>
      else if field = ''group'' then c\<lparr>vcGroup := v\<rparr> else if field = ''up_mbps'' then c\<lparr>vcUpMbps := v\<rparr>
      else if field = ''down_mbps'' then c\<lparr>vcDownMbps := v\<rparr> else if field = ''insecure'' then c\<lparr>vcInsecure := v\<rparr>
      else if field = ''obfs_type'' then c\<lparr>vcObfsType := v\<rparr> else c)"

definition UpdateConfigField :: "str option \<Rightarrow> str \<Rightarrow> str \<Rightarrow> str \<Rightarrow> V2RayManager \<Rightarrow> (str option \<times> V2RayManager) blk" where
  "UpdateConfigField werr i field v m = locked_op m
     (case findById vcID i (vsConfigs (vmStore m)) of
        None \<Rightarrow> (Some (notFound @ '': '' @ i), m)
      | Some c \<Rightarrow> saveStore werr (setStore (\<lambda>s. s\<lparr>vsConfigs := replaceFirst vcID (setField field v c) (vsConfigs s)\<rparr>) m))"

definition ClearConfigs :: "str option \<Rightarrow> V2RayManager \<Rightarrow> (str option \<times> V2RayManager) blk" where
  "ClearConfigs werr m = locked_op m (saveStore werr (setStore (\<lambda>s. s\<lparr>vsConfigs := [], vsSelectedID := []\<rparr>) m))"

definition SetCorePort :: "str option \<Rightarrow> int \<Rightarrow> V2RayManager \<Rightarrow> (str option \<times> V2RayManager) blk" where
  "SetCorePort werr port m = locked_op m (saveStore werr ((setStore (\<lambda>s. s\<lparr>vsCorePort := port\<rparr>) m)\<lparr>vmCorePort := port\<rparr>))"

definition SetCoreRunning :: "str option \<Rightarrow> bool \<Rightarrow> V2RayManager \<Rightarrow> V2RayManager blk" where
  "SetCoreRunning werr running m = locked_op m (snd (saveStore werr (setStore (\<lambda>s. s\<lparr>vsCoreRunning := running\<rparr>) m)))"

definition SetCoreActive :: "str option \<Rightarrow> bool \<Rightarrow> V2RayManager \<Rightarrow> V2RayManager blk" where
  "SetCoreActive werr active m = locked_op m (snd (saveStore werr (setStore (\<lambda>s. s\<lparr>vsCoreActive := active\<rparr>) m)))"

text \<open>The getters.\<close>

definition GetV2Settings :: "V2RayManager \<Rightarrow> V2RaySettings blk" where
  "GetV2Settings m = locked_op m (vmSettings m)"

definition GetConfigs :: "V2RayManager \<Rightarrow> V2RayConfig list blk" where
  "GetConfigs m = locked_op m (vsConfigs (vmStore m))"

definition GetCorePort :: "V2RayManager \<Rightarrow> int blk" where
  "GetCorePort m = locked_op m (vmCorePort m)"

definition IsCoreRunning :: "V2RayManager \<Rightarrow> bool blk" where
  "IsCoreRunning m = locked_op m (vsCoreRunning (vmStore m))"

definition IsCoreActive :: "V2RayManager \<Rightarrow> bool blk" where
  "IsCoreActive m = locked_op m (vsCoreActive (vmStore m))"

definition GetStore :: "V2RayManager \<Rightarrow> V2RayConfigStore blk" where
  "GetStore m = locked_op m (vmStore m)"

section \<open>The configuration of the core\<close>

definition jnum :: "int \<Rightarrow> json" where
  "jnum n = JNum n (itoaInt n)"

abbreviation isDigit :: "char \<Rightarrow> bool" where "isDigit c \<equiv> digitVal c \<noteq> None"

definition digitsVal :: "str \<Rightarrow> nat" where
  "digitsVal s = (case parseDigits 0 s of Some n \<Rightarrow> n | None \<Rightarrow> 0)"

text \<open>\<open>fmt.Sscanf(s, "%d", &p)\<close> into an \<open>int\<close> and a \<open>uint64\<close> that are zero before: spaces are skipped, but no line feed,
  the digits are read as far as they go, and where there are none or the number is too large the variable stays.\<close>

definition skipBlanks :: "str \<Rightarrow> str" where
  "skipBlanks s = dropWhile (\<lambda>c. isSpace c \<and> c \<noteq> CHR 0x0A) s"

definition scanInt :: "str \<Rightarrow> int" where
  "scanInt s =
     (let t = skipBlanks s; neg = HasPrefix t ''-'';
          u = (if neg \<or> HasPrefix t ''+'' then tl t else t); v = digitsVal (takeWhile isDigit u)
      in if neg then (if v \<le> 2 ^ 63 then - int v else 0) else if v < 2 ^ 63 then int v else 0)"

definition parsePort :: "str \<Rightarrow> int" where
  "parsePort port = (let p = scanInt port in if p \<le> 0 then 443 else p)"

definition parseUint64 :: "str \<Rightarrow> int" where
  "parseUint64 s = (let v = digitsVal (takeWhile isDigit (skipBlanks s)) in if v < 2 ^ 64 then int v else 0)"

definition maskID :: "str \<Rightarrow> str" where
  "maskID s = (if length s \<le> 6 then ''***'' else take 3 s @ ''...'' @ drop (length s - 3) s)"

definition splitAlpn :: "V2RayConfig \<Rightarrow> jobject" where
  "splitAlpn cfg = (if vcAlpn cfg \<noteq> [] then [(''alpn'', JArr (map JStr (Split (vcAlpn cfg) CHR '','')))] else [])"

definition fingerprintOf :: "V2RayConfig \<Rightarrow> jobject" where
  "fingerprintOf cfg = (if vcFingerprint cfg \<noteq> [] then [(''fingerprint'', JStr (vcFingerprint cfg))] else [])"

definition coreInbounds :: "int \<Rightarrow> json" where
  "coreInbounds port =
     JArr [JObj [(''port'', jnum port), (''listen'', JStr ''127.0.0.1''), (''protocol'', JStr ''socks''),
             (''settings'', JObj [(''udp'', JBool True)]), (''tag'', JStr ''socks-in'')],
           JObj [(''port'', jnum (port + 1)), (''listen'', JStr ''127.0.0.1''), (''protocol'', JStr ''http''),
             (''settings'', JObj []), (''tag'', JStr ''http-in'')]]"

text \<open>The entry of \<open>vnext\<close> or \<open>servers\<close>: address, port and what the protocol adds.\<close>

definition endpoint :: "V2RayConfig \<Rightarrow> jobject \<Rightarrow> json" where
  "endpoint cfg extra = JArr [JObj ([(''address'', JStr (vcServer cfg)), (''port'', jnum (parsePort (vcPort cfg)))] @ extra)]"

definition coreSettings :: "V2RayConfig \<Rightarrow> jobject option" where
  "coreSettings cfg =
     (let p = vcProtocol cfg; user = (\<lambda>fields. [(''users'', JArr [JObj fields])]) in
      if p = ''vmess'' then Some [(''vnext'', endpoint cfg (user [(''id'', JStr (vcUUID cfg)), (''security'', JStr (vcSecurity cfg))]))]
      else if p = ''vless'' then
        Some [(''vnext'', endpoint cfg (user [(''id'', JStr (vcUUID cfg)), (''encryption'', JStr (vcEncryption cfg)), (''flow'', JStr (vcFlow cfg))]))]
      else if p = ''trojan'' then Some [(''servers'', endpoint cfg [(''password'', JStr (vcPassword cfg))])]
      else if p = ''shadowsocks'' then
        Some [(''servers'', endpoint cfg [(''method'', JStr (vcMethod cfg)), (''password'', JStr (vcPassword cfg))])]
      else if p = ''socks'' then Some [(''servers'', endpoint cfg [])]
      else if p = ''http'' then Some [(''servers'', endpoint cfg [])]
      else if p = ''hysteria2'' then Some [(''vnext'', endpoint cfg (user [(''account'', JObj [])]))]
      else None)"

definition hy2Stream :: "V2RayConfig \<Rightarrow> jobject" where
  "hy2Stream cfg =
     [(''security'', JStr ''tls''),
      (''tlsSettings'', JObj ([(''serverName'', JStr (vcSni cfg)), (''allowInsecure'', JBool (vcInsecure cfg = ''1'' \<or> vcInsecure cfg = ''true''))] @
         splitAlpn cfg @ fingerprintOf cfg)),
      (''hy2Settings'', JObj ([(''password'', JStr (vcPassword cfg))] @
         (if vcUpMbps cfg \<noteq> [] then
            [(''congestion'', JObj [(''type'', JStr ''brutal''), (''up_mbps'', jnum (parseUint64 (vcUpMbps cfg))),
               (''down_mbps'', jnum (parseUint64 (vcDownMbps cfg)))])] else []) @
         (if vcObfsType cfg \<noteq> [] then [(''obfs'', JStr (vcObfsType cfg))] else [])))]"

definition transportStream :: "V2RayConfig \<Rightarrow> jobject" where
  "transportStream cfg =
     (if vcType cfg \<noteq> [] \<and> vcType cfg \<noteq> ''tcp'' then
        (''network'', JStr (vcType cfg)) #
        (if vcType cfg = ''ws'' then
           [(''wsSettings'', JObj ((if vcPath cfg \<noteq> [] then [(''path'', JStr (vcPath cfg))] else []) @
              (if vcHost cfg \<noteq> [] then [(''headers'', JObj [(''Host'', JStr (vcHost cfg))])] else [])))]
         else if vcType cfg = ''grpc'' then
           [(''grpcSettings'', JObj (if vcHost cfg \<noteq> [] then [(''serviceName'', JStr (vcHost cfg))] else []))]
         else if vcType cfg = ''quic'' then [(''quicSettings'', JObj [])] else [])
      else [])"

definition tlsStream :: "V2RayConfig \<Rightarrow> jobject" where
  "tlsStream cfg =
     (if vcTLS cfg = ''tls'' \<or> vcSecurity cfg = ''tls'' then
        [(''security'', JStr ''tls''),
         (''tlsSettings'', JObj ([(''serverName'', JStr (if vcSni cfg = [] then vcServer cfg else vcSni cfg))] @ splitAlpn cfg @ fingerprintOf cfg))]
      else [(''security'', JStr ''none'')])"

definition coreStream :: "V2RayConfig \<Rightarrow> jobject" where
  "coreStream cfg = (if vcProtocol cfg = ''hysteria2'' then hy2Stream cfg else transportStream cfg @ tlsStream cfg)"

definition GenerateCoreJSON :: "V2RayConfig \<Rightarrow> V2RayManager \<Rightarrow> jobject go" where
  "GenerateCoreJSON cfg m =
     (case coreSettings cfg of
        None \<Rightarrow> Err (''unsupported protocol: '' @ vcProtocol cfg)
      | Some settings \<Rightarrow>
          let stream = coreStream cfg;
              outbound = [(''protocol'', JStr (vcProtocol cfg)), (''settings'', JObj settings), (''tag'', JStr ''proxy'')] @
                (if length stream > 1 then [(''streamSettings'', JObj stream)] else [])
          in Ok [(''log'', JObj [(''loglevel'', JStr ''warning'')]), (''inbounds'', coreInbounds (vmCorePort m)), (''outbounds'', JArr [JObj outbound]),
                 (''routing'', JObj [(''domainStrategy'', JStr ''AsIs''),
                    (''rules'', JArr [JObj [(''type'', JStr ''field''), (''inboundTag'', JArr [JStr ''socks-in'', JStr ''http-in'']),
                       (''outboundTag'', JStr ''proxy'')]])])])"

section \<open>The life cycle of the core\<close>

text \<open>The library: loading a configuration, creating an instance of it, starting it; each may fail.\<close>

record core_env =
  ceLoad :: "jobject \<Rightarrow> str option"
  ceNew :: "jobject \<Rightarrow> str option"
  ceStart :: "jobject \<Rightarrow> str option"

text \<open>The steps that \<open>StartCore\<close> and the two tests share, with the words each puts before an error.\<close>

definition buildCore :: "core_env \<Rightarrow> str \<Rightarrow> str \<Rightarrow> str \<Rightarrow> V2RayConfig \<Rightarrow> V2RayManager \<Rightarrow> jobject go" where
  "buildCore ce loadMsg newMsg startMsg cfg m =
     prefixErr ''generate config: '' (GenerateCoreJSON cfg m) (\<lambda>j.
       case ceLoad ce j of
         Some e \<Rightarrow> Err (loadMsg @ e)
       | None \<Rightarrow>
           (case ceNew ce j of
              Some e \<Rightarrow> Err (newMsg @ e)
            | None \<Rightarrow> (case ceStart ce j of Some e \<Rightarrow> Err (startMsg @ e) | None \<Rightarrow> Ok j)))"

definition StartCore :: "core_env \<Rightarrow> str option \<Rightarrow> V2RayManager \<Rightarrow> (str option \<times> V2RayManager) blk" where
  "StartCore ce werr m =
     (if vmLocked m then Blocked
      else case getSelectedConfigLocked m of
        None \<Rightarrow> Done (Some ''no config selected'', m)
      | Some cfg \<Rightarrow>
          let port = vmCorePort m; m1 = m\<lparr>vmInstance := None\<rparr> in
          (case buildCore ce ''parse v2ray config: '' ''create v2ray instance: '' ''start v2ray instance: '' cfg m1 of
             Ok j \<Rightarrow> bind_blk (SetCoreRunning werr True (m1\<lparr>vmInstance := Some j, vmCorePort := port\<rparr>)) (\<lambda>m2. Done (None, m2))
           | Err e \<Rightarrow> Done (Some e, m1)
           | Panic \<Rightarrow> Done (None, m1)))"

text \<open>\<open>StopCore\<close> takes the mutex and calls \<open>SetCoreRunning\<close>, which takes it again. The result comes with the state that other
  operations find, also when it is \<open>Blocked\<close>.\<close>

definition StopCore :: "str option \<Rightarrow> str option \<Rightarrow> V2RayManager \<Rightarrow> str option blk \<times> V2RayManager" where
  "StopCore closeErr werr m =
     (if vmLocked m then (Blocked, m)
      else
        let held = m\<lparr>vmLocked := True\<rparr>;
            finish = (\<lambda>q. case SetCoreRunning werr False q of
               Done q1 \<Rightarrow> (Done None, q1\<lparr>vmLocked := False\<rparr>)
             | Blocked \<Rightarrow> (Blocked, q))
        in case vmInstance m of
             None \<Rightarrow> finish held
           | Some _ \<Rightarrow>
               (case closeErr of
                  Some e \<Rightarrow> (Done (Some (''stop v2ray instance: '' @ e)), m)
                | None \<Rightarrow> finish (held\<lparr>vmInstance := None\<rparr>)))"

definition IsCoreProcessRunning :: "V2RayManager \<Rightarrow> bool blk" where
  "IsCoreProcessRunning m = locked_op m (vmInstance m \<noteq> None)"

section \<open>Tests\<close>

record test_result =
  trLatencyMs :: int
  trSuccess :: nat
  trTotal :: nat

definition testURLs :: "str list" where
  "testURLs = [''https://www.google.com/generate_204'', ''https://www.gstatic.com/generate_204'', ''https://cloudflare.com/cdn-cgi/trace'']"

text \<open>\<open>TestConfigReal\<close>: \<open>get\<close> is a request through the core that listens on the port, its latency in nanoseconds or an error;
  \<open>dialerErr\<close> the error of setting up the SOCKS dialer, \<open>nowNs\<close> the clock. Go's division of durations truncates.\<close>

definition TestConfigReal ::
  "core_env \<Rightarrow> nat \<Rightarrow> str option \<Rightarrow> (int \<Rightarrow> str \<Rightarrow> int go) \<Rightarrow> V2RayConfig \<Rightarrow> V2RayManager \<Rightarrow> (test_result go \<times> V2RayManager) blk" where
  "TestConfigReal ce nowNs dialerErr get cfg m =
     (if vmLocked m then Blocked
      else
        let port = 21000 + int (nowNs mod 1000); originalPort = vmCorePort m; m1 = m\<lparr>vmCorePort := port\<rparr>;
            restore = (\<lambda>r. Done (r, m1\<lparr>vmCorePort := originalPort\<rparr>))
        in case buildCore ce ''parse config: '' ''create instance: '' ''start instance: '' cfg m1 of
             Ok _ \<Rightarrow>
               (case dialerErr of
                  Some e \<Rightarrow> restore (Err (''socks5 dialer: '' @ e))
                | None \<Rightarrow>
                    let rs = map (get port) testURLs; oks = concat (map (\<lambda>r. case r of Ok l \<Rightarrow> [l] | _ \<Rightarrow> []) rs);
                        errs = concat (map (\<lambda>r. case r of Err e \<Rightarrow> [e] | _ \<Rightarrow> []) rs)
                    in if oks = [] then restore (Err (''all test requests failed: '' @ last ([] # errs)))
                       else restore (Ok \<lparr>trLatencyMs = sum_list oks div int (length oks) div 1000000, trSuccess = length oks, trTotal = length testURLs\<rparr>))
           | Err e \<Rightarrow> restore (Err e)
           | Panic \<Rightarrow> restore Panic)"

text \<open>\<open>SpeedTestConfig\<close>: \<open>download\<close> gives the sizes of the reads until one fails or ends the body, and the time taken in
  nanoseconds; \<open>mbps\<close> is the floating-point quotient of bytes and time.\<close>

record speed_result =
  spMbps :: int
  spBytes :: nat
  spElapsedMs :: nat

definition SpeedTestConfig ::
  "core_env \<Rightarrow> nat \<Rightarrow> str option \<Rightarrow> (int \<Rightarrow> str \<Rightarrow> (nat list \<times> nat) go) \<Rightarrow> (nat \<Rightarrow> nat \<Rightarrow> int) \<Rightarrow> V2RayConfig \<Rightarrow> V2RayManager \<Rightarrow>
   (speed_result go \<times> V2RayManager) blk" where
  "SpeedTestConfig ce nowNs dialerErr download mbps cfg m =
     (if vmLocked m then Blocked
      else
        let port = 21000 + int (nowNs mod 1000); originalPort = vmCorePort m; m1 = m\<lparr>vmCorePort := port\<rparr>;
            restore = (\<lambda>r. Done (r, m1\<lparr>vmCorePort := originalPort\<rparr>))
        in case buildCore ce ''parse config: '' ''create instance: '' ''start instance: '' cfg m1 of
             Ok _ \<Rightarrow>
               (case dialerErr of
                  Some e \<Rightarrow> restore (Err (''socks5 dialer: '' @ e))
                | None \<Rightarrow>
                    (case download port ''https://speed.cloudflare.com/__down?bytes=5000000'' of
                       Ok (reads, elapsed) \<Rightarrow>
                         let total = sum_list reads in
                         restore (Ok \<lparr>spMbps = mbps total elapsed, spBytes = total, spElapsedMs = elapsed div 1000000\<rparr>)
                     | Err e \<Rightarrow> restore (Err (''speed test request failed: '' @ e))
                     | Panic \<Rightarrow> restore Panic))
           | Err e \<Rightarrow> restore (Err e)
           | Panic \<Rightarrow> restore Panic)"

definition pingAddr :: "V2RayConfig \<Rightarrow> str" where
  "pingAddr cfg = (if vcPort cfg \<noteq> [] then JoinHostPort (vcServer cfg) (vcPort cfg) else vcServer cfg)"

text \<open>\<open>PingConfig\<close> and \<open>PingConfigWithTimeout\<close>; \<open>dial\<close> takes the address and the timeout in milliseconds.\<close>

definition PingConfig :: "(str \<Rightarrow> int \<Rightarrow> int go) \<Rightarrow> V2RayConfig \<Rightarrow> V2RayManager \<Rightarrow> int go" where
  "PingConfig dial cfg m =
     (if vcServer cfg = [] then Err ''no server address''
      else prefixErr ''connection failed: '' (dial (pingAddr cfg) (if vtRoutingMode (vmSettings m) = ''test'' then 30000 else 10000)) Ok)"

definition PingConfigWithTimeout :: "(str \<Rightarrow> int \<Rightarrow> int go) \<Rightarrow> V2RayConfig \<Rightarrow> int \<Rightarrow> int go" where
  "PingConfigWithTimeout dial cfg timeoutMs0 =
     (if vcServer cfg = [] then Err ''no server address''
      else
        let t1 = (if timeoutMs0 < 0 then 0 else timeoutMs0); timeoutMs = (if t1 > 10000 then 10000 else t1) in
        prefixErr ''connection failed: '' (dial (pingAddr cfg) (if timeoutMs = 0 then 10000 else timeoutMs)) Ok)"

record V2RayPingResult =
  prID :: str
  prName :: str
  prLatency :: int
  prOK :: bool
  prError :: str

text \<open>The pings run at once; \<open>arrival\<close> orders their results.\<close>

definition PingAllConfigs ::
  "(str \<Rightarrow> int \<Rightarrow> int go) \<Rightarrow> (V2RayConfig list \<Rightarrow> V2RayConfig list) \<Rightarrow> V2RayManager \<Rightarrow> V2RayPingResult list blk" where
  "PingAllConfigs dial arrival m = locked_op m
     (map (\<lambda>c. case PingConfig dial c m of
          Ok l \<Rightarrow> \<lparr>prID = vcID c, prName = vcName c, prLatency = l, prOK = True, prError = []\<rparr>
        | Err e \<Rightarrow> \<lparr>prID = vcID c, prName = vcName c, prLatency = 0, prOK = False, prError = e\<rparr>
        | Panic \<Rightarrow> \<lparr>prID = vcID c, prName = vcName c, prLatency = 0, prOK = False, prError = []\<rparr>)
       (arrival (vsConfigs (vmStore m))))"

section \<open>Subscriptions\<close>

record SubInfo =
  siURL :: str
  siUpload :: int
  siDownload :: int
  siTotal :: int
  siExpire :: int
  siExpireStr :: str
  siSubURL :: str

definition subPart :: "(int \<Rightarrow> str) \<Rightarrow> str \<Rightarrow> SubInfo \<Rightarrow> SubInfo" where
  "subPart fmtTime part info =
     (case SplitN2 (TrimSpace part) CHR ''='' of
        [k, v] \<Rightarrow>
          let key = TrimSpace k; n = parseInt0 (TrimSpace v) in
          if key = ''upload'' then info\<lparr>siUpload := n\<rparr>
          else if key = ''download'' then info\<lparr>siDownload := n\<rparr>
          else if key = ''total'' then info\<lparr>siTotal := n\<rparr>
          else if key = ''expire'' then info\<lparr>siExpire := n, siExpireStr := fmtTime n\<rparr>
          else info
      | _ \<Rightarrow> info)"

definition zeroSub :: SubInfo where
  "zeroSub = \<lparr>siURL = [], siUpload = 0, siDownload = 0, siTotal = 0, siExpire = 0, siExpireStr = [], siSubURL = []\<rparr>"

text \<open>\<open>ParseSubInfoFromHeaders\<close> of the value of the header; \<open>fmtTime\<close> prints a Unix time.\<close>

definition ParseSubInfoFromHeaders :: "(int \<Rightarrow> str) \<Rightarrow> str \<Rightarrow> SubInfo option" where
  "ParseSubInfoFromHeaders fmtTime userinfo =
     (if userinfo = [] then None else Some (fold (subPart fmtTime) (Split userinfo CHR '';'') zeroSub))"

text \<open>\<open>AddSubWithInfo\<close>; the exchange gives the header and the body.\<close>

definition AddSubWithInfo ::
  "link_codec \<Rightarrow> (nat \<Rightarrow> nat) \<Rightarrow> (str \<Rightarrow> (str \<times> str) go) \<Rightarrow> (int \<Rightarrow> str) \<Rightarrow> str option \<Rightarrow> str \<Rightarrow> V2RayManager \<Rightarrow>
   ((V2RayConfig list \<times> SubInfo option) go \<times> V2RayManager) blk" where
  "AddSubWithInfo lc clk fetch fmtTime werr subURL m = locked_op m
     (case fetch subURL of
        Ok (userinfo, body) \<Rightarrow>
          let info = map_option (\<lambda>i. i\<lparr>siURL := subURL, siSubURL := subURL\<rparr>) (ParseSubInfoFromHeaders fmtTime userinfo) in
          (case decodeStd lc (TrimSpace body) of
             Ok decoded \<Rightarrow>
               let (cs, _, crash, t) = addLines lc clk (fromSub subURL) (Split decoded CHR 0x0A) (vmTick m); m1 = appendConfigs cs t m in
               if crash then (Panic, m1) else (Ok (cs, info), snd (saveStore werr m1))
           | Err e \<Rightarrow> (Err (''failed to decode subscription data: '' @ e), m)
           | Panic \<Rightarrow> (Panic, m))
      | Err e \<Rightarrow> (Err e, m)
      | Panic \<Rightarrow> (Panic, m))"

text \<open>\<open>GetSubInfo\<close> goes over a map; \<open>ord\<close> is its order.\<close>

definition GetSubInfo :: "key_order \<Rightarrow> V2RayManager \<Rightarrow> str list blk" where
  "GetSubInfo ord m = locked_op m
     (ord (remdups (map vcSubURL (filter (\<lambda>c. vcIsSub c \<and> vcSubURL c \<noteq> []) (vsConfigs (vmStore m))))))"

record SubscriptionResult =
  srURL :: str
  srSubURL :: str
  srCount :: nat
  srConfigs :: "V2RayConfig list"
  srError :: str

definition ParseSubscriptionLinks :: "link_codec \<Rightarrow> str \<Rightarrow> str \<Rightarrow> SubscriptionResult go" where
  "ParseSubscriptionLinks lc subURL rawData =
     (case decodeStd lc (TrimSpace rawData) of
        Ok decoded \<Rightarrow>
          let rs = map (\<lambda>l. ParseV2RayLink lc (TrimSpace l)) (filter (\<lambda>l. TrimSpace l \<noteq> []) (Split decoded CHR 0x0A));
              cs = concat (map (\<lambda>r. case r of Ok c \<Rightarrow> [fromSub subURL c] | _ \<Rightarrow> []) rs)
          in if Panic \<in> set rs then Panic
             else Ok \<lparr>srURL = subURL, srSubURL = subURL, srCount = length cs, srConfigs = cs, srError = []\<rparr>
      | Err e \<Rightarrow> Ok \<lparr>srURL = subURL, srSubURL = subURL, srCount = 0, srConfigs = [], srError = e\<rparr>
      | Panic \<Rightarrow> Panic)"

end
