(* ===== verification/V2RayTheorems.thy ===== *)
theory V2RayTheorems
  imports V2RayManager
begin

text \<open>
  The V2Ray manager over its life: the operations as steps, the selection invariant, what an addition of links does, the
  manager as a map from identifiers to configurations, the generated configuration, and the mutex.
\<close>

section \<open>Steps\<close>

text \<open>Any operation that returns, with any clock, library, network and disk; and \<open>StopCore\<close>, which may not return.\<close>

inductive v2_step :: "V2RayManager \<Rightarrow> V2RayManager \<Rightarrow> bool" where
  add: "AddConfig lc clk werr link m = Done (r1, m') \<Longrightarrow> v2_step m m'"
| sub: "AddConfigsFromSub lc clk fetch werr url m = Done (r2, m') \<Longrightarrow> v2_step m m'"
| subInfo: "AddSubWithInfo lc clk fetch2 fmtTime werr url m = Done (r3, m') \<Longrightarrow> v2_step m m'"
| del: "DeleteConfig werr i m = Done (e, m') \<Longrightarrow> v2_step m m'"
| select: "SelectConfig werr i m = Done (e, m') \<Longrightarrow> v2_step m m'"
| update: "UpdateV2Config werr i cfg m = Done (e, m') \<Longrightarrow> v2_step m m'"
| field: "UpdateConfigField werr i f v m = Done (e, m') \<Longrightarrow> v2_step m m'"
| clear: "ClearConfigs werr m = Done (e, m') \<Longrightarrow> v2_step m m'"
| port: "SetCorePort werr p m = Done (e, m') \<Longrightarrow> v2_step m m'"
| running: "SetCoreRunning werr b m = Done m' \<Longrightarrow> v2_step m m'"
| active: "SetCoreActive werr b m = Done m' \<Longrightarrow> v2_step m m'"
| settings: "SaveSettings werr s m = Done (e, m') \<Longrightarrow> v2_step m m'"
| start: "StartCore ce werr m = Done (e, m') \<Longrightarrow> v2_step m m'"
| test: "TestConfigReal ce now de get cfg m = Done (r4, m') \<Longrightarrow> v2_step m m'"
| speed: "SpeedTestConfig ce now de download mbps cfg m = Done (r6, m') \<Longrightarrow> v2_step m m'"
| stop: "StopCore ce2 werr m = (r5, m') \<Longrightarrow> v2_step m m'"

text \<open>The life of the manager across restarts of the application, which reads the two files again.\<close>

inductive v2_reach :: "V2RayConfigStore option \<Rightarrow> V2RaySettings option \<Rightarrow> V2RayManager \<Rightarrow> bool" for sf tf where
  init: "v2_reach sf tf (NewV2RayManager sf tf)"
| step: "v2_reach sf tf m \<Longrightarrow> v2_step m m' \<Longrightarrow> v2_reach sf tf m'"
| restart: "v2_reach sf tf m \<Longrightarrow> v2_reach sf tf (NewV2RayManager (vmStoreFile m) (vmSettingsFile m))"

definition selectedStored :: "V2RayConfigStore \<Rightarrow> bool" where
  "selectedStored s = (vsSelectedID s = [] \<or> vsSelectedID s \<in> vcID ` set (vsConfigs s))"

definition v2_inv :: "V2RayManager \<Rightarrow> bool" where
  "v2_inv m = (selectedStored (vmStore m) \<and> (case vmStoreFile m of None \<Rightarrow> True | Some s \<Rightarrow> selectedStored s))"

lemma locked_op_Done: "locked_op m r = Done r' \<longleftrightarrow> \<not> vmLocked m \<and> r' = r"
  by (auto simp: locked_op_def)

lemma saveStore_inv: "selectedStored (vmStore m) \<Longrightarrow> v2_inv m0 \<Longrightarrow> vmStoreFile m = vmStoreFile m0 \<Longrightarrow> v2_inv (snd (saveStore werr m))"
  by (auto simp: saveStore_def v2_inv_def split: option.splits)

lemma appendConfigs_store [simp]:
  "vmStore (appendConfigs cs t m) = (vmStore m)\<lparr>vsConfigs := vsConfigs (vmStore m) @ cs\<rparr>" "vmStoreFile (appendConfigs cs t m) = vmStoreFile m"
  "vmTick (appendConfigs cs t m) = t" "vmLocked (appendConfigs cs t m) = vmLocked m"
  by (simp_all add: appendConfigs_def setStore_def)

lemma setStore_simps [simp]:
  "vmStore (setStore f m) = f (vmStore m)" "vmStoreFile (setStore f m) = vmStoreFile m" "vmLocked (setStore f m) = vmLocked m"
  "vmTick (setStore f m) = vmTick m"
  by (simp_all add: setStore_def)

lemma saveStore_simps [simp]:
  "vmStore (snd (saveStore w m)) = vmStore m" "vmLocked (snd (saveStore w m)) = vmLocked m" "vmTick (snd (saveStore w m)) = vmTick m"
  "vmInstance (snd (saveStore w m)) = vmInstance m" "vmCorePort (snd (saveStore w m)) = vmCorePort m"
  by (simp_all add: saveStore_def split: option.split)

lemma selectedStored_append: "selectedStored s \<Longrightarrow> selectedStored (s\<lparr>vsConfigs := vsConfigs s @ cs\<rparr>)"
  by (auto simp: selectedStored_def)

lemma selectedStored_cong:
  "vsSelectedID s' = vsSelectedID s \<Longrightarrow> map vcID (vsConfigs s') = map vcID (vsConfigs s) \<Longrightarrow> selectedStored s \<Longrightarrow> selectedStored s'"
  by (metis selectedStored_def list.set_map)

lemma selectedStored_delete:
  "selectedStored s \<Longrightarrow> selectedStored (s\<lparr>vsConfigs := deleteFirst vcID i (vsConfigs s), vsSelectedID := (if vsSelectedID s = i then [] else vsSelectedID s)\<rparr>)"
  by (auto simp: selectedStored_def id_list in_set_remove1 simp flip: set_map)

lemma setField_ID [simp]: "vcID (setField f v c) = vcID c"
  by (simp add: setField_def)

text \<open>The three additions share the loop and its bookkeeping.\<close>

lemma add_inv: "v2_inv m \<Longrightarrow> v2_inv (appendConfigs cs t m) \<and> v2_inv (snd (saveStore werr (appendConfigs cs t m)))"
  by (auto simp: v2_inv_def saveStore_def selectedStored_append split: option.splits)

lemma AddConfig_inv: "AddConfig lc clk werr link m = Done (r, m') \<Longrightarrow> v2_inv m \<Longrightarrow> v2_inv m'"
  using add_inv by (auto simp: AddConfig_def locked_op_Done Let_def split: prod.splits if_splits)

lemma AddConfigsFromSub_inv: "AddConfigsFromSub lc clk fetch werr url m = Done (r, m') \<Longrightarrow> v2_inv m \<Longrightarrow> v2_inv m'"
  using add_inv by (auto simp: AddConfigsFromSub_def locked_op_Done Let_def split: prod.splits if_splits go.splits)

lemma AddSubWithInfo_inv: "AddSubWithInfo lc clk fetch fmtTime werr url m = Done (r, m') \<Longrightarrow> v2_inv m \<Longrightarrow> v2_inv m'"
  using add_inv by (auto simp: AddSubWithInfo_def locked_op_Done Let_def split: prod.splits if_splits go.splits)

lemma save_change_inv:
  assumes "saveStore werr (setStore f m) = (e, m')" and "v2_inv m" and "selectedStored (vmStore m) \<Longrightarrow> selectedStored (f (vmStore m))"
  shows "v2_inv m'"
proof -
  have "v2_inv (snd (saveStore werr (setStore f m)))" using assms(2,3) by (intro saveStore_inv) (auto simp: v2_inv_def)
  then show ?thesis using assms(1) by simp
qed

lemma DeleteConfig_inv: "DeleteConfig werr i m = Done (e, m') \<Longrightarrow> v2_inv m \<Longrightarrow> v2_inv m'"
  by (auto simp: DeleteConfig_def locked_op_Done elim!: save_change_inv [OF sym] intro: selectedStored_delete split: if_splits)

lemma SelectConfig_inv: "SelectConfig werr i m = Done (e, m') \<Longrightarrow> v2_inv m \<Longrightarrow> v2_inv m'"
  by (auto simp: SelectConfig_def locked_op_Done id_list selectedStored_def elim!: save_change_inv [OF sym] split: if_splits)

lemma UpdateV2Config_inv: "UpdateV2Config werr i cfg m = Done (e, m') \<Longrightarrow> v2_inv m \<Longrightarrow> v2_inv m'"
  by (auto simp: UpdateV2Config_def locked_op_Done id_list elim!: save_change_inv [OF sym] intro: selectedStored_cong split: if_splits)

lemma UpdateConfigField_inv: "UpdateConfigField werr i f v m = Done (e, m') \<Longrightarrow> v2_inv m \<Longrightarrow> v2_inv m'"
  by (auto simp: UpdateConfigField_def locked_op_Done id_list elim!: save_change_inv [OF sym] intro: selectedStored_cong split: option.splits)

lemma ClearConfigs_inv: "ClearConfigs werr m = Done (e, m') \<Longrightarrow> v2_inv m \<Longrightarrow> v2_inv m'"
  by (auto simp: ClearConfigs_def locked_op_Done selectedStored_def elim!: save_change_inv [OF sym])

lemma SetCoreRunning_inv: "SetCoreRunning werr b m = Done m' \<Longrightarrow> v2_inv m \<Longrightarrow> v2_inv m'"
  by (auto simp: SetCoreRunning_def locked_op_Done v2_inv_def selectedStored_def saveStore_def split: option.splits)

lemma SetCoreActive_inv: "SetCoreActive werr b m = Done m' \<Longrightarrow> v2_inv m \<Longrightarrow> v2_inv m'"
  by (auto simp: SetCoreActive_def locked_op_Done v2_inv_def selectedStored_def saveStore_def split: option.splits)

lemma SetCorePort_inv: "SetCorePort werr p m = Done (e, m') \<Longrightarrow> v2_inv m \<Longrightarrow> v2_inv m'"
  by (auto simp: SetCorePort_def locked_op_Done v2_inv_def selectedStored_def saveStore_def split: option.splits)

lemma v2_inv_frame: "v2_inv m \<Longrightarrow> vmStore m' = vmStore m \<Longrightarrow> vmStoreFile m' = vmStoreFile m \<Longrightarrow> v2_inv m'"
  by (simp add: v2_inv_def)

lemma SaveSettings_inv: "SaveSettings werr s m = Done (e, m') \<Longrightarrow> v2_inv m \<Longrightarrow> v2_inv m'"
  by (auto simp: SaveSettings_def locked_op_Done Let_def elim!: v2_inv_frame split: option.splits)

text \<open>A test runs the core on a port of its own and puts the manager back, whatever the test meets.\<close>

lemma TestConfigReal_same: "TestConfigReal ce now de get cfg m = Done (r, m') \<Longrightarrow> m' = m"
  by (auto simp: TestConfigReal_def Let_def split: if_splits go.splits option.splits)

lemma SpeedTestConfig_same: "SpeedTestConfig ce now de download mbps cfg m = Done (r, m') \<Longrightarrow> m' = m"
  by (auto simp: SpeedTestConfig_def Let_def split: if_splits go.splits option.splits prod.splits)

lemma StartCore_inv:
  assumes "StartCore ce werr m = Done (e, m')" and "v2_inv m" shows "v2_inv m'"
proof -
  have i: "v2_inv (m\<lparr>vmInstance := i\<rparr>)" for i using assms(2) by (simp add: v2_inv_def)
  have "v2_inv m'" if "SetCoreRunning werr True (m\<lparr>vmInstance := i\<rparr>) = Done m'" for i
    using that i by (rule SetCoreRunning_inv)
  then show ?thesis using assms i unfolding StartCore_def
    by (auto simp: Let_def bind_blk_Done_iff split: if_splits go.splits option.splits)
qed

lemma SetCoreRunning_held: "vmLocked q \<Longrightarrow> SetCoreRunning werr b q = Blocked"
  by (simp add: SetCoreRunning_def locked_op_def)

lemma StopCore_inv: "StopCore ce2 werr m = (r, m') \<Longrightarrow> v2_inv m \<Longrightarrow> v2_inv m'"
  by (auto simp: StopCore_def Let_def SetCoreRunning_held elim!: v2_inv_frame split: if_splits option.splits)

lemmas v2_op_inv = AddConfig_inv AddConfigsFromSub_inv AddSubWithInfo_inv DeleteConfig_inv SelectConfig_inv UpdateV2Config_inv
  UpdateConfigField_inv ClearConfigs_inv SetCorePort_inv SetCoreRunning_inv SetCoreActive_inv SaveSettings_inv StartCore_inv StopCore_inv

lemma v2_step_inv: "v2_step m m' \<Longrightarrow> v2_inv m \<Longrightarrow> v2_inv m'"
  by (induction rule: v2_step.induct) (blast dest: v2_op_inv TestConfigReal_same SpeedTestConfig_same)+

lemma loadSettings_store [simp]: "vmStore (loadSettings m) = vmStore m" "vmStoreFile (loadSettings m) = vmStoreFile m"
  by (simp_all add: loadSettings_def split: option.split)

lemma NewV2RayManager_inv: "(case sf of None \<Rightarrow> True | Some s \<Rightarrow> selectedStored s) \<Longrightarrow> v2_inv (NewV2RayManager sf tf)"
  by (auto simp: NewV2RayManager_def v2_inv_def DefaultConfigStore_def selectedStored_def Let_def split: option.splits)

lemma v2_reach_inv:
  "v2_reach sf tf m \<Longrightarrow> (case sf of None \<Rightarrow> True | Some s \<Rightarrow> selectedStored s) \<Longrightarrow> v2_inv m"
proof (induction rule: v2_reach.induct)
  case init then show ?case by (rule NewV2RayManager_inv)
next
  case (step m m') then show ?case using v2_step_inv by blast
next
  case (restart m) then show ?case by (intro NewV2RayManager_inv) (auto simp: v2_inv_def)
qed

text \<open>C23: The selection never dangles: from a manager whose store file is absent or sound, whatever operations run,
  whatever links, networks and disks they meet, and across restarts, the selected identifier is empty or belongs to a stored
  configuration, in memory and in the file, so that the selected configuration exists whenever one is selected.\<close>

theorem selection_never_dangles:
  assumes "v2_reach sf tf m" and "case sf of None \<Rightarrow> True | Some s \<Rightarrow> selectedStored s"
  shows "v2_inv m \<and> (getSelectedConfigLocked m = None \<longleftrightarrow> vsSelectedID (vmStore m) = [])"
proof -
  have "v2_inv m" using assms by (rule v2_reach_inv)
  then show ?thesis by (auto simp: getSelectedConfigLocked_def v2_inv_def selectedStored_def findById_None)
qed

text \<open>The selected configuration is deleted.\<close>

definition oneStored :: V2RayConfigStore where
  "oneStored = DefaultConfigStore\<lparr>vsConfigs := [zeroV2\<lparr>vcID := ''a''\<rparr>], vsSelectedID := ''a''\<rparr>"

theorem selection_never_dangles_witness:
  "\<exists>m. v2_reach (Some oneStored) None m \<and> v2_inv m \<and> getSelectedConfigLocked m = None"
proof -
  let ?m0 = "NewV2RayManager (Some oneStored) None"
  have "\<exists>e m. DeleteConfig None ''a'' ?m0 = Done (e, m) \<and> vsSelectedID (vmStore m) = []"
    by (simp add: DeleteConfig_def locked_op_def NewV2RayManager_def loadSettings_def oneStored_def DefaultConfigStore_def saveStore_def
        setStore_def zeroV2_def Let_def)
  then obtain e m where m: "DeleteConfig None ''a'' ?m0 = Done (e, m)" "vsSelectedID (vmStore m) = []" by blast
  then have r: "v2_reach (Some oneStored) None m" using v2_reach.init v2_reach.step v2_step.del by blast
  have "selectedStored oneStored" by (simp add: selectedStored_def oneStored_def)
  then show ?thesis using selection_never_dangles [OF r] r m(2) by auto
qed

section \<open>The mutex\<close>

lemma v2_step_held:
  assumes "v2_step m m'" and "vmLocked m" shows "m' = m"
  using assms by (cases rule: v2_step.cases)
    (simp_all add: AddConfig_def AddConfigsFromSub_def AddSubWithInfo_def DeleteConfig_def SelectConfig_def UpdateV2Config_def
      UpdateConfigField_def ClearConfigs_def SetCorePort_def SetCoreRunning_def SetCoreActive_def SaveSettings_def StartCore_def
      TestConfigReal_def SpeedTestConfig_def StopCore_def locked_op_def)



section \<open>Adding links\<close>

text \<open>The configurations of the lines that parse, in order, before they get an identifier.\<close>

definition parsedLines :: "link_codec \<Rightarrow> str list \<Rightarrow> V2RayConfig list" where
  "parsedLines lc ls = concat (map (\<lambda>l. case parseAndAdd lc (TrimSpace l) of Ok c \<Rightarrow> [c] | _ \<Rightarrow> []) (filter (\<lambda>l. TrimSpace l \<noteq> []) ls))"

definition lineFailures :: "link_codec \<Rightarrow> str list \<Rightarrow> str list" where
  "lineFailures lc ls = concat (map (\<lambda>l. case parseAndAdd lc (TrimSpace l) of
      Err e \<Rightarrow> [''failed: '' @ take 50 (TrimSpace l) @ '' - '' @ e] | _ \<Rightarrow> []) (filter (\<lambda>l. TrimSpace l \<noteq> []) ls))"

definition linesCrash :: "link_codec \<Rightarrow> str list \<Rightarrow> bool" where
  "linesCrash lc ls = (\<exists>l \<in> set ls. TrimSpace l \<noteq> [] \<and> parseAndAdd lc (TrimSpace l) = Panic)"

fun withIds :: "(nat \<Rightarrow> nat) \<Rightarrow> nat \<Rightarrow> V2RayConfig list \<Rightarrow> V2RayConfig list" where
  "withIds clk t [] = []"
| "withIds clk t (c # cs) = c\<lparr>vcID := hexOf (clk t)\<rparr> # withIds clk (Suc t) cs"

lemma addLines_spec:
  "\<not> linesCrash lc ls \<Longrightarrow>
   addLines lc clk mark ls t = (map mark (withIds clk t (parsedLines lc ls)), lineFailures lc ls, False, t + length (parsedLines lc ls))"
  by (induction ls arbitrary: t)
    (auto simp: linesCrash_def parsedLines_def lineFailures_def Let_def split: go.splits)

lemma withIds_ids: "map vcID (withIds clk t cs) = map (\<lambda>k. hexOf (clk k)) [t ..< t + length cs]"
proof (induction cs arbitrary: t)
  case (Cons c cs)
  have "[t ..< t + length (c # cs)] = t # [Suc t ..< Suc t + length cs]"
    using upt_conv_Cons [of t "t + length (c # cs)"] by (simp del: upt_Suc)
  then show ?case using Cons by simp
qed simp

lemma length_withIds [simp]: "length (withIds clk t cs) = length cs"
  by (induction cs arbitrary: t) auto

text \<open>\<open>hexOf\<close> is injective: the value of the digits gives the number back.\<close>

definition hexVal :: "str \<Rightarrow> nat" where
  "hexVal s = foldl (\<lambda>a c. 16 * a + the (IndexByte ''0123456789abcdef'' c)) 0 s"

lemma hexVal_snoc: "hexVal (s @ [c]) = 16 * hexVal s + the (IndexByte ''0123456789abcdef'' c)"
  by (simp add: hexVal_def)

lemma hexDigit_index: "n < 16 \<Longrightarrow> IndexByte ''0123456789abcdef'' (''0123456789abcdef'' ! n) = Some n"
proof -
  assume "n < 16"
  then have "n \<in> set [0,1,2,3,4,5,6,7,8,9,10,11,12,13,14,15]" by (simp add: less_Suc_eq eval_nat_numeral)
  then show ?thesis by (simp only: set_simps insert_iff empty_iff) (elim disjE; simp)
qed

lemma hexVal_hexOf: "hexVal (hexOf n) = n"
proof (induction n rule: hexOf.induct)
  case (1 n)
  show ?case
  proof (cases "n < 16")
    case True then show ?thesis using hexDigit_index [of n] by (subst hexOf.simps) (simp add: hexVal_def)
  next
    case False then show ?thesis using 1 hexDigit_index [of "n mod 16"] by (subst hexOf.simps) (simp add: hexVal_snoc)
  qed
qed

lemma hexOf_inj: "hexOf a = hexOf b \<longleftrightarrow> a = b"
  by (metis hexVal_hexOf)

lemma AddConfig_returns: "\<not> vmLocked m \<Longrightarrow> \<exists>r m'. AddConfig lc clk werr link m = Done (r, m')"
  unfolding AddConfig_def locked_op_def by (cases "addLines lc clk (\<lambda>c. c) (Split link CHR 0x0A) (vmTick m)") simp

text \<open>What \<open>AddConfig\<close> does with a text of many links: when no parser panics, the stored configurations are kept in
  front, one configuration is appended for each line that parses, in the order of the lines; the result is the last of them, or
  the failures of the lines, or that there was nothing; the selection stays; and the new identifiers are
  distinct from each other exactly if the clock never showed the same time twice meanwhile.\<close>

theorem AddConfig_appends:
  assumes "AddConfig lc clk werr link m = Done (r, m')" and "\<not> linesCrash lc (Split link CHR 0x0A)"
  defines "new \<equiv> withIds clk (vmTick m) (parsedLines lc (Split link CHR 0x0A))"
  shows "vsConfigs (vmStore m') = vsConfigs (vmStore m) @ new \<and> vsSelectedID (vmStore m') = vsSelectedID (vmStore m) \<and>
    r = (if new \<noteq> [] then Ok (last new)
         else if lineFailures lc (Split link CHR 0x0A) \<noteq> [] then Err (Join (lineFailures lc (Split link CHR 0x0A)) ''; '')
         else Err ''no valid configs found'') \<and>
    (uniqueIds vcID new \<longleftrightarrow> inj_on clk {vmTick m ..< vmTick m'})"
proof -
  have "uniqueIds vcID (withIds clk t cs) \<longleftrightarrow> inj_on clk {t ..< t + length cs}" for t cs
    by (simp add: uniqueIds_def withIds_ids distinct_map inj_on_def hexOf_inj)
  then show ?thesis
    using assms(1) unfolding new_def by (auto simp: AddConfig_def locked_op_Done addLines_spec [OF assms(2)] Let_def)
qed

theorem AddConfig_appends_witness:
  "\<exists>r m'. AddConfig plainCodec (\<lambda>t. t) None ''socks://h:1'' (NewV2RayManager None None) = Done (r, m') \<and>
     vsSelectedID (vmStore m') = [] \<and> map vcID (vsConfigs (vmStore m')) = [''0'']"
proof -
  let ?m = "NewV2RayManager None None" and ?ls = "Split ''socks://h:1'' CHR 0x0A"
  have ls: "?ls = [''socks://h:1'']" by code_simp
  have t: "TrimSpace ''socks://h:1'' = ''socks://h:1''" by code_simp
  have p: "parseAndAdd plainCodec ''socks://h:1'' = parseSocks plainCodec ''socks://h:1''"
    by (simp add: parseAndAdd_def ParseV2RayLink_def t HasPrefix_def)
  have nc: "\<not> linesCrash plainCodec ?ls"
    unfolding ls by (simp add: linesCrash_def t p parseSocks_def Let_def split: prod.split)
  obtain c where c: "parseSocks plainCodec ''socks://h:1'' = Ok c"
    by (cases "parseSocks plainCodec ''socks://h:1''") (auto simp: parseSocks_def Let_def split: prod.splits)
  have "parsedLines plainCodec ?ls = [c]" unfolding ls by (simp add: parsedLines_def t p c)
  moreover have "\<not> vmLocked ?m" "vmTick ?m = 0" "vsConfigs (vmStore ?m) = []" "vsSelectedID (vmStore ?m) = []"
    by (simp_all add: NewV2RayManager_def loadSettings_def DefaultConfigStore_def Let_def)
  moreover from calculation(2) obtain r m' where "AddConfig plainCodec (\<lambda>t. t) None ''socks://h:1'' ?m = Done (r, m')"
    using AddConfig_returns by blast
  ultimately show ?thesis using AddConfig_appends [OF _ nc] by (fastforce simp: hexOf.simps)
qed

section \<open>The store as a map\<close>

text \<open>The operations on a manager whose mutex is free, with a disk that accepts every write. One line that parses appends one
  configuration under the identifier made for it.\<close>

definition freed :: "V2RayManager \<Rightarrow> V2RayManager" where
  "freed m = m\<lparr>vmLocked := False\<rparr>"

definition addOne :: "str \<Rightarrow> V2RayConfig \<Rightarrow> V2RayManager \<Rightarrow> V2RayManager" where
  "addOne i c m = snd (saveStore None (appendConfigs [c\<lparr>vcID := i\<rparr>] (Suc (vmTick m)) (freed m)))"

definition updateOne :: "V2RayConfig \<Rightarrow> V2RayManager \<Rightarrow> V2RayManager" where
  "updateOne c m = (case UpdateV2Config None (vcID c) c (freed m) of Done (_, m') \<Rightarrow> m' | Blocked \<Rightarrow> m)"

definition deleteOne :: "str \<Rightarrow> V2RayManager \<Rightarrow> V2RayManager" where
  "deleteOne i m = (case DeleteConfig None i (freed m) of Done (_, m') \<Rightarrow> m' | Blocked \<Rightarrow> m)"

definition storedConfigs :: "V2RayManager \<Rightarrow> V2RayConfig list" where
  "storedConfigs m = vsConfigs (vmStore m)"

lemma replaceFirst_absent: "ident x \<notin> ident ` set xs \<Longrightarrow> replaceFirst ident x xs = xs"
  by (induction xs) auto

lemma deleteFirst_absent: "i \<notin> ident ` set xs \<Longrightarrow> deleteFirst ident i xs = xs"
  by (induction xs) auto

interpretation v2store: id_store vcID "\<lambda>i c. c\<lparr>vcID := i\<rparr>" "\<lambda>c. c" storedConfigs addOne updateOne deleteOne
proof
  show "storedConfigs (addOne i x s) = storedConfigs s @ [x\<lparr>vcID := i\<rparr>]" for i x s by (simp add: storedConfigs_def addOne_def freed_def)
  show "storedConfigs (updateOne x s) = replaceFirst vcID x (storedConfigs s)" for x s
    by (simp add: storedConfigs_def updateOne_def freed_def UpdateV2Config_def locked_op_def saveStore_def findById_None replaceFirst_absent)
  show "storedConfigs (deleteOne i s) = deleteFirst vcID i (storedConfigs s)" for i s
    by (simp add: storedConfigs_def deleteOne_def freed_def DeleteConfig_def locked_op_def saveStore_def findById_None deleteFirst_absent)
qed simp_all

text \<open>The manager's configurations are a map from identifiers: after any sequence of additions under fresh
  identifiers, updates and deletions, identifiers are still unique and the lookups are those of the finite map on which the same
  operations ran; in particular an update reaches only its own configuration and unknown identifiers change nothing.\<close>

theorem v2_store_refines_map:
  assumes "uniqueIds vcID (storedConfigs m)" and "v2store.fresh_ops ops (\<lambda>i. findById vcID i (storedConfigs m))"
  shows "uniqueIds vcID (storedConfigs (fold v2store.apply_op ops m)) \<and>
    (\<lambda>i. findById vcID i (storedConfigs (fold v2store.apply_op ops m))) = fold v2store.map_op ops (\<lambda>i. findById vcID i (storedConfigs m))"
  using v2store.run_refines_map [of m ops] assms by (simp add: v2store.uniq_def v2store.lookup_def [abs_def])

theorem v2_store_refines_map_witness:
  "uniqueIds vcID (storedConfigs (fold v2store.apply_op [Add ''a'' zeroV2, Upd (zeroV2\<lparr>vcID := ''a'', vcName := ''n''\<rparr>), Del ''b'']
     (NewV2RayManager None None)))"
proof -
  have "storedConfigs (NewV2RayManager None None) = []"
    by (simp add: storedConfigs_def NewV2RayManager_def loadSettings_def DefaultConfigStore_def Let_def)
  then show ?thesis
    using v2_store_refines_map [of "NewV2RayManager None None" "[Add ''a'' zeroV2, Upd (zeroV2\<lparr>vcID := ''a'', vcName := ''n''\<rparr>), Del ''b'']"]
    by (simp add: uniqueIds_def)
qed

section \<open>The generated configuration\<close>

fun jfield :: "str \<Rightarrow> json option \<Rightarrow> json option" where
  "jfield k (Some (JObj fs)) = map_of fs k"
| "jfield k _ = None"

fun jfirst :: "json option \<Rightarrow> json option" where
  "jfirst (Some (JArr (x # _))) = Some x"
| "jfirst _ = None"

text \<open>The server an outbound dials, its address and port.\<close>

definition dialed :: "json option \<Rightarrow> json option \<times> json option" where
  "dialed ob = (let s = jfield ''settings'' ob; e = jfirst (case jfield ''vnext'' s of Some v \<Rightarrow> Some v | None \<Rightarrow> jfield ''servers'' s)
     in (jfield ''address'' e, jfield ''port'' e))"

text \<open>The security of an outbound: without stream settings it is the library's default, none.\<close>

definition securityOf :: "json option \<Rightarrow> str" where
  "securityOf ob = (case jfield ''security'' (jfield ''streamSettings'' ob) of Some (JStr s) \<Rightarrow> s | _ \<Rightarrow> ''none'')"

definition supportedProtocols :: "str list" where
  "supportedProtocols = [''vmess'', ''vless'', ''trojan'', ''shadowsocks'', ''socks'', ''http'', ''hysteria2'']"

lemma coreSettings_None: "coreSettings cfg = None \<longleftrightarrow> vcProtocol cfg \<notin> set supportedProtocols"
  by (simp add: coreSettings_def supportedProtocols_def Let_def)

lemma dialed_settings:
  assumes "coreSettings cfg = Some st" and "jfield ''settings'' ob = Some (JObj st)"
  shows "dialed ob = (Some (JStr (vcServer cfg)), Some (jnum (parsePort (vcPort cfg))))"
  using assms by (auto simp: dialed_def coreSettings_def endpoint_def Let_def split: if_splits)

lemma map_of_transportStream: "map_of (transportStream cfg @ ts) ''security'' = map_of ts ''security''"
  by (simp add: transportStream_def)

lemma coreStream_security:
  "map_of (coreStream cfg) ''security'' =
     Some (JStr (if vcProtocol cfg = ''hysteria2'' \<or> vcTLS cfg = ''tls'' \<or> vcSecurity cfg = ''tls'' then ''tls'' else ''none''))"
  by (simp add: coreStream_def hy2Stream_def map_of_transportStream tlsStream_def del: map_of_append)

lemma coreStream_short:
  "\<not> Suc 0 < length (coreStream cfg) \<Longrightarrow> vcProtocol cfg \<noteq> ''hysteria2'' \<and> vcTLS cfg \<noteq> ''tls'' \<and> vcSecurity cfg \<noteq> ''tls''"
  by (simp add: coreStream_def hy2Stream_def tlsStream_def split: if_splits)



end
