(* ===== verification/Doh.thy ===== *)
theory Doh
  imports Connect
begin

text \<open>
  DNS over HTTPS, \<open>src/proxy/doh.go\<close>: a query to one node, the failover between the nodes and the system resolver, the
  lookups of addresses and of ECH configurations, and the HTTP/3 transport (\<open>newQUICRoundTripper\<close> of
  \<open>src/proxy/proxy.go\<close>) that a node may use.

  \<^item> Reaching a node may need its ECH configuration or its addresses, which are looked up through the nodes again:
    the code is recursive through \<open>ProxyServer\<close>. The calls that go back are collected in \<open>resolver\<close>, an argument of every
    definition; \<open>resolverAt d\<close> allows \<open>d\<close> nested levels, and \<open>None\<close> says that they were not enough.
  \<^item> \<open>dns_env\<close> is the outside world: URLs, the packing and unpacking of messages and \<open>Fqdn\<close> of the DNS
    package, HTTP exchanges and QUIC dials, with the time given by the number of network actions so far.
  \<^item> \<open>doLog\<close> is the log of these actions.
  \<^item> The nodes that race are tried in the order in which they answer, up to the first answer; those overtaken are cancelled, and
    an update of a profile that a cancelled one may still make is not modelled.
\<close>

section \<open>Messages\<close>

datatype svcb = SvECH bytes | SvOther

datatype rr = RR_A IP | RR_AAAA IP | RR_HTTPS "svcb list" | RR_Other

datatype qtype = TypeA | TypeAAAA | TypeHTTPS

record dns_msg =
  dmId :: nat
  dmQuestion :: "(str \<times> qtype) list"
  dmAnswer :: "rr list"

text \<open>\<open>SetQuestion\<close> draws a random identifier, \<open>SetReply\<close> copies it with the question.\<close>

definition SetQuestion :: "nat \<Rightarrow> str \<Rightarrow> qtype \<Rightarrow> dns_msg" where
  "SetQuestion i name t = \<lparr>dmId = i, dmQuestion = [(name, t)], dmAnswer = []\<rparr>"

definition SetReply :: "dns_msg \<Rightarrow> dns_msg" where
  "SetReply m = \<lparr>dmId = dmId m, dmQuestion = take 1 (dmQuestion m), dmAnswer = []\<rparr>"

section \<open>The outside world\<close>

datatype http_outcome = HttpErr str | HttpResp nat "bytes go"

datatype doh_act = DialNode str str | QUICNode str str | PostNode str str | SystemLookup str

record dns_env =
  deNet :: net_env
  deVerify :: chain_verifier
  deHash :: spki_hash
  deURL :: "str \<Rightarrow> (str \<times> str \<times> str) go"
  deFqdn :: "str \<Rightarrow> str"
  dePack :: "dns_msg \<Rightarrow> str option"
  deUnpack :: "bytes \<Rightarrow> dns_msg go"
  dePost :: "nat \<Rightarrow> str \<Rightarrow> str \<Rightarrow> dns_msg \<Rightarrow> http_outcome"
  deQUICDial :: "nat \<Rightarrow> str \<Rightarrow> utls_config \<Rightarrow> str option"
  deRace :: "nat \<Rightarrow> DNSNode list \<Rightarrow> DNSNode list"
  deDone :: "nat \<Rightarrow> str option"
  deId :: "nat \<Rightarrow> nat"
  deAFirst :: "nat \<Rightarrow> bool"

record doh_state =
  doProxy :: ProxyServer
  doLog :: "doh_act list"

abbreviation doNow :: "doh_state \<Rightarrow> nat" where "doNow st \<equiv> length (doLog st)"

abbreviation doNodes :: "doh_state \<Rightarrow> DNSNode list" where "doNodes st \<equiv> dnsNodes (psRules (doProxy st))"

type_synonym 'a res = "('a go \<times> doh_state) option"

record resolver =
  rsFetchECH :: "str \<Rightarrow> doh_state \<Rightarrow> bytes res"
  rsLookupIPs :: "str \<Rightarrow> doh_state \<Rightarrow> IP list res"

definition act :: "doh_act \<Rightarrow> doh_state \<Rightarrow> doh_state" where
  "act a st = st\<lparr>doLog := doLog st @ [a]\<rparr>"

definition bindR :: "'a res \<Rightarrow> ('a \<Rightarrow> doh_state \<Rightarrow> 'b res) \<Rightarrow> 'b res" where
  "bindR m k = (case m of
      None \<Rightarrow> None
    | Some (Ok x, st) \<Rightarrow> k x st
    | Some (Err e, st) \<Rightarrow> Some (Err e, st)
    | Some (Panic, st) \<Rightarrow> Some (Panic, st))"

section \<open>Reaching a node\<close>

definition nodeRule :: "DNSNode \<Rightarrow> str \<Rightarrow> Rule" where
  "nodeRule node host =
     zeroRule\<lparr>rSniFake := (if dnSNI node = [] then host else dnSNI node), rSniPolicy := (if dnSNI node = [] then ''upstream'' else ''fake''),
       rECHEnabled := dnECHEnabled node, rECHProfileID := dnECHProfileID node, rCertVerify := dnCertVerify node,
       rECHAutoUpdate := dnECHAutoUpdate node\<rparr>"

definition profileECH :: "dns_env \<Rightarrow> str \<Rightarrow> doh_state \<Rightarrow> bytes" where
  "profileECH env i st = (if i = [] then [] else GetBinaryECHConfig (neDecode (deNet env)) i (psRules (doProxy st)))"

definition updateProfile :: "dns_env \<Rightarrow> str \<Rightarrow> bytes \<Rightarrow> doh_state \<Rightarrow> doh_state" where
  "updateProfile env i ech st =
     (if i \<noteq> [] then st\<lparr>doProxy := (doProxy st)\<lparr>psRules := fst (UpdateECHProfileConfig (neEncode (deNet env)) None i ech (psRules (doProxy st)))\<rparr>\<rparr>
      else st)"

text \<open>\<open>resolveRuleECHConfig\<close>, with \<open>FetchECH\<close> through the resolver; an error counts as no configuration.\<close>

definition resolveECHConfig :: "dns_env \<Rightarrow> resolver \<Rightarrow> str \<Rightarrow> Rule \<Rightarrow> doh_state \<Rightarrow> bytes res" where
  "resolveECHConfig env rs host rule st =
     (let manual = profileECH env (rECHProfileID rule) st; d = TrimSpace (rECHDiscoveryDomain rule) in
      if \<not> rECHEnabled rule then Some (Ok [], st)
      else if length manual > 0 then Some (Ok manual, st)
      else if rECHAutoUpdate rule then
        (case rsFetchECH rs (if d = [] then host else d) st of
           None \<Rightarrow> None
         | Some (Ok ech, st1) \<Rightarrow> if length ech > 0 then Some (Ok ech, updateProfile env (rECHProfileID rule) ech st1) else Some (Ok [], st1)
         | Some (_, st1) \<Rightarrow> Some (Ok [], st1))
      else Some (Ok [], st))"

text \<open>The transport of \<open>newQUICRoundTripper\<close>: the addresses it will dial and its TLS configuration. \<open>dohAsked\<close> is the name
  that \<open>buildDialCandidates\<close> looks up through the nodes, if it comes to that.\<close>

definition dohAsked :: "net_env \<Rightarrow> CloudflarePool option \<Rightarrow> str \<Rightarrow> Rule \<Rightarrow> str option blk" where
  "dohAsked env pool host rule =
     (let up = resolveRuleUpstream host rule; f = firstUpstreamHost host up;
          ask = (\<lambda>h. let n = normalizeHost h in if n = [] \<or> isLiteralIP env n then None else Some n)
      in if EqualFold (TrimSpace (rUpstream rule)) ''warp'' then Done (ask host)
         else if TrimSpace up \<noteq> [] then
           Done (if length (splitUpstreamCandidates host up ''443'') = 0 then None else if f \<noteq> [] \<and> \<not> isLiteralIP env f then ask f else None)
         else case (rUseCFPool rule, pool) of
           (True, Some p) \<Rightarrow> bind_blk (GetTopIPs (neOrder env) 5 p) (\<lambda>top. Done (if length top > 0 then None else ask host))
         | _ \<Rightarrow> Done (ask host))"

definition quicCandidates :: "dns_env \<Rightarrow> resolver \<Rightarrow> str \<Rightarrow> Rule \<Rightarrow> doh_state \<Rightarrow> str list res" where
  "quicCandidates env rs host rule st =
     (let targetAddr = JoinHostPort host ''443'';
          cands = (\<lambda>doh st1. case buildDialCandidates ((deNet env)\<lparr>neDoH := Some (\<lambda>_. doh)\<rparr>) (psPool (doProxy st1)) host targetAddr rule ''quic'' of
             Done cs \<Rightarrow> Some (Ok (if length cs = 0 then [targetAddr] else cs), st1)
           | Blocked \<Rightarrow> None)
      in case dohAsked (deNet env) (psPool (doProxy st)) host rule of
           Blocked \<Rightarrow> None
         | Done None \<Rightarrow> cands (Err []) st
         | Done (Some name) \<Rightarrow> (case rsLookupIPs rs name st of None \<Rightarrow> None | Some (r, st1) \<Rightarrow> cands r st1))"

definition quicTLSConfig :: "dns_env \<Rightarrow> str \<Rightarrow> Rule \<Rightarrow> bytes \<Rightarrow> utls_config" where
  "quicTLSConfig env host rule ech =
     (let sni0 = chooseUpstreamSNI (deNet env) host rule; sniHost = (if sni0 = [] then host else sni0) in
      \<lparr>ucServerName = (if length ech = 0 then sniHost else host), ucInsecureSkipVerify = (length ech = 0), ucECHConfigList = ech,
       ucNextProtos = [''h3'', ''h3-29'', ''h3-32''],
       ucVerifyConnection = (if length ech = 0 then buildVerifyConnection (deVerify env) (deHash env) host (rCertVerify rule) else None),
       ucInsecureServerNameToVerify = [], ucHelloID = []\<rparr>)"

definition newQUICRoundTripper :: "dns_env \<Rightarrow> resolver \<Rightarrow> str \<Rightarrow> Rule \<Rightarrow> doh_state \<Rightarrow> (str list \<times> utls_config) res" where
  "newQUICRoundTripper env rs host rule st =
     bindR (quicCandidates env rs host rule st) (\<lambda>cands st1.
     bindR (resolveECHConfig env rs host rule st1) (\<lambda>ech st2.
       Some (Ok (cands, quicTLSConfig env host rule ech), st2)))"

text \<open>The \<open>Dial\<close> of that transport.\<close>

fun quicDial :: "dns_env \<Rightarrow> str \<Rightarrow> utls_config \<Rightarrow> str list \<Rightarrow> str list \<Rightarrow> doh_state \<Rightarrow> unit go \<times> doh_state" where
  "quicDial env host cfg [] errs st =
     (Err (if length errs = 0 then ''no QUIC dial candidates for '' @ host
           else ''all QUIC dial candidates failed for '' @ host @ '': '' @ Join errs ''; ''), st)"
| "quicDial env host cfg (c # cs) errs st =
     (case deQUICDial env (doNow st) c cfg of
        None \<Rightarrow> (Ok (), act (QUICNode host c) st)
      | Some e \<Rightarrow> quicDial env host cfg cs (errs @ [c @ '': '' @ e]) (act (QUICNode host c) st))"

text \<open>The candidates of \<open>DialTLSContext\<close>, dialled in order. An empty list of addresses fails with no error of its own.\<close>

definition nodeCandidates :: "DNSNode \<Rightarrow> str \<Rightarrow> str \<Rightarrow> str list" where
  "nodeCandidates node host port =
     (let p = (if port = [] then ''443'' else port) in
      if length (dnIPs node) > 0 then map (\<lambda>ip. JoinHostPort ip p) (dnIPs node) else [JoinHostPort host p])"

fun dialNode :: "dns_env \<Rightarrow> str \<Rightarrow> str list \<Rightarrow> str \<Rightarrow> doh_state \<Rightarrow> str go \<times> doh_state" where
  "dialNode env host [] lastErr st = (Err (''all dial candidates failed: '' @ lastErr), st)"
| "dialNode env host (c # cs) lastErr st =
     (case neDial (deNet env) c (doNow st) of
        None \<Rightarrow> (Ok c, act (DialNode host c) st)
      | Some e \<Rightarrow> dialNode env host cs e (act (DialNode host c) st))"

text \<open>\<open>DialTLSContext\<close>: dial, find the ECH configuration, handshake.\<close>

definition dialTLS :: "dns_env \<Rightarrow> resolver \<Rightarrow> DNSNode \<Rightarrow> str \<Rightarrow> str \<Rightarrow> doh_state \<Rightarrow> unit res" where
  "dialTLS env rs node host port st =
     (let rule = nodeRule node host in
      bindR (Some (dialNode env host (nodeCandidates node host port) [] st)) (\<lambda>addr st1.
      bindR (resolveECHConfig env rs host rule st1) (\<lambda>ech st2.
        let verifyName = (if rSniFake rule \<noteq> [] then rSniFake rule else host);
            cfg = GetUConn (deVerify env) (deHash env) (doProxy st2) (rSniFake rule) verifyName rule
                    (cvAllowUnknownAuthority (dnCertVerify node)) ''http/1.1'' ech
        in case neHandshake (deNet env) addr (doNow st2) cfg of
             HsOK _ \<Rightarrow> Some (Ok (), st2)
           | HsRejected e \<Rightarrow> Some (Err e, st2)
           | HsFailed e \<Rightarrow> Some (Err e, st2))))"

section \<open>A query to one node\<close>

text \<open>\<open>getNodeClient\<close>: with QUIC the transport is made at once, otherwise only the URL is read. Then \<open>client.Do\<close>: a connection
  for a URL of scheme https (other schemes are the HTTP library's affair) and the exchange.\<close>

datatype node_client = ClientQUIC "str list" utls_config | ClientTLS

definition getNodeClient :: "dns_env \<Rightarrow> resolver \<Rightarrow> DNSNode \<Rightarrow> doh_state \<Rightarrow> node_client res" where
  "getNodeClient env rs node st =
     (case deURL env (dnURL node) of
        Ok (_, host, _) \<Rightarrow>
          if dnQUIC node then bindR (newQUICRoundTripper env rs host (nodeRule node host) st) (\<lambda>(cands, cfg) st1. Some (Ok (ClientQUIC cands cfg), st1))
          else Some (Ok ClientTLS, st)
      | Err e \<Rightarrow> Some (Err (''invalid node URL: '' @ e), st)
      | Panic \<Rightarrow> Some (Panic, st))"

definition clientConn :: "dns_env \<Rightarrow> resolver \<Rightarrow> DNSNode \<Rightarrow> node_client \<Rightarrow> doh_state \<Rightarrow> unit res" where
  "clientConn env rs node client st =
     (case deURL env (dnURL node) of
        Ok (scheme, host, port) \<Rightarrow>
          if scheme \<noteq> ''https'' then Some (Ok (), st)
          else (case client of ClientQUIC cands cfg \<Rightarrow> Some (quicDial env host cfg cands [] st) | ClientTLS \<Rightarrow> dialTLS env rs node host port st)
      | _ \<Rightarrow> Some (Ok (), st))"

text \<open>The \<open>Host\<close> header: the fake name for a URL with a literal address.\<close>

definition nodeHostHeader :: "dns_env \<Rightarrow> DNSNode \<Rightarrow> str" where
  "nodeHostHeader env node =
     (case deURL env (dnURL node) of
        Ok (_, host, _) \<Rightarrow> if dnSNI node \<noteq> [] \<and> isLiteralIP (deNet env) host then dnSNI node else host
      | _ \<Rightarrow> [])"

text \<open>The result of \<open>client.Do\<close>: the error of the connection or of the exchange, or the response.\<close>

definition clientDo :: "dns_env \<Rightarrow> resolver \<Rightarrow> DNSNode \<Rightarrow> node_client \<Rightarrow> dns_msg \<Rightarrow> doh_state \<Rightarrow> (nat \<times> bytes go) res" where
  "clientDo env rs node client msg st =
     bindR (clientConn env rs node client st) (\<lambda>_ st1.
       case dePost env (doNow st1) (dnURL node) (nodeHostHeader env node) msg of
         HttpErr e \<Rightarrow> Some (Err e, act (PostNode (dnID node) (dnURL node)) st1)
       | HttpResp status body \<Rightarrow> Some (Ok (status, body), act (PostNode (dnID node) (dnURL node)) st1))"

definition readReply :: "dns_env \<Rightarrow> nat \<times> bytes go \<Rightarrow> dns_msg go" where
  "readReply env r = (case r of (status, body) \<Rightarrow>
     if status \<noteq> 200 then Err (''DoH server returned status '' @ itoa status) else bind_go body (deUnpack env))"

text \<open>\<open>exchangeNodeWithRetry\<close> up to the error of \<open>client.Do\<close>: \<open>Inl\<close> is a result that is returned, \<open>Inr\<close> such an error.\<close>

definition sendQuery :: "dns_env \<Rightarrow> resolver \<Rightarrow> DNSNode \<Rightarrow> dns_msg \<Rightarrow> doh_state \<Rightarrow> ((dns_msg go + str) \<times> doh_state) option" where
  "sendQuery env rs node msg st =
     (case getNodeClient env rs node st of
        None \<Rightarrow> None
      | Some (Err e, st1) \<Rightarrow> Some (Inl (Err e), st1)
      | Some (Panic, st1) \<Rightarrow> Some (Inl Panic, st1)
      | Some (Ok client, st1) \<Rightarrow>
          let q = msg\<lparr>dmId := 0\<rparr> in
          (case dePack env q of
             Some e \<Rightarrow> Some (Inl (Err e), st1)
           | None \<Rightarrow>
               (case clientDo env rs node client q st1 of
                  None \<Rightarrow> None
                | Some (Err e, st2) \<Rightarrow> Some (Inr e, st2)
                | Some (Panic, st2) \<Rightarrow> Some (Inl Panic, st2)
                | Some (Ok r, st2) \<Rightarrow> Some (Inl (readReply env r), st2))))"

definition exchangeNodeOnce :: "dns_env \<Rightarrow> resolver \<Rightarrow> DNSNode \<Rightarrow> dns_msg \<Rightarrow> doh_state \<Rightarrow> dns_msg res" where
  "exchangeNodeOnce env rs node msg st =
     (case sendQuery env rs node msg st of
        None \<Rightarrow> None | Some (Inl r, st1) \<Rightarrow> Some (r, st1) | Some (Inr e, st1) \<Rightarrow> Some (Err e, st1))"

section \<open>The safe path\<close>

definition safeNodes :: "doh_state \<Rightarrow> DNSNode list" where
  "safeNodes st = filter (\<lambda>n. dnEnabled n \<and> \<not> dnECHEnabled n) (doNodes st)"

fun tryNodes :: "dns_env \<Rightarrow> resolver \<Rightarrow> DNSNode list \<Rightarrow> dns_msg \<Rightarrow> doh_state \<Rightarrow> dns_msg res" where
  "tryNodes env rs [] msg st = Some (Err ''all safe DNS resolution attempts failed'', st)"
| "tryNodes env rs (n # ns) msg st =
     (case exchangeNodeOnce env rs n msg st of
        None \<Rightarrow> None
      | Some (Ok r, st1) \<Rightarrow> Some (Ok r, st1)
      | Some (Err _, st1) \<Rightarrow> tryNodes env rs ns msg st1
      | Some (Panic, st1) \<Rightarrow> Some (Panic, st1))"

definition exchangeSafe :: "dns_env \<Rightarrow> resolver \<Rightarrow> dns_msg \<Rightarrow> doh_state \<Rightarrow> dns_msg res" where
  "exchangeSafe env rs msg st =
     (if length (safeNodes st) = 0 then Some (Err ''no safe (non-ECH) DNS nodes available for fallback'', st)
      else tryNodes env rs (safeNodes st) msg st)"

text \<open>The first ECH configuration in the HTTPS records of an answer.\<close>

definition svcbECH :: "svcb list \<Rightarrow> bytes option" where
  "svcbECH vs = (case concat (map (\<lambda>v. case v of SvECH b \<Rightarrow> [b] | SvOther \<Rightarrow> []) vs) of [] \<Rightarrow> None | b # _ \<Rightarrow> Some b)"

fun findECH :: "rr list \<Rightarrow> bytes option" where
  "findECH [] = None"
| "findECH (RR_HTTPS vs # rs) = (case svcbECH vs of Some b \<Rightarrow> Some b | None \<Rightarrow> findECH rs)"
| "findECH (_ # rs) = findECH rs"

definition question :: "dns_env \<Rightarrow> str \<Rightarrow> qtype \<Rightarrow> doh_state \<Rightarrow> dns_msg" where
  "question env domain t st = SetQuestion (deId env (doNow st)) (deFqdn env domain) t"

definition ResolveECHSafe :: "dns_env \<Rightarrow> resolver \<Rightarrow> str \<Rightarrow> doh_state \<Rightarrow> bytes res" where
  "ResolveECHSafe env rs domain st =
     bindR (exchangeSafe env rs (question env domain TypeHTTPS st) st) (\<lambda>resp st1.
       case findECH (dmAnswer resp) of
         Some ech \<Rightarrow> Some (Ok ech, st1)
       | None \<Rightarrow> Some (Err (''no ECH config found via safe source for '' @ domain), st1))"

section \<open>The failover\<close>

text \<open>\<open>exchangeNode\<close>: a failed request to a node with ECH and automatic update is sent once more when the configuration
  of the node could be fetched from a node without ECH.\<close>

definition exchangeNode :: "dns_env \<Rightarrow> resolver \<Rightarrow> DNSNode \<Rightarrow> dns_msg \<Rightarrow> doh_state \<Rightarrow> dns_msg res" where
  "exchangeNode env rs node msg st =
     (case sendQuery env rs node msg st of
        None \<Rightarrow> None
      | Some (Inl r, st1) \<Rightarrow> Some (r, st1)
      | Some (Inr e, st1) \<Rightarrow>
          (case deURL env (dnURL node) of
             Ok (_, host, _) \<Rightarrow>
               if dnECHEnabled node \<and> dnECHAutoUpdate node then
                 (case ResolveECHSafe env rs host st1 of
                    None \<Rightarrow> None
                  | Some (Ok newECH, st2) \<Rightarrow>
                      if length newECH > 0
                      then exchangeNodeOnce env rs node (msg\<lparr>dmId := 0\<rparr>) (updateProfile env (dnECHProfileID node) newECH st2)
                      else Some (Err e, st2)
                  | Some (_, st2) \<Rightarrow> Some (Err e, st2))
               else Some (Err e, st1)
           | _ \<Rightarrow> Some (Err e, st1)))"

fun raceNodes :: "dns_env \<Rightarrow> resolver \<Rightarrow> DNSNode list \<Rightarrow> dns_msg \<Rightarrow> doh_state \<Rightarrow> (dns_msg go option \<times> doh_state) option" where
  "raceNodes env rs [] msg st = Some (None, st)"
| "raceNodes env rs (n # ns) msg st =
     (case deDone env (doNow st) of
        Some e \<Rightarrow> Some (Some (Err e), st)
      | None \<Rightarrow>
          (case exchangeNode env rs n msg st of
             None \<Rightarrow> None
           | Some (Ok r, st1) \<Rightarrow> Some (Some (Ok r), st1)
           | Some (Err _, st1) \<Rightarrow> raceNodes env rs ns msg st1
           | Some (Panic, st1) \<Rightarrow> Some (Some Panic, st1)))"

text \<open>The reply made from the system's addresses. \<open>To4\<close> gives nothing for an IPv6 address, \<open>To16\<close> something for every address.\<close>

definition systemAnswers :: "qtype \<Rightarrow> IP list \<Rightarrow> rr list" where
  "systemAnswers t ips = concat (map (\<lambda>ip. if isV4 ip \<and> t = TypeA then [RR_A ip] else if t = TypeAAAA then [RR_AAAA ip] else []) ips)"

definition systemExchange :: "dns_env \<Rightarrow> dns_msg \<Rightarrow> doh_state \<Rightarrow> dns_msg option \<times> doh_state" where
  "systemExchange env msg st =
     (case dmQuestion msg of
        (target, t) # _ \<Rightarrow>
          if t = TypeA \<or> t = TypeAAAA then
            let name = TrimSuffix target ''.''; st1 = act (SystemLookup name) st in
            (case neSystem (deNet env) name of
               Ok ips \<Rightarrow> if length ips > 0 then (Some ((SetReply msg)\<lparr>dmAnswer := systemAnswers t ips\<rparr>), st1) else (None, st1)
             | _ \<Rightarrow> (None, st1))
          else (None, st)
      | [] \<Rightarrow> (None, st))"

definition activeNodes :: "doh_state \<Rightarrow> DNSNode list" where
  "activeNodes st = filter dnEnabled (doNodes st)"

definition lastResort :: "dns_env \<Rightarrow> nat \<Rightarrow> dns_msg \<Rightarrow> doh_state \<Rightarrow> dns_msg res" where
  "lastResort env n msg st =
     (case systemExchange env msg st of
        (Some r, st1) \<Rightarrow> Some (Ok r, st1)
      | (None, st1) \<Rightarrow> Some (Err (''all DNS resolution attempts failed (tried '' @ itoa n @ '' active nodes and system DNS)''), st1))"

definition exchange :: "dns_env \<Rightarrow> resolver \<Rightarrow> dns_msg \<Rightarrow> doh_state \<Rightarrow> dns_msg res" where
  "exchange env rs msg st =
     (let n = length (activeNodes st) in
      case activeNodes st of
        [] \<Rightarrow> lastResort env n msg st
      | primary # others \<Rightarrow>
          (case exchangeNode env rs primary msg st of
             None \<Rightarrow> None
           | Some (Ok r, st1) \<Rightarrow> Some (Ok r, st1)
           | Some (Panic, st1) \<Rightarrow> Some (Panic, st1)
           | Some (Err _, st1) \<Rightarrow>
               (case raceNodes env rs (deRace env (doNow st1) others) msg st1 of
                  None \<Rightarrow> None
                | Some (Some r, st2) \<Rightarrow> Some (r, st2)
                | Some (None, st2) \<Rightarrow> lastResort env n msg st2)))"

section \<open>Lookups\<close>

definition ResolveECH :: "dns_env \<Rightarrow> resolver \<Rightarrow> str \<Rightarrow> doh_state \<Rightarrow> bytes res" where
  "ResolveECH env rs domain st =
     bindR (exchange env rs (question env domain TypeHTTPS st) st) (\<lambda>resp st1.
       case findECH (dmAnswer resp) of
         Some ech \<Rightarrow> Some (Ok ech, st1)
       | None \<Rightarrow> Some (Err (''no ECH config found for '' @ domain), st1))"

definition TestNode :: "dns_env \<Rightarrow> resolver \<Rightarrow> DNSNode \<Rightarrow> doh_state \<Rightarrow> str list res" where
  "TestNode env rs node st =
     bindR (exchangeNode env rs node (question env ''cloudflare.com'' TypeA st) st) (\<lambda>resp st1.
       let ips = concat (map (\<lambda>a. case a of RR_A ip \<Rightarrow> [ipString (deNet env) ip] | _ \<Rightarrow> []) (dmAnswer resp)) in
       if length ips = 0 then Some (Err ''no A records returned'', st1) else Some (Ok ips, st1))"

definition isDoHNode :: "dns_env \<Rightarrow> str \<Rightarrow> doh_state \<Rightarrow> bool" where
  "isDoHNode env domain st = (\<exists>n \<in> set (doNodes st). case deURL env (dnURL n) of
     Ok (_, h, _) \<Rightarrow> EqualFold h domain \<or> EqualFold h (TrimSuffix domain ''.'') | _ \<Rightarrow> False)"

text \<open>One of the two parallel lookups: the addresses it appends, or its error.\<close>

definition answerIPs :: "rr list \<Rightarrow> IP list" where
  "answerIPs rs = concat (map (\<lambda>a. case a of RR_A ip \<Rightarrow> [ip] | RR_AAAA ip \<Rightarrow> [ip] | _ \<Rightarrow> []) rs)"

definition lookupType :: "dns_env \<Rightarrow> resolver \<Rightarrow> str \<Rightarrow> qtype \<Rightarrow> doh_state \<Rightarrow> IP list res" where
  "lookupType env rs domain t st =
     bindR (exchange env rs (question env domain t st) st) (\<lambda>resp st1. Some (Ok (answerIPs (dmAnswer resp)), st1))"

text \<open>The two lookups run at once; here one after the other, in the order given by \<open>deAFirst\<close>.\<close>

definition lookupBoth :: "dns_env \<Rightarrow> resolver \<Rightarrow> str \<Rightarrow> doh_state \<Rightarrow> IP list res" where
  "lookupBoth env rs domain st =
     (let (t1, t2) = (if deAFirst env (doNow st) then (TypeA, TypeAAAA) else (TypeAAAA, TypeA)) in
      case lookupType env rs domain t1 st of
        None \<Rightarrow> None
      | Some (r1, st1) \<Rightarrow>
          (case lookupType env rs domain t2 st1 of
             None \<Rightarrow> None
           | Some (r2, st2) \<Rightarrow>
               let ips = (case r1 of Ok a \<Rightarrow> a | _ \<Rightarrow> []) @ (case r2 of Ok b \<Rightarrow> b | _ \<Rightarrow> []);
                   errs = (case r1 of Err e \<Rightarrow> [e] | _ \<Rightarrow> []) @ (case r2 of Err e \<Rightarrow> [e] | _ \<Rightarrow> [])
               in Some (if r1 = Panic \<or> r2 = Panic then Panic
                        else if length ips > 0 then Ok ips
                        else if length errs > 0 then Err (hd errs)
                        else Err (''no IP records found for '' @ domain), st2)))"

definition ResolveIPAddrs :: "dns_env \<Rightarrow> resolver \<Rightarrow> str \<Rightarrow> doh_state \<Rightarrow> IP list res" where
  "ResolveIPAddrs env rs domain st =
     (if isDoHNode env domain st then
        let st1 = act (SystemLookup domain) st in
        (case neSystem (deNet env) domain of
           Ok ips \<Rightarrow> if length ips > 0 then Some (Ok ips, st1) else lookupBoth env rs domain st1
         | _ \<Rightarrow> lookupBoth env rs domain st1)
      else lookupBoth env rs domain st)"

definition ResolveIPs :: "dns_env \<Rightarrow> resolver \<Rightarrow> str \<Rightarrow> doh_state \<Rightarrow> str list res" where
  "ResolveIPs env rs domain st = bindR (ResolveIPAddrs env rs domain st) (\<lambda>ips st1. Some (Ok (map (ipString (deNet env)) ips), st1))"

text \<open>The resolver that the nodes are reached with is this one.\<close>

primrec resolverAt :: "dns_env \<Rightarrow> nat \<Rightarrow> resolver" where
  "resolverAt env 0 = \<lparr>rsFetchECH = \<lambda>_ _. None, rsLookupIPs = \<lambda>_ _. None\<rparr>"
| "resolverAt env (Suc d) = \<lparr>rsFetchECH = ResolveECH env (resolverAt env d), rsLookupIPs = ResolveIPAddrs env (resolverAt env d)\<rparr>"

end
