(* ===== verification/DohTheorems.thy ===== *)
theory DohTheorems
  imports Doh ConnectTheorems
begin

text \<open>
  Properties of the DNS resolver: with configured nodes a lookup never goes back into the resolver and returns; a first node whose
  own ECH configuration has to be found goes back into it without end; the refresh of an ECH configuration asks only nodes
  without ECH; and the system's answers are doubled.
\<close>

section \<open>What a query changes\<close>

text \<open>A later state: the same nodes, and profiles that had a configuration still have one.\<close>

definition later :: "dns_env \<Rightarrow> doh_state \<Rightarrow> doh_state \<Rightarrow> bool" where
  "later env st st' = (doNodes st' = doNodes st \<and> (\<forall>i. profileECH env i st \<noteq> [] \<longrightarrow> profileECH env i st' \<noteq> []))"

definition codec_ok :: "dns_env \<Rightarrow> bool" where
  "codec_ok env = (\<forall>b. b \<noteq> [] \<longrightarrow> neDecode (deNet env) (neEncode (deNet env) b) = Ok b)"

definition race_ok :: "dns_env \<Rightarrow> bool" where
  "race_ok env = (\<forall>k ns. set (deRace env k ns) \<subseteq> set ns)"

lemma later_refl [simp]: "later env st st"
  by (simp add: later_def)

lemma later_trans [trans]: "later env a b \<Longrightarrow> later env b c \<Longrightarrow> later env a c"
  by (simp add: later_def)

lemma later_same_proxy: "doProxy st' = doProxy st \<Longrightarrow> later env st st'"
  by (simp add: later_def profileECH_def)

lemma act_proxy [simp]: "doProxy (act a st) = doProxy st"
  by (simp add: act_def)

lemma bindR_Some: "bindR (Some (r, st)) k = (case r of Ok x \<Rightarrow> k x st | Err e \<Rightarrow> Some (Err e, st) | Panic \<Rightarrow> Some (Panic, st))"
  by (simp add: bindR_def split: go.split)

lemma bindR_None [simp]: "bindR None k = None"
  by (simp add: bindR_def)

lemma lookup_updateFirst:
  "(\<And>p. ident (f p) = ident p) \<Longrightarrow> findById ident j (updateFirst ident i f xs) = (if i = j then map_option f (findById ident i xs) else findById ident j xs)"
  by (induction xs) auto

lemma updateProfile_later:
  assumes "codec_ok env" and "ech \<noteq> []"
  shows "later env st (updateProfile env i ech st)"
proof -
  let ?rm = "psRules (doProxy st)" and ?dec = "neDecode (deNet env)"
  have "dnsNodes (fst (UpdateECHProfileConfig (neEncode (deNet env)) None i ech ?rm)) = dnsNodes ?rm"
    by (simp add: UpdateECHProfileConfig_def saveRulesConfig_def Let_def split: option.split)
  moreover have "GetBinaryECHConfig ?dec j (fst (UpdateECHProfileConfig (neEncode (deNet env)) None i ech ?rm)) \<noteq> []"
    if "GetBinaryECHConfig ?dec j ?rm \<noteq> []" for j
    using that assms by (auto simp: UpdateECHProfileConfig_def GetBinaryECHConfig_def saveRulesConfig_def lookup_updateFirst codec_ok_def Let_def
        split: option.splits go.splits if_splits)
  ultimately show ?thesis by (simp add: later_def updateProfile_def profileECH_def)
qed

lemma dialNode_proxy: "doProxy (snd (dialNode env host cs e st)) = doProxy st"
  by (induction env host cs e st rule: dialNode.induct) (simp_all split: option.split)

lemma quicDial_proxy: "doProxy (snd (quicDial env host cfg cs errs st)) = doProxy st"
  by (induction env host cfg cs errs st rule: quicDial.induct) (simp_all split: option.split)

section \<open>Configured nodes\<close>

text \<open>A node that is reached without a lookup: no QUIC, and a configuration in its profile if it needs one.\<close>

definition node_ready :: "dns_env \<Rightarrow> doh_state \<Rightarrow> DNSNode \<Rightarrow> bool" where
  "node_ready env st n = (\<not> dnQUIC n \<and> (dnECHEnabled n \<and> dnECHAutoUpdate n \<longrightarrow> profileECH env (dnECHProfileID n) st \<noteq> []))"

definition nodes_ready :: "dns_env \<Rightarrow> doh_state \<Rightarrow> bool" where
  "nodes_ready env st = (\<forall>n \<in> set (activeNodes st). node_ready env st n)"

lemma node_ready_later: "node_ready env st n \<Longrightarrow> later env st st' \<Longrightarrow> node_ready env st' n"
  by (auto simp: node_ready_def later_def)

lemma nodes_ready_later: "nodes_ready env st \<Longrightarrow> later env st st' \<Longrightarrow> nodes_ready env st'"
  unfolding nodes_ready_def using node_ready_later by (metis activeNodes_def later_def)

lemma nodeRule_fields [simp]:
  "rECHEnabled (nodeRule n h) = dnECHEnabled n" "rECHAutoUpdate (nodeRule n h) = dnECHAutoUpdate n"
  "rECHProfileID (nodeRule n h) = dnECHProfileID n" "rECHDiscoveryDomain (nodeRule n h) = []" "rUpstream (nodeRule n h) = []"
  "rUseCFPool (nodeRule n h) = False"
  by (simp_all add: nodeRule_def zeroRule_def)

lemma resolveECHConfig_ready:
  "node_ready env st n \<Longrightarrow> \<exists>ech. resolveECHConfig env rs host (nodeRule n host) st = Some (Ok ech, st)"
  by (auto simp: resolveECHConfig_def node_ready_def Let_def)

lemma dialTLS_ready:
  assumes "node_ready env st n"
  shows "\<exists>r st'. dialTLS env rs n host port st = Some (r, st') \<and> doProxy st' = doProxy st"
proof -
  obtain r st1 where d: "dialNode env host (nodeCandidates n host port) [] st = (r, st1)" by fastforce
  then have p: "doProxy st1 = doProxy st" using dialNode_proxy by (metis snd_conv)
  then have "node_ready env st1 n" using assms node_ready_later later_same_proxy by blast
  then obtain ech where "resolveECHConfig env rs host (nodeRule n host) st1 = Some (Ok ech, st1)" using resolveECHConfig_ready by blast
  then show ?thesis using p by (cases r) (auto simp: dialTLS_def d bindR_Some Let_def split: handshake.split)
qed

lemma sendQuery_ready:
  assumes "node_ready env st n"
  shows "\<exists>r st'. sendQuery env rs n msg st = Some (r, st') \<and> doProxy st' = doProxy st"
proof -
  have "\<exists>r st'. clientDo env rs n ClientTLS q st = Some (r, st') \<and> doProxy st' = doProxy st" for q
  proof -
    have "\<exists>r st'. clientConn env rs n ClientTLS st = Some (r, st') \<and> doProxy st' = doProxy st"
      using dialTLS_ready [OF assms] by (auto simp: clientConn_def split: go.split)
    then obtain r st' where c: "clientConn env rs n ClientTLS st = Some (r, st')" "doProxy st' = doProxy st" by blast
    then show ?thesis by (cases r) (auto simp: clientDo_def bindR_Some split: http_outcome.split)
  qed
  then obtain r st' where "clientDo env rs n ClientTLS (msg\<lparr>dmId := 0\<rparr>) st = Some (r, st')" "doProxy st' = doProxy st" by blast
  moreover have "\<not> dnQUIC n" using assms by (simp add: node_ready_def)
  ultimately show ?thesis
    by (cases r; cases "deURL env (dnURL n)") (auto simp: sendQuery_def getNodeClient_def Let_def split: option.split)
qed

lemma exchangeNodeOnce_ready:
  assumes "node_ready env st n"
  shows "\<exists>r st'. exchangeNodeOnce env rs n msg st = Some (r, st') \<and> doProxy st' = doProxy st"
  using sendQuery_ready [OF assms, of rs msg] by (auto simp: exchangeNodeOnce_def split: sum.split)

lemma tryNodes_ready:
  "\<forall>n \<in> set ns. node_ready env st n \<Longrightarrow> \<exists>r st'. tryNodes env rs ns msg st = Some (r, st') \<and> doProxy st' = doProxy st"
proof (induction ns arbitrary: st)
  case (Cons n ns)
  then obtain r st1 where r: "exchangeNodeOnce env rs n msg st = Some (r, st1)" and p: "doProxy st1 = doProxy st"
    using exchangeNodeOnce_ready by (metis list.set_intros(1))
  then have "\<forall>m \<in> set ns. node_ready env st1 m" using Cons.prems node_ready_later [OF _ later_same_proxy [OF p]] by simp
  then show ?case using Cons.IH [of st1] r p by (cases r) auto
qed simp

lemma exchangeSafe_ready:
  assumes "nodes_ready env st"
  shows "\<exists>r st'. exchangeSafe env rs msg st = Some (r, st') \<and> doProxy st' = doProxy st"
proof -
  have "\<forall>n \<in> set (safeNodes st). node_ready env st n" using assms by (auto simp: nodes_ready_def activeNodes_def safeNodes_def)
  then show ?thesis using tryNodes_ready by (simp add: exchangeSafe_def)
qed

lemma ResolveECHSafe_ready:
  assumes "nodes_ready env st"
  shows "\<exists>r st'. ResolveECHSafe env rs d st = Some (r, st') \<and> doProxy st' = doProxy st"
proof -
  obtain r st' where "exchangeSafe env rs (question env d TypeHTTPS st) st = Some (r, st')" "doProxy st' = doProxy st"
    using exchangeSafe_ready [OF assms] by blast
  then show ?thesis by (cases r) (auto simp: ResolveECHSafe_def bindR_Some split: option.split)
qed

lemma exchangeNode_ready:
  assumes "nodes_ready env st" and "node_ready env st n" and "codec_ok env"
  shows "\<exists>r st'. exchangeNode env rs n msg st = Some (r, st') \<and> later env st st'"
proof -
  obtain x st1 where q: "sendQuery env rs n msg st = Some (x, st1)" and p1: "doProxy st1 = doProxy st"
    using sendQuery_ready [OF assms(2)] by blast
  have l1: "later env st st1" using p1 by (rule later_same_proxy)
  have safe: "\<exists>y st2. ResolveECHSafe env rs host st1 = Some (y, st2) \<and> later env st st2" for host
    using ResolveECHSafe_ready [OF nodes_ready_later [OF assms(1) l1], of rs host] p1 later_same_proxy by metis
  have again: "\<exists>r st3. exchangeNodeOnce env rs n m (updateProfile env i ech st2) = Some (r, st3) \<and> later env st st3"
    if "ech \<noteq> []" "later env st st2" for ech i st2 m
  proof -
    have l3: "later env st (updateProfile env i ech st2)" using that updateProfile_later [OF assms(3)] later_trans by blast
    show ?thesis using exchangeNodeOnce_ready [OF node_ready_later [OF assms(2) l3], of rs m] l3 later_same_proxy later_trans by blast
  qed
  show ?thesis
  proof (cases x)
    case (Inl r) then show ?thesis using q l1 by (simp add: exchangeNode_def)
  next
    case (Inr e)
    show ?thesis
    proof (cases "deURL env (dnURL n)")
      case (Ok u)
      obtain scheme host port where u: "u = (scheme, host, port)" by (cases u) auto
      obtain y st2 where s: "ResolveECHSafe env rs host st1 = Some (y, st2)" "later env st st2" using safe by blast
      show ?thesis
      proof (cases y)
        case (Ok ech)
        then show ?thesis using q Inr s l1 again [OF _ s(2)] \<open>deURL env (dnURL n) = Ok u\<close> u by (auto simp: exchangeNode_def)
      qed (use q Inr s l1 Ok u in \<open>auto simp: exchangeNode_def\<close>)
    qed (use q Inr l1 in \<open>auto simp: exchangeNode_def\<close>)
  qed
qed

lemma raceNodes_ready:
  "\<forall>n \<in> set ns. node_ready env st n \<Longrightarrow> nodes_ready env st \<Longrightarrow> codec_ok env \<Longrightarrow>
   \<exists>r st'. raceNodes env rs ns msg st = Some (r, st') \<and> later env st st'"
proof (induction ns arbitrary: st)
  case (Cons n ns)
  then obtain r st1 where r: "exchangeNode env rs n msg st = Some (r, st1)" and l: "later env st st1"
    using exchangeNode_ready by (metis list.set_intros(1))
  have "\<forall>m \<in> set ns. node_ready env st1 m" using Cons.prems(1) node_ready_later [OF _ l] by simp
  then obtain r2 st2 where "raceNodes env rs ns msg st1 = Some (r2, st2)" "later env st1 st2"
    using Cons.IH [of st1] nodes_ready_later [OF Cons.prems(2) l] Cons.prems(3) by blast
  moreover have "later env st st2" using l \<open>later env st1 st2\<close> later_trans by blast
  ultimately show ?case using r l by (cases r) (auto split: option.split)
qed simp

lemma lastResort_later: "\<exists>r st'. lastResort env k msg st = Some (r, st') \<and> later env st st'"
proof -
  have "doProxy (snd (systemExchange env msg st)) = doProxy st"
    by (simp add: systemExchange_def Let_def split: list.split go.split)
  then show ?thesis using later_same_proxy by (cases "systemExchange env msg st"; cases "fst (systemExchange env msg st)") (auto simp: lastResort_def)
qed

lemma exchange_ready:
  assumes "nodes_ready env st" and "codec_ok env" and "race_ok env"
  shows "\<exists>r st'. exchange env rs msg st = Some (r, st') \<and> later env st st'"
proof (cases "activeNodes st")
  case Nil
  then show ?thesis using lastResort_later by (simp add: exchange_def)
next
  case (Cons n others)
  let ?k = "length (activeNodes st)"
  have "\<forall>m \<in> set (n # others). node_ready env st m" using assms(1) by (simp add: nodes_ready_def Cons)
  then obtain r st1 where r: "exchangeNode env rs n msg st = Some (r, st1)" and l: "later env st st1"
    using exchangeNode_ready assms by (metis list.set_intros(1))
  have "\<forall>m \<in> set (deRace env (doNow st1) others). node_ready env st1 m"
    using \<open>\<forall>m \<in> set (n # others). node_ready env st m\<close> assms(3) node_ready_later [OF _ l] unfolding race_ok_def by (meson list.set_intros(2) subset_iff)
  then obtain r2 st2 where r2: "raceNodes env rs (deRace env (doNow st1) others) msg st1 = Some (r2, st2)" and l2: "later env st1 st2"
    using raceNodes_ready nodes_ready_later [OF assms(1) l] assms(2) by blast
  obtain r3 st3 where r3: "lastResort env ?k msg st2 = Some (r3, st3)" and l3: "later env st2 st3" using lastResort_later by blast
  have "later env st st2" "later env st st3" using l l2 l3 later_trans by blast+
  then show ?thesis using r r2 r3 l by (cases r; cases r2) (auto simp: exchange_def Cons)
qed

lemma lookupType_ready:
  assumes "nodes_ready env st" and "codec_ok env" and "race_ok env"
  shows "\<exists>r st'. lookupType env rs domain t st = Some (r, st') \<and> later env st st'"
proof -
  obtain r st' where "exchange env rs (question env domain t st) st = Some (r, st')" "later env st st'" using exchange_ready [OF assms] by blast
  then show ?thesis by (cases r) (auto simp: lookupType_def bindR_Some)
qed

lemma lookupBoth_ready:
  assumes "nodes_ready env st" and "codec_ok env" and "race_ok env"
  shows "lookupBoth env rs domain st \<noteq> None"
proof -
  obtain t1 t2 where t: "(if deAFirst env (doNow st) then (TypeA, TypeAAAA) else (TypeAAAA, TypeA)) = (t1, t2)" by fastforce
  obtain r1 st1 where r1: "lookupType env rs domain t1 st = Some (r1, st1)" "later env st st1" using lookupType_ready [OF assms] by blast
  then obtain r2 st2 where "lookupType env rs domain t2 st1 = Some (r2, st2)"
    using lookupType_ready [OF nodes_ready_later [OF assms(1)] assms(2,3)] by blast
  then show ?thesis by (simp add: lookupBoth_def t r1 Let_def)
qed

text \<open>C27: Lookups end: when no enabled node uses QUIC and every enabled node with ECH and automatic update has a
  configuration in its profile, then every lookup of addresses and of ECH configurations returns, without ever
  going back into the resolver (not one nested level is needed), whatever nodes fail, race, are refreshed or are cancelled.\<close>

theorem lookups_return:
  assumes "nodes_ready env st" and "codec_ok env" and "race_ok env"
  shows "ResolveIPAddrs env (resolverAt env 0) domain st \<noteq> None \<and> ResolveECH env (resolverAt env 0) domain st \<noteq> None"
proof
  have sys: "nodes_ready env (act (SystemLookup domain) st)" using nodes_ready_later [OF assms(1)] later_same_proxy by simp
  show "ResolveIPAddrs env (resolverAt env 0) domain st \<noteq> None"
    using lookupBoth_ready [OF assms] lookupBoth_ready [OF sys assms(2,3)] by (auto simp: ResolveIPAddrs_def Let_def split: go.splits)
  obtain r st' where "exchange env (resolverAt env 0) (question env domain TypeHTTPS st) st = Some (r, st')" using exchange_ready [OF assms] by blast
  then show "ResolveECH env (resolverAt env 0) domain st \<noteq> None" by (cases r) (auto simp: ResolveECH_def bindR_Some split: option.split)
qed

section \<open>A node that needs itself\<close>

text \<open>The first enabled node has ECH with automatic update and no configuration in its profile, and it is reached over QUIC, or
  over TLS at an address that can be dialled.\<close>

definition needs_itself :: "dns_env \<Rightarrow> doh_state \<Rightarrow> DNSNode \<Rightarrow> bool" where
  "needs_itself env st n =
     (take 1 (activeNodes st) = [n] \<and> dnECHEnabled n \<and> dnECHAutoUpdate n \<and> profileECH env (dnECHProfileID n) st = [] \<and>
      (case deURL env (dnURL n) of
         Ok (scheme, host, port) \<Rightarrow> dnQUIC n \<or> scheme = ''https'' \<and> (\<forall>m. dePack env m = None) \<and>
           (\<forall>k. neDial (deNet env) (hd (nodeCandidates n host port)) k = None)
       | _ \<Rightarrow> False))"

text \<open>A resolver that goes nowhere from the given server.\<close>

definition stuck :: "ProxyServer \<Rightarrow> resolver \<Rightarrow> bool" where
  "stuck p rs = (\<forall>st. doProxy st = p \<longrightarrow> (\<forall>d. rsFetchECH rs d st = None) \<and>
     (\<forall>name. case rsLookupIPs rs name st of None \<Rightarrow> True | Some (r, st') \<Rightarrow> doProxy st' = p))"

lemma needs_itself_same: "needs_itself env st n \<Longrightarrow> doProxy st' = doProxy st \<Longrightarrow> needs_itself env st' n"
  by (simp only: needs_itself_def activeNodes_def profileECH_def)

lemma resolveECHConfig_stuck:
  "needs_itself env st n \<Longrightarrow> stuck (doProxy st) rs \<Longrightarrow> resolveECHConfig env rs host (nodeRule n host) st = None"
  by (simp add: needs_itself_def stuck_def resolveECHConfig_def Let_def)

lemma quicCandidates_stuck:
  assumes "stuck (doProxy st) rs"
  shows "case quicCandidates env rs host rule st of None \<Rightarrow> True | Some (r, st') \<Rightarrow> doProxy st' = doProxy st"
proof -
  have a: "\<forall>name. case rsLookupIPs rs name st of None \<Rightarrow> True | Some (r, st') \<Rightarrow> doProxy st' = doProxy st"
    using assms unfolding stuck_def by blast
  have l: "rsLookupIPs rs name st = Some (r, st') \<Longrightarrow> doProxy st' = doProxy st" for name r st'
    using spec [OF a, of name] by simp
  have "doProxy st' = doProxy st" if "quicCandidates env rs host rule st = Some (r, st')" for r st'
    using that by (auto simp: quicCandidates_def Let_def dest: l split: blk.splits option.splits)
  then show ?thesis by (cases "quicCandidates env rs host rule st") auto
qed

lemma getNodeClient_stuck:
  assumes "needs_itself env st n" and "stuck (doProxy st) rs" and "dnQUIC n"
  shows "getNodeClient env rs n st = None"
proof -
  obtain scheme host port where u: "deURL env (dnURL n) = Ok (scheme, host, port)"
    using assms(1) by (auto simp: needs_itself_def split: go.splits)
  show ?thesis
  proof (cases "quicCandidates env rs host (nodeRule n host) st")
    case None then show ?thesis using assms(3) u by (simp add: getNodeClient_def newQUICRoundTripper_def)
  next
    case (Some x)
    obtain r st1 where x: "x = (r, st1)" by (cases x)
    have p: "doProxy st1 = doProxy st" using quicCandidates_stuck [OF assms(2), of env host "nodeRule n host"] Some x by simp
    have "resolveECHConfig env rs host (nodeRule n host) st1 = None"
      using resolveECHConfig_stuck needs_itself_same [OF assms(1) p] assms(2) p by simp
    moreover have "\<exists>cs. r = Ok cs" using Some x by (auto simp: quicCandidates_def Let_def split: blk.splits option.splits)
    ultimately show ?thesis using assms(3) u Some x by (auto simp: getNodeClient_def newQUICRoundTripper_def bindR_Some)
  qed
qed

lemma nodeCandidates_Cons: "nodeCandidates n host port = hd (nodeCandidates n host port) # tl (nodeCandidates n host port)"
  by (cases "dnIPs n") (simp_all add: nodeCandidates_def Let_def)

lemma sendQuery_stuck:
  assumes "needs_itself env st n" and "stuck (doProxy st) rs"
  shows "sendQuery env rs n msg st = None"
proof (cases "dnQUIC n")
  case True then show ?thesis using getNodeClient_stuck [OF assms] by (simp add: sendQuery_def)
next
  case False
  obtain scheme host port where u: "deURL env (dnURL n) = Ok (scheme, host, port)"
    using assms(1) by (auto simp: needs_itself_def split: go.splits)
  let ?c = "hd (nodeCandidates n host port)" and ?st1 = "act (DialNode host (hd (nodeCandidates n host port))) st"
  have h: "scheme = ''https''" "\<forall>m. dePack env m = None" "neDial (deNet env) ?c (doNow st) = None"
    using assms(1) False u by (simp_all add: needs_itself_def)
  then have "dialNode env host (nodeCandidates n host port) [] st = (Ok ?c, ?st1)" by (subst nodeCandidates_Cons) simp
  moreover have "resolveECHConfig env rs host (nodeRule n host) ?st1 = None"
    by (rule resolveECHConfig_stuck) (use assms needs_itself_same [OF assms(1)] in auto)
  ultimately have "dialTLS env rs n host port st = None" by (simp add: dialTLS_def bindR_Some Let_def)
  then show ?thesis using False u h by (simp add: sendQuery_def getNodeClient_def clientDo_def clientConn_def Let_def)
qed

lemma exchange_stuck:
  assumes "needs_itself env st n" and "stuck (doProxy st) rs"
  shows "exchange env rs msg st = None"
proof -
  obtain others where "activeNodes st = n # others" using assms(1) by (cases "activeNodes st") (auto simp: needs_itself_def)
  then show ?thesis using sendQuery_stuck [OF assms] by (simp add: exchange_def exchangeNode_def)
qed

lemma resolverAt_stuck:
  assumes "needs_itself env st n"
  shows "stuck (doProxy st) (resolverAt env d)"
proof (induction d)
  case (Suc d)
  have ex: "exchange env (resolverAt env d) msg st1 = None" if "doProxy st1 = doProxy st" for msg st1
    using exchange_stuck [OF needs_itself_same [OF assms that]] Suc that by simp
  have both: "lookupBoth env (resolverAt env d) name st1 = None" if "doProxy st1 = doProxy st" for name st1
    using ex [OF that] by (simp add: lookupBoth_def lookupType_def split: prod.split)
  show ?case by (auto simp: stuck_def ResolveECH_def ResolveIPAddrs_def ex both Let_def split: go.split)
qed (simp add: stuck_def)


section \<open>The refresh\<close>

text \<open>What is done to reach and ask a node.\<close>

definition act_on :: "dns_env \<Rightarrow> DNSNode \<Rightarrow> doh_act \<Rightarrow> bool" where
  "act_on env n a = (case a of
      PostNode i u \<Rightarrow> i = dnID n \<and> u = dnURL n
    | DialNode h c \<Rightarrow> (\<exists>s p. deURL env (dnURL n) = Ok (s, h, p))
    | _ \<Rightarrow> False)"

definition log_grows :: "(doh_act \<Rightarrow> bool) \<Rightarrow> doh_state \<Rightarrow> doh_state \<Rightarrow> bool" where
  "log_grows P st st' = (\<exists>acts. doLog st' = doLog st @ acts \<and> (\<forall>a \<in> set acts. P a))"

lemma log_grows_refl [simp]: "log_grows P st st"
  by (simp add: log_grows_def)

lemma log_grows_trans: "log_grows P a b \<Longrightarrow> log_grows P b c \<Longrightarrow> log_grows P a c"
  by (auto simp: log_grows_def)

lemma log_grows_act: "P a \<Longrightarrow> log_grows P st0 st \<Longrightarrow> log_grows P st0 (act a st)"
  by (auto simp: log_grows_def act_def)

lemma dialNode_log: "(\<And>c. P (DialNode host c)) \<Longrightarrow> log_grows P st (snd (dialNode env host cs e st))"
proof (induction env host cs e st rule: dialNode.induct)
  case (2 env host c cs lastErr st)
  then show ?case using log_grows_act [of P "DialNode host c" st st] log_grows_trans [of P st "act (DialNode host c) st"]
    by (simp split: option.split)
qed simp

lemma resolveECHConfig_plain: "\<not> dnECHEnabled n \<Longrightarrow> resolveECHConfig env rs host (nodeRule n host) st = Some (Ok [], st)"
  by (simp add: resolveECHConfig_def)

lemma sendQuery_plain:
  assumes "\<not> dnECHEnabled n" and "\<not> dnQUIC n"
  shows "sendQuery env rs n msg st = sendQuery env rs' n msg st"
proof -
  have "clientConn env rs n ClientTLS st = clientConn env rs' n ClientTLS st"
    using assms(1) by (simp add: clientConn_def dialTLS_def resolveECHConfig_plain split: go.split)
  then have "clientDo env rs n ClientTLS q st = clientDo env rs' n ClientTLS q st" for q by (simp add: clientDo_def)
  then show ?thesis using assms(2) by (simp add: sendQuery_def getNodeClient_def Let_def split: go.split option.split)
qed

lemma dialTLS_log:
  assumes "\<not> dnECHEnabled n" and "dialTLS env rs n host port st = Some (r, st')" and "\<And>c. P (DialNode host c)"
  shows "log_grows P st st'"
proof -
  obtain a st1 where d: "dialNode env host (nodeCandidates n host port) [] st = (a, st1)" by fastforce
  have "log_grows P st st1" using dialNode_log [of P host st env "nodeCandidates n host port" "[]"] assms(3) d by simp
  then show ?thesis using assms(1,2) by (cases a) (auto simp: dialTLS_def d bindR_Some resolveECHConfig_plain Let_def split: handshake.splits)
qed

lemma sendQuery_log:
  assumes "\<not> dnECHEnabled n" and "\<not> dnQUIC n" and "sendQuery env rs n msg st = Some (r, st')"
  shows "log_grows (act_on env n) st st'"
proof -
  have d: "log_grows (act_on env n) st st1" if "clientConn env rs n ClientTLS st = Some (x, st1)" for x st1
    using that by (auto simp: clientConn_def act_on_def elim!: dialTLS_log [OF assms(1)] split: go.splits if_splits)
  have "log_grows (act_on env n) st st1" if do: "clientDo env rs n ClientTLS q st = Some (x, st1)" for q x st1
  proof -
    obtain y st2 where c: "clientConn env rs n ClientTLS st = Some (y, st2)" using do
      by (cases "clientConn env rs n ClientTLS st") (auto simp: clientDo_def)
    have "log_grows (act_on env n) st (act (PostNode (dnID n) (dnURL n)) st2)" using d [OF c] by (intro log_grows_act) (simp add: act_on_def)
    then show ?thesis using do c d [OF c] by (cases y) (auto simp: clientDo_def bindR_Some split: http_outcome.splits)
  qed
  then show ?thesis using assms(2,3) by (auto simp: sendQuery_def getNodeClient_def Let_def split: go.splits option.splits prod.splits)
qed

lemma tryNodes_plain:
  "\<forall>n \<in> set ns. \<not> dnECHEnabled n \<and> \<not> dnQUIC n \<Longrightarrow> tryNodes env rs ns msg st = tryNodes env rs' ns msg st"
proof (induction ns arbitrary: st)
  case (Cons n ns)
  have e: "exchangeNodeOnce env rs n msg st = exchangeNodeOnce env rs' n msg st"
    using Cons.prems sendQuery_plain [of n env rs msg st rs'] by (simp add: exchangeNodeOnce_def)
  have ih: "tryNodes env rs ns msg = tryNodes env rs' ns msg" using Cons by (intro ext) simp
  show ?case unfolding tryNodes.simps e ih ..
qed simp

lemma tryNodes_log:
  "\<forall>n \<in> set ns. \<not> dnECHEnabled n \<and> \<not> dnQUIC n \<and> n \<in> S \<Longrightarrow> tryNodes env rs ns msg st = Some (r, st') \<Longrightarrow>
   log_grows (\<lambda>a. \<exists>n \<in> S. act_on env n a) st st'"
proof (induction ns arbitrary: st)
  case (Cons n ns)
  obtain x st1 where x: "exchangeNodeOnce env rs n msg st = Some (x, st1)" using Cons.prems(2) by (cases "exchangeNodeOnce env rs n msg st") auto
  then have "log_grows (act_on env n) st st1" using sendQuery_log [of n env rs msg st] Cons.prems(1)
    by (auto simp: exchangeNodeOnce_def split: option.splits sum.splits)
  then have l: "log_grows (\<lambda>a. \<exists>n \<in> S. act_on env n a) st st1" using Cons.prems(1) by (auto simp: log_grows_def)
  show ?case
  proof (cases x)
    case (Err e)
    then have "log_grows (\<lambda>a. \<exists>n \<in> S. act_on env n a) st1 st'" using Cons x by simp
    then show ?thesis using l log_grows_trans by blast
  qed (use Cons.prems(2) x l in auto)
qed simp

text \<open>C28: The refresh of an ECH configuration breaks the circle it is meant to break: where no enabled node without ECH uses QUIC, it
  always returns, makes no nested lookup (any resolver gives the same result), changes no rule, and every connection and request it makes
  goes to an enabled node without ECH.\<close>

theorem refresh_asks_safe_nodes:
  assumes "\<forall>n \<in> set (safeNodes st). \<not> dnQUIC n"
  shows "ResolveECHSafe env rs domain st = ResolveECHSafe env rs' domain st \<and>
    (\<exists>r st'. ResolveECHSafe env rs domain st = Some (r, st') \<and> doProxy st' = doProxy st \<and>
       log_grows (\<lambda>a. \<exists>n \<in> set (safeNodes st). dnEnabled n \<and> \<not> dnECHEnabled n \<and> act_on env n a) st st')"
proof -
  let ?q = "question env domain TypeHTTPS st" and ?S = "{n \<in> set (safeNodes st). dnEnabled n \<and> \<not> dnECHEnabled n}"
  have plain: "\<forall>n \<in> set (safeNodes st). \<not> dnECHEnabled n \<and> \<not> dnQUIC n \<and> n \<in> ?S" using assms by (simp add: safeNodes_def)
  then have eq: "exchangeSafe env rs ?q st = exchangeSafe env rs' ?q st" using tryNodes_plain by (auto simp: exchangeSafe_def)
  have "\<forall>n \<in> set (safeNodes st). node_ready env st n" using plain by (simp add: node_ready_def)
  then obtain r st' where r: "exchangeSafe env rs ?q st = Some (r, st')" "doProxy st' = doProxy st"
    using tryNodes_ready [of "safeNodes st" env st rs ?q] unfolding exchangeSafe_def by (cases "safeNodes st") auto
  have "log_grows (\<lambda>a. \<exists>n \<in> ?S. act_on env n a) st st'"
    using r(1) tryNodes_log [OF plain] by (auto simp: exchangeSafe_def split: if_splits)
  then have "log_grows (\<lambda>a. \<exists>n \<in> set (safeNodes st). dnEnabled n \<and> \<not> dnECHEnabled n \<and> act_on env n a) st st'"
    by (simp add: log_grows_def Bex_def)
  then show ?thesis using r eq by (cases r) (auto simp: ResolveECHSafe_def bindR_Some split: option.split)
qed

section \<open>The system's answers\<close>

text \<open>Without an enabled node, the addresses of a domain are those the system knows, but every IPv4 address comes twice: the
  answer made for the IPv6 question contains the IPv4 addresses too.\<close>

theorem system_answers_doubled:
  assumes "activeNodes st = []" and "\<not> isDoHNode env domain st" and "neSystem (deNet env) (TrimSuffix (deFqdn env domain) ''.'') = Ok ips" and "ips \<noteq> []"
  shows "\<exists>st'. ResolveIPAddrs env rs domain st =
    Some (Ok (if deAFirst env (doNow st) then filter isV4 ips @ ips else ips @ filter isV4 ips), st')"
proof -
  have a: "answerIPs (systemAnswers TypeA ips) = filter isV4 ips" by (induction ips) (auto simp: answerIPs_def systemAnswers_def)
  have aaaa: "answerIPs (systemAnswers TypeAAAA ips) = ips" by (induction ips) (auto simp: answerIPs_def systemAnswers_def)
  have "lookupType env rs domain t s = Some (Ok (answerIPs (systemAnswers t ips)), act (SystemLookup (TrimSuffix (deFqdn env domain) ''.'')) s)"
    if "t = TypeA \<or> t = TypeAAAA" "doProxy s = doProxy st" for t s
  proof -
    have "activeNodes s = []" using assms(1) that(2) by (simp add: activeNodes_def)
    then show ?thesis using assms(3,4) that(1)
      by (simp add: lookupType_def exchange_def lastResort_def systemExchange_def question_def SetQuestion_def SetReply_def bindR_Some Let_def)
  qed
  then show ?thesis using assms(2,4) by (simp add: ResolveIPAddrs_def lookupBoth_def a aaaa Let_def)
qed

section \<open>Examples\<close>

text \<open>A world in which nothing answers, and a server with the given nodes.\<close>

definition silentDNS :: dns_env where
  "silentDNS = \<lparr>deNet = silentNet\<lparr>neEncode := map (\<lambda>b. char_of (unat b)), neDecode := \<lambda>s. Ok (map (\<lambda>c. word_of_nat (of_char c)) s)\<rparr>,
     deVerify = \<lambda>_ _ _. None, deHash = \<lambda>_. [], deURL = \<lambda>u. Ok (''https'', u, []), deFqdn = \<lambda>d. d @ ''.'', dePack = \<lambda>_. None,
     deUnpack = \<lambda>_. Err [], dePost = \<lambda>_ _ _ _. HttpErr ''refused'', deQUICDial = \<lambda>_ _ _. Some ''refused'', deRace = \<lambda>_ ns. ns,
     deDone = \<lambda>_. None, deId = \<lambda>n. n, deAFirst = \<lambda>_. True\<rparr>"

definition exampleNode :: DNSNode where
  "exampleNode = \<lparr>dnID = ''1'', dnName = [], dnURL = ''dns.example'', dnSNI = [], dnIPs = [''192.0.2.1''], dnECHEnabled = False, dnECHProfileID = [],
     dnECHAutoUpdate = True, dnQUIC = False, dnCertVerify = zeroCertVerify, dnEnabled = True\<rparr>"

definition withNodes :: "DNSNode list \<Rightarrow> doh_state" where
  "withNodes ns = \<lparr>doProxy = sampleServer\<lparr>psRules := (NewRuleManager None None)\<lparr>dnsNodes := ns\<rparr>\<rparr>, doLog = []\<rparr>"

lemma activeNodes_withNodes: "activeNodes (withNodes ns) = filter dnEnabled ns"
  by (simp add: activeNodes_def withNodes_def)

theorem lookups_return_witness:
  "ResolveIPAddrs silentDNS (resolverAt silentDNS 0) ''example.org'' (withNodes [exampleNode]) \<noteq> None"
proof -
  have "nodes_ready silentDNS (withNodes [exampleNode])"
    by (simp add: nodes_ready_def activeNodes_withNodes node_ready_def exampleNode_def)
  moreover have "word_of_nat (of_char (char_of (unat b))) = b" for b :: byte
    using unsigned_less [of b, where 'a = nat] by (simp add: of_char_of)
  then have "codec_ok silentDNS" by (simp add: codec_ok_def silentDNS_def map_idI o_def)
  moreover have "race_ok silentDNS" by (simp add: race_ok_def silentDNS_def)
  ultimately show ?thesis using lookups_return [of silentDNS "withNodes [exampleNode]" "''example.org''"] by simp
qed


theorem refresh_asks_safe_nodes_witness:
  "\<exists>r st'. ResolveECHSafe silentDNS (resolverAt silentDNS 0) ''example.org'' (withNodes [exampleNode]) = Some (r, st') \<and>
     doProxy st' = doProxy (withNodes [exampleNode])"
proof -
  have "\<forall>n \<in> set (safeNodes (withNodes [exampleNode])). \<not> dnQUIC n" by (simp add: safeNodes_def withNodes_def exampleNode_def)
  then show ?thesis using refresh_asks_safe_nodes [of "withNodes [exampleNode]" silentDNS "resolverAt silentDNS 0" "''example.org''"] by blast
qed

theorem system_answers_doubled_witness:
  "\<exists>st'. ResolveIPAddrs (silentDNS\<lparr>deNet := silentNet\<lparr>neSystem := \<lambda>_. Ok [IPv4 1]\<rparr>\<rparr>) (resolverAt silentDNS 0) ''example.org'' (withNodes []) =
     Some (Ok [IPv4 1, IPv4 1], st')"
proof -
  let ?env = "silentDNS\<lparr>deNet := silentNet\<lparr>neSystem := \<lambda>_. Ok [IPv4 1]\<rparr>\<rparr>"
  have "\<not> isDoHNode ?env ''example.org'' (withNodes [])" by (simp add: isDoHNode_def withNodes_def)
  then show ?thesis using system_answers_doubled [of "withNodes []" ?env "''example.org''" "[IPv4 1]" "resolverAt silentDNS 0"]
    by (simp add: activeNodes_withNodes isV4_def silentDNS_def)
qed

end
