(* ===== verification/CoreRuntime.thy ===== *)
theory CoreRuntime
  imports Connect V2RayManager
begin

text \<open>
  The core process: \<open>src/core_runtime.go\<close> and the service of \<open>src/core_api.go\<close> that the user interface calls, with the search
  for a free port, \<open>src/proxy/port_manager.go\<close>.

  \<^item> The rule manager is one object, shared by the runtime and the proxy server: it is \<open>psRules\<close> of the server.
  \<^item> The manager of the external TUN program and the certificate manager are not part of these files: \<open>'x\<close> and \<open>'c\<close> are their
    states, and \<open>core_world\<close> holds their operations, beside the operating system (TCP table, process names, killing,
    listening) and the writes of files.
  \<^item> Operations on the pool and on the V2Ray manager are \<open>Blocked\<close> where they wait for a mutex forever.
\<close>

unbundle bit_operations_syntax

section \<open>A free port\<close>

record tcp_row =
  rowLocalPort :: "32 word"
  rowRemotePort :: "32 word"
  rowPid :: "32 word"

text \<open>Ports are stored in network byte order.\<close>

definition pmPortFromInt :: "32 word \<Rightarrow> 16 word" where
  "pmPortFromInt n = push_bit 8 (ucast n) OR ucast (drop_bit 8 n)"

text \<open>The operating system: the table, names, the outcome of listening and of killing, each at the number of the attempt.\<close>

record port_env =
  peWindows :: bool
  peTable :: "nat \<Rightarrow> tcp_row list go"
  peName :: "nat \<Rightarrow> nat \<Rightarrow> str"
  peListen :: "nat \<Rightarrow> int \<Rightarrow> str option"
  peKill :: "nat \<Rightarrow> nat \<Rightarrow> str option"

fun rowForPort :: "16 word \<Rightarrow> tcp_row list \<Rightarrow> nat" where
  "rowForPort t [] = 0"
| "rowForPort t (row # rows) =
     (if pmPortFromInt (rowLocalPort row) = t \<and> rowPid row > 0 then unat (rowPid row)
      else if pmPortFromInt (rowRemotePort row) = t \<and> rowPid row > 0 then unat (rowPid row)
      else rowForPort t rows)"

definition FindProcessByPort :: "port_env \<Rightarrow> nat \<Rightarrow> int \<Rightarrow> nat go" where
  "FindProcessByPort pe k port =
     (if \<not> peWindows pe then Err ''only supported on windows''
      else bind_go (peTable pe k) (\<lambda>rows. Ok (rowForPort (word_of_int port) rows)))"

definition GetProcessNameByPID :: "port_env \<Rightarrow> nat \<Rightarrow> nat \<Rightarrow> str go" where
  "GetProcessNameByPID pe k pid =
     (if \<not> peWindows pe then Err ''only supported on windows''
      else if peName pe k pid = [] then Err ''process not found'' else Ok (peName pe k pid))"

definition KillProcessByPID :: "port_env \<Rightarrow> nat \<Rightarrow> nat \<Rightarrow> str option" where
  "KillProcessByPID pe k pid = (if \<not> peWindows pe then Some ''only supported on windows'' else peKill pe k pid)"

definition isSelfName :: "str list \<Rightarrow> str \<Rightarrow> bool" where
  "isSelfName selfNames name = (\<exists>self \<in> set selfNames. EqualFold name self \<or> EqualFold name (self @ ''.exe''))"

text \<open>The loop of \<open>EnsurePortAvailable\<close>: attempt \<open>k\<close> looks at port \<open>start + k\<close>. Beside the port, the processes it kills.\<close>

fun ensurePort :: "port_env \<Rightarrow> str list \<Rightarrow> int \<Rightarrow> nat \<Rightarrow> nat \<Rightarrow> (int go \<times> nat list)" where
  "ensurePort pe selfNames start k 0 = (Err ''could not find available port after 10 attempts'', [])"
| "ensurePort pe selfNames start k (Suc left) =
     (let port = start + int k; rest = ensurePort pe selfNames start (Suc k) left in
      case FindProcessByPort pe k port of
        Ok pid \<Rightarrow>
          if pid = 0 then (if peListen pe k port = None then (Ok port, []) else rest)
          else
            let name = (case GetProcessNameByPID pe k pid of Ok n \<Rightarrow> n | _ \<Rightarrow> []) in
            if isSelfName selfNames name then
              (if KillProcessByPID pe k pid = None then (Ok port, [pid]) else (fst rest, pid # snd rest))
            else rest
      | _ \<Rightarrow> (if peListen pe k port = None then (Ok port, []) else rest))"

definition EnsurePortAvailable :: "port_env \<Rightarrow> int \<Rightarrow> str list \<Rightarrow> (int go \<times> nat list)" where
  "EnsurePortAvailable pe start selfNames = ensurePort pe selfNames start 0 10"

section \<open>The runtime\<close>

record TUNStatus =
  tsSupported :: bool
  tsRunning :: bool
  tsEnabled :: bool
  tsDriver :: str
  tsMessage :: str

record ('x, 'c) coreRuntime =
  crServer :: ProxyServer
  crV2 :: V2RayManager
  crV2Port :: int
  crV2HTTPPort :: int
  crTUN :: 'x
  crCert :: "'c option"
  crCertCache :: "str list"
  crTunStarting :: bool
  crTunErr :: str
  crEvents :: "(str \<times> str) list"
  crLogCapture :: bool

record ('x, 'c) core_world =
  cwWindows :: bool
  cwElevated :: bool
  cwOrder :: key_order
  cwWrite :: "nat \<Rightarrow> str option"
  cwOpen :: "str \<Rightarrow> reader go"
  cwNow :: int
  cwGfwCache :: str
  cwPorts :: port_env
  cwListen :: "str \<Rightarrow> str option"
  cwReachable :: "str \<Rightarrow> str option"
  cwCloseErr :: "str option"
  cwInitCert :: "'c go"
  cwTunStart :: "TUNConfig \<Rightarrow> str \<Rightarrow> 'x \<Rightarrow> 'x \<times> str option"
  cwTunStop :: "'x \<Rightarrow> 'x \<times> str option"
  cwTunRestart :: "TUNConfig \<Rightarrow> str \<Rightarrow> 'x \<Rightarrow> 'x"
  cwTunStatus :: "TUNConfig \<Rightarrow> 'x \<Rightarrow> TUNStatus"

abbreviation crRules :: "('x, 'c) coreRuntime \<Rightarrow> RuleManager" where
  "crRules r \<equiv> psRules (crServer r)"

definition setRules :: "RuleManager \<Rightarrow> ('x, 'c) coreRuntime \<Rightarrow> ('x, 'c) coreRuntime" where
  "setRules rm r = r\<lparr>crServer := (crServer r)\<lparr>psRules := rm\<rparr>\<rparr>"

definition listenPortOr8080 :: "RuleManager \<Rightarrow> str" where
  "listenPortOr8080 rm = (if listenPort rm = [] then ''8080'' else listenPort rm)"

text \<open>\<open>start\<close>, after a constructor that has loaded the rules: certificates, rules and pool of the server, the automatic router. A failure of
  the certificate manager is logged.\<close>

definition attachRules :: "('x, 'c) core_world \<Rightarrow> ('x, 'c) coreRuntime \<Rightarrow> ('x, 'c) coreRuntime blk" where
  "attachRules w r =
     bind_blk (SetRuleManager (cwOrder w) (crRules r) (crServer r)) (\<lambda>s1.
     bind_blk (UpdateCloudflareConfigServer (cwOrder w) (cloudflareConfig (crRules r)) s1) (\<lambda>s2.
       Done (r\<lparr>crServer := s2\<lparr>psRules := InitAutoRouter (cwOpen w) (cwNow w) (cwGfwCache w) (psRules s2)\<rparr>\<rparr>)))"

definition startRuntime :: "('x, 'c) core_world \<Rightarrow> ('x, 'c) coreRuntime \<Rightarrow> ('x, 'c) coreRuntime blk" where
  "startRuntime w r = attachRules w (r\<lparr>crCert := (case cwInitCert w of Ok c \<Rightarrow> Some c | _ \<Rightarrow> None)\<rparr>)"

definition newCoreRuntime ::
  "('x, 'c) core_world \<Rightarrow> 'x \<Rightarrow> SettingsConfig go option \<Rightarrow> RulesConfig go option \<Rightarrow> V2RayManager \<Rightarrow> ('x, 'c) coreRuntime go blk" where
  "newCoreRuntime w x settingsF rulesF v2 =
     (case LoadConfig (cwWindows w) (cwWrite w 0) (cwWrite w 1) (cwWrite w 2) (NewRuleManager settingsF rulesF) of
        (rm, Ok _) \<Rightarrow>
          bind_blk (NewProxyServer (cwOrder w) (''127.0.0.1:'' @ listenPortOr8080 rm)) (\<lambda>s0.
          let s1 = fst (SetSOCKSAddr (socksAddr rm) s0) in
          bind_blk (startRuntime w \<lparr>crServer = s1\<lparr>psRules := rm\<rparr>, crV2 = v2, crV2Port = 0, crV2HTTPPort = 0, crTUN = x, crCert = None, crCertCache = [],
             crTunStarting = False, crTunErr = [], crEvents = [], crLogCapture = False\<rparr>) (\<lambda>r. Done (Ok r)))
      | (_, Err e) \<Rightarrow> Done (Err e)
      | (_, Panic) \<Rightarrow> Done Panic)"

definition shutdown :: "('x, 'c) core_world \<Rightarrow> ('x, 'c) coreRuntime \<Rightarrow> ('x, 'c) coreRuntime blk" where
  "shutdown w r =
     bind_blk (StopServer (cwCloseErr w) (crServer r)) (\<lambda>(s, _). Done (r\<lparr>crTUN := fst (cwTunStop w (crTUN r)), crServer := s\<rparr>))"

definition currentListenPort :: "('x, 'c) coreRuntime \<Rightarrow> str" where
  "currentListenPort r =
     (let addr = TrimSpace (psListenAddr (crServer r)); fallback = TrimSpace (listenPort (crRules r)) in
      if addr \<noteq> [] then
        (case SplitHostPort addr of Ok (_, port) \<Rightarrow> if TrimSpace port \<noteq> [] then TrimSpace port else fallback | _ \<Rightarrow> fallback)
      else fallback)"

definition reloadConfig :: "('x, 'c) core_world \<Rightarrow> ('x, 'c) coreRuntime \<Rightarrow> (unit go \<times> ('x, 'c) coreRuntime) blk" where
  "reloadConfig w r =
     (case LoadConfig (cwWindows w) (cwWrite w 0) (cwWrite w 1) (cwWrite w 2) (crRules r) of
        (rm, Ok _) \<Rightarrow>
          let r1 = setRules rm r in
          (case SetListenAddr (''127.0.0.1:'' @ listenPortOr8080 rm) (crServer r1) of
             (s, Ok _) \<Rightarrow>
               bind_blk (attachRules w (r1\<lparr>crServer := s\<rparr>)) (\<lambda>r2.
                 Done (Ok (), r2\<lparr>crTUN := cwTunRestart w (GetTUNConfig (cwWindows w) (crRules r2)) (currentListenPort r2) (crTUN r2)\<rparr>))
           | (s, Err e) \<Rightarrow> Done (Err e, r1\<lparr>crServer := s\<rparr>)
           | (s, Panic) \<Rightarrow> Done (Panic, r1\<lparr>crServer := s\<rparr>))
      | (rm, Err e) \<Rightarrow> Done (Err e, setRules rm r)
      | (rm, Panic) \<Rightarrow> Done (Panic, setRules rm r))"

definition reloadCertificate :: "('x, 'c) core_world \<Rightarrow> ('x, 'c) coreRuntime \<Rightarrow> unit go \<times> ('x, 'c) coreRuntime" where
  "reloadCertificate w r =
     (case cwInitCert w of
        Ok cm \<Rightarrow> (Ok (), r\<lparr>crCert := Some cm, crCertCache := []\<rparr>)
      | Err e \<Rightarrow> (Err e, r)
      | Panic \<Rightarrow> (Panic, r))"

section \<open>Addresses\<close>

definition getListenPort :: "('x, 'c) coreRuntime \<Rightarrow> int" where
  "getListenPort r = (case SplitHostPort (psListenAddr (crServer r)) of Ok (_, portStr) \<Rightarrow> scanInt portStr | _ \<Rightarrow> 0)"

definition saveRuntime :: "('x, 'c) core_world \<Rightarrow> ('x, 'c) coreRuntime \<Rightarrow> unit go \<times> ('x, 'c) coreRuntime" where
  "saveRuntime w r =
     (case SaveConfig (cwWindows w) (cwWrite w 0) (cwWrite w 1) (crRules r) of (rm, res) \<Rightarrow> (res, setRules rm r))"

text \<open>\<open>%q\<close> of a text without special characters.\<close>

definition quoted :: "str \<Rightarrow> str" where
  "quoted s = [CHR 0x22] @ s @ [CHR 0x22]"

text \<open>\<open>Sscanf\<close> of a port: its error, where there is no number, and the range are one test.\<close>

definition scanPortOk :: "str \<Rightarrow> bool" where
  "scanPortOk portStr = (1 \<le> scanInt portStr \<and> scanInt portStr \<le> 65535)"

definition setListenAddr :: "('x, 'c) core_world \<Rightarrow> str \<Rightarrow> ('x, 'c) coreRuntime \<Rightarrow> unit go \<times> ('x, 'c) coreRuntime" where
  "setListenAddr w addr r =
     (case SplitHostPort addr of
        Ok (host, portStr) \<Rightarrow>
          if portStr \<noteq> [] \<and> \<not> scanPortOk portStr then (Err (''invalid port in address '' @ quoted addr), r)
          else (case SetListenAddr addr (crServer r) of
              (s, Ok _) \<Rightarrow> saveRuntime w (setRules (SetListenPort portStr (SetListenHost host (psRules s))) (r\<lparr>crServer := s\<rparr>))
            | (s, e) \<Rightarrow> (e, r\<lparr>crServer := s\<rparr>))
      | Err e \<Rightarrow> (Err (''invalid address '' @ quoted addr @ '': '' @ e), r)
      | Panic \<Rightarrow> (Panic, r))"

definition setListenPort :: "('x, 'c) core_world \<Rightarrow> int \<Rightarrow> ('x, 'c) coreRuntime \<Rightarrow> unit go \<times> ('x, 'c) coreRuntime" where
  "setListenPort w port r =
     (if port < 1 \<or> port > 65535 then (Err (''invalid port number: '' @ itoaInt port), r)
      else
        let host = (if listenHost (crRules r) = [] then ''127.0.0.1'' else listenHost (crRules r)) in
        case SetListenAddr (host @ '':'' @ itoaInt port) (crServer r) of
          (s, Ok _) \<Rightarrow> saveRuntime w (setRules (SetListenPort (itoaInt port) (psRules s)) (r\<lparr>crServer := s\<rparr>))
        | (s, e) \<Rightarrow> (e, r\<lparr>crServer := s\<rparr>))"

definition setSOCKSAddrRuntime :: "('x, 'c) core_world \<Rightarrow> str \<Rightarrow> ('x, 'c) coreRuntime \<Rightarrow> unit go \<times> ('x, 'c) coreRuntime" where
  "setSOCKSAddrRuntime w addr r =
     (case SetSOCKSAddr addr (crServer r) of
        (s, Ok _) \<Rightarrow>
          let rm1 = SetSocksAddr addr (psRules s);
              rm2 = (case SplitHostPort addr of Ok (host, portStr) \<Rightarrow> SetSocksPort portStr (SetSocksHost host rm1) | _ \<Rightarrow> rm1)
          in saveRuntime w (setRules rm2 (r\<lparr>crServer := s\<rparr>))
      | (s, e) \<Rightarrow> (e, r\<lparr>crServer := s\<rparr>))"

section \<open>The proxy and its mode\<close>

definition selfNames :: "str list" where
  "selfNames = [''novaproxy'', ''usque'']"

definition setV2Ports :: "('x, 'c) coreRuntime \<Rightarrow> ('x, 'c) coreRuntime blk" where
  "setV2Ports r = bind_blk (GetCorePort (crV2 r)) (\<lambda>p. Done (r\<lparr>crV2Port := p, crV2HTTPPort := p + 1\<rparr>))"

text \<open>The result of \<open>startProxy\<close> comes with the processes it has killed.\<close>

definition startProxy :: "('x, 'c) core_world \<Rightarrow> ('x, 'c) coreRuntime \<Rightarrow> (unit go \<times> nat list \<times> ('x, 'c) coreRuntime) blk" where
  "startProxy w r =
     (let p0 = getListenPort r; originalPort = (if p0 = 0 then 8080 else p0);
          (avail, killed) = EnsurePortAvailable (cwPorts w) originalPort selfNames;
          availablePort = (case avail of Ok p \<Rightarrow> p | _ \<Rightarrow> originalPort);
          (res, r1) = (if availablePort \<noteq> originalPort then setListenPort w availablePort r else (Ok (), r))
      in case res of
           Err e \<Rightarrow> Done (Err e, killed, r1)
         | Panic \<Rightarrow> Done (Panic, killed, r1)
         | Ok _ \<Rightarrow>
             bind_blk (StartServer (cwListen w) (crServer r1)) (\<lambda>(s, res2).
             let r2 = r1\<lparr>crServer := s\<rparr> in
             case res2 of
               Err e \<Rightarrow> Done (Err e, killed, r2)
             | Panic \<Rightarrow> Done (Panic, killed, r2)
             | Ok _ \<Rightarrow>
                 let addr = psListenAddr s in
                 (case cwReachable w addr of
                    Some e \<Rightarrow>
                      bind_blk (StopServer (cwCloseErr w) s) (\<lambda>(s3, _).
                        Done (Err (''proxy started but not listening on '' @ addr @ '': '' @ e), killed, r2\<lparr>crServer := s3\<rparr>))
                  | None \<Rightarrow> bind_blk (setV2Ports r2) (\<lambda>r3. Done (Ok (), killed, r3)))))"

definition errorsJoin :: "str option list \<Rightarrow> str option" where
  "errorsJoin errs =
     (case concat (map (\<lambda>e. case e of Some m \<Rightarrow> [m] | None \<Rightarrow> []) errs) of
        [] \<Rightarrow> None
      | [m] \<Rightarrow> Some m
      | ms \<Rightarrow> Some (Join ms ''; ''))"

definition stopProxy :: "('x, 'c) core_world \<Rightarrow> ('x, 'c) coreRuntime \<Rightarrow> (str option \<times> ('x, 'c) coreRuntime) blk" where
  "stopProxy w r =
     bind_blk (StopServer (cwCloseErr w) (crServer r)) (\<lambda>(s, res).
       Done (errorsJoin [case res of Err e \<Rightarrow> Some e | _ \<Rightarrow> None], r\<lparr>crServer := s\<rparr>))"

definition setServerMode :: "str \<Rightarrow> ('x, 'c) coreRuntime \<Rightarrow> ('x, 'c) coreRuntime" where
  "setServerMode mode r = r\<lparr>crServer := fst (SetMode mode (crServer r))\<rparr>"

text \<open>The mode is kept in the settings of the V2Ray manager; a failure to save them is dropped.\<close>

definition rememberMode :: "('x, 'c) core_world \<Rightarrow> str \<Rightarrow> ('x, 'c) coreRuntime \<Rightarrow> ('x, 'c) coreRuntime blk" where
  "rememberMode w mode r =
     bind_blk (GetV2Settings (crV2 r)) (\<lambda>s.
     bind_blk (SaveSettings (cwWrite w 3) (s\<lparr>vtRoutingMode := mode\<rparr>) (crV2 r)) (\<lambda>(_, v2). Done (r\<lparr>crV2 := v2\<rparr>)))"

definition switchMode :: "('x, 'c) core_world \<Rightarrow> str \<Rightarrow> ('x, 'c) coreRuntime \<Rightarrow> (str option \<times> ('x, 'c) coreRuntime) blk" where
  "switchMode w mode0 r =
     (let mode = ToLower (TrimSpace mode0) in
      if mode = ''rule'' then bind_blk (rememberMode w mode (setServerMode ''mitm'' r)) (\<lambda>r1. Done (None, r1))
      else if mode = ''gas'' then bind_blk (rememberMode w mode (setServerMode ''gas'' r)) (\<lambda>r1. Done (None, r1))
      else if mode = ''v2ray'' then
        bind_blk (setV2Ports (setServerMode ''v2ray'' r)) (\<lambda>r1. bind_blk (rememberMode w mode r1) (\<lambda>r2. Done (None, r2)))
      else Done (Some (''unknown routing mode: '' @ mode), r))"

definition getCurrentMode :: "('x, 'c) coreRuntime \<Rightarrow> str blk" where
  "getCurrentMode r =
     bind_blk (GetV2Settings (crV2 r)) (\<lambda>s.
       Done (if vtRoutingMode s \<noteq> [] then vtRoutingMode s
             else if psMode (crServer r) = ''gas'' then ''gas''
             else if psMode (crServer r) = ''v2ray'' then ''v2ray'' else ''rule''))"

section \<open>TUN\<close>

definition setTUNStartState :: "bool \<Rightarrow> str option \<Rightarrow> ('x, 'c) coreRuntime \<Rightarrow> ('x, 'c) coreRuntime" where
  "setTUNStartState starting err r =
     r\<lparr>crTunStarting := starting, crTunErr := (if starting then [] else case err of Some e \<Rightarrow> TrimSpace e | None \<Rightarrow> [])\<rparr>"

definition startTUN :: "('x, 'c) core_world \<Rightarrow> ('x, 'c) coreRuntime \<Rightarrow> (str option \<times> ('x, 'c) coreRuntime) blk" where
  "startTUN w r =
     (let r1 = setTUNStartState True None r;
          finish = (\<lambda>err q. Done (err, setTUNStartState False err q))
      in if \<not> cwElevated w then
           finish (Some ''TUN requires administrator privileges on Windows; please restart NovaProxy as administrator'') r1
         else
           bind_blk (if psRunning (crServer r1) then Done (Ok (), [], r1) else startProxy w r1) (\<lambda>(res, _, r2).
             case res of
               Err e \<Rightarrow> finish (Some (''start proxy before TUN: '' @ e)) r2
             | Panic \<Rightarrow> finish None r2
             | Ok _ \<Rightarrow>
                 if currentListenPort r2 = [] then finish (Some ''proxy listen port is empty'') r2
                 else case cwTunStart w (GetTUNConfig (cwWindows w) (crRules r2)) (currentListenPort r2) (crTUN r2) of
                   (x, err) \<Rightarrow> finish err (r2\<lparr>crTUN := x\<rparr>)))"

definition stopTUN :: "('x, 'c) core_world \<Rightarrow> ('x, 'c) coreRuntime \<Rightarrow> str option \<times> ('x, 'c) coreRuntime" where
  "stopTUN w r = (let r1 = setTUNStartState False None r in case cwTunStop w (crTUN r1) of (x, err) \<Rightarrow> (err, r1\<lparr>crTUN := x\<rparr>))"

definition getTUNStatus :: "('x, 'c) core_world \<Rightarrow> ('x, 'c) coreRuntime \<Rightarrow> TUNStatus" where
  "getTUNStatus w r =
     (let status = cwTunStatus w (GetTUNConfig (cwWindows w) (crRules r)) (crTUN r); low = ToLower (tsMessage status); startErr = TrimSpace (crTunErr r) in
      if tsRunning status then status\<lparr>tsEnabled := True\<rparr>
      else
        let s1 = status\<lparr>tsEnabled := False\<rparr> in
        if crTunStarting r then
          (if TrimSpace (tsMessage s1) = [] \<or> Contains low ''selected'' \<or> Contains low ''not running''
           then s1\<lparr>tsMessage := ''TUN startup in progress''\<rparr> else s1)
        else if startErr \<noteq> [] then s1\<lparr>tsMessage := startErr\<rparr> else s1)"

section \<open>Route events and logs\<close>

definition routeEvent :: "str \<Rightarrow> str \<Rightarrow> ('x, 'c) coreRuntime \<Rightarrow> ('x, 'c) coreRuntime" where
  "routeEvent domain mode r =
     (let es = crEvents r @ [(domain, mode)] in
      r\<lparr>crEvents := (if length es > 200 then drop (length es - 100) es else es)\<rparr>)"

definition popRouteEvents :: "('x, 'c) coreRuntime \<Rightarrow> (str \<times> str) list \<times> ('x, 'c) coreRuntime" where
  "popRouteEvents r = (crEvents r, r\<lparr>crEvents := []\<rparr>)"

definition startLogCapture :: "('x, 'c) coreRuntime \<Rightarrow> ('x, 'c) coreRuntime" where
  "startLogCapture r = r\<lparr>crLogCapture := True\<rparr>"

definition stopLogCapture :: "('x, 'c) coreRuntime \<Rightarrow> ('x, 'c) coreRuntime" where
  "stopLogCapture r = r\<lparr>crLogCapture := False\<rparr>"

section \<open>The service\<close>

definition SetProxyMode :: "('x, 'c) core_world \<Rightarrow> str \<Rightarrow> ('x, 'c) coreRuntime \<Rightarrow> (str option \<times> ('x, 'c) coreRuntime) blk" where
  "SetProxyMode w mode r =
     (if mode = ''rule'' \<or> mode = ''gas'' \<or> mode = ''v2ray'' then switchMode w mode r
      else case SetMode mode (crServer r) of
        (s, Err e) \<Rightarrow> Done (Some e, r\<lparr>crServer := s\<rparr>)
      | (s, _) \<Rightarrow> Done (None, r\<lparr>crServer := s\<rparr>))"

text \<open>The relay that \<open>SetGASRelay\<close> installs is present or absent for the server.\<close>

definition SetGASRelayService :: "bool \<Rightarrow> ('x, 'c) coreRuntime \<Rightarrow> ('x, 'c) coreRuntime" where
  "SetGASRelayService enabled r = r\<lparr>crServer := SetGasRelay enabled (crServer r)\<rparr>"

definition V2RayStartCore :: "('x, 'c) core_world \<Rightarrow> ('x, 'c) coreRuntime \<Rightarrow> ('x, 'c) coreRuntime blk" where
  "V2RayStartCore w r =
     bind_blk (SetCoreRunning (cwWrite w 4) True (crV2 r)) (\<lambda>v. bind_blk (SetCoreActive (cwWrite w 5) True v) (\<lambda>v2. Done (r\<lparr>crV2 := v2\<rparr>)))"

definition V2RayStopCore :: "('x, 'c) core_world \<Rightarrow> ('x, 'c) coreRuntime \<Rightarrow> ('x, 'c) coreRuntime blk" where
  "V2RayStopCore w r =
     bind_blk (SetCoreRunning (cwWrite w 4) False (crV2 r)) (\<lambda>v. bind_blk (SetCoreActive (cwWrite w 5) False v) (\<lambda>v2. Done (r\<lparr>crV2 := v2\<rparr>)))"

definition V2RayCoreStatus :: "('x, 'c) coreRuntime \<Rightarrow> (bool \<times> bool \<times> int) blk" where
  "V2RayCoreStatus r =
     bind_blk (IsCoreRunning (crV2 r)) (\<lambda>run. bind_blk (IsCoreActive (crV2 r)) (\<lambda>active. bind_blk (GetCorePort (crV2 r)) (\<lambda>p. Done (run, active, p))))"

end
