(* ===== verification/CoreTheorems.thy ===== *)
theory CoreTheorems
  imports CoreRuntime ConnectTheorems "HOL-Library.Sublist"
begin

text \<open>
  Properties of the core process: which port the search for a free one gives and which processes it kills, the listening port read
  back, the mode read back, the bounded list of route events, and the reload that a running proxy refuses halfway.
\<close>

section \<open>The search for a port\<close>

definition processName :: "port_env \<Rightarrow> nat \<Rightarrow> nat \<Rightarrow> str" where
  "processName pe k pid = (case GetProcessNameByPID pe k pid of Ok n \<Rightarrow> n | _ \<Rightarrow> [])"

text \<open>The port was found free by listening on it.\<close>

definition found_free :: "port_env \<Rightarrow> nat \<Rightarrow> int \<Rightarrow> bool" where
  "found_free pe k p = (peListen pe k p = None \<and> (case FindProcessByPort pe k p of Ok pid \<Rightarrow> pid = 0 | _ \<Rightarrow> True))"

text \<open>The port was held by a process with one of the given names.\<close>

definition held_by_own :: "port_env \<Rightarrow> str list \<Rightarrow> nat \<Rightarrow> int \<Rightarrow> nat \<Rightarrow> bool" where
  "held_by_own pe names k p pid = (FindProcessByPort pe k p = Ok pid \<and> pid \<noteq> 0 \<and> isSelfName names (processName pe k pid))"

definition search_ok :: "port_env \<Rightarrow> str list \<Rightarrow> int \<Rightarrow> nat \<Rightarrow> nat \<Rightarrow> int go \<times> nat list \<Rightarrow> bool" where
  "search_ok pe names start lo hi out =
     ((\<forall>p. fst out = Ok p \<longrightarrow> (\<exists>j \<in> {lo..<hi}. p = start + int j \<and>
        (found_free pe j p \<or> (\<exists>pid \<in> set (snd out). held_by_own pe names j p pid)))) \<and>
      (\<forall>pid \<in> set (snd out). \<exists>j \<in> {lo..<hi}. held_by_own pe names j (start + int j) pid))"

lemma search_ok_later: "search_ok pe names start (Suc lo) hi out \<Longrightarrow> search_ok pe names start lo hi out"
  unfolding search_ok_def by (meson Suc_leD atLeastLessThan_iff)

lemma search_ok_free: "found_free pe lo (start + int lo) \<Longrightarrow> lo < hi \<Longrightarrow> search_ok pe names start lo hi (Ok (start + int lo), [])"
  by (auto simp: search_ok_def)

lemma search_ok_killed:
  "held_by_own pe names lo (start + int lo) pid \<Longrightarrow> lo < hi \<Longrightarrow> search_ok pe names start lo hi (Ok (start + int lo), [pid])"
  by (auto simp: search_ok_def)

lemma search_ok_not_killed:
  "held_by_own pe names lo (start + int lo) pid \<Longrightarrow> lo < hi \<Longrightarrow> search_ok pe names start lo hi out \<Longrightarrow>
   search_ok pe names start lo hi (fst out, pid # snd out)"
  unfolding search_ok_def by (auto 0 4)

lemma ensurePort_result: "search_ok pe names start k (k + left) (ensurePort pe names start k left)"
proof (induction left arbitrary: k)
  case (Suc left)
  let ?p = "start + int k" and ?rest = "ensurePort pe names start (Suc k) left"
  have rest: "search_ok pe names start k (k + Suc left) ?rest" using Suc.IH [of "Suc k"] search_ok_later by simp
  show ?case
  proof (cases "FindProcessByPort pe k ?p")
    case (Ok pid)
    have h: "held_by_own pe names k ?p pid" if "pid \<noteq> 0" "isSelfName names (processName pe k pid)"
      using Ok that by (simp add: held_by_own_def)
    show ?thesis using Ok rest h search_ok_free [of pe k start "k + Suc left" names] search_ok_killed [of pe names k start pid "k + Suc left"]
        search_ok_not_killed [of pe names k start pid "k + Suc left" ?rest]
      by (simp add: found_free_def processName_def Let_def)
  qed (use rest search_ok_free [of pe k start "k + Suc left" names] in \<open>simp_all add: found_free_def Let_def\<close>)
qed (simp add: search_ok_def)



section \<open>Reading back\<close>

lemma digitVal_itoa: "c \<in> set (itoa n) \<Longrightarrow> isDigit c"
  using itoa_chars [of n] by (auto simp: digitVal_def)

lemma scanInt_itoa:
  assumes "n < 2 ^ 63"
  shows "scanInt (itoa n) = int n"
proof -
  have t: "takeWhile isDigit (itoa n) = itoa n" using digitVal_itoa by (simp add: takeWhile_eq_all_conv)
  have "\<not> isSpace (hd (itoa n))" using trimmed_itoa [of n] by (simp add: trimmed_def)
  then have "skipBlanks (itoa n) = itoa n" by (cases "itoa n") (simp_all add: skipBlanks_def)
  moreover have "\<not> HasPrefix (itoa n) ''-''" "\<not> HasPrefix (itoa n) ''+''"
    using itoa_no [of "CHR ''-''" n] itoa_no [of "CHR ''+''" n] by (cases "itoa n"; auto simp: HasPrefix_def)+
  ultimately show ?thesis using assms by (simp add: scanInt_def t digitsVal_def parseDigits_itoa Let_def del: not_None_eq)
qed

lemma saveConfig_keeps:
  "listenPort (fst (SaveConfig win w1 w2 rm)) = listenPort rm" "listenHost (fst (SaveConfig win w1 w2 rm)) = listenHost rm"
  by (simp_all add: SaveConfig_def saveSettingsConfig_def saveRulesConfig_def Let_def split: option.split prod.split go.split)

lemma saveRuntime_keeps:
  assumes "saveRuntime w r = (res, r')"
  shows "psListenAddr (crServer r') = psListenAddr (crServer r)" "listenPort (crRules r') = listenPort (crRules r)"
  using assms saveConfig_keeps [of "cwWindows w" "cwWrite w 0" "cwWrite w 1" "crRules r"]
  by (auto simp: saveRuntime_def setRules_def split: prod.splits)

text \<open>The listening port read back: where the configured host is a name or an IPv4 address, the port set while the proxy is stopped
  is the port the server will listen on, the port reported and the port in the rules; and a port out of range changes nothing.\<close>

theorem setListenPort_roundtrip:
  assumes "plain_host (listenHost (crRules r))" and "CHR '':'' \<notin> set (listenHost (crRules r))" and "\<not> isSpace (hd (listenHost (crRules r) @ ''a''))"
    and "setListenPort w port r = (res, r')" and "\<not> psRunning (crServer r)"
  shows "if 1 \<le> port \<and> port \<le> 65535
    then getListenPort r' = port \<and> currentListenPort r' = itoaInt port \<and> listenPort (crRules r') = itoaInt port
    else r' = r \<and> res = Err (''invalid port number: '' @ itoaInt port)"
proof (cases "1 \<le> port \<and> port \<le> 65535")
  case True
  define host where "host = (if listenHost (crRules r) = [] then ''127.0.0.1'' else listenHost (crRules r))"
  let ?addr = "host @ CHR '':'' # itoaInt port"
  have n: "port = int (nat port)" "nat port < 2 ^ 63" using True by auto
  have i: "itoaInt port = itoa (nat port)" using True by (simp add: itoaInt_def)
  have "plain_port (itoaInt port)" unfolding plain_port_def i by (simp add: itoa_no)
  moreover have "plain_host host" "CHR '':'' \<notin> set host" using assms(1,2) by (simp_all add: host_def plain_host_def)
  ultimately have sp: "SplitHostPort ?addr = Ok (host, itoaInt port)" by (intro SplitHostPort_plain)
  have ti: "trimmed (itoaInt port)" unfolding i by (rule trimmed_itoa)
  have "host \<noteq> []" "\<not> isSpace (hd host)" using assms(3) by (auto simp: host_def isSpace_def)
  then have ta: "trimmed ?addr" using ti i by (simp add: trimmed_def)
  have s: "saveRuntime w (setRules (SetListenPort (itoaInt port) (crRules r)) (r\<lparr>crServer := (crServer r)\<lparr>psListenAddr := ?addr\<rparr>\<rparr>)) = (res, r')"
    using assms(4,5) True by (auto simp: setListenPort_def SetListenAddr_def host_def)
  have addr: "psListenAddr (crServer r') = ?addr" and lp: "listenPort (crRules r') = itoaInt port"
    using saveRuntime_keeps [OF s] by (simp_all add: setRules_def SetListenPort_def)
  have "scanInt (itoaInt port) = port" unfolding i using scanInt_itoa [OF n(2)] n(1) by simp
  then have "getListenPort r' = port" by (simp add: getListenPort_def addr sp)
  moreover have "itoaInt port \<noteq> []" unfolding i by simp
  then have "currentListenPort r' = itoaInt port"
    by (simp add: currentListenPort_def addr lp TrimSpace_trimmed [OF ta] TrimSpace_trimmed [OF ti] sp Let_def)
  ultimately show ?thesis using True lp by simp
qed (use assms(4) in \<open>auto simp: setListenPort_def\<close>)

theorem setListenPort_roundtrip_witness:
  "\<forall>w :: (unit, unit) core_world. \<forall>v2 r'. \<forall>res.
     setListenPort w 9000 \<lparr>crServer = sampleServer\<lparr>psRules := (NewRuleManager None None)\<lparr>listenHost := []\<rparr>\<rparr>, crV2 = v2, crV2Port = 0, crV2HTTPPort = 0, crTUN = (),
       crCert = None, crCertCache = [], crTunStarting = False, crTunErr = [], crEvents = [], crLogCapture = False\<rparr> = (res, r') \<longrightarrow> getListenPort r' = 9000"
proof (intro allI impI)
  fix w :: "(unit, unit) core_world" and v2 r' res
  let ?r = "\<lparr>crServer = sampleServer\<lparr>psRules := (NewRuleManager None None)\<lparr>listenHost := []\<rparr>\<rparr>, crV2 = v2, crV2Port = 0, crV2HTTPPort = 0, crTUN = (),
       crCert = None, crCertCache = [], crTunStarting = False, crTunErr = [], crEvents = [], crLogCapture = False\<rparr>"
  assume "setListenPort w 9000 ?r = (res, r')"
  then show "getListenPort r' = 9000"
    using setListenPort_roundtrip [of ?r w 9000 res r'] by (simp add: plain_host_def isSpace_def sampleServer_def)
qed

text \<open>The mode read back: switching to one of the three routing modes, in any spelling, is what the service then reports, and any other word
  is refused without a change.\<close>

theorem switch_then_current:
  assumes "switchMode w mode r = Done (e, r')"
  shows "if e = None then getCurrentMode r' = Done (ToLower (TrimSpace mode)) \<and> ToLower (TrimSpace mode) \<in> {''rule'', ''gas'', ''v2ray''} else r' = r"
  using assms
  by (auto simp: switchMode_def rememberMode_def getCurrentMode_def GetV2Settings_def SaveSettings_def locked_op_def bind_blk_Done_iff setServerMode_def
      setV2Ports_def GetCorePort_def Let_def split: if_splits option.splits)

section \<open>Route events\<close>

definition emit :: "(str \<times> str) list \<Rightarrow> ('x, 'c) coreRuntime \<Rightarrow> ('x, 'c) coreRuntime" where
  "emit es r = fold (\<lambda>(d, m). routeEvent d m) es r"

lemma routeEvent_suffix:
  assumes "suffix (crEvents r) es"
  shows "suffix (crEvents (routeEvent d m r)) (es @ [(d, m)])"
proof -
  have "suffix (crEvents r @ [(d, m)]) (es @ [(d, m)])" using assms by (simp add: suffix_def)
  moreover obtain k where "crEvents (routeEvent d m r) = drop k (crEvents r @ [(d, m)])" unfolding routeEvent_def Let_def
    by (cases "length (crEvents r @ [(d, m)]) > 200") (simp_all del: drop_append, metis drop0)
  ultimately show ?thesis using suffix_order.trans [OF suffix_drop] by metis
qed

lemma length_routeEvent:
  "length (crEvents (routeEvent d m r)) = (if 200 \<le> length (crEvents r) then 100 else Suc (length (crEvents r)))"
  by (simp add: routeEvent_def Let_def del: drop_append)

text \<open>The events between two readings: the list never exceeds two hundred, it is always the latest part of what was emitted, it is all of it
  up to two hundred events, and never fewer than the last hundred.\<close>

theorem route_events_recent:
  assumes "crEvents r = []"
  shows "suffix (crEvents (emit es r)) es \<and> length (crEvents (emit es r)) \<le> 200 \<and>
    (length es \<le> 200 \<longrightarrow> crEvents (emit es r) = es) \<and> min 100 (length es) \<le> length (crEvents (emit es r))"
proof (induction es rule: rev_induct)
  case Nil then show ?case using assms by (simp add: emit_def)
next
  case (snoc e es)
  obtain d m where e: "e = (d, m)" by (cases e)
  have s: "emit (es @ [e]) r = routeEvent d m (emit es r)" by (simp add: emit_def e)
  have "suffix (crEvents (emit (es @ [e]) r)) (es @ [e])" using routeEvent_suffix [OF conjunct1 [OF snoc], of d m] unfolding s [symmetric] e [symmetric] .
  moreover have "length (crEvents (emit (es @ [e]) r)) \<le> 200" "min 100 (length (es @ [e])) \<le> length (crEvents (emit (es @ [e]) r))"
    unfolding s length_routeEvent using snoc by (simp_all add: min_def split: if_splits)
  moreover have "length (es @ [e]) \<le> 200 \<longrightarrow> crEvents (emit (es @ [e]) r) = es @ [e]" 
  proof
    assume l: "length (es @ [e]) \<le> 200"
    then have "crEvents (emit es r) = es" using snoc by simp
    then show "crEvents (emit (es @ [e]) r) = es @ [e]" unfolding s using l by (simp add: routeEvent_def e)
  qed
  ultimately show ?case by blast
qed

section \<open>Reload\<close>

text \<open>C30: A reload while the proxy runs always fails, halfway: the rule manager has read its files, but the error of the listening address comes
  before the pool of Cloudflare addresses, the automatic router and the TUN program are told, so these stay as they were.\<close>

theorem reload_while_running:
  assumes "psRunning (crServer r)"
  shows "\<exists>res r'. reloadConfig w r = Done (res, r') \<and> (\<forall>u. res \<noteq> Ok u) \<and>
    crRules r' = fst (LoadConfig (cwWindows w) (cwWrite w 0) (cwWrite w 1) (cwWrite w 2) (crRules r)) \<and>
    psPool (crServer r') = psPool (crServer r) \<and> psListenAddr (crServer r') = psListenAddr (crServer r) \<and> crTUN r' = crTUN r \<and> crCert r' = crCert r"
proof -
  obtain rm res where l: "LoadConfig (cwWindows w) (cwWrite w 0) (cwWrite w 1) (cwWrite w 2) (crRules r) = (rm, res)" by fastforce
  show ?thesis unfolding reloadConfig_def l using assms by (cases res) (simp_all add: setRules_def SetListenAddr_def)
qed

theorem reload_while_running_witness:
  "\<forall>(w :: (unit, unit) core_world) v2. \<exists>res r'. reloadConfig w \<lparr>crServer = sampleServer\<lparr>psRunning := True\<rparr>, crV2 = v2, crV2Port = 0, crV2HTTPPort = 0, crTUN = (),
       crCert = None, crCertCache = [], crTunStarting = False, crTunErr = [], crEvents = [], crLogCapture = False\<rparr> = Done (res, r') \<and> res \<noteq> Ok ()"
proof (intro allI)
  fix w :: "(unit, unit) core_world" and v2
  let ?r = "\<lparr>crServer = sampleServer\<lparr>psRunning := True\<rparr>, crV2 = v2, crV2Port = 0, crV2HTTPPort = 0, crTUN = (),
       crCert = None, crCertCache = [], crTunStarting = False, crTunErr = [], crEvents = [], crLogCapture = False\<rparr>"
  have "psRunning (crServer ?r)" by simp
  from reload_while_running [OF this, of w] show "\<exists>res r'. reloadConfig w ?r = Done (res, r') \<and> res \<noteq> Ok ()" by blast
qed

end
