(* ===== verification/Handlers.thy ===== *)
theory Handlers
  imports ConnectTheorems Doh GasServer
begin

text \<open>
  The handlers behind the dispatch of a request, \<open>src/proxy/proxy.go\<close>: plain HTTP requests, the MITM, server and QUIC modes with
  their certificates, and the CONNECT handlers of the direct and GAS paths.

  \<^item> A header is a list of pairs with canonical names, in the order of the values of each name.
  \<^item> Connections appear as the actions a handler takes; \<open>tunnel_act\<close> is shared by the CONNECT handlers. The hijacked client of
    \<open>client_env\<close> can be had and written to, or not.
  \<^item> \<open>net/http\<close> transports are arguments: a round trip gives a response or an error. Certificates are signed by
    \<open>sign\<close>, which may fail.
\<close>

section \<open>Headers\<close>

type_synonym header = "(str \<times> str) list"

text \<open>\<open>textproto.CanonicalMIMEHeaderKey\<close>: a name with a byte that no header name has is left alone.\<close>

definition headerNameByte :: "char \<Rightarrow> bool" where
  "headerNameByte c = (let n = (of_char c :: nat) in 48 \<le> n \<and> n \<le> 57 \<or> 65 \<le> n \<and> n \<le> 90 \<or> 97 \<le> n \<and> n \<le> 122 \<or> c \<in> set ''!#$%&*+-.^_`|~'' \<or> n = 39)"

fun canonBytes :: "bool \<Rightarrow> str \<Rightarrow> str" where
  "canonBytes up [] = []"
| "canonBytes up (c # cs) = (if up then upperChar c else lowerChar c) # canonBytes (c = CHR ''-'') cs"

definition canonicalKey :: "str \<Rightarrow> str" where
  "canonicalKey s = (if s \<noteq> [] \<and> (\<forall>c \<in> set s. headerNameByte c) then canonBytes True s else s)"

definition hGet :: "str \<Rightarrow> header \<Rightarrow> str" where
  "hGet k h = (case map_of h (canonicalKey k) of Some v \<Rightarrow> v | None \<Rightarrow> [])"

definition hDel :: "str \<Rightarrow> header \<Rightarrow> header" where
  "hDel k h = filter (\<lambda>p. fst p \<noteq> canonicalKey k) h"

definition hopByHopHeaders :: "str list" where
  "hopByHopHeaders = [''Proxy-Connection'', ''Keep-Alive'', ''Proxy-Authenticate'', ''Proxy-Authorization'', ''Te'', ''Trailer'', ''Transfer-Encoding'']"

text \<open>\<open>textproto.TrimString\<close>.\<close>

definition trimString :: "str \<Rightarrow> str" where
  "trimString s = TrimSet s [CHR '' '', CHR 0x09, CHR 0x0A, CHR 0x0D]"

definition removeHopByHopHeaders :: "header \<Rightarrow> header" where
  "removeHopByHopHeaders h =
     (let c = hGet ''Connection'' h;
          drop1 = (\<lambda>f h. let name = trimString f in if name \<noteq> [] \<and> \<not> EqualFold name ''Upgrade'' then hDel name h else h);
          h1 = (if c \<noteq> [] then fold drop1 (Split c CHR '','') h else h)
      in hDel ''Connection'' (fold hDel hopByHopHeaders h1))"

section \<open>Certificates for the client\<close>

record leaf =
  lfHost :: str
  lfIPs :: "str list"
  lfDNSNames :: "str list"
  lfNotBefore :: int
  lfNotAfter :: int
  lfIssuer :: str

type_synonym cert_cache = "str \<rightharpoonup> leaf"

text \<open>Times in seconds. \<open>generateCert\<close> puts every host into \<open>DNSNames\<close>, also an address; \<open>generateCertNow\<close> does not cache.\<close>

definition generateCert :: "(leaf \<Rightarrow> str option) \<Rightarrow> int \<Rightarrow> str \<Rightarrow> str \<Rightarrow> cert_cache \<Rightarrow> leaf go \<times> cert_cache" where
  "generateCert sign t ca host0 cache =
     (let host = normalizeHost host0 in
      case cache host of
        Some cert \<Rightarrow> (Ok cert, cache)
      | None \<Rightarrow>
          let cert = \<lparr>lfHost = host, lfIPs = [], lfDNSNames = [host], lfNotBefore = t, lfNotAfter = t + 24 * 3600, lfIssuer = ca\<rparr> in
          (case sign cert of Some e \<Rightarrow> (Err e, cache) | None \<Rightarrow> (Ok cert, cache(host \<mapsto> cert))))"

definition ClearCertCache :: "cert_cache \<Rightarrow> cert_cache" where
  "ClearCertCache cache = Map.empty"

definition generateCertNow :: "(str \<Rightarrow> bool) \<Rightarrow> (leaf \<Rightarrow> str option) \<Rightarrow> int \<Rightarrow> str \<Rightarrow> str \<Rightarrow> leaf go" where
  "generateCertNow isIP sign t ca host =
     (let cert = \<lparr>lfHost = host, lfIPs = (if isIP host then [host] else []), lfDNSNames = (if isIP host then [] else [host]),
                  lfNotBefore = t, lfNotAfter = t + 24 * 3600, lfIssuer = ca\<rparr>
      in case sign cert of Some e \<Rightarrow> Err e | None \<Rightarrow> Ok cert)"

text \<open>\<open>GetCertificate\<close> of \<open>makeMITMTLSConfig\<close>, for the name in the ClientHello.\<close>

definition mitmCertHost :: "str \<Rightarrow> str \<Rightarrow> str" where
  "mitmCertHost connectHost serverName =
     (let clientSNI = normalizeHost serverName in if clientSNI \<noteq> [] then clientSNI else normalizeHost connectHost)"

definition mitmGetCertificate :: "(leaf \<Rightarrow> str option) \<Rightarrow> int \<Rightarrow> str \<Rightarrow> str \<Rightarrow> str \<Rightarrow> cert_cache \<Rightarrow> leaf go \<times> cert_cache" where
  "mitmGetCertificate sign t ca connectHost serverName cache = generateCert sign t ca (mitmCertHost connectHost serverName) cache"

text \<open>The client of a MITM mode: the name it asks for, and the outcome of the handshake under a certificate and protocols, with the
  protocol it agreed on.\<close>

record tls_client =
  tcSNI :: str
  tcHandshake :: "leaf \<Rightarrow> str list \<Rightarrow> str option"

record mitm_env =
  meSign :: "leaf \<Rightarrow> str option"
  meNow :: int
  meCA :: "(str \<times> bool) option"

text \<open>The CA of the generator: \<open>None\<close> without a generator, its certificate, and whether it has a key.\<close>

definition clientTLS :: "mitm_env \<Rightarrow> str \<Rightarrow> str \<Rightarrow> str list \<Rightarrow> tls_client \<Rightarrow> cert_cache \<Rightarrow> str option \<times> cert_cache" where
  "clientTLS me ca host protos c cache =
     (case mitmGetCertificate (meSign me) (meNow me) ca host (tcSNI c) cache of
        (Ok cert, cache1) \<Rightarrow> (tcHandshake c cert protos, cache1)
      | (_, cache1) \<Rightarrow> (None, cache1))"

section \<open>The MITM mode\<close>

datatype mitm_act = MCloseClient | MUpstream str utls_config | MCloseUpstream | MTunnel str str

definition mitmCandidates :: "str list \<Rightarrow> str \<Rightarrow> str list" where
  "mitmCandidates dialCandidates initialDialAddr =
     (if TrimSpace initialDialAddr \<noteq> [] then [initialDialAddr] else []) @
     filter (\<lambda>c. TrimSpace c \<noteq> [] \<and> c \<noteq> initialDialAddr) dialCandidates"

definition handleMITM ::
  "net_env \<Rightarrow> chain_verifier \<Rightarrow> spki_hash \<Rightarrow> mitm_env \<Rightarrow> tls_client \<Rightarrow> str \<Rightarrow> Rule \<Rightarrow> str list \<Rightarrow> str \<Rightarrow> cert_cache \<Rightarrow> ProxyServer \<Rightarrow>
   (mitm_act list \<times> cert_cache \<times> ProxyServer) blk" where
  "handleMITM env verify hash me c host rule dialCandidates initialDialAddr cache p =
     (case meCA me of
        Some (ca, True) \<Rightarrow>
          bind_blk (establishUpstreamConn env verify hash host rule (mitmCandidates dialCandidates initialDialAddr) [] p) (\<lambda>(res, p1).
            case res of
              Ok (addr, proto, cfg) \<Rightarrow>
                let (r, cache1) = clientTLS me ca host (nextProtosForNegotiatedALPN proto) c cache in
                (case r of
                   None \<Rightarrow> Done ([MUpstream addr cfg, MCloseClient, MCloseUpstream], cache1, p1)
                 | Some clientALPN \<Rightarrow> Done ([MUpstream addr cfg, MTunnel proto clientALPN], cache1, p1))
            | _ \<Rightarrow> Done ([MCloseClient], cache, p1))
      | _ \<Rightarrow> Done ([MCloseClient], cache, p))"

section \<open>Plain requests\<close>

record http_req =
  hqMethod :: str
  hqScheme :: str
  hqURLHost :: str
  hqHost :: str
  hqPath :: str
  hqHeader :: header
  hqBody :: str
  hqTLS :: bool

record http_resp =
  hrStatus :: int
  hrHeader :: header
  hrBody :: str

datatype http_reply = Reply http_resp | ErrorReply int str | Redirect int str

text \<open>\<open>hqPath\<close> is the path with its query as \<open>url.String\<close> prints them.\<close>

definition urlString :: "http_req \<Rightarrow> str" where
  "urlString q = (if hqScheme q = [] then [] else hqScheme q @ ''://'') @ hqURLHost q @ hqPath q"

text \<open>The copy of headers, status and body that every path makes of a response.\<close>

definition copyReply :: "str \<Rightarrow> http_resp go \<Rightarrow> http_reply go" where
  "copyReply msg r = (case r of Ok resp \<Rightarrow> Ok (Reply resp) | Err e \<Rightarrow> Ok (ErrorReply 502 msg) | Panic \<Rightarrow> Panic)"

text \<open>What the handler reaches: the transport, its dialled addresses replaced or not; the local GAS proxy with the outcome of the
  dial, of writing the request and of reading the answer, for the first and the second try; the V2Ray core.\<close>

record http_env =
  heTransport :: "str list option \<Rightarrow> http_req \<Rightarrow> http_resp go"
  heGasDial :: "nat \<Rightarrow> bool"
  heGasWrite :: "nat \<Rightarrow> http_req \<Rightarrow> bool"
  heGasRead :: "nat \<Rightarrow> http_resp go"
  heV2Ray :: "int \<Rightarrow> http_req \<Rightarrow> http_resp go"

text \<open>A request whose body has been written once: its reader is at the end.\<close>

definition spent :: "http_req \<Rightarrow> http_req" where
  "spent q = q\<lparr>hqBody := []\<rparr>"

definition gasDirect :: "http_env \<Rightarrow> http_req \<Rightarrow> http_reply go" where
  "gasDirect he q =
     (case heTransport he None q of
        Ok resp \<Rightarrow> Ok (Reply resp) | Err e \<Rightarrow> Ok (ErrorReply 502 (''GAS fallback failed: '' @ e)) | Panic \<Rightarrow> Panic)"

definition handleGASHTTP :: "http_env \<Rightarrow> str \<Rightarrow> http_req \<Rightarrow> http_reply go" where
  "handleGASHTTP he gasDialAddr q =
     (if gasDialAddr = [] then gasDirect he q
      else if \<not> heGasDial he 0 then gasDirect he q
      else if \<not> heGasWrite he 0 q then Ok (ErrorReply 502 ''GAS proxy request failed'')
      else case heGasRead he 0 of
        Ok resp \<Rightarrow> Ok (Reply resp)
      | Panic \<Rightarrow> Panic
      | Err _ \<Rightarrow>
          if \<not> heGasDial he 1 then Ok (ErrorReply 502 ''GAS proxy response failed'')
          else if \<not> heGasWrite he 1 (spent q) then Ok (ErrorReply 502 ''GAS proxy request failed'')
          else copyReply ''GAS proxy response failed'' (heGasRead he 1))"

text \<open>The answer of the relay engine as a response: status line, header lines, body. Empty bytes stand for a nil answer. \<open>WriteHeader\<close>
  panics on a code that has not three digits.\<close>

definition splitColon :: "str \<Rightarrow> (str \<times> str) option" where
  "splitColon line = (case Index line '': '' of None \<Rightarrow> None | Some i \<Rightarrow> Some (take i line, drop (i + 2) line))"

definition relayStatus :: "str \<Rightarrow> int" where
  "relayStatus statusLine =
     (let parts = Split statusLine CHR '' '' in
      if length parts \<ge> 2 then (case Atoi (parts ! 1) of Ok c \<Rightarrow> c | _ \<Rightarrow> 200) else 200)"

definition relayHead :: "str list \<Rightarrow> str \<Rightarrow> http_reply go" where
  "relayHead ls body =
     (let code = relayStatus (hd ls) in
      if code < 100 \<or> code > 999 then Panic
      else Ok (Reply \<lparr>hrStatus = code,
        hrHeader = concat (map (\<lambda>l. case splitColon l of Some (k, v) \<Rightarrow> [(canonicalKey k, v)] | None \<Rightarrow> []) (tl ls)), hrBody = body\<rparr>))"

definition relayReply :: "str \<Rightarrow> http_reply go" where
  "relayReply response =
     (if response = [] then Ok (ErrorReply 502 ''GAS relay returned empty response'')
      else case Index response (crlf @ crlf) of
        None \<Rightarrow> Ok (ErrorReply 502 ''Invalid GAS relay response'')
      | Some idx \<Rightarrow> relayHead (SplitLines (take idx response)) (drop (idx + 4) response))"

text \<open>The first value of each header.\<close>

fun firstValues :: "header \<Rightarrow> header" where
  "firstValues [] = []"
| "firstValues ((k, v) # h) = (k, v) # firstValues (filter (\<lambda>p. fst p \<noteq> k) h)"

definition handleGASRelayHTTP :: "asker \<Rightarrow> key_order \<Rightarrow> http_req \<Rightarrow> gasRelay \<Rightarrow> (http_reply go \<times> gasRelay) option" where
  "handleGASRelayHTTP ask ord q r =
     (let headers = firstValues (hqHeader q); origin = headerValue ord headers ''origin'' in
      case ask (hqMethod q) (urlString q) headers (hqBody q) r of
        None \<Rightarrow> None
      | Some (Ok resp, r1) \<Rightarrow> Some (relayReply (if resp \<noteq> [] \<and> origin \<noteq> [] then gasInjectCORS resp origin else resp), r1)
      | Some (Err e, r1) \<Rightarrow> Some (Err e, r1)
      | Some (Panic, r1) \<Rightarrow> Some (Panic, r1))"

definition handleV2RayHTTP :: "http_env \<Rightarrow> int \<Rightarrow> http_req \<Rightarrow> http_reply go" where
  "handleV2RayHTTP he v2rayHTTPPort q =
     copyReply ''V2Ray proxy failed'' (heV2Ray he (if v2rayHTTPPort = 0 then 11809 else v2rayHTTPPort) q)"

text \<open>The clone of the request with what is missing filled in.\<close>

definition cloneReq :: "http_req \<Rightarrow> http_req" where
  "cloneReq q = q\<lparr>hqHeader := hDel ''Proxy-Connection'' (hqHeader q)\<rparr>"

definition completeReq :: "http_req \<Rightarrow> http_req" where
  "completeReq q =
     (let scheme = (if hqScheme q = [] then (if hqTLS q then ''https'' else ''http'') else hqScheme q);
          urlHost = (if hqURLHost q = [] then hqHost q else hqURLHost q)
      in q\<lparr>hqScheme := scheme, hqURLHost := urlHost, hqHost := (if hqHost q = [] then urlHost else hqHost q)\<rparr>)"

datatype http_route =
    RouteRelay http_req | RouteGAS str http_req | RouteV2Ray http_req | RouteRedirect str | RouteForward str "str list option" http_req

text \<open>Which way a request takes.\<close>

definition routeHTTP :: "net_env \<Rightarrow> Rule \<Rightarrow> http_req \<Rightarrow> ProxyServer \<Rightarrow> http_route blk" where
  "routeHTTP env rule req p =
     (let q0 = cloneReq req; q = completeReq q0;
          port = (if EqualFold (hqScheme q) ''https'' then ''443'' else ''80''); targetAddr = ensureAddrWithPort (hqURLHost q) port
      in if psGasRelay p then Done (RouteRelay q0)
         else if psGasDialAddr p \<noteq> [] then Done (RouteGAS (psGasDialAddr p) q0)
         else if rMode rule = ''v2ray'' then Done (RouteV2Ray q0)
         else if (rMode rule = ''mitm'' \<or> rMode rule = ''quic'') \<and> hqScheme q = ''http'' then Done (RouteRedirect (urlString (q\<lparr>hqScheme := ''https''\<rparr>)))
         else if rMode rule = ''gas'' \<or> rMode rule = ''direct'' then Done (RouteForward ''Failed to proxy'' None q)
         else
           bind_blk (buildDialCandidates env (psPool p) (normalizeHost (hqHost q)) targetAddr rule (rMode rule)) (\<lambda>cands.
             if rUpstream rule \<noteq> [] then
               Done (RouteForward ''Failed to connect to upstream'' None (case cands of c # _ \<Rightarrow> q\<lparr>hqURLHost := c\<rparr> | [] \<Rightarrow> q))
             else Done (RouteForward ''Failed to connect to upstream''
               (case cands of c # _ \<Rightarrow> if c \<noteq> targetAddr then Some (dedupeDialCandidates cands) else None | [] \<Rightarrow> None) q)))"

definition handleHTTPProxy ::
  "net_env \<Rightarrow> http_env \<Rightarrow> asker \<Rightarrow> key_order \<Rightarrow> int \<Rightarrow> Rule \<Rightarrow> http_req \<Rightarrow> gasRelay \<Rightarrow> ProxyServer \<Rightarrow> (http_reply go \<times> gasRelay) option blk" where
  "handleHTTPProxy env he ask ord v2Port rule req r p =
     bind_blk (routeHTTP env rule req p) (\<lambda>route. Done
       (case route of
          RouteRelay q \<Rightarrow> handleGASRelayHTTP ask ord q r
        | RouteGAS addr q \<Rightarrow> Some (handleGASHTTP he addr q, r)
        | RouteV2Ray q \<Rightarrow> Some (handleV2RayHTTP he v2Port q, r)
        | RouteRedirect url \<Rightarrow> Some (Ok (Redirect 301 url), r)
        | RouteForward msg cands q \<Rightarrow> Some (copyReply msg (heTransport he cands q), r)))"

section \<open>The server and QUIC modes\<close>

text \<open>A request of the decrypted client, forwarded to the worker of the server, or to the host itself over HTTP/3.\<close>

definition rootedPath :: "str \<Rightarrow> str" where
  "rootedPath path = (if path = [] \<or> \<not> HasPrefix path ''/'' then ''/'' @ TrimPrefix path ''/'' else path)"

definition workerURL :: "str \<Rightarrow> str \<Rightarrow> str \<Rightarrow> str \<Rightarrow> str \<Rightarrow> str" where
  "workerURL server auth host path rawQuery =
     ''https://'' @ server @ ''/'' @ auth @ ''/'' @ host @ rootedPath path @ (if rawQuery \<noteq> [] then ''?'' @ rawQuery else [])"

record mitm_req =
  mqMethod :: str
  mqPath :: str
  mqQuery :: str
  mqHeader :: header
  mqBody :: str

text \<open>The request that goes out: method, URL, \<open>Host\<close>, headers, body. \<open>parses\<close> says that \<open>http.NewRequest\<close> takes the method and
  the URL; \<open>exec\<close> is \<open>client.Do\<close>.\<close>

record forward_env =
  fwParses :: "str \<Rightarrow> str \<Rightarrow> bool"
  fwDo :: "str \<Rightarrow> str \<Rightarrow> str \<Rightarrow> header \<Rightarrow> str \<Rightarrow> http_resp go"

definition forwardReq :: "forward_env \<Rightarrow> str \<Rightarrow> str \<Rightarrow> mitm_req \<Rightarrow> http_reply go" where
  "forwardReq fw url host q =
     (if \<not> fwParses fw (mqMethod q) url then Ok (ErrorReply 500 ''Bad request'')
      else case fwDo fw (mqMethod q) url host (removeHopByHopHeaders (mqHeader q)) (mqBody q) of
        Ok resp \<Rightarrow> Ok (Reply (resp\<lparr>hrHeader := removeHopByHopHeaders (hrHeader resp)\<rparr>))
      | Err e \<Rightarrow> Ok (ErrorReply 502 ''Proxy error'')
      | Panic \<Rightarrow> Panic)"

definition serverForward :: "forward_env \<Rightarrow> str \<Rightarrow> str \<Rightarrow> str \<Rightarrow> mitm_req \<Rightarrow> http_reply go" where
  "serverForward fw server auth host q = forwardReq fw (workerURL server auth host (mqPath q) (mqQuery q)) server q"

definition quicForward :: "forward_env \<Rightarrow> str \<Rightarrow> mitm_req \<Rightarrow> http_reply go" where
  "quicForward fw host q =
     forwardReq fw (''https://'' @ host @ rootedPath (mqPath q) @ (if mqQuery q \<noteq> [] then ''?'' @ mqQuery q else [])) host q"

text \<open>The addresses without repetition, each at its first place.\<close>

fun keepFirst :: "str list \<Rightarrow> str list" where
  "keepFirst [] = []"
| "keepFirst (x # xs) = x # keepFirst (filter (\<lambda>y. y \<noteq> x) xs)"

definition serverCandidates :: "key_order \<Rightarrow> Rule \<Rightarrow> str \<Rightarrow> ProxyServer \<Rightarrow> str list blk" where
  "serverCandidates ord rule server p =
     bind_blk (case (rUseCFPool rule, psPool p) of (True, Some pool) \<Rightarrow> GetTopIPs ord 5 pool | _ \<Rightarrow> Done []) (\<lambda>top.
       let cands = keepFirst (map (\<lambda>ip. JoinHostPort ip ''443'') top); serverAddr = JoinHostPort server ''443'' in
       Done (if serverAddr \<in> set cands then cands else cands @ [serverAddr]))"

text \<open>The whole handler: the replies to the requests of the client; the client is closed at the end in every case. \<open>h2\<close> is the error of
  the HTTP/2 wrapper.\<close>

definition handleServerMITM ::
  "net_env \<Rightarrow> chain_verifier \<Rightarrow> spki_hash \<Rightarrow> mitm_env \<Rightarrow> str option \<Rightarrow> forward_env \<Rightarrow> tls_client \<Rightarrow>
   mitm_req list \<Rightarrow> str \<Rightarrow> Rule \<Rightarrow> cert_cache \<Rightarrow> ProxyServer \<Rightarrow> (mitm_act list \<times> http_reply go list \<times> cert_cache \<times> ProxyServer) blk" where
  "handleServerMITM env verify hash me h2 fw c reqs host rule cache p =
     (case meCA me of
        None \<Rightarrow> Done ([MCloseClient], [], cache, p)
      | Some (ca, _) \<Rightarrow>
          let (hs, cache1) = clientTLS me ca host [''http/1.1''] c cache; server = serverHost (psRules p) in
          if hs = None \<or> server = [] then Done ([MCloseClient], [], cache1, p)
          else
            bind_blk (serverCandidates (neOrder env) rule server p) (\<lambda>cands.
            bind_blk (establishUpstreamConn env verify hash server rule cands [] p) (\<lambda>(res, p1).
              case res of
                Ok (addr, proto, cfg) \<Rightarrow>
                  if proto = ''h2'' \<and> h2 \<noteq> None then Done ([MUpstream addr cfg, MCloseUpstream, MCloseClient], [], cache1, p1)
                  else Done ([MUpstream addr cfg, MCloseUpstream, MCloseClient], map (serverForward fw server (serverAuth (psRules p1)) host) reqs, cache1, p1)
              | _ \<Rightarrow> Done ([MCloseClient], [], cache1, p1))))"

definition handleQUICMITM ::
  "dns_env \<Rightarrow> resolver \<Rightarrow> mitm_env \<Rightarrow> (str list \<Rightarrow> utls_config \<Rightarrow> forward_env) \<Rightarrow> tls_client \<Rightarrow>
   mitm_req list \<Rightarrow> str \<Rightarrow> Rule \<Rightarrow> cert_cache \<Rightarrow> doh_state \<Rightarrow> (http_reply go list \<times> cert_cache \<times> doh_state) option" where
  "handleQUICMITM env rs me fw c reqs host rule cache st =
     (case meCA me of
        None \<Rightarrow> Some ([], cache, st)
      | Some (ca, _) \<Rightarrow>
          let (hs, cache1) = clientTLS me ca host [''http/1.1''] c cache in
          if hs = None then Some ([], cache1, st)
          else case newQUICRoundTripper env rs host rule st of
            None \<Rightarrow> None
          | Some (Ok (cands, cfg), st1) \<Rightarrow> Some (map (quicForward (fw cands cfg) host) reqs, cache1, st1)
          | Some (_, st1) \<Rightarrow> Some ([], cache1, st1))"

section \<open>CONNECT, directly and through GAS\<close>

datatype tunnel_act =
    TDial str | TClose str | TReject int str | TCloseClient | TEstablished | TTunnel str | TRelayTLS str int | TRelayRaw str int

definition directConnect :: "(str \<Rightarrow> bool) \<Rightarrow> client_env \<Rightarrow> bool \<Rightarrow> str \<Rightarrow> tunnel_act list" where
  "directConnect dialOK cl canHijack targetAuthority =
     (let addr = ensureAddrWithPort targetAuthority ''443'' in
      if \<not> dialOK addr then [TReject 502 ''Failed to connect'']
      else if \<not> canHijack then [TDial addr, TReject 500 ''Hijack not supported'', TClose addr]
      else if \<not> ceHijack cl then [TDial addr, TClose addr]
      else if \<not> ceWrite cl then [TDial addr, TCloseClient, TClose addr]
      else [TDial addr, TEstablished, TTunnel addr, TClose addr, TCloseClient])"

text \<open>\<open>handleGASConnect\<close>: the outcome of the CONNECT to the GAS proxy is its status, or an error of writing or reading.\<close>

definition handleGASConnect :: "(str \<Rightarrow> bool) \<Rightarrow> bool \<Rightarrow> int go \<Rightarrow> client_env \<Rightarrow> bool \<Rightarrow> str \<Rightarrow> str \<Rightarrow> tunnel_act list" where
  "handleGASConnect dialOK writeOK status cl canHijack gasAddr targetAuthority =
     (if gasAddr = [] \<or> \<not> dialOK gasAddr then directConnect dialOK cl canHijack targetAuthority
      else if \<not> writeOK then [TDial gasAddr, TReject 502 ''GAS CONNECT failed'', TClose gasAddr]
      else if status \<noteq> Ok 200 then [TDial gasAddr, TReject 502 ''GAS proxy rejected CONNECT'', TClose gasAddr]
      else if \<not> canHijack then [TDial gasAddr, TReject 500 ''Hijack not supported'', TClose gasAddr]
      else if \<not> ceHijack cl then [TDial gasAddr, TClose gasAddr]
      else if \<not> ceWrite cl then [TDial gasAddr, TCloseClient, TClose gasAddr]
      else [TDial gasAddr, TEstablished, TTunnel gasAddr, TCloseClient, TClose gasAddr])"

text \<open>\<open>handleGASRelayConnect\<close>: the client is decrypted where that is possible; otherwise its bytes go to \<open>relayRawTCPToGAS\<close>.\<close>

definition handleGASRelayConnect ::
  "(str \<Rightarrow> bool) \<Rightarrow> (str \<Rightarrow> bool) \<Rightarrow> mitm_env \<Rightarrow> tls_client \<Rightarrow> client_env \<Rightarrow> bool \<Rightarrow> bool \<Rightarrow> str \<Rightarrow> tunnel_act list" where
  "handleGASRelayConnect dialOK isIP me c cl canHijack hasRelay targetAuthority =
     (let (host, port) = gasSplitHostPort targetAuthority 443; raw = [TEstablished, TRelayRaw host port, TCloseClient] in
      if \<not> hasRelay then directConnect dialOK cl canHijack targetAuthority
      else if \<not> canHijack then [TReject 500 ''Hijack not supported'']
      else if \<not> ceHijack cl then []
      else if \<not> ceWrite cl then [TCloseClient]
      else if port = 443 then
        (case meCA me of
           Some (ca, True) \<Rightarrow>
             (case generateCertNow isIP (meSign me) (meNow me) ca host of
                Ok cert \<Rightarrow> if tcHandshake c cert [''http/1.1''] = None then raw else [TEstablished, TRelayTLS host port, TCloseClient]
              | _ \<Rightarrow> raw)
         | _ \<Rightarrow> raw)
      else raw)"

text \<open>The two loops that serve the bytes of such a client with the relay engine. They have no limit on the length of a head, and only the
  one for decrypted bytes skips blank lines between requests. \<open>True\<close> in the result is a panic.\<close>

function readLines :: "str list \<Rightarrow> str \<Rightarrow> (str list \<times> str) option" where
  "readLines reqHeaders inp =
     (case readLine inp of
        None \<Rightarrow> None
      | Some (ln, rest) \<Rightarrow> if blank ln then Some (reqHeaders @ [ln], rest) else readLines (reqHeaders @ [ln]) rest)"
  by pat_completeness auto
termination
  by (relation "measure (\<lambda>(_, inp). length inp)") (auto dest: readLine_shorter)

declare readLines.simps [simp del]

lemma readLines_shorter: "readLines hs inp = Some (hs', rest) \<Longrightarrow> length rest < length inp"
proof (induction hs inp rule: readLines.induct)
  case (1 hs inp)
  then obtain ln r where lr: "readLine inp = Some (ln, r)" by (auto simp: readLines.simps [of hs] split: option.splits)
  have "length r < length inp" using lr readLine_shorter by blast
  moreover have "length rest < length r" if "\<not> blank ln" using "1.IH" [OF lr refl] "1.prems" lr that by (simp add: readLines.simps [of hs])
  ultimately show ?case using "1.prems" lr by (cases "blank ln") (auto simp: readLines.simps [of hs])
qed

definition relayOne :: "asker \<Rightarrow> key_order \<Rightarrow> str \<Rightarrow> str \<Rightarrow> (str \<times> str) list \<Rightarrow> str \<Rightarrow> gasRelay \<Rightarrow> (str go \<times> gasRelay) option" where
  "relayOne ask ord mth urlStr headerMap body r =
     (let origin = headerValue ord headerMap ''origin'' in
      case ask mth urlStr headerMap body r of
        None \<Rightarrow> None
      | Some (Ok resp, r1) \<Rightarrow> Some (Ok (if origin \<noteq> [] then gasInjectCORS resp origin else resp), r1)
      | Some (e, r1) \<Rightarrow> Some (e, r1))"

function relayLoop ::
  "bool \<Rightarrow> asker \<Rightarrow> key_order \<Rightarrow> str \<Rightarrow> int \<Rightarrow> str \<Rightarrow> gasRelay \<Rightarrow> (str list \<times> bool \<times> gasRelay) option" where
  "relayLoop skipBlank ask ord host port inp r =
     (case readLine inp of
        None \<Rightarrow> Some ([], False, r)
      | Some (line, rest) \<Rightarrow>
          if skipBlank \<and> blank line then relayLoop skipBlank ask ord host port rest r
          else case readLines [line] rest of
            None \<Rightarrow> Some ([], False, r)
          | Some (reqHeaders, rest2) \<Rightarrow>
              let (mth, path) = gasParseRequestLine line;
                  body = fst (gasReadBody rest2 reqHeaders);
                  headerMap = gasParseHeaders (tl reqHeaders) []
              in (case relayOne ask ord mth (gasNormalizeURL host port path) headerMap body r of
                    None \<Rightarrow> None
                  | Some (Ok resp, r1) \<Rightarrow>
                      map_option (\<lambda>(ws, e). (resp # ws, e)) (relayLoop skipBlank ask ord host port (snd (gasReadBody rest2 reqHeaders)) r1)
                  | Some (_, r1) \<Rightarrow> Some ([], True, r1)))"
  by pat_completeness auto
termination
proof (relation "measure (\<lambda>(_, _, _, _, _, inp, _). length inp)", goal_cases)
  case 1
  show ?case by simp
next
  case 2
  then show ?case by (auto dest: readLine_shorter)
next
  case (3 skipBlank ask ord host port inp r lr line rest hr hs rest2)
  then have "length rest < length inp" "length rest2 < length rest" by (auto dest: readLine_shorter readLines_shorter)
  then show ?case using gasReadBody_shorter [of rest2 hs] by simp
qed

declare relayLoop.simps [simp del]

definition relayRawTCPToGAS :: "asker \<Rightarrow> key_order \<Rightarrow> str \<Rightarrow> int \<Rightarrow> str \<Rightarrow> gasRelay \<Rightarrow> (str list \<times> bool \<times> gasRelay) option" where
  "relayRawTCPToGAS = relayLoop False"

definition relayHTTPOverTLSOnRelay :: "asker \<Rightarrow> key_order \<Rightarrow> str \<Rightarrow> int \<Rightarrow> str \<Rightarrow> gasRelay \<Rightarrow> (str list \<times> bool \<times> gasRelay) option" where
  "relayHTTPOverTLSOnRelay = relayLoop True"

end
