(* ===== verification/HandlersTheorems.thy ===== *)
theory HandlersTheorems
  imports Handlers
begin

text \<open>
  Theorems on the request handlers: the headers that are passed on, the life of a generated certificate, the answers of the relay engine
  as responses, the two loops that serve decrypted requests, and the upstream of the MITM mode.
\<close>

section \<open>Headers\<close>

text \<open>The names that the first \<open>Connection\<close> header lists.\<close>

definition connectionNames :: "header \<Rightarrow> str list" where
  "connectionNames h =
     map canonicalKey (filter (\<lambda>n. n \<noteq> [] \<and> \<not> EqualFold n ''Upgrade'') (map trimString (Split (hGet ''Connection'' h) CHR '','')))"

lemma fold_hDel: "fold hDel ks h = filter (\<lambda>p. fst p \<notin> set (map canonicalKey ks)) h"
  by (induction ks arbitrary: h) (auto simp: hDel_def conj_commute intro: filter_cong)

lemma fold_hDel_if:
  "fold (\<lambda>f h. if P (g f) then hDel (g f) h else h) fs h = fold hDel (filter P (map g fs)) h"
  by (induction fs arbitrary: h) auto

lemma hop_canonical: "map canonicalKey hopByHopHeaders = hopByHopHeaders" "canonicalKey ''Connection'' = ''Connection''"
  by code_simp+

lemma Split_Nil_names: "filter (\<lambda>n. n \<noteq> [] \<and> Q n) (map trimString (Split [] c)) = []"
  by (simp add: trimString_def TrimSet_def TrimRightSet_def)

text \<open>What is passed on of the headers of a request or response: every header, in its order and with its values, except the hop-by-hop
  ones, those that the first \<open>Connection\<close> header names, and \<open>Connection\<close> itself.\<close>

theorem removeHopByHopHeaders_spec:
  "removeHopByHopHeaders h =
     filter (\<lambda>p. fst p \<notin> set hopByHopHeaders \<and> fst p \<noteq> ''Connection'' \<and> fst p \<notin> set (connectionNames h)) h"
proof -
  let ?ns = "filter (\<lambda>n. n \<noteq> [] \<and> \<not> EqualFold n ''Upgrade'') (map trimString (Split (hGet ''Connection'' h) CHR '',''))"
  note step = fold_hDel_if [of "\<lambda>n. n \<noteq> [] \<and> \<not> EqualFold n ''Upgrade''" trimString]
  have "removeHopByHopHeaders h = hDel ''Connection'' (fold hDel hopByHopHeaders (fold hDel ?ns h))"
    unfolding removeHopByHopHeaders_def Let_def
    by (cases "hGet ''Connection'' h = []")
      (simp_all only: if_False if_True not_True_eq_False not_False_eq_True step Split_Nil_names fold_simps(1) simp_thms)
  also have "\<dots> = filter (\<lambda>p. fst p \<notin> set hopByHopHeaders \<and> fst p \<noteq> ''Connection'' \<and> fst p \<notin> set (connectionNames h)) h"
    unfolding fold_hDel hop_canonical hDel_def connectionNames_def by (simp add: conj_ac)
  finally show ?thesis .
qed

section \<open>Generated certificates\<close>

text \<open>Certificates asked for one after another, each with its time, CA and host.\<close>

fun serveCerts :: "(leaf \<Rightarrow> str option) \<Rightarrow> (int \<times> str \<times> str) list \<Rightarrow> cert_cache \<Rightarrow> leaf go list \<times> cert_cache" where
  "serveCerts sign [] cache = ([], cache)"
| "serveCerts sign ((t, ca, host) # rs) cache =
     (let (c, cache1) = generateCert sign t ca host cache; (cs, cache2) = serveCerts sign rs cache1 in (c # cs, cache2))"

lemma generateCert_keeps: "cache h = Some cert \<Longrightarrow> snd (generateCert sign t ca host cache) h = Some cert"
  by (auto simp: generateCert_def Let_def split: option.splits)

lemma serveCerts_keeps: "cache h = Some cert \<Longrightarrow> snd (serveCerts sign rs cache) h = Some cert"
proof (induction sign rs cache rule: serveCerts.induct)
  case (2 sign t ca host rs cache)
  obtain c cache1 where g: "generateCert sign t ca host cache = (c, cache1)" by fastforce
  have "cache1 h = Some cert" using generateCert_keeps [where cache = cache and sign = sign and t = t and ca = ca and host = host, OF "2.prems"] g by simp
  then show ?case using "2.IH" [OF g [symmetric]] g by (cases "serveCerts sign rs cache1") simp
qed simp



section \<open>Answers of the relay engine\<close>

definition replyLine :: "str \<times> str \<Rightarrow> str" where
  "replyLine h = fst h @ '': '' @ snd h"

definition statusLineOf :: "nat \<Rightarrow> str \<Rightarrow> str" where
  "statusLineOf code reason = ''HTTP/1.1 '' @ itoa code @ '' '' @ reason"

definition clean_reply :: "str \<Rightarrow> header \<Rightarrow> bool" where
  "clean_reply reason hs = (CHR 0x0D \<notin> set reason \<and>
     (\<forall>h \<in> set hs. CHR 0x0D \<notin> set (fst h) \<and> CHR '':'' \<notin> set (fst h) \<and> CHR 0x0D \<notin> set (snd h)))"

lemma splitColon_replyLine: "CHR '':'' \<notin> set k \<Longrightarrow> splitColon (k @ '': '' @ v) = Some (k, v)"
proof -
  assume "CHR '':'' \<notin> set k"
  then have "Index (k @ '': '' @ v) '': '' = Some (length k)"
    by (induction k) (auto simp: HasPrefix_def)
  then show ?thesis by (simp add: splitColon_def)
qed

lemma relayStatus_line:
  assumes "code \<le> 999"
  shows "relayStatus (statusLineOf code reason) = int code"
proof -
  have "Split (statusLineOf code reason) CHR '' '' = ''HTTP/1.1'' # itoa code # Split reason CHR '' ''"
    using Split_append_sep [of "''HTTP/1.1''" "CHR '' ''" "itoa code @ CHR '' '' # reason"]
      Split_append_sep [of "itoa code" "CHR '' ''" reason] itoa_no [of "CHR '' ''" code]
    by (simp add: statusLineOf_def Split_no_occ)
  moreover have "Atoi (itoa code) = Ok (int code)" using assms by (intro Atoi_itoa) simp
  ultimately show ?thesis by (simp add: relayStatus_def)
qed

lemma reply_head_plain:
  assumes "clean_reply reason hs"
  shows "\<forall>l \<in> set (statusLineOf code reason # map replyLine hs). plain_line l"
  using assms itoa_no [of "CHR 0x0D" code] by (auto simp: clean_reply_def plain_line_def statusLineOf_def replyLine_def)

lemma SplitLines_head:
  assumes "\<forall>l \<in> set (l # ls). plain_line l"
  shows "SplitLines (take (length (headOf (l # ls)) - 2) (headOf (l # ls))) = l # ls"
  using assms
proof (induction ls arbitrary: l)
  case Nil
  then have "SplitLines l = [l]" by (induction l rule: SplitLines.induct) (auto simp: plain_line_def)
  then show ?case by (simp add: crlf_def)
next
  case (Cons m ls)
  have "length (headOf (l # m # ls)) - 2 = length (l @ crlf) + (length (headOf (m # ls)) - 2)" by (simp add: crlf_def)
  then show ?case using Cons by (simp add: SplitLines_line plain_line_def)
qed



section \<open>The loops on decrypted requests\<close>

lemma readHead_readLines: "readHead n hs inp = HeadDone hs' rest \<Longrightarrow> readLines hs inp = Some (hs', rest)"
proof (induction n hs inp rule: readHead.induct)
  case (1 n hs inp)
  then obtain ln r where lr: "readLine inp = Some (ln, r)" by (auto simp: readHead.simps [of n] split: option.splits)
  then show ?case using "1.IH" [OF lr refl] "1.prems"
    by (cases "blank ln") (auto simp: readHead.simps [of n] readLines.simps [of hs] split: if_splits)
qed

definition isPreflight :: "key_order \<Rightarrow> client_req \<Rightarrow> bool" where
  "isPreflight ord q = (ToUpper (cqMethod q) = ''OPTIONS'' \<and> headerValue ord (allHeaders q) ''access-control-request-method'' \<noteq> [])"

lemma relayOne_serveOne:
  "\<not> isPreflight ord q \<Longrightarrow> relayOne ask ord (cqMethod q) u (allHeaders q) b r = serveOne ask ord (cqMethod q) u (allHeaders q) b r"
  by (auto simp: relayOne_def serveOne_def isPreflight_def Let_def)

lemma relayLoop_request:
  assumes "clean_req q"
  shows "relayLoop skip ask ord host port (encodeReq q @ rest) r =
     (case relayOne ask ord (cqMethod q) (gasNormalizeURL host port (cqPath q)) (allHeaders q) (cqBody q) r of
        None \<Rightarrow> None
      | Some (Ok resp, r1) \<Rightarrow> map_option (\<lambda>(ws, e). (resp # ws, e)) (relayLoop skip ask ord host port rest r1)
      | Some (_, r1) \<Rightarrow> Some ([], True, r1))"
proof -
  obtain rest2 where facts: "readLine (encodeReq q @ rest) = Some (requestLine q @ crlf, rest2)" "\<not> blank (requestLine q @ crlf)"
    "readHead (length (requestLine q @ crlf)) [requestLine q @ crlf] rest2 = HeadDone (sentHead q) (cqBody q @ rest)"
    "gasParseHeaders (tl (sentHead q)) [] = allHeaders q" "gasReadBody (cqBody q @ rest) (sentHead q) = (cqBody q, rest)"
    using read_request [OF assms] by blast
  note lines = readHead_readLines [OF facts(3)]
  show ?thesis
    by (subst relayLoop.simps)
      (simp only: facts lines gasParseRequestLine_request [OF assms] option.case prod.case if_False simp_thms Let_def fst_conv snd_conv)
qed

text \<open>C33: The proxy serves decrypted requests as the separate GAS server does. On any requests in a row whose bodies have their announced
  lengths and of which none is a CORS preflight, both of its loops write the same answers, with the same state of the engine, as
  \<open>relayHTTPOverTLS\<close> of the server.\<close>

theorem relay_loops_agree:
  assumes "\<forall>q \<in> set qs. clean_req q \<and> \<not> isPreflight ord q"
  shows "relayHTTPOverTLSOnRelay ask ord host port (concat (map encodeReq qs)) r = relayHTTPOverTLS ask ord host port (concat (map encodeReq qs)) r \<and>
     relayRawTCPToGAS ask ord host port (concat (map encodeReq qs)) r = relayHTTPOverTLS ask ord host port (concat (map encodeReq qs)) r"
proof -
  have "relayLoop skip ask ord host port (concat (map encodeReq qs)) r = relayHTTPOverTLS ask ord host port (concat (map encodeReq qs)) r" for skip
    using assms
  proof (induction qs arbitrary: r)
    case Nil
    then show ?case by (simp add: relayLoop.simps relayHTTPOverTLS.simps readLine_def)
  next
    case (Cons q qs)
    then have q: "clean_req q" "\<not> isPreflight ord q" by simp_all
    show ?case using Cons
      by (simp add: relayLoop_request [OF q(1)] relayHTTPOverTLS_request [OF q(1)] relayOne_serveOne [OF q(2)] split: option.split go.split prod.split)
  qed
  then show ?thesis by (simp add: relayHTTPOverTLSOnRelay_def relayRawTCPToGAS_def)
qed

theorem relay_loops_agree_witness:
  "relayHTTPOverTLSOnRelay (\<lambda>m u h b r. Some (Ok (m @ u @ b), r)) (\<lambda>ks. ks) ''x.org'' 443 (concat (map encodeReq twoReqs)) (newGASRelay sampleGAS) =
   relayHTTPOverTLS (\<lambda>m u h b r. Some (Ok (m @ u @ b), r)) (\<lambda>ks. ks) ''x.org'' 443 (concat (map encodeReq twoReqs)) (newGASRelay sampleGAS)"
proof -
  have len: "itoa (Suc (Suc (Suc (Suc (Suc (Suc (Suc (Suc (Suc 0))))))))) = ''9''" "itoa 0 = ''0''" by code_simp+
  have "clean_req q \<and> \<not> isPreflight (\<lambda>ks. ks) q" if "q \<in> set twoReqs" for q
    using that unfolding twoReqs_def list.set insert_iff
    by (elim disjE) (simp_all add: clean_req_def clean_header_def one_line_def trimmed_def isSpace_def requestLine_def allHeaders_def
        hline_def len crlf_def ToLower_def lowerChar_def isPreflight_def ToUpper_def upperChar_def)
  then show ?thesis using relay_loops_agree [of twoReqs "\<lambda>ks. ks"] by simp
qed

section \<open>The MITM mode\<close>

text \<open>The shape of a tunnel: the upstream stands before the client is answered, and the client's handshake ran under a certificate for
  the name it asked for.\<close>

lemma handleMITM_tunnel:
  assumes "handleMITM env verify hash me c host rule cands addr0 cache p = Done (acts, cache', p')" and "MTunnel proto clientALPN \<in> set acts"
  obtains ca addr cfg where "meCA me = Some (ca, True)" "acts = [MUpstream addr cfg, MTunnel proto clientALPN]"
    "establishUpstreamConn env verify hash host rule (mitmCandidates cands addr0) [] p = Done (Ok (addr, proto, cfg), p')"
    "clientTLS me ca host (nextProtosForNegotiatedALPN proto) c cache = (Some clientALPN, cache')"
proof -
  obtain ca where ca: "meCA me = Some (ca, True)"
    using assms by (auto simp: handleMITM_def split: option.splits bool.splits prod.splits)
  obtain res p1 where e: "establishUpstreamConn env verify hash host rule (mitmCandidates cands addr0) [] p = Done (res, p1)"
    using assms(1) ca by (auto simp: handleMITM_def bind_blk_Done_iff)
  note run = assms(1) [unfolded handleMITM_def ca option.case prod.case bool.case e bind_blk.simps]
  obtain addr pr cfg where res: "res = Ok (addr, pr, cfg)" using run assms(2) by (cases res) auto
  obtain r cache1 where t: "clientTLS me ca host (nextProtosForNegotiatedALPN pr) c cache = (r, cache1)" by fastforce
  obtain alpn where r: "r = Some alpn" using run assms(2) res t by (cases r) auto
  have "acts = [MUpstream addr cfg, MTunnel pr alpn]" "cache' = cache1" "p' = p1" using run res t r by auto
  then show thesis using that [OF ca] assms(2) e res t r by auto
qed

lemma generateCert_host:
  assumes "generateCert sign t ca host cache = (Ok cert, cache')" and "\<forall>h x. cache h = Some x \<longrightarrow> lfHost x = h"
  shows "lfHost cert = normalizeHost host \<and> (\<forall>h x. cache' h = Some x \<longrightarrow> lfHost x = h)"
  using assms by (auto simp: generateCert_def Let_def split: option.splits if_splits)

text \<open>C32: What the MITM mode guarantees of a tunnel. When the handler joins client and upstream, the client completed its handshake under a
  certificate for the name in its ClientHello (for the host of the CONNECT if it sent none), offered exactly the protocols that fit
  the upstream's; and, the host not bypassed and no ECH configuration used, the upstream presented certificates that satisfy the policy of the rule.\<close>

theorem mitm_tunnel_checked:
  assumes "handleMITM env verify hash me c host rule cands addr0 cache p = Done (acts, cache', p')" and "MTunnel proto clientALPN \<in> set acts"
    and "\<forall>h x. cache h = Some x \<longrightarrow> lfHost x = h"
    and "hookHonoured env peers" and "normalizeHost host \<notin> set (psBypass p)"
    and "cvMode (normalizeCertVerifyConfig (rCertVerify rule) host) \<noteq> []"
  shows "\<exists>cert addr cfg. MUpstream addr cfg \<in> set acts \<and>
     lfHost cert = normalizeHost (mitmCertHost host (tcSNI c)) \<and>
     tcHandshake c cert (nextProtosForNegotiatedALPN proto) = Some clientALPN \<and>
     (ucECHConfigList cfg = [] \<longrightarrow> (\<exists>k x rest. peers addr k = x # rest \<and>
        policyOK verify hash host (normalizeCertVerifyConfig (rCertVerify rule) host) x rest))"
proof -
  obtain ca addr cfg where acts: "acts = [MUpstream addr cfg, MTunnel proto clientALPN]"
    and up: "establishUpstreamConn env verify hash host rule (mitmCandidates cands addr0) [] p = Done (Ok (addr, proto, cfg), p')"
    and tls: "clientTLS me ca host (nextProtosForNegotiatedALPN proto) c cache = (Some clientALPN, cache')"
    using handleMITM_tunnel [OF assms(1,2)] by metis
  obtain cert where g: "generateCert (meSign me) (meNow me) ca (mitmCertHost host (tcSNI c)) cache = (Ok cert, cache')"
    and hs: "tcHandshake c cert (nextProtosForNegotiatedALPN proto) = Some clientALPN"
    using tls by (auto simp: clientTLS_def mitmGetCertificate_def split: prod.splits go.splits)
  have "lfHost cert = normalizeHost (mitmCertHost host (tcSNI c))" using generateCert_host [OF g assms(3)] by blast
  moreover have "\<exists>k x rest. peers addr k = x # rest \<and> policyOK verify hash host (normalizeCertVerifyConfig (rCertVerify rule) host) x rest"
    if "ucECHConfigList cfg = []"
    using upstream_policy_unless_ECH [OF up assms(4-6)] that by simp
  ultimately show ?thesis using acts hs by auto
qed

text \<open>A client that accepts any certificate, an upstream with a pinned key.\<close>

definition pinnedCert :: Certificate where
  "pinnedCert = \<lparr>certCommonName = ''example.org'', certDNSNames = [], certRawSPKI = [7]\<rparr>"

definition pinnedRule :: Rule where
  "pinnedRule = zeroRule\<lparr>rCertVerify := zeroCertVerify\<lparr>cvMode := ''allow_spki'', cvSPKISHA256 := [''pin'']\<rparr>\<rparr>"

definition pinnedEnv :: net_env where
  "pinnedEnv = silentNet\<lparr>neDial := \<lambda>_ _. None, neHandshake := \<lambda>_ _ cfg. (case ucVerifyConnection cfg of
      None \<Rightarrow> HsFailed [] | Some check \<Rightarrow> if check [pinnedCert] = None then HsOK ''h2'' else HsFailed [])\<rparr>"

definition pinnedCfg :: utls_config where
  "pinnedCfg = plainConfig pinnedEnv (\<lambda>_ _ _. None) (\<lambda>_. ''pin'') ''example.org'' pinnedRule ''h2_h1'' sampleServer"

definition anyClient :: tls_client where
  "anyClient = \<lparr>tcSNI = ''www.example.org'', tcHandshake = \<lambda>_ _. Some ''h2''\<rparr>"

definition sampleMitm :: mitm_env where
  "sampleMitm = \<lparr>meSign = \<lambda>_. None, meNow = 0, meCA = Some (''CA'', True)\<rparr>"

lemma pinned_mode: "cvMode (normalizeCertVerifyConfig (rCertVerify pinnedRule) ''example.org'') \<noteq> []"
  by code_simp

lemma pinned_peer:
  "verifyPeer (\<lambda>_ _ _. None) (\<lambda>_. ''pin'') ''example.org'' (normalizeCertVerifyConfig (rCertVerify pinnedRule) ''example.org'') [pinnedCert] = None"
  by code_simp

lemma pinned_hook: "hookHonoured pinnedEnv (\<lambda>_ _. [pinnedCert])"
  by (auto simp: hookHonoured_def pinnedEnv_def split: option.splits if_splits)

lemma pinned_config:
  "ucVerifyConnection pinnedCfg = Some (verifyPeer (\<lambda>_ _ _. None) (\<lambda>_. ''pin'') ''example.org'' (normalizeCertVerifyConfig (rCertVerify pinnedRule) ''example.org''))"
  "ucECHConfigList pinnedCfg = []"
  using pinned_mode by (simp_all add: pinnedCfg_def plainConfig_def GetUConn_def buildVerifyConnection_def sampleServer_def Let_def)

lemma pinned_upstream:
  "establishUpstreamConn pinnedEnv (\<lambda>_ _ _. None) (\<lambda>_. ''pin'') ''example.org'' pinnedRule [''1.1.1.1:443''] [] sampleServer =
     Done (Ok (''1.1.1.1:443'', ''h2'', pinnedCfg), sampleServer)"
proof -
  have proto: "plainProto pinnedEnv pinnedCfg 0 ''1.1.1.1:443'' = Some ''h2''"
    using pinned_config(1) pinned_peer by (simp add: plainProto_def pinnedEnv_def)
  have "\<not> rECHEnabled pinnedRule" "\<not> rUseCFPool pinnedRule" by (simp_all add: pinnedRule_def zeroRule_def)
  from tryAddrs_plain [OF this pinnedCfg_def, of 0 "[''1.1.1.1:443'']"] proto
  obtain errs where "tryAddrs pinnedEnv (\<lambda>_ _ _. None) (\<lambda>_. ''pin'') 0 ''example.org'' pinnedRule ''h2_h1'' [''1.1.1.1:443''] sampleServer =
      Done (Some (''1.1.1.1:443'', ''h2'', pinnedCfg), errs, sampleServer)" by auto
  then show ?thesis by (simp add: establishUpstreamConn_def orderedCandidates_def Let_def)
qed

theorem mitm_tunnel_checked_witness:
  "\<exists>cert :: leaf. lfHost cert = ''www.example.org'' \<and>
     (\<exists>x rest. [pinnedCert] = x # rest \<and>
       policyOK (\<lambda>_ _ _. None) (\<lambda>_. ''pin'') ''example.org'' (normalizeCertVerifyConfig (rCertVerify pinnedRule) ''example.org'') x rest)"
proof -
  have bypass: "normalizeHost ''example.org'' \<notin> set (psBypass sampleServer)" by (simp add: sampleServer_def)
  have cert: "normalizeHost (mitmCertHost ''example.org'' (tcSNI anyClient)) = ''www.example.org''" by code_simp
  have cands: "mitmCandidates [''1.1.1.1:443''] [] = [''1.1.1.1:443'']" by code_simp
  have ca: "meCA sampleMitm = Some (''CA'', True)" by (simp add: sampleMitm_def)
  obtain cache1 where tls: "clientTLS sampleMitm ''CA'' ''example.org'' (nextProtosForNegotiatedALPN ''h2'') anyClient Map.empty = (Some ''h2'', cache1)"
    by (simp add: clientTLS_def mitmGetCertificate_def generateCert_def sampleMitm_def anyClient_def Let_def)
  have run: "handleMITM pinnedEnv (\<lambda>_ _ _. None) (\<lambda>_. ''pin'') sampleMitm anyClient ''example.org'' pinnedRule [''1.1.1.1:443''] [] Map.empty sampleServer =
      Done ([MUpstream ''1.1.1.1:443'' pinnedCfg, MTunnel ''h2'' ''h2''], cache1, sampleServer)"
    using tls ca by (simp add: handleMITM_def cands pinned_upstream)
  have mem: "MTunnel ''h2'' ''h2'' \<in> set [MUpstream ''1.1.1.1:443'' pinnedCfg, MTunnel ''h2'' ''h2'']" by simp
  have empty: "\<forall>h x. (Map.empty :: cert_cache) h = Some x \<longrightarrow> lfHost x = h" by simp
  show ?thesis using mitm_tunnel_checked [OF run mem empty pinned_hook bypass pinned_mode] pinned_config(2) cert by auto
qed

section \<open>Plain requests\<close>

text \<open>Under a rule of the MITM or QUIC mode, a plain request leaves the machine in no way unless GAS is on: the client is sent
  to the same host, path and query over HTTPS, with status 301, and neither the transport nor the core nor the relay is asked.\<close>

theorem plain_request_redirected:
  assumes "rMode rule = ''mitm'' \<or> rMode rule = ''quic''" and "\<not> psGasRelay p" and "psGasDialAddr p = []"
    and "hqScheme req = ''http'' \<or> hqScheme req = [] \<and> \<not> hqTLS req"
  shows "handleHTTPProxy env he ask ord port rule req r p =
     Done (Some (Ok (Redirect 301 (''https://'' @ (if hqURLHost req = [] then hqHost req else hqURLHost req) @ hqPath req)), r))"
proof -
  have "rMode rule \<noteq> ''v2ray''" using assms(1) by auto
  then show ?thesis using assms by (auto simp: handleHTTPProxy_def routeHTTP_def completeReq_def cloneReq_def urlString_def Let_def)
qed

theorem plain_request_redirected_witness:
  "\<forall>he ask ord r. handleHTTPProxy silentNet he ask ord 0 (zeroRule\<lparr>rMode := ''mitm''\<rparr>)
     \<lparr>hqMethod = ''GET'', hqScheme = ''http'', hqURLHost = ''x.org'', hqHost = ''x.org'', hqPath = ''/a?b'', hqHeader = [], hqBody = [], hqTLS = False\<rparr>
     r sampleServer = Done (Some (Ok (Redirect 301 ''https://x.org/a?b''), r))"
  using plain_request_redirected [of "zeroRule\<lparr>rMode := ''mitm''\<rparr>" sampleServer
     "\<lparr>hqMethod = ''GET'', hqScheme = ''http'', hqURLHost = ''x.org'', hqHost = ''x.org'', hqPath = ''/a?b'', hqHeader = [], hqBody = [], hqTLS = False\<rparr>"]
  by (simp add: sampleServer_def)

end
