(* ===== verification/CertStore.thy ===== *)
theory CertStore
  imports GfwList
begin

text \<open>
  The certificate authority of the proxy: \<open>src/cert/cert.go\<close> (its files, the status, installing and removing),
  \<open>src/cert/installer.go\<close> (the trust stores of the platforms and of Firefox) and the commands of
  \<open>src/cert/exec_windows.go\<close>.

  \<^item> \<open>cert_world\<close> has the files by their paths, the commands that were run, and the number of actions on the outside so far, which is
    the time at which \<open>cert_env\<close> says how the next one ends.
  \<^item> \<open>cert_env\<close> holds what is not in these files: keys, X.509 and PEM encodings, JSON, failures of reading and writing, the outcome
    of a command and its effect on the files. Errors are \<open>Inl\<close>.
  \<^item> The two long PowerShell scripts are named by the thumbprint that is put into them.
  \<^item> \<open>filepath.Join\<close> is modelled for parts that are clean.
\<close>

section \<open>The outside world\<close>

record ca_cert =
  ccRaw :: str
  ccCN :: str

record InstalledCert =
  icSubject :: str
  icThumbprint :: str
  icNotAfter :: str
  icStoreName :: str
  icStoreLocation :: str
  icToken :: str

record CAInstallStatus =
  csInstalled :: bool
  csPlatform :: str
  csCertPath :: str
  csInstallHelp :: str

datatype command = Cmd "str list" | ScriptFind str | ScriptList str

type_synonym files = "str \<rightharpoonup> str"

record cert_env =
  ceGOOS :: str
  ceNow :: "nat \<Rightarrow> int"
  ceGenKey :: "nat \<Rightarrow> str + str"
  ceSign :: "nat \<Rightarrow> str \<Rightarrow> str + str"
  ceParse :: "str \<Rightarrow> str + ca_cert"
  cePEM :: "str \<Rightarrow> str \<Rightarrow> str"
  ceDecodePEM :: "str \<Rightarrow> str option"
  ceMarshalKey :: "str \<Rightarrow> str"
  ceParseKey :: "str \<Rightarrow> str + str"
  ceSHA1 :: "str \<Rightarrow> str"
  ceMkdir :: "nat \<Rightarrow> str \<Rightarrow> str option"
  ceCreate :: "nat \<Rightarrow> str \<Rightarrow> str option"
  ceWrite :: "nat \<Rightarrow> str \<Rightarrow> (str \<times> str) option"
  ceReadErr :: "nat \<Rightarrow> str \<Rightarrow> str option"
  ceRemove :: "nat \<Rightarrow> str \<Rightarrow> bool"
  ceRun :: "nat \<Rightarrow> command \<Rightarrow> str \<times> str option"
  ceEffect :: "nat \<Rightarrow> command \<Rightarrow> files \<Rightarrow> files"
  ceJSONs :: "str \<Rightarrow> str + InstalledCert list"
  ceJSON :: "str \<Rightarrow> str + InstalledCert"
  ceGetenv :: "str \<Rightarrow> str"
  ceGlob :: "str \<Rightarrow> str list"
  ceLookPath :: bool

record cert_world =
  kwFiles :: files
  kwTime :: nat
  kwCommands :: "command list"

record CertManager =
  cmCert :: "ca_cert option"
  cmKey :: "str option"
  cmCaPath :: str
  cmKeyPath :: str
  cmLastStatus :: CAInstallStatus
  cmLastCheck :: "int option"

type_synonym cm_state = "CertManager \<times> cert_world"

definition tick :: "cert_world \<Rightarrow> cert_world" where
  "tick w = w\<lparr>kwTime := Suc (kwTime w)\<rparr>"

datatype read_end = NotExist | ReadErr str | Content str

definition readFile :: "cert_env \<Rightarrow> str \<Rightarrow> cert_world \<Rightarrow> read_end" where
  "readFile env path w =
     (case kwFiles w path of
        None \<Rightarrow> NotExist
      | Some s \<Rightarrow> (case ceReadErr env (kwTime w) path of Some e \<Rightarrow> ReadErr e | None \<Rightarrow> Content s))"

text \<open>Creating a file empties it; a write that fails may leave a part.\<close>

definition writeFile :: "cert_env \<Rightarrow> str \<Rightarrow> str \<Rightarrow> cert_world \<Rightarrow> str option \<times> cert_world" where
  "writeFile env path s w =
     (case ceCreate env (kwTime w) path of
        Some e \<Rightarrow> (Some e, tick w)
      | None \<Rightarrow>
          (case ceWrite env (kwTime w) path of
             None \<Rightarrow> (None, tick (w\<lparr>kwFiles := (kwFiles w)(path \<mapsto> s)\<rparr>))
           | Some (part, e) \<Rightarrow> (Some e, tick (w\<lparr>kwFiles := (kwFiles w)(path \<mapsto> part)\<rparr>))))"

definition removeFile :: "cert_env \<Rightarrow> str \<Rightarrow> cert_world \<Rightarrow> cert_world" where
  "removeFile env path w =
     (if ceRemove env (kwTime w) path then tick (w\<lparr>kwFiles := (kwFiles w)(path := None)\<rparr>) else tick w)"

definition fileExists :: "str \<Rightarrow> cert_world \<Rightarrow> bool" where
  "fileExists path w = (kwFiles w path \<noteq> None)"

definition copyFile :: "cert_env \<Rightarrow> str \<Rightarrow> str \<Rightarrow> cert_world \<Rightarrow> str option \<times> cert_world" where
  "copyFile env src dst w =
     (case readFile env src w of
        Content s \<Rightarrow> writeFile env dst s w
      | ReadErr e \<Rightarrow> (Some e, w)
      | NotExist \<Rightarrow> (Some ''file does not exist'', w))"

definition pathSep :: "cert_env \<Rightarrow> str" where
  "pathSep env = (if ceGOOS env = ''windows'' then [CHR 0x5C] else ''/'')"

definition pathJoin :: "cert_env \<Rightarrow> str list \<Rightarrow> str" where
  "pathJoin env parts = Join (filter (\<lambda>p. p \<noteq> []) parts) (pathSep env)"

section \<open>Commands\<close>

definition runCommand :: "cert_env \<Rightarrow> command \<Rightarrow> cert_world \<Rightarrow> (str \<times> str option) \<times> cert_world" where
  "runCommand env c w =
     (ceRun env (kwTime w) c,
      tick (w\<lparr>kwFiles := ceEffect env (kwTime w) c (kwFiles w), kwCommands := kwCommands w @ [c]\<rparr>))"

definition runHiddenCommand :: "cert_env \<Rightarrow> str list \<Rightarrow> cert_world \<Rightarrow> str option \<times> cert_world" where
  "runHiddenCommand env cmd w = (let (r, w1) = runCommand env (Cmd cmd) w in (snd r, w1))"

text \<open>\<open>runCmd\<close>: without \<open>check\<close> an error is dropped.\<close>

definition runCmd :: "cert_env \<Rightarrow> str list \<Rightarrow> bool \<Rightarrow> cert_world \<Rightarrow> (str \<times> str option) \<times> cert_world" where
  "runCmd env cmd check w = (let (r, w1) = runCommand env (Cmd cmd) w in ((fst r, if check then snd r else None), w1))"

abbreviation quoteChar :: str where "quoteChar \<equiv> [CHR 0x27]"

definition psEscape :: "str \<Rightarrow> str" where
  "psEscape s = ReplaceAll s quoteChar (quoteChar @ quoteChar)"

definition psQuoted :: "str \<Rightarrow> str" where
  "psQuoted s = quoteChar @ psEscape s @ quoteChar"

definition elevatedScript :: "str \<Rightarrow> str list \<Rightarrow> str" where
  "elevatedScript name args =
     ''$p = Start-Process -FilePath '' @ psQuoted name @ '' -ArgumentList @('' @ Join (map psQuoted args) '','' @
     '') -Verb RunAs -Wait -PassThru; exit $p.ExitCode''"

definition runElevatedCommand :: "cert_env \<Rightarrow> str \<Rightarrow> str list \<Rightarrow> cert_world \<Rightarrow> str option \<times> cert_world" where
  "runElevatedCommand env name args w = runHiddenCommand env [''powershell'', ''-NoProfile'', ''-Command'', elevatedScript name args] w"

section \<open>The files of the authority\<close>

definition NewCertManager :: "str \<Rightarrow> str \<Rightarrow> CertManager" where
  "NewCertManager caPath keyPath = \<lparr>cmCert = None, cmKey = None, cmCaPath = caPath, cmKeyPath = keyPath,
     cmLastStatus = \<lparr>csInstalled = False, csPlatform = [], csCertPath = [], csInstallHelp = []\<rparr>, cmLastCheck = None\<rparr>"

text \<open>\<open>saveCA\<close> is called with a certificate and a key.\<close>

definition saveCA :: "cert_env \<Rightarrow> ca_cert \<Rightarrow> str \<Rightarrow> cm_state \<Rightarrow> str option \<times> cm_state" where
  "saveCA env cert key s =
     (let (cm, w) = s in
      case writeFile env (cmCaPath cm) (cePEM env ''CERTIFICATE'' (ccRaw cert)) w of
        (Some e, w1) \<Rightarrow> (Some e, (cm, w1))
      | (None, w1) \<Rightarrow>
          let (e, w2) = writeFile env (cmKeyPath cm) (cePEM env ''RSA PRIVATE KEY'' (ceMarshalKey env key)) w1 in (e, (cm, w2)))"

definition generateCAUnlocked :: "cert_env \<Rightarrow> cm_state \<Rightarrow> str option \<times> cm_state" where
  "generateCAUnlocked env s =
     (let (cm, w) = s in
      case ceGenKey env (kwTime w) of
        Inl e \<Rightarrow> (Some (''failed to generate CA private key: '' @ e), (cm, tick w))
      | Inr key \<Rightarrow>
          (case ceSign env (kwTime w) key of
             Inl e \<Rightarrow> (Some (''failed to create CA certificate: '' @ e), (cm, tick w))
           | Inr der \<Rightarrow>
               (case ceParse env der of
                  Inl e \<Rightarrow> (Some e, (cm, tick w))
                | Inr cert \<Rightarrow> saveCA env cert key (cm\<lparr>cmCert := Some cert, cmKey := Some key\<rparr>, tick w))))"

definition GenerateCA :: "cert_env \<Rightarrow> cm_state \<Rightarrow> str option \<times> cm_state" where
  "GenerateCA env s = generateCAUnlocked env s"

text \<open>The key that belongs to a loaded certificate; nothing compares the two.\<close>

definition loadKey :: "cert_env \<Rightarrow> ca_cert \<Rightarrow> cm_state \<Rightarrow> str option \<times> cm_state" where
  "loadKey env cert s =
     (let (cm, w) = s in
      case readFile env (cmKeyPath cm) w of
        NotExist \<Rightarrow> (Some ''file does not exist'', s)
      | ReadErr e \<Rightarrow> (Some e, s)
      | Content keyData \<Rightarrow>
          (case ceDecodePEM env keyData of
             None \<Rightarrow> (Some (''failed to decode CA key PEM from '' @ cmKeyPath cm), s)
           | Some b \<Rightarrow>
               (case ceParseKey env b of
                  Inl e \<Rightarrow> (Some e, s)
                | Inr key \<Rightarrow> (None, (cm\<lparr>cmCert := Some cert, cmKey := Some key\<rparr>, w)))))"

definition LoadCA :: "cert_env \<Rightarrow> cm_state \<Rightarrow> str option \<times> cm_state" where
  "LoadCA env s =
     (let (cm, w) = s in
      case readFile env (cmCaPath cm) w of
        NotExist \<Rightarrow> generateCAUnlocked env s
      | ReadErr e \<Rightarrow> (Some e, s)
      | Content caData \<Rightarrow>
          (case ceDecodePEM env caData of
             None \<Rightarrow> (Some (''failed to decode CA certificate PEM from '' @ cmCaPath cm), s)
           | Some b \<Rightarrow> (case ceParse env b of Inl e \<Rightarrow> (Some e, s) | Inr cert \<Rightarrow> loadKey env cert s)))"

definition GetCACertPEM :: "cert_env \<Rightarrow> CertManager \<Rightarrow> str" where
  "GetCACertPEM env cm = (case cmCert cm of None \<Rightarrow> [] | Some c \<Rightarrow> cePEM env ''CERTIFICATE'' (ccRaw c))"

definition ExportCert :: "cert_env \<Rightarrow> CertManager \<Rightarrow> str + str" where
  "ExportCert env cm =
     (case cmCert cm of None \<Rightarrow> Inl ''no CA certificate available'' | Some c \<Rightarrow> Inr (cePEM env ''CERTIFICATE'' (ccRaw c)))"

definition invalidateInstallStatusCache :: "CertManager \<Rightarrow> CertManager" where
  "invalidateInstallStatusCache cm = cm\<lparr>cmLastCheck := None\<rparr>"

definition certOfFile :: "cert_env \<Rightarrow> str \<Rightarrow> cert_world \<Rightarrow> ca_cert option" where
  "certOfFile env path w =
     (case readFile env path w of
        Content s \<Rightarrow> (case ceDecodePEM env s of None \<Rightarrow> None | Some b \<Rightarrow> (case ceParse env b of Inr c \<Rightarrow> Some c | Inl _ \<Rightarrow> None))
      | _ \<Rightarrow> None)"

definition getCertCN :: "cert_env \<Rightarrow> str \<Rightarrow> cert_world \<Rightarrow> str" where
  "getCertCN env path w = (case certOfFile env path w of Some c \<Rightarrow> ccCN c | None \<Rightarrow> [])"

definition certThumbprint :: "cert_env \<Rightarrow> str \<Rightarrow> cert_world \<Rightarrow> str" where
  "certThumbprint env path w = (case certOfFile env path w of Some c \<Rightarrow> ToUpper (ceSHA1 env (ccRaw c)) | None \<Rightarrow> [])"

text \<open>Whether the authority of the fallback directory replaces the one in the target directory.\<close>

definition shouldCopy :: "cert_env \<Rightarrow> str \<Rightarrow> str \<Rightarrow> str \<Rightarrow> cert_world \<Rightarrow> bool" where
  "shouldCopy env fallbackCert targetCert targetKey w =
     (if \<not> fileExists targetCert w \<or> \<not> fileExists targetKey w then True
      else
        let fallbackCN = getCertCN env fallbackCert w; targetCN = getCertCN env targetCert w in
        fallbackCN \<noteq> [] \<and> targetCN \<noteq> [] \<and> fallbackCN \<noteq> targetCN \<and> Contains (ToLower fallbackCN) ''mhr-gas'')"

definition adoptFallback :: "cert_env \<Rightarrow> str \<Rightarrow> str \<Rightarrow> str \<Rightarrow> cert_world \<Rightarrow> cert_world" where
  "adoptFallback env fallbackCADir targetCert targetKey w =
     (let fallbackCert = pathJoin env [fallbackCADir, ''ca.crt'']; fallbackKey = pathJoin env [fallbackCADir, ''ca.key''] in
      if fallbackCADir \<noteq> [] \<and> fileExists fallbackCert w \<and> fileExists fallbackKey w \<and> shouldCopy env fallbackCert targetCert targetKey w
      then snd (copyFile env fallbackKey targetKey (snd (copyFile env fallbackCert targetCert w)))
      else w)"

definition InitCertManagerWithFallback :: "cert_env \<Rightarrow> str \<Rightarrow> str \<Rightarrow> cert_world \<Rightarrow> (str + CertManager) \<times> cert_world" where
  "InitCertManagerWithFallback env certDir fallbackCADir w =
     (case ceMkdir env (kwTime w) certDir of
        Some e \<Rightarrow> (Inl (''failed to create cert dir '' @ certDir @ '': '' @ e), tick w)
      | None \<Rightarrow>
          let targetCert = pathJoin env [certDir, ''ca.crt'']; targetKey = pathJoin env [certDir, ''ca.key''];
              w1 = adoptFallback env fallbackCADir targetCert targetKey (tick w)
          in case LoadCA env (NewCertManager targetCert targetKey, w1) of
               (None, cm, w2) \<Rightarrow> (Inr cm, w2)
             | (Some e, cm, w2) \<Rightarrow>
                 (case GenerateCA env (cm, removeFile env (cmKeyPath cm) (removeFile env (cmCaPath cm) w2)) of
                    (None, cm2, w3) \<Rightarrow> (Inr cm2, w3)
                  | (Some g, cm2, w3) \<Rightarrow> (Inl (''load existing CA failed: '' @ e @ ''; regenerate failed: '' @ g), w3)))"

definition InitCertManager :: "cert_env \<Rightarrow> str \<Rightarrow> cert_world \<Rightarrow> (str + CertManager) \<times> cert_world" where
  "InitCertManager env certDir w = InitCertManagerWithFallback env certDir [] w"

section \<open>Trust stores\<close>

abbreviation certName :: str where "certName \<equiv> ''NovaProxy GAS''"

text \<open>Firefox: one or two commands per profile, their errors dropped.\<close>

definition firefoxProfiles :: "cert_env \<Rightarrow> str list" where
  "firefoxProfiles env =
     (if ceGOOS env = ''windows'' then
        (if ceGetenv env ''APPDATA'' \<noteq> [] then ceGlob env (pathJoin env [ceGetenv env ''APPDATA'', ''Mozilla'', ''Firefox'', ''Profiles'', ''*'']) else [])
      else if ceGOOS env = ''darwin'' then
        ceGlob env (pathJoin env [ceGetenv env ''HOME'', ''Library'', ''Application Support'', ''Firefox'', ''Profiles'', ''*''])
      else ceGlob env (pathJoin env [ceGetenv env ''HOME'', ''.mozilla'', ''firefox'', ''*.default*'']) @
        ceGlob env (pathJoin env [ceGetenv env ''HOME'', ''.mozilla'', ''firefox'', ''*.release*'']))"

definition firefoxDB :: "cert_env \<Rightarrow> str \<Rightarrow> cert_world \<Rightarrow> str" where
  "firefoxDB env profile w = (if fileExists (pathJoin env [profile, ''cert9.db'']) w then ''sql:'' @ profile else ''dbm:'' @ profile)"

definition installCAFirefox :: "cert_env \<Rightarrow> str \<Rightarrow> str \<Rightarrow> cert_world \<Rightarrow> cert_world" where
  "installCAFirefox env certPath name w =
     (if \<not> ceLookPath env then w
      else fold (\<lambda>profile w.
          let db = firefoxDB env profile w; w1 = snd (runCmd env [''certutil'', ''-D'', ''-n'', name, ''-d'', db] False w)
          in snd (runCmd env [''certutil'', ''-A'', ''-n'', name, ''-t'', ''CT,,'', ''-i'', certPath, ''-d'', db] True w1))
        (firefoxProfiles env) w)"

definition uninstallCAFirefox :: "cert_env \<Rightarrow> str \<Rightarrow> cert_world \<Rightarrow> cert_world" where
  "uninstallCAFirefox env name w =
     (if \<not> ceLookPath env then w
      else fold (\<lambda>profile w. snd (runCmd env [''certutil'', ''-D'', ''-n'', name, ''-d'', firefoxDB env profile w] False w))
        (firefoxProfiles env) w)"

text \<open>The first of the commands that succeeds.\<close>

fun firstSuccess :: "cert_env \<Rightarrow> str list list \<Rightarrow> cert_world \<Rightarrow> bool \<times> cert_world" where
  "firstSuccess env [] w = (False, w)"
| "firstSuccess env (c # cs) w =
     (let (r, w1) = runCmd env c True w in if snd r = None then (True, w1) else firstSuccess env cs w1)"

text \<open>\<open>certPath\<close> goes into the script of \<open>Import-Certificate\<close> as it is, between single quotes.\<close>

definition importScript :: "str \<Rightarrow> str" where
  "importScript certPath = ''Import-Certificate -FilePath '' @ quoteChar @ certPath @ quoteChar @ '' -CertStoreLocation Cert:'' @
     [CHR 0x5C] @ ''CurrentUser'' @ [CHR 0x5C] @ ''Root''"

definition installCAWindows :: "cert_env \<Rightarrow> str \<Rightarrow> cert_world \<Rightarrow> bool \<times> cert_world" where
  "installCAWindows env certPath w =
     (let (userOk, w1) = firstSuccess env
            [[''certutil'', ''-addstore'', ''-user'', ''Root'', certPath], [''powershell'', ''-NoProfile'', ''-Command'', importScript certPath]] w;
          (machineOk, w2) = firstSuccess env [[''certutil'', ''-addstore'', ''Root'', certPath]] w1
      in (userOk \<or> machineOk, w2))"

definition uninstallCAWindows :: "cert_env \<Rightarrow> str \<Rightarrow> str \<Rightarrow> cert_world \<Rightarrow> bool \<times> cert_world" where
  "uninstallCAWindows env certPath name w =
     (let thumb = certThumbprint env certPath w; target = (if thumb \<noteq> [] then thumb else name) in
      firstSuccess env [[''certutil'', ''-delstore'', ''-user'', ''Root'', target], [''certutil'', ''-delstore'', ''Root'', target]] w)"

definition isTrustedCAWindows :: "cert_env \<Rightarrow> str \<Rightarrow> cert_world \<Rightarrow> bool \<times> cert_world" where
  "isTrustedCAWindows env certPath w =
     (let ((out, err), w1) = runCmd env [''certutil'', ''-user'', ''-store'', ''Root''] True w; thumb = certThumbprint env certPath w1
      in (err = None \<and> thumb \<noteq> [] \<and> Contains (ToUpper out) thumb, w1))"

definition loginKeychain :: "cert_env \<Rightarrow> str" where
  "loginKeychain env = pathJoin env [ceGetenv env ''HOME'', ''Library/Keychains/login.keychain-db'']"

definition installCAMacOS :: "cert_env \<Rightarrow> str \<Rightarrow> cert_world \<Rightarrow> bool \<times> cert_world" where
  "installCAMacOS env certPath w = firstSuccess env
     [[''security'', ''add-trusted-cert'', ''-d'', ''-r'', ''trustRoot'', ''-k'', loginKeychain env, certPath],
      [''sudo'', ''security'', ''add-trusted-cert'', ''-d'', ''-r'', ''trustRoot'', ''-k'', ''/Library/Keychains/System.keychain'', certPath]] w"

definition uninstallCAMacOS :: "cert_env \<Rightarrow> str \<Rightarrow> cert_world \<Rightarrow> bool \<times> cert_world" where
  "uninstallCAMacOS env name w = firstSuccess env
     [[''security'', ''delete-certificate'', ''-c'', name, loginKeychain env],
      [''sudo'', ''security'', ''delete-certificate'', ''-c'', name, ''/Library/Keychains/System.keychain'']] w"

definition isTrustedCAMacOS :: "cert_env \<Rightarrow> str \<Rightarrow> cert_world \<Rightarrow> bool \<times> cert_world" where
  "isTrustedCAMacOS env name w =
     (let ((out, err), w1) = runCmd env [''security'', ''find-certificate'', ''-a'', ''-c'', name] True w in (err = None \<and> TrimSpace out \<noteq> [], w1))"

definition detectLinuxDistro :: "cert_world \<Rightarrow> str" where
  "detectLinuxDistro w =
     (if fileExists ''/etc/debian_version'' w \<or> fileExists ''/etc/ubuntu'' w then ''debian''
      else if fileExists ''/etc/redhat-release'' w \<or> fileExists ''/etc/fedora-release'' w then ''rhel''
      else if fileExists ''/etc/arch-release'' w then ''arch''
      else ''unknown'')"

definition anchorFile :: "str \<Rightarrow> str" where
  "anchorFile name = ReplaceAll name '' '' ''_'' @ ''.crt''"

text \<open>The directory of anchors and the command that rebuilds the store, by the family of the distribution.\<close>

definition linuxStore :: "str \<Rightarrow> (str \<times> str list) option" where
  "linuxStore distro =
     (if distro = ''debian'' then Some (''/usr/local/share/ca-certificates/'', [''update-ca-certificates''])
      else if distro = ''rhel'' then Some (''/etc/pki/ca-trust/source/anchors/'', [''update-ca-trust'', ''extract''])
      else if distro = ''arch'' then Some (''/etc/ca-certificates/trust-source/anchors/'', [''trust'', ''extract-compat''])
      else None)"

definition installCALinux :: "cert_env \<Rightarrow> str \<Rightarrow> str \<Rightarrow> cert_world \<Rightarrow> bool \<times> cert_world" where
  "installCALinux env certPath name w =
     (case linuxStore (detectLinuxDistro w) of
        None \<Rightarrow> (False, w)
      | Some (dir, rebuild) \<Rightarrow>
          let ((out, err), w1) = runCmd env [''cp'', certPath, dir @ anchorFile name] True w in
          if err = None then (True, snd (runCmd env rebuild True w1)) else (False, w1))"

definition uninstallCALinux :: "cert_env \<Rightarrow> str \<Rightarrow> cert_world \<Rightarrow> bool \<times> cert_world" where
  "uninstallCALinux env name w =
     (case linuxStore (detectLinuxDistro w) of
        None \<Rightarrow> (False, w)
      | Some (dir, rebuild) \<Rightarrow> (True, snd (runCmd env rebuild True (removeFile env (dir @ anchorFile name) w))))"

definition isTrustedCALinux :: "str \<Rightarrow> cert_world \<Rightarrow> bool" where
  "isTrustedCALinux name w =
     (\<exists>dir \<in> set [''/usr/local/share/ca-certificates/'', ''/etc/pki/ca-trust/source/anchors/'', ''/etc/ca-certificates/trust-source/anchors/''].
        fileExists (dir @ anchorFile name) w)"

definition InstallCATrust :: "cert_env \<Rightarrow> str \<Rightarrow> str \<Rightarrow> cert_world \<Rightarrow> bool \<times> cert_world" where
  "InstallCATrust env certPath name w =
     (if \<not> fileExists certPath w then (False, w)
      else
        let platform = (if ceGOOS env = ''windows'' then Some (installCAWindows env certPath w)
              else if ceGOOS env = ''darwin'' then Some (installCAMacOS env certPath w)
              else if ceGOOS env = ''linux'' then Some (installCALinux env certPath name w)
              else None)
        in case platform of None \<Rightarrow> (False, w) | Some (ok, w1) \<Rightarrow> (ok, installCAFirefox env certPath name w1))"

definition UninstallCATrust :: "cert_env \<Rightarrow> str \<Rightarrow> str \<Rightarrow> cert_world \<Rightarrow> bool \<times> cert_world" where
  "UninstallCATrust env certPath name w =
     (let platform = (if ceGOOS env = ''windows'' then Some (uninstallCAWindows env certPath name w)
            else if ceGOOS env = ''darwin'' then Some (uninstallCAMacOS env name w)
            else if ceGOOS env = ''linux'' then Some (uninstallCALinux env name w)
            else None)
      in case platform of None \<Rightarrow> (False, w) | Some (ok, w1) \<Rightarrow> (ok, uninstallCAFirefox env name w1))"

definition IsCATrusted :: "cert_env \<Rightarrow> str \<Rightarrow> str \<Rightarrow> cert_world \<Rightarrow> bool \<times> cert_world" where
  "IsCATrusted env certPath name w =
     (if ceGOOS env = ''windows'' then isTrustedCAWindows env certPath w
      else if ceGOOS env = ''darwin'' then isTrustedCAMacOS env name w
      else if ceGOOS env = ''linux'' then (isTrustedCALinux name w, w)
      else (False, w))"

section \<open>Installed certificates\<close>

text \<open>The list of installed certificates, as the script prints it in JSON: an array, one object, or nothing.\<close>

definition thumbOf :: "cert_env \<Rightarrow> CertManager \<Rightarrow> str" where
  "thumbOf env cm = (case cmCert cm of Some c \<Rightarrow> ToUpper (ceSHA1 env (ccRaw c)) | None \<Rightarrow> [])"

definition GetInstalledCertificates :: "cert_env \<Rightarrow> cm_state \<Rightarrow> (str + InstalledCert list) \<times> cm_state" where
  "GetInstalledCertificates env s =
     (let (cm, w) = s; ((out, err), w1) = runCommand env (ScriptList (thumbOf env cm)) w; text = TrimSpace out in
      (case err of
         Some e \<Rightarrow> Inl (''failed to enumerate certificate stores: '' @ e)
       | None \<Rightarrow>
           if text = [] then Inr []
           else if HasPrefix text ''['' then
             (case ceJSONs env out of Inl e \<Rightarrow> Inl (''failed to parse installed certificates: '' @ e) | Inr cs \<Rightarrow> Inr cs)
           else (case ceJSON env out of Inl e \<Rightarrow> Inl (''failed to parse installed certificate: '' @ e) | Inr c \<Rightarrow> Inr [c]), (cm, w1)))"

text \<open>\<open>strings.SplitN(s, "|", 3)\<close> with three parts: the store, its name, the thumbprint.\<close>

definition tokenParts :: "str \<Rightarrow> str \<times> str \<times> str" where
  "tokenParts thumbprint =
     (case IndexByte thumbprint CHR ''|'' of
        None \<Rightarrow> (''CurrentUser'', ''Root'', thumbprint)
      | Some i \<Rightarrow>
          let rest = drop (Suc i) thumbprint in
          (case IndexByte rest CHR ''|'' of
             None \<Rightarrow> (''CurrentUser'', ''Root'', thumbprint)
           | Some j \<Rightarrow> (take i thumbprint, take j rest, drop (Suc j) rest)))"

definition UninstallCertificate :: "cert_env \<Rightarrow> str \<Rightarrow> cm_state \<Rightarrow> str option \<times> cm_state" where
  "UninstallCertificate env thumbprint s =
     (if thumbprint = [] then (Some ''thumbprint is empty'', s)
      else
        let (cm, w) = s; (storeLocation, storeName, certThumb) = tokenParts thumbprint;
            args = (if EqualFold storeLocation ''CurrentUser'' then [''-user''] else []) @ [''-delstore'', storeName, certThumb];
            (err, w1) = (if EqualFold storeLocation ''LocalMachine'' then runElevatedCommand env ''certutil'' args w
                         else runHiddenCommand env (''certutil'' # args) w)
        in (err, (if err = None then invalidateInstallStatusCache cm else cm, w1)))"

text \<open>The cleaning that precedes an installation: every removal is tried.\<close>

definition uninstallAll :: "cert_env \<Rightarrow> cm_state \<Rightarrow> cm_state" where
  "uninstallAll env s =
     (case GetInstalledCertificates env s of
        (Inl e, s1) \<Rightarrow> s1
      | (Inr cs, s1) \<Rightarrow> fold (\<lambda>c s. snd (UninstallCertificate env (icToken c) s)) cs s1)"

definition installSteps :: "cert_env \<Rightarrow> cm_state \<Rightarrow> str option \<times> cm_state" where
  "installSteps env s =
     (let (cm, w) = uninstallAll env s; (ok, w1) = InstallCATrust env (cmCaPath cm) certName w in
      if ok then (None, (invalidateInstallStatusCache cm, w1))
      else if ceGOOS env = ''windows'' then
        (case runHiddenCommand env [''certutil'', ''-user'', ''-addstore'', ''root'', cmCaPath cm] w1 of
           (Some e, w2) \<Rightarrow> (Some (''failed to install CA certificate to CurrentUser: '' @ e), (cm, w2))
         | (None, w2) \<Rightarrow>
             (None, (invalidateInstallStatusCache cm, snd (runHiddenCommand env [''certutil'', ''-addstore'', ''root'', cmCaPath cm] w2))))
      else (Some (''failed to install CA certificate on '' @ ceGOOS env), (cm, w1)))"

definition InstallCA :: "cert_env \<Rightarrow> cm_state \<Rightarrow> str option \<times> cm_state" where
  "InstallCA env s =
     (let (e, s1) = (if cmCert (fst s) = None \<or> cmKey (fst s) = None then LoadCA env s else (None, s)) in
      if e \<noteq> None then (e, s1)
      else if cmCaPath (fst s1) = [] then (Some ''CA certificate path is empty'', s1)
      else installSteps env s1)"

definition RegenerateCA :: "cert_env \<Rightarrow> cm_state \<Rightarrow> str option \<times> cm_state" where
  "RegenerateCA env s =
     (let (e, s1) = generateCAUnlocked env (uninstallAll env s) in if e \<noteq> None then (e, s1) else InstallCA env s1)"

section \<open>The status\<close>

definition platformHelp :: "str \<Rightarrow> str" where
  "platformHelp goos =
     (if goos = ''windows'' then ''Install in Windows Trusted Root store via Settings > Security or run InstallCA''
      else if goos = ''darwin'' then ''Install in macOS Keychain via Keychain Access or run InstallCA''
      else if goos = ''linux'' then ''Install via system CA trust store (update-ca-certificates) or run InstallCA''
      else ''Manually install the CA certificate in your system trust store'')"

text \<open>Five minutes in nanoseconds.\<close>

definition statusTTL :: int where
  "statusTTL = 5 * 60 * 1000000000"

definition trustedNow :: "cert_env \<Rightarrow> str \<Rightarrow> ca_cert \<Rightarrow> cert_world \<Rightarrow> bool \<times> cert_world" where
  "trustedNow env caPath ca w =
     (let (ok, w1) = IsCATrusted env caPath certName w in
      if \<not> ok \<and> ceGOOS env = ''windows'' then
        let ((out, _), w2) = runCommand env (ScriptFind (ToUpper (ceSHA1 env (ccRaw ca)))) w1 in (Contains (ToUpper out) ''FOUND'', w2)
      else (ok, w1))"

definition GetCAInstallStatus :: "cert_env \<Rightarrow> cm_state \<Rightarrow> CAInstallStatus \<times> cm_state" where
  "GetCAInstallStatus env s =
     (let (cm, w) = s in
      if (case cmLastCheck cm of Some t \<Rightarrow> ceNow env (kwTime w) - t < statusTTL | None \<Rightarrow> False) then (cmLastStatus cm, s)
      else
        let status = \<lparr>csInstalled = False, csPlatform = ceGOOS env, csCertPath = cmCaPath cm, csInstallHelp = platformHelp (ceGOOS env)\<rparr>;
            (e, (cm1, w1)) = (if cmCert cm = None then LoadCA env s else (None, s))
        in if e \<noteq> None then (status, (cm1, w1))
           else case cmCert cm1 of
             None \<Rightarrow> (status, (cm1, w1))
           | Some ca \<Rightarrow>
               let (ok, w2) = trustedNow env (cmCaPath cm1) ca w1; status1 = status\<lparr>csInstalled := ok\<rparr> in
               (status1, (cm1\<lparr>cmLastStatus := status1, cmLastCheck := Some (ceNow env (kwTime w2))\<rparr>, w2)))"

definition IsCAInstalled :: "cert_env \<Rightarrow> cm_state \<Rightarrow> bool \<times> cm_state" where
  "IsCAInstalled env s = (let (status, s1) = GetCAInstallStatus env s in (csInstalled status, s1))"

section \<open>The output of certutil\<close>

definition dropCR :: "str \<Rightarrow> str" where
  "dropCR l = (if l \<noteq> [] \<and> last l = CHR 0x0D then butlast l else l)"

text \<open>The lines that a \<open>bufio.Scanner\<close> gives: a last line that is empty is none.\<close>

definition scannedLines :: "str \<Rightarrow> str list" where
  "scannedLines out = (let ls = Split out newline in map dropCR (fst (scanLines (if last ls = [] then butlast ls else ls))))"

text \<open>Blocks, each opened by a line with \<open>====\<close>; what precedes the first one is skipped.\<close>

fun certBlocks :: "str list \<Rightarrow> str list \<Rightarrow> str list list" where
  "certBlocks current [] = (if current \<noteq> [] then [current] else [])"
| "certBlocks current (l # ls) =
     (let line = TrimSpace l in
      if Contains line ''===='' then (if current \<noteq> [] then [current] else []) @ certBlocks [line] ls
      else certBlocks (if current \<noteq> [] then current @ [line] else current) ls)"

definition hexDigit :: "char \<Rightarrow> bool" where
  "hexDigit c = (let n = (of_char c :: nat) in 48 \<le> n \<and> n \<le> 57 \<or> 65 \<le> n \<and> n \<le> 70 \<or> 97 \<le> n \<and> n \<le> 102)"

text \<open>\<open>FindString\<close> of the pattern of forty hexadecimal digits: the leftmost match, or nothing.\<close>

fun findThumb :: "str \<Rightarrow> str" where
  "findThumb [] = []"
| "findThumb (c # s) = (if length (c # s) \<ge> 40 \<and> (\<forall>x \<in> set (take 40 (c # s)). hexDigit x) then take 40 (c # s) else findThumb s)"

definition afterColon :: "str \<Rightarrow> str" where
  "afterColon line = (case IndexByte line CHR '':'' of Some i \<Rightarrow> if i + 1 < length line then TrimSpace (drop (i + 1) line) else [] | None \<Rightarrow> [])"

text \<open>Subject, end of validity and thumbprint; a field that is set stays.\<close>

definition blockStep :: "str \<Rightarrow> str \<times> str \<times> str \<Rightarrow> str \<times> str \<times> str" where
  "blockStep line acc =
     (let (subject, notAfter, thumb) = acc; lower = ToLower line in
      (if subject = [] \<and> Contains lower ''novaproxy'' then afterColon line else subject,
       if notAfter = [] \<and> Contains lower ''notafter:'' then afterColon line else notAfter,
       if thumb = [] then ToUpper (findThumb line) else thumb))"

definition parseBlock :: "str \<Rightarrow> str \<Rightarrow> str list \<Rightarrow> InstalledCert list" where
  "parseBlock storeLocation storeName block =
     (if \<not> Contains (ToLower (Join block [newline])) ''novaproxy'' then []
      else
        let (subject, notAfter, thumb) = fold blockStep block ([], [], []) in
        if thumb = [] then []
        else [\<lparr>icSubject = (if subject = [] then ''NovaProxy CA'' else subject), icThumbprint = thumb, icNotAfter = notAfter,
               icStoreName = storeName, icStoreLocation = storeLocation, icToken = storeLocation @ ''|'' @ storeName @ ''|'' @ thumb\<rparr>])"

definition parseCertutilStoreOutput :: "str \<Rightarrow> str \<Rightarrow> str \<Rightarrow> InstalledCert list" where
  "parseCertutilStoreOutput out storeLocation storeName =
     concat (map (parseBlock storeLocation storeName) (certBlocks [] (scannedLines out)))"

end
