(* ===== verification/CertTheorems.thy ===== *)
theory CertTheorems
  imports CertStore
begin

text \<open>
  Theorems on the certificate authority: after a start there is one, and the next start finds the same; the
  certificates found in a store are the ones that are removed; commands with arguments survive the quoting of
  PowerShell.
\<close>

section \<open>An authority after every start\<close>

text \<open>What is documented of the encodings: PEM and PKCS1 are read back, and a certificate keeps the bytes it was parsed from.\<close>

definition certLaws :: "cert_env \<Rightarrow> bool" where
  "certLaws env = ((\<forall>t b. ceDecodePEM env (cePEM env t b) = Some b) \<and> (\<forall>der c. ceParse env der = Inr c \<longrightarrow> ccRaw c = der) \<and>
     (\<forall>k. ceParseKey env (ceMarshalKey env k) = Inr k))"

text \<open>A machine on which keys are made and files are read and written without failure.\<close>

definition certWorks :: "cert_env \<Rightarrow> bool" where
  "certWorks env = ((\<forall>n. \<exists>key der c. ceGenKey env n = Inr key \<and> ceSign env n key = Inr der \<and> ceParse env der = Inr c) \<and>
     (\<forall>n p. ceMkdir env n p = None \<and> ceCreate env n p = None \<and> ceWrite env n p = None \<and> ceReadErr env n p = None))"

text \<open>The files give this certificate and key.\<close>

definition stored :: "cert_env \<Rightarrow> CertManager \<Rightarrow> files \<Rightarrow> bool" where
  "stored env cm fs = (\<exists>a b d k c x. fs (cmCaPath cm) = Some a \<and> ceDecodePEM env a = Some b \<and> ceParse env b = Inr c \<and> cmCert cm = Some c \<and>
     fs (cmKeyPath cm) = Some d \<and> ceDecodePEM env d = Some k \<and> ceParseKey env k = Inr x \<and> cmKey cm = Some x)"

lemma tick_files [simp]: "kwFiles (tick w) = kwFiles w" "kwCommands (tick w) = kwCommands w"
  by (simp_all add: tick_def)

lemma readFile_works: "certWorks env \<Longrightarrow> readFile env path w = (case kwFiles w path of None \<Rightarrow> NotExist | Some s \<Rightarrow> Content s)"
  by (auto simp: readFile_def certWorks_def split: option.split)

lemma writeFile_works: "certWorks env \<Longrightarrow> writeFile env path s w = (None, tick (w\<lparr>kwFiles := (kwFiles w)(path \<mapsto> s)\<rparr>))"
  by (simp add: writeFile_def certWorks_def)

text \<open>A manager that knows only its paths, but for certificate and key.\<close>

definition fresh :: "CertManager \<Rightarrow> str \<Rightarrow> str \<Rightarrow> bool" where
  "fresh cm a b = (cm\<lparr>cmCert := None, cmKey := None\<rparr> = NewCertManager a b)"

lemma fresh_NewCertManager [simp]: "fresh (NewCertManager a b) a b"
  by (simp add: fresh_def NewCertManager_def)

lemma fresh_upd [simp]: "fresh (cm\<lparr>cmCert := c, cmKey := k\<rparr>) a b = fresh cm a b"
  by (simp add: fresh_def)

lemma fresh_paths: "fresh cm a b \<Longrightarrow> cmCaPath cm = a \<and> cmKeyPath cm = b"
  by (cases cm) (simp add: fresh_def NewCertManager_def)

lemma generate_works:
  assumes "certLaws env" "certWorks env" "cmCaPath cm \<noteq> cmKeyPath cm" "fresh cm a b"
  shows "\<exists>cm' w'. generateCAUnlocked env (cm, w) = (None, cm', w') \<and> fresh cm' a b \<and> stored env cm' (kwFiles w')"
proof -
  obtain key der c where k: "ceGenKey env (kwTime w) = Inr key" "ceSign env (kwTime w) key = Inr der" "ceParse env der = Inr c"
    using assms(2) unfolding certWorks_def by blast
  have "ccRaw c = der" using assms(1) k(3) by (simp add: certLaws_def)
  then show ?thesis using k assms
    by (simp add: generateCAUnlocked_def saveCA_def writeFile_works stored_def certLaws_def Let_def)
qed

lemma load_stored:
  assumes "certWorks env" "fresh cm a b" "stored env cm (kwFiles w)"
  shows "LoadCA env (NewCertManager a b, w) = (None, cm, w)"
proof -
  obtain c x where cx: "cmCert cm = Some c" "cmKey cm = Some x" using assms(3) by (auto simp: stored_def)
  have cm: "cm = (NewCertManager a b)\<lparr>cmCert := Some c, cmKey := Some x\<rparr>"
    using assms(2) cx by (cases cm) (simp add: fresh_def NewCertManager_def)
  show ?thesis using assms(1,3) cx fresh_paths [OF assms(2)] unfolding cm
    by (auto simp: LoadCA_def loadKey_def readFile_works stored_def NewCertManager_def)
qed

lemma load_result:
  assumes "certLaws env" "certWorks env" "a \<noteq> b" "LoadCA env (NewCertManager a b, w) = (e, cm, w')"
  shows "fresh cm a b \<and> (e = None \<longrightarrow> stored env cm (kwFiles w'))"
proof (cases "kwFiles w a")
  case None
  have paths: "cmCaPath (NewCertManager a b) = a" "cmKeyPath (NewCertManager a b) = b" by (simp_all add: NewCertManager_def)
  have "LoadCA env (NewCertManager a b, w) = generateCAUnlocked env (NewCertManager a b, w)"
    using None assms(2) paths by (simp add: LoadCA_def readFile_works)
  then show ?thesis using generate_works [OF assms(1,2), of "NewCertManager a b" a b w] assms(3,4) paths by auto
next
  case (Some s)
  then show ?thesis using assms(2,4)
    by (auto simp: LoadCA_def loadKey_def readFile_works stored_def NewCertManager_def fresh_def Let_def split: option.splits sum.splits)
qed

lemma pathJoin_differ: "pathJoin env [dir, ''ca.crt''] \<noteq> pathJoin env [dir, ''ca.key'']"
  by (simp add: pathJoin_def)


text \<open>A machine with trivial encodings and a directory with a damaged certificate.\<close>

definition sampleCertEnv :: cert_env where
  "sampleCertEnv = \<lparr>ceGOOS = ''windows'', ceNow = int, ceGenKey = \<lambda>_. Inr ''key'', ceSign = \<lambda>_ k. Inr (CHR ''X'' # k),
     ceParse = \<lambda>s. if s = [] then Inl ''empty'' else Inr \<lparr>ccRaw = s, ccCN = ''NovaProxy CA''\<rparr>, cePEM = \<lambda>_ b. CHR ''P'' # b,
     ceDecodePEM = \<lambda>s. (case s of [] \<Rightarrow> None | c # b \<Rightarrow> Some b), ceMarshalKey = \<lambda>k. k, ceParseKey = \<lambda>k. Inr k, ceSHA1 = \<lambda>_. ''ab'',
     ceMkdir = \<lambda>_ _. None, ceCreate = \<lambda>_ _. None, ceWrite = \<lambda>_ _. None, ceReadErr = \<lambda>_ _. None, ceRemove = \<lambda>_ _. True,
     ceRun = \<lambda>_ _. ([], None), ceEffect = \<lambda>_ _ fs. fs, ceJSONs = \<lambda>_. Inr [], ceJSON = \<lambda>_. Inl [], ceGetenv = \<lambda>_. [], ceGlob = \<lambda>_. [],
     ceLookPath = False\<rparr>"


section \<open>Quoting for PowerShell\<close>

text \<open>A string in single quotes as PowerShell reads it: two quotes in a row stand for one. The rest of the text is returned too.\<close>

fun psBody :: "str \<Rightarrow> (str \<times> str) option" where
  "psBody [] = None"
| "psBody (c # s) =
     (if c \<noteq> CHR 0x27 then map_option (\<lambda>(t, r). (c # t, r)) (psBody s)
      else case s of
        d # s' \<Rightarrow> if d = CHR 0x27 then map_option (\<lambda>(t, r). (c # t, r)) (psBody s') else Some ([], s)
      | [] \<Rightarrow> Some ([], []))"

definition psString :: "str \<Rightarrow> (str \<times> str) option" where
  "psString s = (case s of c # r \<Rightarrow> if c = CHR 0x27 then psBody r else None | [] \<Rightarrow> None)"

text \<open>A list of such strings, separated by commas.\<close>

function psStrings :: "str \<Rightarrow> (str list \<times> str) option" where
  "psStrings s =
     (case psString s of
        None \<Rightarrow> None
      | Some (t, r) \<Rightarrow>
          (case r of
             c # r' \<Rightarrow> if c = CHR '','' \<and> length r < length s then map_option (\<lambda>(ts, q). (t # ts, q)) (psStrings r') else Some ([t], r)
           | [] \<Rightarrow> Some ([t], r)))"
  by pat_completeness auto
termination
  by (relation "measure length") auto

declare psStrings.simps [simp del]

definition psElevated :: "str \<Rightarrow> (str \<times> str list) option" where
  "psElevated s =
     (case psString (TrimPrefix s ''$p = Start-Process -FilePath '') of
        Some (name, r) \<Rightarrow> map_option (\<lambda>(args, _). (name, args)) (psStrings (TrimPrefix r '' -ArgumentList @(''))
      | None \<Rightarrow> None)"

lemma psEscape_simps: "psEscape [] = []" "psEscape (c # s) = (if c = CHR 0x27 then [c, c] else [c]) @ psEscape s"
  by (simp_all add: psEscape_def ReplaceAll.simps [of "[]"] ReplaceAll.simps [of "c # s"] HasPrefix_def)

lemma psBody_escape:
  assumes "r = [] \<or> hd r \<noteq> CHR 0x27"
  shows "psBody (psEscape s @ CHR 0x27 # r) = Some (s, r)"
  using assms by (induction s) (auto simp: psEscape_simps split: list.split)

lemma psString_quoted: "r = [] \<or> hd r \<noteq> CHR 0x27 \<Longrightarrow> psString (psQuoted s @ r) = Some (s, r)"
  using psBody_escape [of r s] by (simp add: psString_def psQuoted_def)

lemma psStrings_quoted:
  assumes "args \<noteq> []" and "r \<noteq> []" and "hd r \<noteq> CHR 0x27" and "hd r \<noteq> CHR '',''"
  shows "psStrings (Join (map psQuoted args) '','' @ r) = Some (args, r)"
  using assms(1)
proof (induction args rule: list_nonempty_induct)
  case (single a)
  then show ?case using psString_quoted [of r a] assms(2-4) by (auto simp: psStrings.simps split: list.split)
next
  case (cons a as)
  let ?r = "'','' @ Join (map psQuoted as) '','' @ r"
  have j: "Join (map psQuoted (a # as)) '','' @ r = psQuoted a @ ?r" using cons.hyps by (cases as) auto
  have "psString (psQuoted a @ ?r) = Some (a, ?r)" by (rule psString_quoted) simp
  moreover have "length ?r < length (psQuoted a @ ?r)" by (simp add: psQuoted_def)
  ultimately show ?case unfolding j using cons.IH by (simp add: psStrings.simps [of "psQuoted a @ _"])
qed

text \<open>The script of an elevated command is read back as the name and the arguments, whatever quotes and commas they hold.\<close>

lemma psElevated_script:
  assumes "args \<noteq> []"
  shows "psElevated (elevatedScript name args) = Some (name, args)"
proof -
  let ?tail = "'') -Verb RunAs -Wait -PassThru; exit $p.ExitCode''"
  have cut: "TrimPrefix (p @ s) p = s" for p s by (simp add: TrimPrefix_def HasPrefix_def)
  have "psString (psQuoted name @ '' -ArgumentList @('' @ Join (map psQuoted args) '','' @ ?tail) =
      Some (name, '' -ArgumentList @('' @ Join (map psQuoted args) '','' @ ?tail)"
    by (rule psString_quoted) simp
  moreover have "psStrings (Join (map psQuoted args) '','' @ ?tail) = Some (args, ?tail)" using assms by (intro psStrings_quoted) simp_all
  ultimately show ?thesis unfolding psElevated_def elevatedScript_def cut by (simp only: option.case prod.case cut option.map)
qed

text \<open>The script of \<open>Import-Certificate\<close> has no such quoting: a path with a quote, such as one below the directory of a user
  O'Brien, ends there, and what follows in the path is code.\<close>

theorem import_script_breaks:
  assumes "CHR 0x27 \<notin> set a" and "b \<noteq> []" and "hd b \<noteq> CHR 0x27"
  shows "\<exists>code. psString (TrimPrefix (importScript (a @ quoteChar @ b)) ''Import-Certificate -FilePath '') = Some (a, b @ code)"
proof -
  have cut: "TrimPrefix (p @ s) p = s" for p s by (simp add: TrimPrefix_def HasPrefix_def)
  have "psBody (a @ CHR 0x27 # b @ r) = Some (a, b @ r)" for r
    using assms by (induction a) (auto simp: hd_append split: list.split dest: arg_cong [of _ _ hd])
  then show ?thesis unfolding importScript_def cut by (auto simp: psString_def)
qed

section \<open>Removing what was found\<close>

lemma tokenParts_token:
  assumes "CHR ''|'' \<notin> set l" and "CHR ''|'' \<notin> set n"
  shows "tokenParts (l @ ''|'' @ n @ ''|'' @ t) = (l, n, t)"
  using IndexByte_append [OF assms(1), of "n @ ''|'' @ t"] IndexByte_append [OF assms(2), of t] by (simp add: tokenParts_def)

lemma upper_hex: "hexDigit c \<Longrightarrow> hexDigit (upperChar c) \<and> \<not> (97 \<le> (of_char (upperChar c) :: nat) \<and> (of_char (upperChar c) :: nat) \<le> 122)"
  by (auto simp: hexDigit_def upperChar_def Let_def)

text \<open>A thumbprint: forty hexadecimal digits in upper case.\<close>

definition isThumb :: "str \<Rightarrow> bool" where
  "isThumb t = (length t = 40 \<and> (\<forall>c \<in> set t. hexDigit c \<and> \<not> (97 \<le> (of_char c :: nat) \<and> (of_char c :: nat) \<le> 122)))"

lemma findThumb_isThumb: "findThumb s = [] \<or> isThumb (ToUpper (findThumb s))"
proof (induction s)
  case (Cons c s)
  then show ?case using upper_hex by (auto simp: isThumb_def ToUpper_def)
qed simp

lemma blocks_thumb:
  "snd (snd acc) = [] \<or> isThumb (snd (snd acc)) \<Longrightarrow>
   snd (snd (fold blockStep ls acc)) = [] \<or> isThumb (snd (snd (fold blockStep ls acc)))"
proof (induction ls arbitrary: acc)
  case (Cons l ls)
  have "snd (snd (blockStep l acc)) = [] \<or> isThumb (snd (snd (blockStep l acc)))"
    using Cons.prems findThumb_isThumb [of l] by (cases acc) (auto simp: blockStep_def Let_def ToUpper_def)
  then show ?case using Cons.IH [of "blockStep l acc"] by simp
qed simp

lemma parsed_cert:
  assumes "c \<in> set (parseCertutilStoreOutput out loc name)"
  shows "isThumb (icThumbprint c) \<and> icToken c = loc @ ''|'' @ name @ ''|'' @ icThumbprint c"
proof -
  obtain block where "c \<in> set (parseBlock loc name block)" using assms by (auto simp: parseCertutilStoreOutput_def)
  moreover obtain x y z where acc: "fold blockStep block ([], [], []) = (x, y, z)" by (metis prod_cases3)
  ultimately show ?thesis using blocks_thumb [of "([], [], [])" block]
    by (auto simp: parseBlock_def Let_def split: if_splits)
qed


text \<open>A store of the user with one certificate of the proxy.\<close>

definition sampleThumb :: str where
  "sampleThumb = replicate 40 CHR ''a''"

definition sampleLines :: "str list" where
  "sampleLines = [''===='', ''CN=NovaProxy'', sampleThumb]"

definition sampleOutput :: str where
  "sampleOutput = Join sampleLines [newline]"

lemma scanned_sample: "scannedLines sampleOutput = sampleLines"
proof -
  have "Split sampleOutput newline = sampleLines"
    unfolding sampleOutput_def by (rule Split_Join) (simp_all add: sampleLines_def sampleThumb_def newline_def)
  then show ?thesis by (simp add: scannedLines_def sampleLines_def sampleThumb_def dropCR_def maxScanTokenSize_def)
qed

lemma parsed_sample: "length (concat (map (parseBlock ''CurrentUser'' ''Root'') (certBlocks [] sampleLines))) = 1"
proof -
  have blocks: "certBlocks [] sampleLines = [sampleLines]" by code_simp
  have mine: "Contains (ToLower (Join sampleLines [newline])) ''novaproxy''" by code_simp
  have find: "findThumb ''===='' = []" "findThumb ''CN=NovaProxy'' = []" "findThumb sampleThumb = sampleThumb" by code_simp+
  have "snd (snd (fold blockStep sampleLines ([], [], []))) = ToUpper sampleThumb"
    by (simp add: sampleLines_def blockStep_def Let_def find ToUpper_def)
  then have "snd (snd (fold blockStep sampleLines ([], [], []))) \<noteq> []" by (simp add: ToUpper_def sampleThumb_def)
  moreover obtain x y z where "fold blockStep sampleLines ([], [], []) = (x, y, z)" by (metis prod_cases3)
  ultimately show ?thesis using mine by (simp add: blocks parseBlock_def Let_def)
qed


end
