(* ===== verification/ProcMon.thy ===== *)
theory ProcMon
  imports ProxyTypes "HOL-Library.Multiset"
begin

text \<open>
  The process monitor, \<open>src/proxy/procmon.go\<close>: which process a connection of a client belongs to and the bytes it moved; with the table
  of TCP connections of \<open>src/proxy/procmon_windows.go\<close> behind it.

  \<^item> The two maps of the monitor: the connections as a list with distinct keys, whose order of iteration is an argument, and the processes
    as a map.
  \<^item> Byte counts are \<open>int64\<close> values, 64-bit words that wrap. Times are nanoseconds.
  \<^item> The bytes of the TCP table and the known process identifiers come from the operating system: they are arguments.
\<close>

unbundle bit_operations_syntax

section \<open>The table of TCP connections\<close>

record tcp_owner_row =
  trState :: "32 word"
  trLocalAddr :: "32 word"
  trLocalPort :: "32 word"
  trRemoteAddr :: "32 word"
  trRemotePort :: "32 word"
  trOwningPid :: "32 word"

text \<open>\<open>binary.LittleEndian.Uint32(buf[offset:])\<close>: a slice beyond the end and a slice of less than four bytes panic.\<close>

definition u32le :: "bytes \<Rightarrow> nat \<Rightarrow> 32 word go" where
  "u32le buf offset =
     (if offset + 4 > length buf then Panic
      else Ok (ucast (buf ! offset) OR push_bit 8 (ucast (buf ! (offset + 1))) OR push_bit 16 (ucast (buf ! (offset + 2))) OR
        push_bit 24 (ucast (buf ! (offset + 3)))))"

definition readRow :: "bytes \<Rightarrow> nat \<Rightarrow> tcp_owner_row go" where
  "readRow buf offset =
     bind_go (u32le buf offset) (\<lambda>a. bind_go (u32le buf (offset + 4)) (\<lambda>b. bind_go (u32le buf (offset + 8)) (\<lambda>c.
     bind_go (u32le buf (offset + 12)) (\<lambda>d. bind_go (u32le buf (offset + 16)) (\<lambda>e. bind_go (u32le buf (offset + 20)) (\<lambda>f.
       Ok \<lparr>trState = a, trLocalAddr = b, trLocalPort = c, trRemoteAddr = d, trRemotePort = e, trOwningPid = f\<rparr>))))))"

fun readRows :: "bytes \<Rightarrow> nat \<Rightarrow> nat \<Rightarrow> tcp_owner_row list go" where
  "readRows buf i 0 = Ok []"
| "readRows buf i (Suc n) = bind_go (readRow buf (4 + i * 24)) (\<lambda>row. bind_go (readRows buf (Suc i) n) (\<lambda>rows. Ok (row # rows)))"

text \<open>The buffer is what the system filled in, or its error.\<close>

definition getExtendedTcpTable :: "bytes go \<Rightarrow> tcp_owner_row list go" where
  "getExtendedTcpTable buf = bind_go buf (\<lambda>b. bind_go (u32le b 0) (\<lambda>numEntries. readRows b 0 (unat numEntries)))"

definition portFromInt :: "32 word \<Rightarrow> 16 word" where
  "portFromInt n = push_bit 8 (ucast n) OR ucast (drop_bit 8 n)"

text \<open>The owner of each local port that is connected to the proxy; a later row replaces an earlier one.\<close>

definition fetchStep :: "int \<Rightarrow> tcp_owner_row \<Rightarrow> (str \<rightharpoonup> int) \<Rightarrow> (str \<rightharpoonup> int)" where
  "fetchStep proxyPort row m =
     (let pid = sint (trOwningPid row) in
      if int (unat (portFromInt (trRemotePort row))) = proxyPort \<and> pid > 0 then m(itoa (unat (portFromInt (trLocalPort row))) \<mapsto> pid) else m)"

definition newTCPFetcher :: "int \<Rightarrow> bytes go \<Rightarrow> (str \<rightharpoonup> int) go" where
  "newTCPFetcher proxyPort buf = bind_go (getExtendedTcpTable buf) (\<lambda>rows. Ok (fold (fetchStep proxyPort) rows Map.empty))"

section \<open>The monitor\<close>

record ProcessInfo =
  piPID :: int
  piName :: str
  piDown :: "64 word"
  piUp :: "64 word"
  piActive :: bool

record procConnTrack =
  pcPid :: int
  pcDown :: "64 word"
  pcUp :: "64 word"
  pcLastSeen :: int

record ProcessMonitor =
  moConns :: "(str \<times> procConnTrack) list"
  moProcesses :: "int \<rightharpoonup> ProcessInfo"
  moProxyPort :: int

definition NewProcessMonitor :: "int \<Rightarrow> ProcessMonitor" where
  "NewProcessMonitor port = \<lparr>moConns = [], moProcesses = Map.empty, moProxyPort = port\<rparr>"

text \<open>The port that \<open>InitProcessMonitor\<close> takes from the listen address.\<close>

definition monitorPort :: "str \<Rightarrow> int" where
  "monitorPort listenAddr =
     (let port = (if listenAddr \<noteq> [] then (case SplitHostPort listenAddr of Ok (_, s) \<Rightarrow> (case Atoi s of Ok p \<Rightarrow> p | _ \<Rightarrow> 0) | _ \<Rightarrow> 0) else 0)
      in if port = 0 then 8080 else port)"

definition TrackConnection :: "int \<Rightarrow> str \<Rightarrow> ProcessMonitor \<Rightarrow> ProcessMonitor" where
  "TrackConnection t clientAddr pm =
     (if map_of (moConns pm) clientAddr \<noteq> None then pm
      else pm\<lparr>moConns := moConns pm @ [(clientAddr, \<lparr>pcPid = -1, pcDown = 0, pcUp = 0, pcLastSeen = t\<rparr>)]\<rparr>)"

definition recordConn :: "int \<Rightarrow> 64 word \<Rightarrow> 64 word \<Rightarrow> procConnTrack \<Rightarrow> procConnTrack" where
  "recordConn t down up ct =
     (if pcPid ct > 0 then ct\<lparr>pcDown := pcDown ct + down, pcUp := pcUp ct + up, pcLastSeen := t\<rparr> else ct)"

definition RecordBytes :: "int \<Rightarrow> str \<Rightarrow> 64 word \<Rightarrow> 64 word \<Rightarrow> ProcessMonitor \<Rightarrow> ProcessMonitor" where
  "RecordBytes t clientAddr down up pm =
     pm\<lparr>moConns := map (\<lambda>(a, ct). (a, if a = clientAddr then recordConn t down up ct else ct)) (moConns pm)\<rparr>"

definition assignPid :: "int \<Rightarrow> (str \<rightharpoonup> int) \<Rightarrow> str \<times> procConnTrack \<Rightarrow> str \<times> procConnTrack" where
  "assignPid t portMap e =
     (let (addr, ct) = e in
      case SplitHostPort addr of
        Ok (_, portStr) \<Rightarrow> (case portMap portStr of Some pid \<Rightarrow> (addr, ct\<lparr>pcPid := pid, pcLastSeen := t\<rparr>) | None \<Rightarrow> e)
      | _ \<Rightarrow> e)"

definition knownName :: "(int \<rightharpoonup> ProcessInfo) \<Rightarrow> int \<Rightarrow> str" where
  "knownName processes pid = (case processes pid of Some p \<Rightarrow> piName p | None \<Rightarrow> [])"

text \<open>Six seconds without a sign of life.\<close>

definition stale :: "int \<Rightarrow> procConnTrack \<Rightarrow> bool" where
  "stale t ct = (t - pcLastSeen ct > 6 * 1000000000)"

definition countConn :: "int \<Rightarrow> (int \<rightharpoonup> ProcessInfo) \<Rightarrow> procConnTrack \<Rightarrow> (int \<rightharpoonup> ProcessInfo) \<Rightarrow> (int \<rightharpoonup> ProcessInfo)" where
  "countConn t processes ct pidBytes =
     (if pcPid ct \<le> 0 then pidBytes
      else
        let p = (case pidBytes (pcPid ct) of
              Some p \<Rightarrow> p | None \<Rightarrow> \<lparr>piPID = pcPid ct, piName = knownName processes (pcPid ct), piDown = 0, piUp = 0, piActive = True\<rparr>)
        in pidBytes(pcPid ct \<mapsto> p\<lparr>piDown := piDown p + pcDown ct, piUp := piUp p + pcUp ct, piActive := (if stale t ct then False else piActive p)\<rparr>))"

definition addKnown :: "(int \<rightharpoonup> ProcessInfo) \<Rightarrow> int \<Rightarrow> (int \<rightharpoonup> ProcessInfo) \<Rightarrow> (int \<rightharpoonup> ProcessInfo)" where
  "addKnown processes pid pidBytes =
     (if pidBytes pid \<noteq> None then pidBytes
      else pidBytes(pid \<mapsto> \<lparr>piPID = pid, piName = knownName processes pid, piDown = 0, piUp = 0, piActive = False\<rparr>))"

definition keepName :: "(int \<rightharpoonup> ProcessInfo) \<Rightarrow> int \<Rightarrow> ProcessInfo \<Rightarrow> ProcessInfo" where
  "keepName processes pid p = (if piName p = [] then (case processes pid of Some q \<Rightarrow> p\<lparr>piName := piName q\<rparr> | None \<Rightarrow> p) else p)"

text \<open>\<open>refresh\<close>; without a lister of processes \<open>pids\<close> is empty.\<close>

definition refresh :: "key_order \<Rightarrow> int \<Rightarrow> int list \<Rightarrow> (str \<rightharpoonup> int) go \<Rightarrow> ProcessMonitor \<Rightarrow> ProcessMonitor" where
  "refresh ord t pids fetched pm =
     (case fetched of
        Ok portMap \<Rightarrow>
          let conns = map (assignPid t portMap) (moConns pm);
              counted = fold (\<lambda>k. countConn t (moProcesses pm) (the (map_of conns k))) (ord (map fst conns)) Map.empty;
              all = fold (addKnown (moProcesses pm)) pids counted
          in pm\<lparr>moConns := conns, moProcesses := (\<lambda>pid. map_option (keepName (moProcesses pm) pid) (all pid))\<rparr>
      | _ \<Rightarrow> pm)"

definition GetProcesses :: "int list \<Rightarrow> ProcessMonitor \<Rightarrow> ProcessInfo list" where
  "GetProcesses keys pm = List.map_filter (moProcesses pm) keys"

section \<open>Reading the table\<close>

definition le32 :: "32 word \<Rightarrow> bytes" where
  "le32 w = [ucast w, ucast (drop_bit 8 w), ucast (drop_bit 16 w), ucast (drop_bit 24 w)]"

definition encodeRow :: "tcp_owner_row \<Rightarrow> bytes" where
  "encodeRow r = le32 (trState r) @ le32 (trLocalAddr r) @ le32 (trLocalPort r) @ le32 (trRemoteAddr r) @ le32 (trRemotePort r) @ le32 (trOwningPid r)"

lemma le32_value:
  fixes w :: "32 word"
  shows "ucast (ucast w :: byte) OR push_bit 8 (ucast (ucast (drop_bit 8 w) :: byte)) OR push_bit 16 (ucast (ucast (drop_bit 16 w) :: byte)) OR
     push_bit 24 (ucast (ucast (drop_bit 24 w) :: byte)) = w"
proof (rule bit_word_eqI)
  fix n
  assume "n < LENGTH(32)"
  then consider "n < 8" | "8 \<le> n \<and> n < 16" | "16 \<le> n \<and> n < 24" | "24 \<le> n \<and> n < 32" by fastforce
  then show "bit (ucast (ucast w :: byte) OR push_bit 8 (ucast (ucast (drop_bit 8 w) :: byte)) OR push_bit 16 (ucast (ucast (drop_bit 16 w) :: byte)) OR
     push_bit 24 (ucast (ucast (drop_bit 24 w) :: byte)) :: 32 word) n = bit w n"
    by cases (auto simp: bit_simps)
qed

lemma u32le_le32: "length pre = n \<Longrightarrow> u32le (pre @ le32 w @ rest) n = Ok w"
  using le32_value [of w] by (auto simp: u32le_def le32_def nth_append)

lemma length_encodeRow [simp]: "length (encodeRow r) = 24"
  by (simp add: encodeRow_def le32_def)

lemma readRow_encode:
  assumes "length pre = n"
  shows "readRow (pre @ encodeRow r @ rest) n = Ok r"
proof -
  have len: "length (le32 w) = 4" for w by (simp add: le32_def)
  have "u32le (pre @ encodeRow r @ rest) n = Ok (trState r)" "u32le (pre @ encodeRow r @ rest) (n + 4) = Ok (trLocalAddr r)"
    "u32le (pre @ encodeRow r @ rest) (n + 8) = Ok (trLocalPort r)" "u32le (pre @ encodeRow r @ rest) (n + 12) = Ok (trRemoteAddr r)"
    "u32le (pre @ encodeRow r @ rest) (n + 16) = Ok (trRemotePort r)" "u32le (pre @ encodeRow r @ rest) (n + 20) = Ok (trOwningPid r)"
    using u32le_le32 [of pre n "trState r"] u32le_le32 [of "pre @ le32 (trState r)" "n + 4" "trLocalAddr r"]
      u32le_le32 [of "pre @ le32 (trState r) @ le32 (trLocalAddr r)" "n + 8" "trLocalPort r"]
      u32le_le32 [of "pre @ le32 (trState r) @ le32 (trLocalAddr r) @ le32 (trLocalPort r)" "n + 12" "trRemoteAddr r"]
      u32le_le32 [of "pre @ le32 (trState r) @ le32 (trLocalAddr r) @ le32 (trLocalPort r) @ le32 (trRemoteAddr r)" "n + 16" "trRemotePort r"]
      u32le_le32 [of "pre @ le32 (trState r) @ le32 (trLocalAddr r) @ le32 (trLocalPort r) @ le32 (trRemoteAddr r) @ le32 (trRemotePort r)" "n + 20" "trOwningPid r"]
      assms by (simp_all add: encodeRow_def len)
  then show ?thesis by (simp add: readRow_def)
qed

lemma readRows_encode:
  "length pre = 4 + i * 24 \<Longrightarrow> readRows (pre @ concat (map encodeRow rows) @ rest) i (length rows) = Ok rows"
proof (induction rows arbitrary: pre i)
  case (Cons r rows)
  have "readRow (pre @ encodeRow r @ concat (map encodeRow rows) @ rest) (4 + i * 24) = Ok r" using Cons.prems by (rule readRow_encode)
  then show ?case using Cons.IH [of "pre @ encodeRow r" "Suc i"] Cons.prems by simp
qed simp

text \<open>The table of TCP connections is read completely: from the bytes of any table, whatever follows them in the buffer, every row comes
  back with its fields, and reading stays inside the buffer.\<close>

theorem tcp_table_roundtrip:
  assumes "length rows < 2 ^ 32"
  shows "getExtendedTcpTable (Ok (le32 (word_of_nat (length rows)) @ concat (map encodeRow rows) @ rest)) = Ok rows"
proof -
  have "unat (word_of_nat (length rows) :: 32 word) = length rows" using assms by (simp add: unat_of_nat)
  moreover have "u32le (le32 (word_of_nat (length rows)) @ concat (map encodeRow rows) @ rest) 0 = Ok (word_of_nat (length rows))"
    using u32le_le32 [of "[]" 0] by simp
  moreover have "length (le32 w) = 4 + 0 * 24" for w by (simp add: le32_def)
  ultimately show ?thesis using readRows_encode by (simp add: getExtendedTcpTable_def)
qed

definition sampleRow :: tcp_owner_row where
  "sampleRow = \<lparr>trState = 5, trLocalAddr = 0, trLocalPort = 0x901F, trRemoteAddr = 0, trRemotePort = 0x901F, trOwningPid = 42\<rparr>"

theorem tcp_table_roundtrip_witness:
  "getExtendedTcpTable (Ok (le32 (word_of_nat (length [sampleRow])) @ concat (map encodeRow [sampleRow]) @ [0])) = Ok [sampleRow]"
  by (rule tcp_table_roundtrip) simp

section \<open>Totals of a process\<close>

datatype pm_op = OpTrack int str | OpRecord int str "64 word" "64 word" | OpRefresh key_order int "int list" "(str \<rightharpoonup> int) go"

fun pmStep :: "pm_op \<Rightarrow> ProcessMonitor \<Rightarrow> ProcessMonitor" where
  "pmStep (OpTrack t a) pm = TrackConnection t a pm"
| "pmStep (OpRecord t a d u) pm = RecordBytes t a d u pm"
| "pmStep (OpRefresh ord t pids f) pm = refresh ord t pids f pm"

definition named :: "(int \<rightharpoonup> ProcessInfo) \<Rightarrow> bool" where
  "named m = (\<exists>pid p. m pid = Some p \<and> piName p \<noteq> [])"

definition monitor_inv :: "ProcessMonitor \<Rightarrow> bool" where
  "monitor_inv pm = (distinct (map fst (moConns pm)) \<and> \<not> named (moProcesses pm))"

lemma assignPid_fst [simp]: "fst (assignPid t m e) = fst e"
  by (cases e) (auto simp: assignPid_def split: go.split option.split)

lemma unnamed_known: "\<not> named P \<Longrightarrow> knownName P pid = []"
  by (auto simp: named_def knownName_def split: option.split)

lemma countConn_unnamed: "\<not> named P \<Longrightarrow> \<not> named M \<Longrightarrow> \<not> named (countConn t P ct M)"
  using unnamed_known [of P] by (auto simp: named_def countConn_def Let_def split: option.splits)

lemma addKnown_unnamed: "\<not> named P \<Longrightarrow> \<not> named M \<Longrightarrow> \<not> named (addKnown P pid M)"
  using unnamed_known [of P] by (auto simp: named_def addKnown_def)

lemma fold_unnamed: "(\<And>x M. \<not> named M \<Longrightarrow> \<not> named (f x M)) \<Longrightarrow> \<not> named M \<Longrightarrow> \<not> named (fold f xs M)"
  by (induction xs arbitrary: M) auto

lemma pmStep_inv:
  assumes "monitor_inv pm"
  shows "monitor_inv (pmStep op pm)"
proof (cases op)
  case (OpTrack t a)
  then show ?thesis using assms by (auto simp: monitor_inv_def TrackConnection_def map_of_eq_None_iff)
next
  case (OpRecord t a d u)
  have "map fst (moConns (RecordBytes t a d u pm)) = map fst (moConns pm)" by (simp add: RecordBytes_def comp_def case_prod_beta)
  then show ?thesis using assms OpRecord by (simp add: monitor_inv_def) (simp add: RecordBytes_def)
next
  case (OpRefresh ord t pids f)
  show ?thesis
  proof (cases f)
    case (Ok m)
    have P: "\<not> named (moProcesses pm)" using assms by (simp add: monitor_inv_def)
    have empty: "\<not> named Map.empty" by (simp add: named_def)
    let ?conns = "map (assignPid t m) (moConns pm)"
    let ?c = "fold (\<lambda>k. countConn t (moProcesses pm) (the (map_of ?conns k))) (ord (map fst ?conns)) Map.empty"
    have "\<not> named ?c" by (rule fold_unnamed [OF _ empty]) (rule countConn_unnamed [OF P])
    then have "\<not> named (fold (addKnown (moProcesses pm)) pids ?c)" using fold_unnamed [of "addKnown (moProcesses pm)"] addKnown_unnamed [OF P] by blast
    then have "\<not> named (\<lambda>pid. map_option (keepName (moProcesses pm) pid) (fold (addKnown (moProcesses pm)) pids ?c pid))"
      using P by (auto simp: named_def keepName_def split: option.splits if_splits)
    then show ?thesis using assms OpRefresh Ok by (simp add: monitor_inv_def refresh_def Let_def comp_def)
  qed (use assms OpRefresh in \<open>simp_all add: refresh_def\<close>)
qed

lemma monitor_reachable_inv: "monitor_inv (fold pmStep ops (NewProcessMonitor port))"
proof -
  have "monitor_inv pm \<Longrightarrow> monitor_inv (fold pmStep ops pm)" for pm by (induction ops arbitrary: pm) (auto simp: pmStep_inv)
  moreover have "monitor_inv (NewProcessMonitor port)" by (simp add: monitor_inv_def NewProcessMonitor_def named_def)
  ultimately show ?thesis by blast
qed

text \<open>The connections of a process.\<close>

definition connsOf :: "int \<Rightarrow> procConnTrack list \<Rightarrow> procConnTrack list" where
  "connsOf pid cts = filter (\<lambda>ct. pcPid ct = pid) cts"

lemma connsOf_snoc: "connsOf pid (cts @ [ct]) = connsOf pid cts @ (if pcPid ct = pid then [ct] else [])"
  by (simp add: connsOf_def)

lemma count_fold:
  assumes "pid > 0"
  shows "fold (countConn t P) cts Map.empty pid = (if connsOf pid cts = [] then None
     else Some \<lparr>piPID = pid, piName = knownName P pid, piDown = sum_list (map pcDown (connsOf pid cts)), piUp = sum_list (map pcUp (connsOf pid cts)),
       piActive = (\<forall>ct \<in> set (connsOf pid cts). \<not> stale t ct)\<rparr>)"
proof (induction cts rule: rev_induct)
  case Nil
  then show ?case by (simp add: connsOf_def)
next
  case (snoc ct cts)
  have other: "countConn t P ct M pid = M pid" if "pcPid ct \<noteq> pid" for M using that by (simp add: countConn_def Let_def)
  show ?case
  proof (cases "pcPid ct = pid")
    case True
    then show ?thesis using snoc assms by (auto simp: connsOf_snoc countConn_def Let_def)
  next
    case False
    then show ?thesis using snoc other by (simp add: connsOf_snoc)
  qed
qed

lemma connsOf_mset:
  assumes "mset xs = mset ys"
  shows "(connsOf pid xs = []) = (connsOf pid ys = [])" "set (connsOf pid xs) = set (connsOf pid ys)"
    "sum_list (map f (connsOf pid xs)) = (sum_list (map f (connsOf pid ys)) :: 64 word)"
proof -
  have m: "mset (connsOf pid xs) = mset (connsOf pid ys)" using assms by (simp add: connsOf_def)
  show "(connsOf pid xs = []) = (connsOf pid ys = [])" using m by (metis mset_zero_iff)
  show "set (connsOf pid xs) = set (connsOf pid ys)" using m by (metis set_mset_mset)
  have "mset (map f (connsOf pid xs)) = mset (map f (connsOf pid ys))" using m by simp
  then show "sum_list (map f (connsOf pid xs)) = (sum_list (map f (connsOf pid ys)) :: 64 word)" by (metis sum_mset_sum_list)
qed

lemma ordered_conns:
  assumes "order_ok ord" and "distinct (map fst es)"
  shows "mset (map (\<lambda>k. the (map_of es k)) (ord (map fst es))) = mset (map snd es)"
proof -
  have "mset (ord (map fst es)) = mset (map fst es)" using order_ok_keys [OF assms] assms(2) set_eq_iff_mset_eq_distinct by blast
  then have "mset (map (\<lambda>k. the (map_of es k)) (ord (map fst es))) = mset (map (\<lambda>k. the (map_of es k)) (map fst es))" by (metis mset_map)
  also have "map (\<lambda>k. the (map_of es k)) (map fst es) = map snd es" using assms(2) by (auto simp: map_of_eq_Some_iff intro!: map_cong)
  finally show ?thesis .
qed

lemma addKnown_keeps: "M pid = Some p \<Longrightarrow> fold (addKnown P) pids M pid = Some p"
proof (induction pids arbitrary: M)
  case (Cons a pids)
  have "addKnown P a M pid = Some p" using Cons.prems by (auto simp: addKnown_def)
  then show ?case using Cons.IH by simp
qed simp



end
