(* ===== verification/CoreService.thy ===== *)
theory CoreService
  imports CoreRuntime
begin

text \<open>
  The calls between the user interface and the core process: the service of \<open>src/core_api.go\<close> on the runtime, and the client of
  \<open>src/core_client.go\<close>, which starts the core when it has to.

  \<^item> A call is a value of \<open>rpc\<close>, its answer a value of \<open>rpc_reply\<close> or an error. The calls for the counters of bytes and
    for the text of the log are left out, as in the runtime.
  \<^item> On the side of the client the other process is unknown: \<open>clCall n c\<close> is the outcome of the call \<open>c\<close> when \<open>n\<close> actions were
    taken before, whatever that process does. The log of the actions is the state of the client.
  \<^item> The starting of a process, the path of the own executable, \<open>filepath.Clean\<close> and \<open>fmt.Errorf\<close> of a text that comes from the core are
    arguments.
\<close>

section \<open>The service\<close>

record SetGASRelayArgs =
  saEnabled :: bool
  saGoogleIP :: str
  saFrontDomain :: str
  saScriptID :: str
  saScriptIDs :: "str list"
  saAuthKey :: str
  saVerifySSL :: bool

datatype rpc =
    Ping | GetInfo | ReloadConfig | ReloadCertificate | Shutdown | StartProxyRPC | StopProxyRPC | IsProxyRunningRPC
  | StartTUNRPC | StopTUNRPC | GetTUNStatusRPC | StartLogCaptureRPC | StopLogCaptureRPC | IsLogCaptureEnabledRPC
  | GetRouteEventsRPC | SetProxyModeRPC str | GetProxyModeRPC | SetGASDialAddrRPC str | SetGASRelayRPC SetGASRelayArgs
  | V2GetConfigs | V2AddConfig str | V2DeleteConfig str | V2SelectConfig str | V2ClearConfigs | V2GetSelected
  | V2Start | V2Stop | V2Status | V2GetSettings | V2SaveSettings V2RaySettings

datatype rpc_reply =
    REmpty | RBool bool | RString str | RInfo str bool | RTUN TUNStatus | REvents "(str \<times> str) list"
  | RConfigs "V2RayConfig list" | RConfig "V2RayConfig option" str | RCore bool bool int | RSettings V2RaySettings

definition errReply :: "str option \<Rightarrow> rpc_reply go" where
  "errReply e = (case e of None \<Rightarrow> Ok REmpty | Some m \<Rightarrow> Err m)"

definition unitReply :: "unit go \<Rightarrow> rpc_reply go" where
  "unitReply r = bind_go r (\<lambda>_. Ok REmpty)"

text \<open>The calls on the runtime. The third component says that the service has been stopped: its listener is closed.
  The calls of the V2Ray manager are the next group's.\<close>

definition serveCore ::
  "('x, 'c) core_world \<Rightarrow> str \<Rightarrow> rpc \<Rightarrow> ('x, 'c) coreRuntime \<Rightarrow> (rpc_reply go \<times> ('x, 'c) coreRuntime \<times> bool) blk" where
  "serveCore w execPath c r =
     (let keep = (\<lambda>rep. Done (Ok rep, r, False)) in
      case c of
        Ping \<Rightarrow> keep (RBool True)
      | GetInfo \<Rightarrow> keep (RInfo execPath (cwElevated w))
      | ReloadConfig \<Rightarrow> bind_blk (reloadConfig w r) (\<lambda>(e, r1). Done (unitReply e, r1, False))
      | ReloadCertificate \<Rightarrow> (let (e, r1) = reloadCertificate w r in Done (unitReply e, r1, False))
      | Shutdown \<Rightarrow> Done (Ok REmpty, r, True)
      | StartProxyRPC \<Rightarrow> bind_blk (startProxy w r) (\<lambda>(e, _, r1). Done (unitReply e, r1, False))
      | StopProxyRPC \<Rightarrow> bind_blk (stopProxy w r) (\<lambda>(e, r1). Done (errReply e, r1, False))
      | IsProxyRunningRPC \<Rightarrow> keep (RBool (psRunning (crServer r)))
      | StartTUNRPC \<Rightarrow> bind_blk (startTUN w r) (\<lambda>(e, r1). Done (errReply e, r1, False))
      | StopTUNRPC \<Rightarrow> Done (Ok REmpty, snd (stopTUN w r), False)
      | GetTUNStatusRPC \<Rightarrow> keep (RTUN (getTUNStatus w r))
      | StartLogCaptureRPC \<Rightarrow> Done (Ok REmpty, startLogCapture r, False)
      | StopLogCaptureRPC \<Rightarrow> Done (Ok REmpty, stopLogCapture r, False)
      | IsLogCaptureEnabledRPC \<Rightarrow> keep (RBool (crLogCapture r))
      | GetRouteEventsRPC \<Rightarrow> (let (es, r1) = popRouteEvents r in Done (Ok (REvents es), r1, False))
      | SetProxyModeRPC mode \<Rightarrow> bind_blk (SetProxyMode w mode r) (\<lambda>(e, r1). Done (errReply e, r1, False))
      | GetProxyModeRPC \<Rightarrow> bind_blk (getCurrentMode r) (\<lambda>m. keep (RString m))
      | SetGASDialAddrRPC addr \<Rightarrow> Done (Ok REmpty, r\<lparr>crServer := SetGASDialAddr addr (crServer r)\<rparr>, False)
      | SetGASRelayRPC args \<Rightarrow> Done (Ok REmpty, SetGASRelayService (saEnabled args) r, False)
      | _ \<Rightarrow> keep REmpty)"

text \<open>The calls on the V2Ray manager; \<open>V2RayAddConfig\<close> puts its error into the reply.\<close>

definition serveV2Ray ::
  "('x, 'c) core_world \<Rightarrow> link_codec \<Rightarrow> (nat \<Rightarrow> nat) \<Rightarrow> rpc \<Rightarrow> ('x, 'c) coreRuntime \<Rightarrow> (rpc_reply go \<times> ('x, 'c) coreRuntime) blk" where
  "serveV2Ray w lc clk c r =
     (let v = crV2 r; put = (\<lambda>(e, v1). Done (errReply e, r\<lparr>crV2 := v1\<rparr>)); keep = (\<lambda>rep. Done (Ok rep, r)) in
      case c of
        V2GetConfigs \<Rightarrow> bind_blk (GetConfigs v) (\<lambda>cs. keep (RConfigs cs))
      | V2AddConfig link \<Rightarrow>
          bind_blk (AddConfig lc clk (cwWrite w 6) link v) (\<lambda>(res, v1). Done
            (case res of Ok cfg \<Rightarrow> Ok (RConfig (Some cfg) []) | Err e \<Rightarrow> Ok (RConfig None e) | Panic \<Rightarrow> Panic, r\<lparr>crV2 := v1\<rparr>))
      | V2DeleteConfig i \<Rightarrow> bind_blk (DeleteConfig (cwWrite w 6) i v) put
      | V2SelectConfig i \<Rightarrow> bind_blk (SelectConfig (cwWrite w 6) i v) put
      | V2ClearConfigs \<Rightarrow> bind_blk (ClearConfigs (cwWrite w 6) v) put
      | V2GetSelected \<Rightarrow> bind_blk (GetSelectedConfig v) (\<lambda>cfg. keep (RConfig cfg []))
      | V2Start \<Rightarrow> bind_blk (V2RayStartCore w r) (\<lambda>r1. Done (Ok REmpty, r1))
      | V2Stop \<Rightarrow> bind_blk (V2RayStopCore w r) (\<lambda>r1. Done (Ok REmpty, r1))
      | V2Status \<Rightarrow> bind_blk (V2RayCoreStatus r) (\<lambda>(a, b, p). keep (RCore a b p))
      | V2GetSettings \<Rightarrow> bind_blk (GetV2Settings v) (\<lambda>s. keep (RSettings s))
      | V2SaveSettings s \<Rightarrow> bind_blk (SaveSettings (cwWrite w 6) s v) put
      | _ \<Rightarrow> keep REmpty)"

section \<open>The client\<close>

datatype client_act = Called rpc | Started bool

type_synonym client_log = "client_act list"

record client_env =
  clCall :: "nat \<Rightarrow> rpc \<Rightarrow> rpc_reply go"
  clExec :: "str go"
  clStart :: "nat \<Rightarrow> bool \<Rightarrow> str option"
  clClean :: "str \<Rightarrow> str"
  clWindows :: bool
  clPolls :: nat
  clErrorf :: "str \<Rightarrow> str"

definition call :: "client_env \<Rightarrow> rpc \<Rightarrow> client_log \<Rightarrow> rpc_reply go \<times> client_log" where
  "call env c log = (clCall env (length log) c, log @ [Called c])"

definition boolOf :: "rpc_reply go \<Rightarrow> bool" where
  "boolOf r = (case r of Ok (RBool b) \<Rightarrow> b | _ \<Rightarrow> False)"

definition infoOf :: "rpc_reply go \<Rightarrow> (str \<times> bool) go" where
  "infoOf r = (case r of Ok (RInfo e b) \<Rightarrow> Ok (e, b) | Ok _ \<Rightarrow> Ok ([], False) | Err m \<Rightarrow> Err m | Panic \<Rightarrow> Panic)"

definition sameExecutable :: "client_env \<Rightarrow> str \<Rightarrow> str \<Rightarrow> bool" where
  "sameExecutable env left0 right0 =
     (let l = TrimSpace left0; r = TrimSpace right0 in
      l \<noteq> [] \<and> r \<noteq> [] \<and> clClean env (ToLower l) = clClean env (ToLower r))"

text \<open>Up to \<open>n\<close> pings until one is not answered.\<close>

fun waitDown :: "client_env \<Rightarrow> nat \<Rightarrow> client_log \<Rightarrow> client_log" where
  "waitDown env 0 log = log"
| "waitDown env (Suc n) log = (let (p, l1) = call env Ping log in if boolOf p then waitDown env n l1 else l1)"

text \<open>What is set up again on a core that answers.\<close>

definition checkElevated :: "client_env \<Rightarrow> bool \<Rightarrow> client_log \<Rightarrow> unit go \<times> client_log" where
  "checkElevated env requireElevated log =
     (if \<not> requireElevated then (Ok (), log)
      else
        let (info, l1) = call env GetInfo log in
        (bind_go (infoOf info) (\<lambda>(_, elevated). if elevated then Ok () else Err ''core restarted but is still not elevated''), l1))"

definition restoreCore :: "client_env \<Rightarrow> bool \<Rightarrow> bool \<Rightarrow> bool \<Rightarrow> client_log \<Rightarrow> unit go \<times> client_log" where
  "restoreCore env requireElevated wasCapture wasRunning log =
     (let l1 = (if wasCapture then snd (call env StartLogCaptureRPC log) else log) in
      if wasRunning then
        (case call env StartProxyRPC l1 of
           (Ok _, l2) \<Rightarrow> checkElevated env requireElevated l2
         | (Err e, l2) \<Rightarrow> (Err (''restore proxy after core restart: '' @ e), l2)
         | (Panic, l2) \<Rightarrow> (Panic, l2))
      else checkElevated env requireElevated l1)"

fun waitUp :: "client_env \<Rightarrow> bool \<Rightarrow> bool \<Rightarrow> bool \<Rightarrow> nat \<Rightarrow> client_log \<Rightarrow> unit go \<times> client_log" where
  "waitUp env req cap run 0 log = (Err ''core did not become ready'', log)"
| "waitUp env req cap run (Suc n) log =
     (let (p, l1) = call env Ping log in if boolOf p then restoreCore env req cap run l1 else waitUp env req cap run n l1)"

definition startAndWait :: "client_env \<Rightarrow> bool \<Rightarrow> bool \<Rightarrow> bool \<Rightarrow> client_log \<Rightarrow> unit go \<times> client_log" where
  "startAndWait env req cap run log =
     (case clExec env of
        Ok _ \<Rightarrow>
          (case clStart env (length log) req of
             Some e \<Rightarrow> (Err e, log)
           | None \<Rightarrow> waitUp env req cap run 30 (log @ [Started req]))
      | Err e \<Rightarrow> (Err e, log)
      | Panic \<Rightarrow> (Panic, log))"

definition ensureRunningWithElevation :: "client_env \<Rightarrow> bool \<Rightarrow> client_log \<Rightarrow> unit go \<times> client_log" where
  "ensureRunningWithElevation env requireElevated log =
     (let (pong, l1) = call env Ping log in
      if \<not> boolOf pong then startAndWait env requireElevated False False l1
      else
        let (cap, l2) = call env IsLogCaptureEnabledRPC l1; (run, l3) = call env IsProxyRunningRPC l2 in
        case clExec env of
          Err e \<Rightarrow> (Err e, l3)
        | Panic \<Rightarrow> (Panic, l3)
        | Ok execPath \<Rightarrow>
            let (info, l4) = call env GetInfo l3 in
            if (case infoOf info of Ok (exe, elevated) \<Rightarrow> sameExecutable env exe execPath \<and> (\<not> requireElevated \<or> elevated) | _ \<Rightarrow> False)
            then (Ok (), l4)
            else startAndWait env requireElevated (boolOf cap) (boolOf run) (waitDown env 10 (snd (call env Shutdown l4))))"

definition ensureRunning :: "client_env \<Rightarrow> client_log \<Rightarrow> unit go \<times> client_log" where
  "ensureRunning env log = ensureRunningWithElevation env False log"

text \<open>A call only if the core answers: \<open>reloadIfRunning\<close>, \<open>reloadCertificateIfRunning\<close>, \<open>shutdownIfRunning\<close>.\<close>

definition ifRunning :: "client_env \<Rightarrow> rpc \<Rightarrow> client_log \<Rightarrow> client_log" where
  "ifRunning env c log = (let (p, l1) = call env Ping log in if boolOf p then snd (call env c l1) else l1)"

definition reloadIfRunning :: "client_env \<Rightarrow> client_log \<Rightarrow> client_log" where
  "reloadIfRunning env log = ifRunning env ReloadConfig log"

definition reloadCertificateIfRunning :: "client_env \<Rightarrow> client_log \<Rightarrow> client_log" where
  "reloadCertificateIfRunning env log = ifRunning env ReloadCertificate log"

definition shutdownIfRunning :: "client_env \<Rightarrow> client_log \<Rightarrow> client_log" where
  "shutdownIfRunning env log = ifRunning env Shutdown log"

text \<open>A call that first makes sure of the core: \<open>StartProxy\<close>, \<open>StartLogCapture\<close>, \<open>SetProxyMode\<close> and \<open>SwitchMode\<close>.\<close>

definition callEnsured :: "client_env \<Rightarrow> rpc \<Rightarrow> client_log \<Rightarrow> unit go \<times> client_log" where
  "callEnsured env c log =
     (case ensureRunning env log of
        (Ok _, l1) \<Rightarrow> (let (r, l2) = call env c l1 in (bind_go r (\<lambda>_. Ok ()), l2))
      | (e, l1) \<Rightarrow> (e, l1))"

definition clientStartProxy :: "client_env \<Rightarrow> client_log \<Rightarrow> unit go \<times> client_log" where
  "clientStartProxy env log = callEnsured env StartProxyRPC log"

definition clientStartLogCapture :: "client_env \<Rightarrow> client_log \<Rightarrow> unit go \<times> client_log" where
  "clientStartLogCapture env log = callEnsured env StartLogCaptureRPC log"

definition clientSetProxyMode :: "client_env \<Rightarrow> str \<Rightarrow> client_log \<Rightarrow> unit go \<times> client_log" where
  "clientSetProxyMode env mode log = callEnsured env (SetProxyModeRPC mode) log"

text \<open>Messages of a TUN that may still come up.\<close>

definition tunPending :: "str \<Rightarrow> bool" where
  "tunPending msg =
     (let low = ToLower msg in TrimSpace msg = [] \<or> EqualFold (TrimSpace msg) ''Windows real TUN dataplane is ready'' \<or>
        Contains low ''startup in progress'' \<or> Contains low ''starting'' \<or> Contains low ''creating'' \<or> Contains low ''selected'' \<or>
        Contains low ''not running'')"

text \<open>The loop until the deadline: \<open>clPolls\<close> is the number of polls that fit into the two seconds, ten at most as each begins with a sleep
  of 200 ms.\<close>

fun pollTUN :: "client_env \<Rightarrow> nat \<Rightarrow> str \<Rightarrow> client_log \<Rightarrow> unit go \<times> client_log" where
  "pollTUN env 0 lastMsg log =
     (Err (if TrimSpace lastMsg \<noteq> [] then ''TUN startup failed: '' @ TrimSpace lastMsg else ''TUN did not enter running state''), log)"
| "pollTUN env (Suc n) lastMsg log =
     (case call env GetTUNStatusRPC log of
        (Ok (RTUN s), l1) \<Rightarrow>
          if tsRunning s then (Ok (), l1) else if tunPending (tsMessage s) then pollTUN env n (tsMessage s) l1 else (Err (tsMessage s), l1)
      | (Ok _, l1) \<Rightarrow> pollTUN env n [] l1
      | (Err e, l1) \<Rightarrow> (Err (''Core.GetTUNStatus RPC failed: '' @ e), l1)
      | (Panic, l1) \<Rightarrow> (Panic, l1))"

definition clientStartTUN :: "client_env \<Rightarrow> client_log \<Rightarrow> unit go \<times> client_log" where
  "clientStartTUN env log =
     (case ensureRunningWithElevation env True log of
        (Ok _, l1) \<Rightarrow>
          (case call env StartTUNRPC l1 of
             (Ok _, l2) \<Rightarrow> pollTUN env (min 10 (clPolls env)) [] l2
           | (Err e, l2) \<Rightarrow> (Err (''Core.StartTUN RPC failed: '' @ e), l2)
           | (Panic, l2) \<Rightarrow> (Panic, l2))
      | (Err e, l1) \<Rightarrow> (Err (''ensure elevated core failed: '' @ e), l1)
      | (Panic, l1) \<Rightarrow> (Panic, l1))"

definition clientGetTUNStatus :: "client_env \<Rightarrow> client_log \<Rightarrow> TUNStatus \<times> client_log" where
  "clientGetTUNStatus env log =
     (let none = \<lparr>tsSupported = False, tsRunning = False, tsEnabled = False, tsDriver = [], tsMessage = []\<rparr> in
      case call env GetTUNStatusRPC log of
        (Ok (RTUN s), l1) \<Rightarrow> (s, l1)
      | (Ok _, l1) \<Rightarrow> (none, l1)
      | (_, l1) \<Rightarrow> (none\<lparr>tsSupported := clWindows env, tsMessage := ''Core not running''\<rparr>, l1))"

text \<open>The relay of the settings: enabled when it runs or could.\<close>

definition relayArgs :: "bool \<Rightarrow> str \<Rightarrow> str \<Rightarrow> str \<Rightarrow> str list \<Rightarrow> str \<Rightarrow> bool \<Rightarrow> SetGASRelayArgs" where
  "relayArgs running googleIP frontDomain scriptID scriptIDs authKey verifySSL =
     \<lparr>saEnabled = (running \<or> authKey \<noteq> [] \<and> authKey \<noteq> ''changeme'' \<and> googleIP \<noteq> []), saGoogleIP = googleIP, saFrontDomain = frontDomain,
      saScriptID = scriptID, saScriptIDs = scriptIDs, saAuthKey = authKey, saVerifySSL = verifySSL\<rparr>"

definition clientAddConfig :: "client_env \<Rightarrow> str \<Rightarrow> client_log \<Rightarrow> V2RayConfig option go \<times> client_log" where
  "clientAddConfig env link log =
     (case call env (V2AddConfig link) log of
        (Ok (RConfig cfg e), l1) \<Rightarrow> (if e \<noteq> [] then Err (clErrorf env e) else Ok cfg, l1)
      | (Ok _, l1) \<Rightarrow> (Ok None, l1)
      | (Err e, l1) \<Rightarrow> (Err e, l1)
      | (Panic, l1) \<Rightarrow> (Panic, l1))"

definition GetRoutingMode :: "client_env \<Rightarrow> client_log \<Rightarrow> str \<times> client_log" where
  "GetRoutingMode env log =
     (case call env V2GetSettings log of
        (Ok (RSettings s), l1) \<Rightarrow> (if vtRoutingMode s \<noteq> [] then vtRoutingMode s else ''rule'', l1)
      | (_, l1) \<Rightarrow> (''rule'', l1))"

end
