(* ===== verification/ServiceTheorems.thy ===== *)
theory ServiceTheorems
  imports CoreService
begin

text \<open>
  Theorems on the client of the core process, for every behaviour of that process: it gives up after a bounded number of calls, and what it
  has made sure of when it reports success.
\<close>

section \<open>The log of the client\<close>

text \<open>Every function of the client only adds to the log, a bounded number of actions.\<close>

definition adds :: "nat \<Rightarrow> client_log \<Rightarrow> client_log \<Rightarrow> bool" where
  "adds n l l' = (\<exists>m. l' = l @ m \<and> length m \<le> n)"

lemma adds_refl [simp]: "adds n l l"
  by (simp add: adds_def)

lemma adds_trans: "adds a l l1 \<Longrightarrow> adds b l1 l2 \<Longrightarrow> adds (a + b) l l2"
  by (force simp: adds_def)

lemma adds_mono: "adds a l l1 \<Longrightarrow> a \<le> b \<Longrightarrow> adds b l l1"
  by (auto simp: adds_def)

lemma adds_call: "call env c l = (r, l1) \<Longrightarrow> adds 1 l l1"
  by (auto simp: call_def adds_def)

lemma adds_nth: "adds a l l1 \<Longrightarrow> n < length l \<Longrightarrow> n < length l1 \<and> l1 ! n = l ! n"
  by (auto simp: adds_def nth_append)

lemma adds_waitDown: "adds n l (waitDown env n l)"
proof (induction n arbitrary: l)
  case (Suc n)
  obtain p l1 where c: "call env Ping l = (p, l1)" by fastforce
  have "adds (1 + n) l (waitDown env n l1)" using adds_trans [OF adds_call [OF c] Suc.IH] .
  then show ?case using c adds_mono [OF adds_call [OF c], of "Suc n"] by simp
qed simp

lemma adds_checkElevated: "checkElevated env req l = (r, l1) \<Longrightarrow> adds 1 l l1"
  by (auto simp: checkElevated_def call_def adds_def Let_def split: if_splits)

lemma adds_restoreCore:
  assumes "restoreCore env req cap run l = (r, l1)"
  shows "adds 3 l l1"
proof -
  let ?l = "if cap then snd (call env StartLogCaptureRPC l) else l"
  have a: "adds 1 l ?l" by (simp add: call_def adds_def)
  show ?thesis
  proof (cases run)
    case True
    obtain q l2 where c: "call env StartProxyRPC ?l = (q, l2)" by fastforce
    have b: "adds 2 l l2" using adds_trans [OF a adds_call [OF c]] by (simp add: numeral_2_eq_2)
    have "adds 1 l2 l1" using assms True c adds_checkElevated by (cases q) (auto simp: restoreCore_def)
    from adds_trans [OF b this] show ?thesis by simp
  next
    case False
    then have "adds 1 ?l l1" using assms adds_checkElevated by (simp add: restoreCore_def)
    then show ?thesis using adds_mono [OF adds_trans [OF a]] by fastforce
  qed
qed

lemma adds_waitUp: "waitUp env req cap run n l = (r, l1) \<Longrightarrow> adds (n + 3) l l1"
proof (induction n arbitrary: l)
  case (Suc n)
  obtain p l2 where c: "call env Ping l = (p, l2)" by fastforce
  have "adds (n + 3) l2 l1"
  proof (cases "boolOf p")
    case True
    then have "adds 3 l2 l1" using Suc.prems c adds_restoreCore by simp
    then show ?thesis by (rule adds_mono) simp
  next
    case False
    then show ?thesis using Suc.prems c Suc.IH by simp
  qed
  then show ?case using adds_trans [OF adds_call [OF c]] by force
qed simp

lemma adds_startAndWait: "startAndWait env req cap run l = (r, l1) \<Longrightarrow> adds 34 l l1"
proof -
  assume a: "startAndWait env req cap run l = (r, l1)"
  show ?thesis
  proof (cases "l1 = l")
    case False
    then have "waitUp env req cap run 30 (l @ [Started req]) = (r, l1)"
      using a by (auto simp: startAndWait_def split: go.splits option.splits)
    from adds_waitUp [OF this] have "adds 33 (l @ [Started req]) l1" by simp
    moreover have "adds 1 l (l @ [Started req])" by (simp add: adds_def)
    ultimately show ?thesis using adds_trans by force
  qed simp
qed

section \<open>What success means\<close>

text \<open>An action of the log at which the core answered like this.\<close>

definition heard :: "client_env \<Rightarrow> client_log \<Rightarrow> nat \<Rightarrow> rpc \<Rightarrow> (rpc_reply go \<Rightarrow> bool) \<Rightarrow> bool" where
  "heard env l n c P = (n < length l \<and> l ! n = Called c \<and> P (clCall env n c))"

lemma heard_call: "call env c l = (r, l1) \<Longrightarrow> P r \<Longrightarrow> heard env l1 (length l) c P"
  by (auto simp: call_def heard_def nth_append)

lemma heard_adds: "heard env l n c P \<Longrightarrow> adds a l l1 \<Longrightarrow> heard env l1 n c P"
  using adds_nth by (auto simp: heard_def)

definition isElevated :: "rpc_reply go \<Rightarrow> bool" where
  "isElevated r = (\<exists>exe. infoOf r = Ok (exe, True))"

definition isOk :: "rpc_reply go \<Rightarrow> bool" where
  "isOk r = (\<exists>x. r = Ok x)"

lemma checkElevated_ok:
  assumes "checkElevated env True l = (Ok (), l1)"
  shows "\<exists>n \<ge> length l. heard env l1 n GetInfo isElevated"
proof -
  obtain i l2 where c: "call env GetInfo l = (i, l2)" by fastforce
  have "l2 = l1" "isElevated i" using assms c by (auto simp: checkElevated_def isElevated_def bind_go_Ok_iff split: if_splits)
  then show ?thesis using heard_call [OF c, of isElevated] by blast
qed

lemma restoreCore_ok:
  assumes "restoreCore env req cap run l = (Ok (), l1)"
  shows "(req \<longrightarrow> (\<exists>n \<ge> length l. heard env l1 n GetInfo isElevated)) \<and> (run \<longrightarrow> (\<exists>n \<ge> length l. heard env l1 n StartProxyRPC isOk))"
proof -
  let ?l = "if cap then snd (call env StartLogCaptureRPC l) else l"
  have len: "length l \<le> length ?l" by (simp add: call_def)
  show ?thesis
  proof (cases run)
    case True
    obtain q l2 where c: "call env StartProxyRPC ?l = (q, l2)" by fastforce
    have q: "isOk q" and chk: "checkElevated env req l2 = (Ok (), l1)" using assms True c by (auto simp: restoreCore_def isOk_def split: go.splits)
    have "length ?l \<le> length l2" using c by (auto simp: call_def)
    then show ?thesis
      using checkElevated_ok [of env l2 l1] chk heard_adds [OF heard_call [where P = isOk, OF c q] adds_checkElevated [OF chk]] len
      by (cases req) (auto intro: order_trans)
  next
    case False
    then have chk: "checkElevated env req ?l = (Ok (), l1)" using assms by (simp add: restoreCore_def)
    then show ?thesis using checkElevated_ok [of env ?l l1] len False by (cases req) (auto intro: order_trans)
  qed
qed

lemma waitUp_ok:
  "waitUp env req cap run n l = (Ok (), l1) \<Longrightarrow>
   (req \<longrightarrow> (\<exists>n \<ge> length l. heard env l1 n GetInfo isElevated)) \<and> (run \<longrightarrow> (\<exists>n \<ge> length l. heard env l1 n StartProxyRPC isOk)) \<and>
   (\<exists>n \<ge> length l. heard env l1 n Ping boolOf)"
proof (induction n arbitrary: l)
  case (Suc n)
  obtain p l2 where c: "call env Ping l = (p, l2)" by fastforce
  have len: "length l \<le> length l2" using c by (auto simp: call_def)
  show ?case
  proof (cases "boolOf p")
    case True
    then have r: "restoreCore env req cap run l2 = (Ok (), l1)" using Suc.prems c by simp
    have "heard env l1 (length l) Ping boolOf" using heard_adds [OF heard_call [where P = boolOf, OF c True] adds_restoreCore [OF r]] .
    then show ?thesis using restoreCore_ok [OF r] len by (blast intro: order_trans order_refl)
  next
    case False
    then show ?thesis using Suc.IH [of l2] Suc.prems c len by simp (blast intro: order_trans)
  qed
qed simp

lemma startAndWait_ok:
  assumes "startAndWait env req cap run l = (Ok (), l1)"
  shows "waitUp env req cap run 30 (l @ [Started req]) = (Ok (), l1)"
  using assms by (auto simp: startAndWait_def split: go.splits option.splits)

text \<open>However the core behaves, making sure of it takes fifty actions at most.\<close>

lemma ensureRunning_length:
  "length (snd (ensureRunningWithElevation env req l)) \<le> length l + 50"
proof -
  obtain p l1 where c1: "call env Ping l = (p, l1)" by fastforce
  obtain cap l2 where c2: "call env IsLogCaptureEnabledRPC l1 = (cap, l2)" by fastforce
  obtain run l3 where c3: "call env IsProxyRunningRPC l2 = (run, l3)" by fastforce
  obtain info l4 where c4: "call env GetInfo l3 = (info, l4)" by fastforce
  obtain s l5 where c5: "call env Shutdown l4 = (s, l5)" by fastforce
  let ?l6 = "waitDown env 10 l5"
  have len: "length l1 = length l + 1" "length l2 = length l + 2" "length l3 = length l + 3" "length l4 = length l + 4" "length l5 = length l + 5"
    using c1 c2 c3 c4 c5 by (auto simp: call_def)
  have l6: "length ?l6 \<le> length l + 15" using adds_waitDown [of 10 l5 env] len by (auto simp: adds_def)
  have start: "length (snd (startAndWait env req a b k)) \<le> length k + 34" for a b k
    using adds_startAndWait [of env req a b k] by (cases "startAndWait env req a b k") (auto simp: adds_def)
  show ?thesis
    using len l6 start [of False False l1] start [of "boolOf cap" "boolOf run" ?l6]
    by (simp add: ensureRunningWithElevation_def c1 c2 c3 c4 c5 Let_def split: go.split)
qed

text \<open>What success of the client means, whatever the core does. A core answered a ping; where administrator rights are required, a core
  said that it has them; and where the client started a new process in place of a core whose proxy was running, a core was asked to
  start the proxy after the start of the process, and said that it did.\<close>

lemma ensureRunning_sound:
  assumes "ensureRunningWithElevation env req l = (Ok (), l')"
  shows "(\<exists>n \<ge> length l. heard env l' n Ping boolOf) \<and>
     (req \<longrightarrow> (\<exists>n \<ge> length l. heard env l' n GetInfo isElevated)) \<and>
     (boolOf (clCall env (length l) Ping) \<and> boolOf (clCall env (length l + 2) IsProxyRunningRPC) \<and> Started req \<in> set (drop (length l) l') \<longrightarrow>
        (\<exists>k n. length l \<le> k \<and> k < n \<and> l' ! k = Started req \<and> heard env l' n StartProxyRPC isOk))"
proof -
  obtain p l1 where c1: "call env Ping l = (p, l1)" by fastforce
  obtain cap l2 where c2: "call env IsLogCaptureEnabledRPC l1 = (cap, l2)" by fastforce
  obtain run l3 where c3: "call env IsProxyRunningRPC l2 = (run, l3)" by fastforce
  obtain info l4 where c4: "call env GetInfo l3 = (info, l4)" by fastforce
  obtain s l5 where c5: "call env Shutdown l4 = (s, l5)" by fastforce
  let ?l6 = "waitDown env 10 l5"
  have p: "p = clCall env (length l) Ping" "run = clCall env (length l + 2) IsProxyRunningRPC"
    and l4: "l4 = l @ [Called Ping, Called IsLogCaptureEnabledRPC, Called IsProxyRunningRPC, Called GetInfo]" "length l3 = length l + 3"
    using c1 c2 c3 c4 by (auto simp: call_def)
  have l6: "length l \<le> length ?l6" using adds_waitDown [of 10 l5 env] c5 l4 by (auto simp: adds_def call_def)
  let ?same = "case infoOf info of Ok (exe, elevated) \<Rightarrow> (case clExec env of Ok e \<Rightarrow> sameExecutable env exe e \<and> (\<not> req \<or> elevated) | _ \<Rightarrow> False) | _ \<Rightarrow> False"
  have elev: "req \<longrightarrow> isElevated info" if ?same
    using that by (cases "infoOf info"; cases "clExec env") (auto simp: isElevated_def)
  have def: "ensureRunningWithElevation env req l =
      (if \<not> boolOf p then startAndWait env req False False l1
       else case clExec env of
         Err e \<Rightarrow> (Err e, l3) | Panic \<Rightarrow> (Panic, l3)
       | Ok e \<Rightarrow> if ?same then (Ok (), l4) else startAndWait env req (boolOf cap) (boolOf run) ?l6)"
    by (cases "clExec env"; cases "infoOf info") (simp_all add: ensureRunningWithElevation_def c1 c2 c3 c4 c5)
  consider (up) "\<not> boolOf p" "startAndWait env req False False l1 = (Ok (), l')"
    | (same) "boolOf p" "l' = l4" "req \<longrightarrow> isElevated info"
    | (new) "boolOf p" "startAndWait env req (boolOf cap) (boolOf run) ?l6 = (Ok (), l')"
  proof (cases "boolOf p")
    case True
    obtain e where e: "clExec env = Ok e" using assms True unfolding def by (cases "clExec env") auto
    show thesis
    proof (cases ?same)
      case s: True
      then show thesis using same True elev assms unfolding def e by auto
    next
      case False
      then show thesis using new True assms unfolding def e by auto
    qed
  qed (use up assms def in auto)
  then show ?thesis
  proof cases
    case up
    have "length l \<le> length (l1 @ [Started req])" using c1 by (auto simp: call_def)
    then show ?thesis using waitUp_ok [OF startAndWait_ok [OF up(2)]] up(1) p by (auto intro: order_trans)
  next
    case same
    have "heard env l' (length l) Ping boolOf" using same(1,2) p l4 by (simp add: heard_def)
    moreover have "\<exists>n \<ge> length l. heard env l' n GetInfo isElevated" if req
      using heard_call [where P = isElevated, OF c4] same that l4(2) by (intro exI [of _ "length l3"]) simp
    moreover have "Started req \<notin> set (drop (length l) l')" using same(2) l4(1) by simp
    ultimately show ?thesis by blast
  next
    case new
    note up = startAndWait_ok [OF new(2)]
    have "l' ! length ?l6 = Started req" using adds_nth [OF adds_waitUp [OF up], of "length ?l6"] by simp
    have later: "length l \<le> length (?l6 @ [Started req])" using l6 by simp
    have ping: "\<exists>n \<ge> length l. heard env l' n c P" if "\<exists>n \<ge> length (?l6 @ [Started req]). heard env l' n c P" for c P
      using that later order_trans by blast
    have proxy: "length ?l6 < n" if "n \<ge> length (?l6 @ [Started req])" for n using that by simp
    show ?thesis using \<open>l' ! length ?l6 = Started req\<close> waitUp_ok [OF up] p l6
      ping [of Ping boolOf] ping [of GetInfo isElevated] proxy by blast
  qed
qed

text \<open>A core of an older version, not elevated, whose proxy runs; it is replaced by a new one.\<close>

definition sampleClient :: client_env where
  "sampleClient = \<lparr>clCall = \<lambda>n c. (case c of Ping \<Rightarrow> Ok (RBool (n \<noteq> 5)) | IsProxyRunningRPC \<Rightarrow> Ok (RBool True) | IsLogCaptureEnabledRPC \<Rightarrow> Ok (RBool False)
       | GetInfo \<Rightarrow> Ok (RInfo (if n < 5 then ''old'' else ''nova'') (n > 5)) | GetTUNStatusRPC \<Rightarrow> Ok (RTUN \<lparr>tsSupported = True, tsRunning = True, tsEnabled = True, tsDriver = [], tsMessage = []\<rparr>)
       | _ \<Rightarrow> Ok REmpty),
     clExec = Ok ''nova'', clStart = \<lambda>_ _. None, clClean = \<lambda>s. s, clWindows = True, clPolls = 10, clErrorf = \<lambda>s. s\<rparr>"

lemma sample_calls [simp]:
  "clCall sampleClient n Ping = Ok (RBool (n \<noteq> 5))" "clCall sampleClient n IsProxyRunningRPC = Ok (RBool True)"
  "clCall sampleClient n IsLogCaptureEnabledRPC = Ok (RBool False)" "clCall sampleClient n Shutdown = Ok REmpty"
  "clCall sampleClient n GetInfo = Ok (RInfo (if n < 5 then ''old'' else ''nova'') (n > 5))" "clCall sampleClient n StartProxyRPC = Ok REmpty"
  "clCall sampleClient n StartTUNRPC = Ok REmpty"
  "clCall sampleClient n GetTUNStatusRPC = Ok (RTUN \<lparr>tsSupported = True, tsRunning = True, tsEnabled = True, tsDriver = [], tsMessage = []\<rparr>)"
  "clExec sampleClient = Ok ''nova''" "clStart sampleClient n b = None" "clPolls sampleClient = 10"
  by (simp_all add: sampleClient_def)

lemma sample_other: "\<not> sameExecutable sampleClient ''old'' ''nova''"
  by (simp add: sameExecutable_def sampleClient_def TrimSpace_def ToLower_def lowerChar_def isSpace_def)

lemmas client_defs = ensureRunningWithElevation_def startAndWait_def restoreCore_def checkElevated_def call_def boolOf_def infoOf_def

lemma sample_ensure:
  "ensureRunningWithElevation sampleClient True [] =
     (Ok (), [Called Ping, Called IsLogCaptureEnabledRPC, Called IsProxyRunningRPC, Called GetInfo, Called Shutdown, Called Ping, Started True,
       Called Ping, Called StartProxyRPC, Called GetInfo])"
  by (simp add: client_defs sample_other numeral_eq_Suc Let_def)


lemma sample_start: "clientStartProxy sampleClient [] =
     (Ok (), [Called Ping, Called IsLogCaptureEnabledRPC, Called IsProxyRunningRPC, Called GetInfo, Called Shutdown, Called Ping, Started False,
       Called Ping, Called StartProxyRPC, Called StartProxyRPC])"
  by (simp add: clientStartProxy_def callEnsured_def ensureRunning_def client_defs sample_other numeral_eq_Suc Let_def)


text \<open>The polls of the status.\<close>

abbreviation tunUp :: "rpc_reply go \<Rightarrow> bool" where "tunUp r \<equiv> \<exists>s. r = Ok (RTUN s) \<and> tsRunning s"

lemma pollTUN_ok:
  "adds n l (snd (pollTUN env n m l)) \<and>
   (fst (pollTUN env n m l) = Ok () \<longrightarrow> (\<exists>c \<ge> length l. heard env (snd (pollTUN env n m l)) c GetTUNStatusRPC tunUp))"
proof (induction n arbitrary: m l)
  case (Suc n)
  obtain r l1 where c: "call env GetTUNStatusRPC l = (r, l1)" by fastforce
  have len: "adds 1 l l1" "length l \<le> length l1" using adds_call [OF c] by (auto simp: adds_def)
  have more: "adds (Suc n) l k" if "adds n l1 k" for k using adds_trans [OF len(1) that] by simp
  have run: "heard env l1 (length l) GetTUNStatusRPC tunUp" if "r = Ok (RTUN s)" "tsRunning s" for s
    using heard_call [where P = tunUp, OF c] that by blast
  have rec: "\<exists>c \<ge> length l. heard env (snd (pollTUN env n x l1)) c GetTUNStatusRPC tunUp" if "fst (pollTUN env n x l1) = Ok ()" for x
    using Suc.IH [of l1 x] that len(2) order_trans by blast
  show ?case
    using c more [OF adds_refl] more [OF conjunct1 [OF Suc.IH]] run rec
    by (cases r) (auto split: rpc_reply.split)
qed simp

text \<open>C40: The TUN is on when \<open>StartTUN\<close> says so. Whatever the core does, success means that a core said it has administrator rights, was then
  asked to start the TUN and agreed, and reported a running TUN after that; and the whole call takes 61 actions at most.\<close>

theorem StartTUN_running:
  "length (snd (clientStartTUN env l)) \<le> length l + 61 \<and>
   (fst (clientStartTUN env l) = Ok () \<longrightarrow>
     (\<exists>a b c. length l \<le> a \<and> a < b \<and> b < c \<and> heard env (snd (clientStartTUN env l)) a GetInfo isElevated \<and>
        heard env (snd (clientStartTUN env l)) b StartTUNRPC isOk \<and> heard env (snd (clientStartTUN env l)) c GetTUNStatusRPC tunUp))"
proof -
  obtain e l1 where e: "ensureRunningWithElevation env True l = (e, l1)" by fastforce
  obtain s l2 where c: "call env StartTUNRPC l1 = (s, l2)" by fastforce
  let ?p = "pollTUN env (min 10 (clPolls env)) [] l2"
  have l1: "length l1 \<le> length l + 50" using ensureRunning_length [of env True l] e by simp
  have l2: "length l2 = length l1 + 1" "adds 1 l1 l2" using c adds_call [OF c] by (auto simp: call_def)
  have p: "adds 10 l2 (snd ?p)" using adds_mono [OF conjunct1 [OF pollTUN_ok]] by simp
  have def: "clientStartTUN env l = (case e of Ok _ \<Rightarrow> (case s of Ok _ \<Rightarrow> ?p | Err m \<Rightarrow> (Err (''Core.StartTUN RPC failed: '' @ m), l2) | Panic \<Rightarrow> (Panic, l2))
      | Err m \<Rightarrow> (Err (''ensure elevated core failed: '' @ m), l1) | Panic \<Rightarrow> (Panic, l1))"
    using e c by (cases e; cases s) (simp_all add: clientStartTUN_def)
  have "length (snd ?p) \<le> length l + 61" using p l2 l1 by (auto simp: adds_def)
  then have bound: "length (snd (clientStartTUN env l)) \<le> length l + 61" unfolding def using l1 l2 by (cases e; cases s) simp_all
  have "\<exists>a b c. length l \<le> a \<and> a < b \<and> b < c \<and> heard env (snd (clientStartTUN env l)) a GetInfo isElevated \<and>
      heard env (snd (clientStartTUN env l)) b StartTUNRPC isOk \<and> heard env (snd (clientStartTUN env l)) c GetTUNStatusRPC tunUp"
    if ok: "fst (clientStartTUN env l) = Ok ()"
  proof -
    have es: "e = Ok ()" "isOk s" "clientStartTUN env l = ?p" "fst ?p = Ok ()"
      using ok unfolding def by (cases e; cases s; simp add: isOk_def)+
    obtain a where a: "length l \<le> a" "heard env l1 a GetInfo isElevated" using ensureRunning_sound [OF e [unfolded es(1)]] by blast
    have b: "heard env l2 (length l1) StartTUNRPC isOk" using heard_call [where P = isOk, OF c es(2)] .
    obtain d where d: "length l2 \<le> d" "heard env (snd ?p) d GetTUNStatusRPC tunUp" using pollTUN_ok es(4) by blast
    have "a < length l1" using a(2) by (simp add: heard_def)
    moreover have "heard env (snd ?p) a GetInfo isElevated" using heard_adds [OF heard_adds [OF a(2) l2(2)] p] .
    moreover have "heard env (snd ?p) (length l1) StartTUNRPC isOk" using heard_adds [OF b p] .
    ultimately show ?thesis unfolding es(3) using a(1) d l2(1) by (intro exI [of _ a] exI [of _ "length l1"] exI [of _ d]) simp
  qed
  then show ?thesis using bound by blast
qed

theorem StartTUN_running_witness:
  "fst (clientStartTUN sampleClient []) = Ok () \<and> (\<exists>c. heard sampleClient (snd (clientStartTUN sampleClient [])) c GetTUNStatusRPC tunUp)"
proof -
  have "fst (clientStartTUN sampleClient []) = Ok ()"
    using sample_ensure by (simp add: clientStartTUN_def call_def) (simp add: numeral_eq_Suc call_def)
  then show ?thesis using StartTUN_running [of sampleClient "[]"] by blast
qed

section \<open>A core that does not go\<close>

text \<open>An old core that does not stop is taken for the new one. When a core of another executable keeps answering after it was told to shut
  down, the process that is started in its place cannot listen, and the ping that the old core answers makes the client report
  success: the calls that follow reach the old core.\<close>

theorem old_core_accepted:
  assumes "\<And>n. clCall env n Ping = Ok (RBool True)" and "\<And>n. clCall env n IsProxyRunningRPC = Ok (RBool False)"
    and "\<And>n. clCall env n GetInfo = Ok (RInfo old elevated)" and "clExec env = Ok exe" and "\<not> sameExecutable env old exe"
    and "\<And>n b. clStart env n b = None"
  shows "fst (ensureRunning env l) = Ok ()"
proof -
  have "fst (waitUp env False cap False (Suc n) k) = Ok ()" for cap n k
    using assms(1) by (simp add: call_def boolOf_def restoreCore_def checkElevated_def)
  from this [of _ 29] show ?thesis
    using assms by (simp add: ensureRunning_def ensureRunningWithElevation_def call_def boolOf_def infoOf_def startAndWait_def Let_def numeral_eq_Suc
        del: waitUp.simps)
qed

theorem old_core_accepted_witness:
  "fst (ensureRunning (sampleClient\<lparr>clCall := \<lambda>n c. (case c of Ping \<Rightarrow> Ok (RBool True) | IsProxyRunningRPC \<Rightarrow> Ok (RBool False)
     | GetInfo \<Rightarrow> Ok (RInfo ''old'' False) | _ \<Rightarrow> Ok REmpty)\<rparr>) []) = Ok ()"
  by (rule old_core_accepted [where old = "''old''" and exe = "''nova''" and elevated = False])
    (simp_all add: sampleClient_def sameExecutable_def TrimSpace_def ToLower_def lowerChar_def isSpace_def)

end
